(* ===== verification/Py_Monad.thy ===== *)
theory Py_Monad
  imports Complex_Main "HOL-Library.Multiset" "HOL-Library.Sublist"
begin

text \<open>
  The computation type the whole development is written in. A Python function of the repository
  becomes a function of the environment (everything outside the repository: the cluster, the
  clock, the random number generator) and of a state record; it returns a value, raises a Python
  exception, or runs out of the loop budget of the environment (the model of a loop that has not
  ended yet). The theory also holds the two proof tools every component uses: step relations
  (\<open>keeps\<close>, with the locale \<open>step_rel\<close>) and postconditions (\<open>post\<close>).
\<close>

section \<open>Outcomes and exceptions\<close>

text \<open>The exception classes the modelled code raises or can see raised. A failed command carries the
  exit status the command ended with. \<open>BaseOnly\<close> stands for the
  classes that \<open>except Exception\<close> does not catch (KeyboardInterrupt, GreenletExit).\<close>

datatype exc_class =
    AssertionError | AttributeError | CommandFailedError int | IndexError | IOError | KeyError
  | NameError | ObjectNotFound | PlainException | RuntimeError | StopIteration | TypeError | UnboundLocalError | ValueError
  | ZeroDivisionError | BaseOnly

datatype pyexc = PyExc (exc_class: exc_class) (exc_msg: string)

datatype 'a res = Ok 'a | Raise pyexc | NoFuel

type_synonym ('e, 's, 'a) pm = "'e \<Rightarrow> 's \<Rightarrow> 'a res \<times> 's"

section \<open>Combinators\<close>

definition ret :: "'a \<Rightarrow> ('e, 's, 'a) pm" where
  "ret a = (\<lambda>E s. (Ok a, s))"

definition raise :: "exc_class \<Rightarrow> string \<Rightarrow> ('e, 's, 'a) pm" where
  "raise c msg = (\<lambda>E s. (Raise (PyExc c msg), s))"

definition reraise :: "pyexc \<Rightarrow> ('e, 's, 'a) pm" where
  "reraise x = (\<lambda>E s. (Raise x, s))"

definition bind :: "('e, 's, 'a) pm \<Rightarrow> ('a \<Rightarrow> ('e, 's, 'b) pm) \<Rightarrow> ('e, 's, 'b) pm" where
  "bind m f = (\<lambda>E s. case m E s of
       (Ok a, s') \<Rightarrow> f a E s'
     | (Raise x, s') \<Rightarrow> (Raise x, s')
     | (NoFuel, s') \<Rightarrow> (NoFuel, s'))"

definition gets :: "('s \<Rightarrow> 'a) \<Rightarrow> ('e, 's, 'a) pm" where
  "gets f = (\<lambda>E s. (Ok (f s), s))"

definition asks :: "('e \<Rightarrow> 'a) \<Rightarrow> ('e, 's, 'a) pm" where
  "asks f = (\<lambda>E s. (Ok (f E), s))"

definition modify :: "('s \<Rightarrow> 's) \<Rightarrow> ('e, 's, unit) pm" where
  "modify f = (\<lambda>E s. (Ok (), f s))"

text \<open>\<open>assert b, msg\<close>\<close>

definition py_assert :: "bool \<Rightarrow> string \<Rightarrow> ('e, 's, unit) pm" where
  "py_assert b msg = (if b then ret () else raise AssertionError msg)"

text \<open>An option or a sum read as a computation.\<close>

definition of_option :: "exc_class \<Rightarrow> string \<Rightarrow> 'a option \<Rightarrow> ('e, 's, 'a) pm" where
  "of_option c msg x = (case x of None \<Rightarrow> raise c msg | Some a \<Rightarrow> ret a)"

definition of_sum :: "pyexc + 'a \<Rightarrow> ('e, 's, 'a) pm" where
  "of_sum x = (case x of Inl e \<Rightarrow> reraise e | Inr a \<Rightarrow> ret a)"

text \<open>\<open>try: m except (classes): h\<close>; running out of the loop budget is not an exception.\<close>

definition try_except :: "('e, 's, 'a) pm \<Rightarrow> (exc_class \<Rightarrow> bool) \<Rightarrow> (pyexc \<Rightarrow> ('e, 's, 'a) pm) \<Rightarrow> ('e, 's, 'a) pm" where
  "try_except m catches h = (\<lambda>E s. case m E s of
       (Ok a, s') \<Rightarrow> (Ok a, s')
     | (Raise x, s') \<Rightarrow> if catches (exc_class x) then h x E s' else (Raise x, s')
     | (NoFuel, s') \<Rightarrow> (NoFuel, s'))"

text \<open>\<open>except Exception\<close>, and the bare \<open>except\<close>\<close>

definition is_Exception :: "exc_class \<Rightarrow> bool" where
  "is_Exception c \<longleftrightarrow> c \<noteq> BaseOnly"

definition any_class :: "exc_class \<Rightarrow> bool" where
  "any_class c \<longleftrightarrow> True"

text \<open>\<open>except CommandFailedError\<close>\<close>

definition is_CommandFailed :: "exc_class \<Rightarrow> bool" where
  "is_CommandFailed c = (case c of CommandFailedError _ \<Rightarrow> True | _ \<Rightarrow> False)"

text \<open>\<open>try: m finally: h\<close>: an exception of \<open>h\<close> replaces the one of \<open>m\<close>.\<close>

definition try_finally :: "('e, 's, 'a) pm \<Rightarrow> ('e, 's, unit) pm \<Rightarrow> ('e, 's, 'a) pm" where
  "try_finally m h = (\<lambda>E s. case m E s of
       (Ok a, s') \<Rightarrow> bind h (\<lambda>_. ret a) E s'
     | (Raise x, s') \<Rightarrow> bind h (\<lambda>_. reraise x) E s'
     | (NoFuel, s') \<Rightarrow> (NoFuel, s'))"

text \<open>\<open>for x in xs: f(x)\<close>\<close>

fun for_each :: "'a list \<Rightarrow> ('a \<Rightarrow> ('e, 's, unit) pm) \<Rightarrow> ('e, 's, unit) pm" where
  "for_each [] f = ret ()"
| "for_each (x # xs) f = bind (f x) (\<lambda>_. for_each xs f)"

text \<open>\<open>[f(x) for x in xs]\<close>\<close>

fun map_m :: "('a \<Rightarrow> ('e, 's, 'b) pm) \<Rightarrow> 'a list \<Rightarrow> ('e, 's, 'b list) pm" where
  "map_m f [] = ret []"
| "map_m f (x # xs) = bind (f x) (\<lambda>y. bind (map_m f xs) (\<lambda>ys. ret (y # ys)))"

text \<open>\<open>[... for x in xs if ...]\<close>: the elements \<open>f\<close> gives a value for\<close>

fun mapfilter_m :: "('a \<Rightarrow> ('e, 's, 'b option) pm) \<Rightarrow> 'a list \<Rightarrow> ('e, 's, 'b list) pm" where
  "mapfilter_m f [] = ret []"
| "mapfilter_m f (x # xs) = bind (f x) (\<lambda>y. bind (mapfilter_m f xs) (\<lambda>ys.
     ret (case y of None \<Rightarrow> ys | Some v \<Rightarrow> v # ys)))"

text \<open>\<open>for x in xs: ...\<close> with a body that may leave the loop with a value (\<open>return\<close>, \<open>break\<close>)\<close>

fun for_find :: "'a list \<Rightarrow> ('a \<Rightarrow> ('e, 's, 'r option) pm) \<Rightarrow> ('e, 's, 'r option) pm" where
  "for_find [] f = ret None"
| "for_find (x # xs) f = bind (f x) (\<lambda>r. case r of None \<Rightarrow> for_find xs f | Some v \<Rightarrow> ret (Some v))"

text \<open>The same with a local variable that the body updates: \<open>Inl\<close> goes on, \<open>Inr\<close> leaves the loop.\<close>

fun fold_until :: "('x \<Rightarrow> 'a \<Rightarrow> ('e, 's, 'x + 'x) pm) \<Rightarrow> 'x \<Rightarrow> 'a list \<Rightarrow> ('e, 's, 'x) pm" where
  "fold_until f x [] = ret x"
| "fold_until f x (a # as) = bind (f x a) (\<lambda>r. case r of Inl x' \<Rightarrow> fold_until f x' as | Inr x' \<Rightarrow> ret x')"

text \<open>A loop whose body is run on the local variables \<open>x\<close>: \<open>Inl x'\<close> goes on with \<open>x'\<close>, \<open>Inr r\<close>
  leaves the loop (a false condition, \<open>break\<close> or \<open>return\<close>) with the value \<open>r\<close>. The first
  argument is the number of iterations it may start.\<close>

fun loop_n :: "nat \<Rightarrow> ('x \<Rightarrow> ('e, 's, 'x + 'r) pm) \<Rightarrow> 'x \<Rightarrow> ('e, 's, 'r) pm" where
  "loop_n 0 b x = (\<lambda>E s. (NoFuel, s))"
| "loop_n (Suc n) b x = bind (b x) (\<lambda>y. case y of Inl x' \<Rightarrow> loop_n n b x' | Inr r \<Rightarrow> ret r)"

section \<open>Execution\<close>

named_theorems exec_simps "evaluation of computations on a state"

lemma exec_basic [exec_simps]:
  "ret a E s = (Ok a, s)"
  "raise c msg E s = (Raise (PyExc c msg), s)"
  "reraise x E s = (Raise x, s)"
  "gets f E s = (Ok (f s), s)"
  "asks g E s = (Ok (g E), s)"
  "modify h E s = (Ok (), h s)"
  by (simp_all add: ret_def raise_def reraise_def gets_def asks_def modify_def)

lemma exec_bind [exec_simps]:
  "bind m f E s = (case m E s of
       (Ok a, s') \<Rightarrow> f a E s'
     | (Raise x, s') \<Rightarrow> (Raise x, s')
     | (NoFuel, s') \<Rightarrow> (NoFuel, s'))"
  by (simp add: bind_def)

lemma exec_py_assert [exec_simps]:
  "py_assert b msg E s = (if b then (Ok (), s) else (Raise (PyExc AssertionError msg), s))"
  by (simp add: py_assert_def exec_simps)

lemma exec_of_option [exec_simps]:
  "of_option c msg x E s = (case x of None \<Rightarrow> (Raise (PyExc c msg), s) | Some a \<Rightarrow> (Ok a, s))"
  by (simp add: of_option_def exec_simps split: option.split)

lemma exec_of_sum [exec_simps]:
  "of_sum x E s = (case x of Inl e \<Rightarrow> (Raise e, s) | Inr a \<Rightarrow> (Ok a, s))"
  by (simp add: of_sum_def exec_simps split: sum.split)

lemma exec_try_except [exec_simps]:
  "try_except m catches h E s = (case m E s of
       (Ok a, s') \<Rightarrow> (Ok a, s')
     | (Raise x, s') \<Rightarrow> if catches (exc_class x) then h x E s' else (Raise x, s')
     | (NoFuel, s') \<Rightarrow> (NoFuel, s'))"
  by (simp add: try_except_def)

lemma exec_try_finally [exec_simps]:
  "try_finally m h E s = (case m E s of
       (Ok a, s') \<Rightarrow> bind h (\<lambda>_. ret a) E s'
     | (Raise x, s') \<Rightarrow> bind h (\<lambda>_. reraise x) E s'
     | (NoFuel, s') \<Rightarrow> (NoFuel, s'))"
  by (simp add: try_finally_def)

lemma bind_Ok: "bind m f E s = (Ok b, s') \<longleftrightarrow> (\<exists>a t. m E s = (Ok a, t) \<and> f a E t = (Ok b, s'))"
  by (auto simp: bind_def split: prod.splits res.splits)

lemma run_eq: "fst x = r \<Longrightarrow> x = (r, snd x)"
  by (cases x) simp

subsection \<open>The monad laws\<close>

lemma bind_ret_left [simp]: "bind (ret a) f = f a"
  by (simp add: fun_eq_iff exec_simps)

lemma bind_ret_right [simp]: "bind m ret = m"
  by (simp add: fun_eq_iff exec_simps split: prod.split res.split)

lemma bind_assoc: "bind (bind m f) g = bind m (\<lambda>a. bind (f a) g)"
  by (simp add: fun_eq_iff exec_simps split: prod.split res.split)

lemma bind_raise [simp]: "bind (raise c msg) f = raise c msg"
  by (simp add: fun_eq_iff exec_simps)

lemma bind_reraise [simp]: "bind (reraise x) f = reraise x"
  by (simp add: fun_eq_iff exec_simps)

lemma for_each_append:
  "for_each (xs @ ys) f = bind (for_each xs f) (\<lambda>_. for_each ys f)"
  by (induction xs) (simp_all add: bind_assoc)

section \<open>Step relations\<close>

text \<open>\<open>keeps R m\<close>: whatever the environment answers and however \<open>m\<close> ends (value, exception, loop
  budget), the final state is related to the first by \<open>R\<close>.\<close>

definition keeps :: "('s \<Rightarrow> 's \<Rightarrow> bool) \<Rightarrow> ('e, 's, 'a) pm \<Rightarrow> bool" where
  "keeps R m \<longleftrightarrow> (\<forall>E s. R s (snd (m E s)))"

lemma keepsI: "(\<And>E s. R s (snd (m E s))) \<Longrightarrow> keeps R m"
  by (simp add: keeps_def)

lemma keepsD: "keeps R m \<Longrightarrow> m E s = (r, s') \<Longrightarrow> R s s'"
  unfolding keeps_def by (metis snd_conv)

lemma keeps_mono: "keeps R m \<Longrightarrow> (\<And>s s'. R s s' \<Longrightarrow> R' s s') \<Longrightarrow> keeps R' m"
  by (auto simp: keeps_def)

lemma keeps_modify: "(\<And>s. R s (f s)) \<Longrightarrow> keeps R (modify f)"
  by (simp add: keeps_def exec_simps)

text \<open>\<open>ok_keeps R m\<close>: the same, but only for the runs of \<open>m\<close> that return a value.\<close>

definition ok_keeps :: "('s \<Rightarrow> 's \<Rightarrow> bool) \<Rightarrow> ('e, 's, 'a) pm \<Rightarrow> bool" where
  "ok_keeps R m \<longleftrightarrow> (\<forall>E s a s'. m E s = (Ok a, s') \<longrightarrow> R s s')"

lemma ok_keepsI: "(\<And>E s a s'. m E s = (Ok a, s') \<Longrightarrow> R s s') \<Longrightarrow> ok_keeps R m"
  by (simp add: ok_keeps_def)

lemma ok_keepsD: "ok_keeps R m \<Longrightarrow> m E s = (Ok a, s') \<Longrightarrow> R s s'"
  by (simp add: ok_keeps_def)

lemma ok_keeps_of_keeps: "keeps R m \<Longrightarrow> ok_keeps R m"
  by (auto intro!: ok_keepsI dest: keepsD)

text \<open>The contract a relation has to meet to be carried through every combinator: it is reflexive
  and transitive. The rules are proved once, here; each component interprets the locale on the
  relation that says what its operations leave unchanged.\<close>

named_theorems keeps_intros "step-relation rules"

locale step_rel =
  fixes R :: "'s \<Rightarrow> 's \<Rightarrow> bool"
  assumes step_refl: "R s s"
    and step_trans: "R s t \<Longrightarrow> R t u \<Longrightarrow> R s u"
begin

lemma keeps_ret [keeps_intros]: "keeps R (ret a :: ('e, 's, 'a) pm)"
  by (simp add: keeps_def exec_simps step_refl)

lemma keeps_raise [keeps_intros]: "keeps R (raise c msg :: ('e, 's, 'a) pm)"
  by (simp add: keeps_def exec_simps step_refl)

lemma keeps_reraise [keeps_intros]: "keeps R (reraise x :: ('e, 's, 'a) pm)"
  by (simp add: keeps_def exec_simps step_refl)

lemma keeps_gets [keeps_intros]: "keeps R (gets f :: ('e, 's, 'a) pm)"
  by (simp add: keeps_def exec_simps step_refl)

lemma keeps_asks [keeps_intros]: "keeps R (asks g :: ('e, 's, 'a) pm)"
  by (simp add: keeps_def exec_simps step_refl)

lemma keeps_py_assert [keeps_intros]: "keeps R (py_assert b msg :: ('e, 's, unit) pm)"
  by (simp add: keeps_def exec_simps step_refl)

lemma keeps_of_option [keeps_intros]: "keeps R (of_option c msg x :: ('e, 's, 'a) pm)"
  by (simp add: keeps_def exec_simps step_refl split: option.split)

lemma keeps_of_sum [keeps_intros]: "keeps R (of_sum x :: ('e, 's, 'a) pm)"
  by (simp add: keeps_def exec_simps step_refl split: sum.split)

lemma keeps_bind [keeps_intros]:
  fixes m :: "('e, 's, 'a) pm"
  assumes m: "keeps R m" and f: "\<And>a. keeps R (f a)"
  shows "keeps R (bind m f)"
proof (rule keepsI)
  fix E s
  obtain r s' where ms: "m E s = (r, s')" by fastforce
  have R1: "R s s'" using m ms by (rule keepsD)
  show "R s (snd (bind m f E s))"
  proof (cases r)
    case (Ok a)
    have "R s' (snd (f a E s'))" using f by (simp add: keeps_def)
    then show ?thesis using Ok ms R1 by (auto simp: exec_simps intro: step_trans)
  qed (use ms R1 in \<open>auto simp: exec_simps\<close>)
qed

lemma ok_keeps_bind:
  fixes m :: "('e, 's, 'a) pm"
  assumes "ok_keeps R m" and "\<And>a. ok_keeps R (f a)"
  shows "ok_keeps R (bind m f)"
proof (rule ok_keepsI)
  fix E s a s'
  assume "bind m f E s = (Ok a, s')"
  then obtain b t where "m E s = (Ok b, t)" "f b E t = (Ok a, s')"
    by (auto simp: bind_def split: prod.splits res.splits)
  then show "R s s'" using assms by (blast dest: ok_keepsD intro: step_trans)
qed

lemma keeps_if [keeps_intros]:
  "(b \<Longrightarrow> keeps R m1) \<Longrightarrow> (\<not> b \<Longrightarrow> keeps R m2) \<Longrightarrow> keeps R (if b then m1 else m2)"
  by simp

lemma keeps_case_option [keeps_intros]:
  "keeps R m1 \<Longrightarrow> (\<And>a. keeps R (m2 a)) \<Longrightarrow> keeps R (case x of None \<Rightarrow> m1 | Some a \<Rightarrow> m2 a)"
  by (simp split: option.split)

lemma keeps_case_sum [keeps_intros]:
  "(\<And>a. keeps R (m1 a)) \<Longrightarrow> (\<And>b. keeps R (m2 b)) \<Longrightarrow> keeps R (case x of Inl a \<Rightarrow> m1 a | Inr b \<Rightarrow> m2 b)"
  by (simp split: sum.split)

lemma keeps_case_prod [keeps_intros]:
  "(\<And>a b. keeps R (m a b)) \<Longrightarrow> keeps R (case x of (a, b) \<Rightarrow> m a b)"
  by (simp split: prod.split)

lemma keeps_case_list [keeps_intros]:
  "keeps R m1 \<Longrightarrow> (\<And>a as. keeps R (m2 a as)) \<Longrightarrow> keeps R (case x of [] \<Rightarrow> m1 | a # as \<Rightarrow> m2 a as)"
  by (simp split: list.split)

lemma keeps_Let [keeps_intros]: "(\<And>x. keeps R (f x)) \<Longrightarrow> keeps R (let x = t in f x)"
  by simp

lemma keeps_try_except [keeps_intros]:
  fixes m :: "('e, 's, 'a) pm"
  assumes m: "keeps R m" and h: "\<And>x. keeps R (h x)"
  shows "keeps R (try_except m catches h)"
proof (rule keepsI)
  fix E s
  obtain r s' where ms: "m E s = (r, s')" by fastforce
  have R1: "R s s'" using m ms by (rule keepsD)
  have "R s (snd (h x E s'))" for x
    using R1 h by (auto simp: keeps_def intro: step_trans)
  then show "R s (snd (try_except m catches h E s))"
    using ms R1 by (auto simp: exec_simps split: res.split)
qed

lemma keeps_try_finally [keeps_intros]:
  fixes m :: "('e, 's, 'a) pm"
  assumes m: "keeps R m" and h: "keeps R h"
  shows "keeps R (try_finally m h)"
proof (rule keepsI)
  fix E s
  obtain r s' where ms: "m E s = (r, s')" by fastforce
  have R1: "R s s'" using m ms by (rule keepsD)
  have R2: "R s (snd (bind h k E s'))" if "\<And>u. keeps R (k u)" for k :: "unit \<Rightarrow> ('e, 's, 'a) pm"
    using R1 keeps_bind [OF h that] by (auto simp: keeps_def intro: step_trans)
  show "R s (snd (try_finally m h E s))"
    using ms R1 R2 [OF keeps_ret] R2 [OF keeps_reraise]
    by (cases r) (auto simp: try_finally_def)
qed

lemma keeps_for_each [keeps_intros]: "(\<And>x. keeps R (f x)) \<Longrightarrow> keeps R (for_each xs f)"
  by (induction xs) (auto intro: keeps_intros)

lemma keeps_for_each_set: "(\<And>x. x \<in> set xs \<Longrightarrow> keeps R (f x)) \<Longrightarrow> keeps R (for_each xs f)"
  by (induction xs) (auto intro: keeps_intros)

lemma keeps_map_m [keeps_intros]: "(\<And>x. keeps R (f x)) \<Longrightarrow> keeps R (map_m f xs)"
  by (induction xs) (auto intro: keeps_intros)

lemma keeps_fold_until [keeps_intros]: "(\<And>x a. keeps R (f x a)) \<Longrightarrow> keeps R (fold_until f x xs)"
  by (induction xs arbitrary: x) (auto intro!: keeps_intros)

lemma keeps_mapfilter_m [keeps_intros]: "(\<And>x. keeps R (f x)) \<Longrightarrow> keeps R (mapfilter_m f xs)"
  by (induction xs) (auto intro: keeps_intros)

lemma keeps_for_find [keeps_intros]: "(\<And>x. keeps R (f x)) \<Longrightarrow> keeps R (for_find xs f)"
  by (induction xs) (auto intro!: keeps_intros)

lemma keeps_no_fuel [keeps_intros]: "keeps R (\<lambda>E s. (NoFuel, s))"
  by (simp add: keeps_def step_refl)

lemma keeps_loop_n [keeps_intros]: "(\<And>x. keeps R (b x)) \<Longrightarrow> keeps R (loop_n n b x)"
proof (induction n arbitrary: x)
  case 0
  then show ?case by (simp add: keeps_no_fuel)
next
  case (Suc n)
  have "keeps R (case y of Inl x' \<Rightarrow> loop_n n b x' | Inr r \<Rightarrow> ret r)" for y
    using Suc by (cases y) (auto intro: keeps_ret)
  then show ?case using Suc.prems by (auto intro: keeps_bind)
qed

end

section \<open>Postconditions\<close>

text \<open>\<open>post m E s P\<close>: the outcome and the final state of \<open>m\<close> satisfy \<open>P\<close>.\<close>

definition post :: "('e, 's, 'a) pm \<Rightarrow> 'e \<Rightarrow> 's \<Rightarrow> ('a res \<Rightarrow> 's \<Rightarrow> bool) \<Rightarrow> bool" where
  "post m E s P \<longleftrightarrow> (case m E s of (r, s') \<Rightarrow> P r s')"

named_theorems post_simps "postconditions of combinators"

lemma postI: "(\<And>r s'. m E s = (r, s') \<Longrightarrow> P r s') \<Longrightarrow> post m E s P"
  by (auto simp: post_def split: prod.split)

lemma postD: "post m E s P \<Longrightarrow> m E s = (r, s') \<Longrightarrow> P r s'"
  by (simp add: post_def)

lemma post_mono: "post m E s P \<Longrightarrow> (\<And>r s'. P r s' \<Longrightarrow> Q r s') \<Longrightarrow> post m E s Q"
  by (auto simp: post_def)

lemma post_keeps: "keeps R m \<Longrightarrow> (\<And>r s'. R s s' \<Longrightarrow> P r s') \<Longrightarrow> post m E s P"
  by (auto simp: post_def keeps_def split: prod.splits dest: meta_spec) (metis snd_conv)

text \<open>The three outcomes of a first computation, seen by the postcondition of a sequence.\<close>

definition after :: "('a \<Rightarrow> 's \<Rightarrow> bool) \<Rightarrow> ('b res \<Rightarrow> 's \<Rightarrow> bool) \<Rightarrow> 'a res \<Rightarrow> 's \<Rightarrow> bool" where
  "after K P r s = (case r of Ok a \<Rightarrow> K a s | Raise x \<Rightarrow> P (Raise x) s | NoFuel \<Rightarrow> P NoFuel s)"

lemma after_simps [post_simps]:
  "after K P (Ok a) s = K a s"
  "after K P (Raise x) s = P (Raise x) s"
  "after K P NoFuel s = P NoFuel s"
  by (simp_all add: after_def)

lemma post_basic [post_simps]:
  "post (ret a) E s P = P (Ok a) s"
  "post (raise c msg) E s P = P (Raise (PyExc c msg)) s"
  "post (reraise x) E s P = P (Raise x) s"
  "post (gets f) E s P = P (Ok (f s)) s"
  "post (asks g) E s P = P (Ok (g E)) s"
  "post (modify h) E s Q = Q (Ok ()) (h s)"
  by (simp_all add: post_def exec_simps)

lemma post_bind [post_simps]:
  "post (bind m f) E s P = post m E s (after (\<lambda>a s'. post (f a) E s' P) P)"
  by (auto simp: post_def after_def exec_simps split: prod.split res.split)

lemma post_py_assert [post_simps]:
  "post (py_assert b msg) E s P = (if b then P (Ok ()) s else P (Raise (PyExc AssertionError msg)) s)"
  by (simp add: post_def exec_simps)

lemma post_of_option [post_simps]:
  "post (of_option c msg x) E s P = (case x of None \<Rightarrow> P (Raise (PyExc c msg)) s | Some a \<Rightarrow> P (Ok a) s)"
  by (simp add: post_def exec_simps split: option.split)

lemma post_of_sum [post_simps]:
  "post (of_sum x) E s P = (case x of Inl e \<Rightarrow> P (Raise e) s | Inr a \<Rightarrow> P (Ok a) s)"
  by (simp add: post_def exec_simps split: sum.split)

lemma post_if [post_simps]:
  "post (if b then m1 else m2) E s P = (if b then post m1 E s P else post m2 E s P)"
  by simp

text \<open>Going over the first part of a sequence when it is one of the basic ones, and leaving the rest as
  it is.\<close>

lemma post_steps:
  "post (bind (gets f) k) E s P = post (k (f s)) E s P"
  "post (bind (asks g) k1) E s P = post (k1 (g E)) E s P"
  "post (bind (modify h) k2) E s P = post (k2 ()) E (h s) P"
  "b \<Longrightarrow> post (bind (py_assert b msg) k2) E s P = post (k2 ()) E s P"
  "post (bind (of_option c msg (Some v)) k3) E s P = post (k3 v) E s P"
  by (simp_all add: post_simps)

text \<open>A sequence whose first part is known only by a postcondition of its own.\<close>

lemma post_bindI:
  assumes "post m E s Q"
    and "\<And>a s'. Q (Ok a) s' \<Longrightarrow> post (f a) E s' P"
    and "\<And>x s'. Q (Raise x) s' \<Longrightarrow> P (Raise x) s'"
    and "\<And>s'. Q NoFuel s' \<Longrightarrow> P NoFuel s'"
  shows "post (bind m f) E s P"
  using assms(1) unfolding post_bind
  by (rule post_mono) (auto simp: after_def assms(2-4) split: res.split)

lemma post_bind_keeps:
  assumes "keeps R m"
    and "\<And>a t. R s t \<Longrightarrow> post (f a) E t P"
    and "\<And>x t. R s t \<Longrightarrow> P (Raise x) t"
    and "\<And>t. R s t \<Longrightarrow> P NoFuel t"
  shows "post (bind m f) E s P"
  by (rule post_bindI [OF post_keeps [OF assms(1), of s "\<lambda>_. R s"]]) (auto intro: assms(2-))

text \<open>Loops: an invariant over the local variables and the state; with a measure below the
  budget the loop does not run out of it.\<close>

lemma post_loop_n:
  assumes inv: "I x s"
    and step: "\<And>x s. I x s \<Longrightarrow> post (b x) E s
      (after (\<lambda>y s'. case y of Inl x' \<Rightarrow> I x' s' | Inr r \<Rightarrow> P (Ok r) s') P)"
    and out: "\<And>x s. I x s \<Longrightarrow> P NoFuel s"
  shows "post (loop_n n b x) E s P"
  using inv
proof (induction n arbitrary: x s)
  case 0
  then show ?case using out by (simp add: post_def)
next
  case (Suc n)
  show ?case
    unfolding loop_n.simps post_bind
    by (rule post_mono [OF step [OF Suc.prems]])
      (auto simp: after_def post_simps Suc.IH split: res.splits sum.splits)
qed

lemma post_loop_n_total:
  fixes V :: "'x \<Rightarrow> 's \<Rightarrow> nat"
  assumes inv: "I x s" and fuel: "V x s < n"
    and step: "\<And>x s. I x s \<Longrightarrow> post (b x) E s
      (after (\<lambda>y s'. case y of Inl x' \<Rightarrow> I x' s' \<and> V x' s' < V x s | Inr r \<Rightarrow> P (Ok r) s') P)"
  shows "post (loop_n n b x) E s P"
  using inv fuel
proof (induction n arbitrary: x s)
  case 0
  then show ?case by simp
next
  case (Suc n)
  have IH: "post (loop_n n b x') E s' P" if "I x' s' \<and> V x' s' < V x s" for x' s'
    using Suc.IH [of x' s'] Suc.prems(2) that by simp
  show ?case
    unfolding loop_n.simps post_bind
    by (rule post_mono [OF step [OF Suc.prems(1)]])
      (auto simp: after_def post_simps IH split: res.splits sum.splits)
qed

text \<open>A run that ends in few iterations ends in the same way with a larger budget.\<close>

lemma loop_n_more:
  assumes "loop_n n b x E s = (r, s')" and "r \<noteq> NoFuel" and "n \<le> m"
  shows "loop_n m b x E s = (r, s')"
  using assms
proof (induction n arbitrary: x s m)
  case 0
  then show ?case by simp
next
  case (Suc n)
  then obtain k where m: "m = Suc k" and k: "n \<le> k" by (cases m) auto
  show ?case
  proof (cases "b x E s")
    case (Pair y t)
    show ?thesis
    proof (cases y)
      case (Ok v)
      then show ?thesis
        using Pair Suc m k by (cases v) (auto simp: exec_simps)
    qed (use Pair Suc.prems m in \<open>auto simp: exec_simps\<close>)
  qed
qed

section \<open>Lists\<close>

text \<open>\<open>xs.index(x)\<close>: the first position of \<open>x\<close>.\<close>

fun list_index :: "'a \<Rightarrow> 'a list \<Rightarrow> nat option" where
  "list_index x [] = None"
| "list_index x (y # ys) = (if x = y then Some 0 else map_option Suc (list_index x ys))"

lemma list_index_Some: "list_index x ys = Some i \<Longrightarrow> i < length ys \<and> ys ! i = x"
  by (induction ys arbitrary: i) (auto split: if_splits)

lemma list_index_None: "list_index x ys = None \<longleftrightarrow> x \<notin> set ys"
  by (induction ys) auto

text \<open>Drawing the element at \<open>j\<close> and putting the last one in its place.\<close>

lemma mset_draw:
  assumes "j < length xs"
  shows "mset xs = add_mset (xs ! j) (mset (butlast (xs[j := last xs])))"
proof (cases xs rule: rev_cases)
  case (snoc ys y)
  then show ?thesis using assms
    by (cases "j < length ys") (auto simp: nth_append list_update_append mset_update)
qed (use assms in simp)

lemma distinct_submset:
  assumes "mset ys \<subseteq># mset xs" "distinct xs"
  shows "distinct ys"
proof -
  have "count (mset ys) a = (if a \<in> set ys then 1 else 0)" for a
  proof (cases "a \<in> set ys")
    case True
    then have "0 < count (mset ys) a" by (simp add: count_greater_zero_iff)
    moreover have "count (mset xs) a \<le> 1" using assms(2) by (simp add: distinct_count_atmost_1)
    moreover note mset_subset_eq_count [OF assms(1), of a]
    ultimately have "count (mset ys) a = 1" by linarith
    then show ?thesis using True by simp
  qed (simp add: not_in_iff [symmetric])
  then show ?thesis by (simp add: distinct_count_atmost_1)
qed

text \<open>\<open>d[k] = v\<close> on a dictionary kept as an association list in its iteration order.\<close>

fun alist_put :: "'k \<Rightarrow> 'v \<Rightarrow> ('k \<times> 'v) list \<Rightarrow> ('k \<times> 'v) list" where
  "alist_put k v [] = [(k, v)]"
| "alist_put k v ((k', v') # d) = (if k = k' then (k, v) # d else (k', v') # alist_put k v d)"

definition alist_del :: "'k \<Rightarrow> ('k \<times> 'v) list \<Rightarrow> ('k \<times> 'v) list" where
  "alist_del k d = filter (\<lambda>p. fst p \<noteq> k) d"

lemma map_of_alist_put [simp]: "map_of (alist_put k v d) = (map_of d)(k \<mapsto> v)"
  by (induction k v d rule: alist_put.induct) (auto simp: fun_eq_iff)

lemma map_of_alist_del [simp]: "map_of (alist_del k d) = (map_of d)(k := None)"
  by (induction d) (auto simp: alist_del_def fun_eq_iff)

lemma keys_alist_put: "fst ` set (alist_put k v d) = insert k (fst ` set d)"
  by (induction k v d rule: alist_put.induct) auto

lemma keys_alist_del: "fst ` set (alist_del k d) = fst ` set d - {k}"
  by (auto simp: alist_del_def)

lemma distinct_alist_put: "distinct (map fst d) \<Longrightarrow> distinct (map fst (alist_put k v d))"
  by (induction k v d rule: alist_put.induct)
    (auto simp: keys_alist_put)

lemma distinct_alist_del: "distinct (map fst d) \<Longrightarrow> distinct (map fst (alist_del k d))"
  by (simp add: alist_del_def distinct_map_filter)

end
