(* ===== verification/Py_Value.thy ===== *)
theory Py_Value
  imports Py_Monad
begin

text \<open>
  The part of Python's value and string library the repository uses: the values that come out of
  YAML configuration and JSON replies (\<open>pv\<close>), truth values, comparison with a number as Python 2
  defines it for mixed types, \<open>str\<close> and \<open>int\<close>, \<open>split\<close>, \<open>join\<close>, \<open>in\<close>, \<open>count\<close> and
  \<open>str.format\<close>. Strings are byte strings; floats are exact rationals.
\<close>

section \<open>Strings\<close>

abbreviation newline :: char where "newline \<equiv> CHR 0x0A"
abbreviation tab :: char where "tab \<equiv> CHR 0x09"
abbreviation quote :: char where "quote \<equiv> CHR 0x22"
abbreviation backslash :: char where "backslash \<equiv> CHR 0x5C"

definition is_space :: "char \<Rightarrow> bool" where
  "is_space c \<longleftrightarrow> c = CHR '' '' \<or> c = newline \<or> c = tab \<or> c = CHR 0x0D \<or> c = CHR 0x0B \<or> c = CHR 0x0C"

definition digit_val :: "char \<Rightarrow> nat option" where
  "digit_val c = (let n = of_char c :: nat in if 48 \<le> n \<and> n \<le> 57 then Some (n - 48) else None)"

definition is_digit :: "char \<Rightarrow> bool" where
  "is_digit c \<longleftrightarrow> digit_val c \<noteq> None"

definition digit_char :: "nat \<Rightarrow> char" where
  "digit_char n = char_of (48 + n)"

subsection \<open>Decimal numbers\<close>

fun str_nat :: "nat \<Rightarrow> string" where
  "str_nat n = (if n < 10 then [digit_char n] else str_nat (n div 10) @ [digit_char (n mod 10)])"

declare str_nat.simps [simp del]

definition str_int :: "int \<Rightarrow> string" where
  "str_int i = (if i < 0 then CHR ''-'' # str_nat (nat (- i)) else str_nat (nat i))"

definition nat_of_digits :: "string \<Rightarrow> nat" where
  "nat_of_digits s = foldl (\<lambda>n c. 10 * n + (of_char c - 48)) 0 s"

text \<open>\<open>int(s)\<close>: \<open>None\<close> is ValueError.\<close>

definition strip :: "string \<Rightarrow> string" where
  "strip s = rev (dropWhile is_space (rev (dropWhile is_space s)))"

definition unsigned_of_string :: "string \<Rightarrow> int option" where
  "unsigned_of_string s = (if s \<noteq> [] \<and> list_all is_digit s then Some (int (nat_of_digits s)) else None)"

definition int_of_string :: "string \<Rightarrow> int option" where
  "int_of_string s = (case strip s of
       [] \<Rightarrow> None
     | c # cs \<Rightarrow>
         if c = CHR ''-'' then map_option uminus (unsigned_of_string cs)
         else if c = CHR ''+'' then unsigned_of_string cs
         else unsigned_of_string (c # cs))"


lemma digit_char_props:
  assumes "n < 10"
  shows "is_digit (digit_char n)" "(of_char (digit_char n) :: nat) - 48 = n"
    "\<not> is_space (digit_char n)"
proof -
  have c: "(of_char (digit_char n) :: nat) = 48 + n"
    using assms by (simp add: digit_char_def)
  then show "is_digit (digit_char n)" "(of_char (digit_char n) :: nat) - 48 = n"
    using assms by (simp_all add: is_digit_def digit_val_def Let_def)
  have "digit_char n \<noteq> x" if "(of_char x :: nat) < 48" for x
    using c that by auto
  then show "\<not> is_space (digit_char n)"
    by (simp add: is_space_def)
qed

lemma str_nat_not_Nil [simp]: "str_nat n \<noteq> []"
  by (subst str_nat.simps) simp

lemma str_nat_digits: "list_all is_digit (str_nat n)"
proof (induction n rule: str_nat.induct)
  case (1 n)
  then show ?case by (subst str_nat.simps) (simp add: digit_char_props)
qed

lemma str_nat_no_space: "c \<in> set (str_nat n) \<Longrightarrow> \<not> is_space c"
proof (induction n rule: str_nat.induct)
  case (1 n)
  then show ?case
    by (subst (asm) str_nat.simps) (auto simp: digit_char_props split: if_splits)
qed

lemma nat_of_digits_snoc: "nat_of_digits (s @ [c]) = 10 * nat_of_digits s + (of_char c - 48)"
  by (simp add: nat_of_digits_def)

lemma nat_of_digits_str_nat [simp]: "nat_of_digits (str_nat n) = n"
proof (induction n rule: str_nat.induct)
  case (1 n)
  show ?case
  proof (cases "n < 10")
    case True
    then show ?thesis
      by (subst str_nat.simps) (simp add: nat_of_digits_def digit_char_props)
  next
    case False
    then show ?thesis
      using 1 by (subst str_nat.simps) (simp add: nat_of_digits_snoc digit_char_props)
  qed
qed

lemma unsigned_of_str_nat [simp]: "unsigned_of_string (str_nat n) = Some (int n)"
  by (simp add: unsigned_of_string_def str_nat_digits)

lemma strip_no_space:
  assumes "\<And>c. c \<in> set s \<Longrightarrow> \<not> is_space c"
  shows "strip s = s"
proof -
  have "dropWhile is_space t = t" if "\<And>c. c \<in> set t \<Longrightarrow> \<not> is_space c" for t
    using that by (cases t) auto
  from this [of s] this [of "rev s"] show ?thesis using assms by (simp add: strip_def)
qed

lemma is_digit_not_sign: "is_digit c \<Longrightarrow> c \<noteq> CHR ''-'' \<and> c \<noteq> CHR ''+''"
  by (auto simp: is_digit_def digit_val_def)

text \<open>\<open>int(str(i)) == i\<close>\<close>

lemma int_of_str_int [simp]: "int_of_string (str_int i) = Some i"
proof (cases "i < 0")
  case True
  have "strip (str_int i) = str_int i"
    using True str_nat_no_space by (intro strip_no_space) (auto simp: str_int_def is_space_def)
  then show ?thesis using True by (simp add: int_of_string_def str_int_def)
next
  case False
  obtain c cs where s: "str_nat (nat i) = c # cs"
    by (cases "str_nat (nat i)") auto
  have "is_digit c" using str_nat_digits [of "nat i"] s by simp
  moreover have "strip (str_int i) = c # cs"
    using False str_nat_no_space [of _ "nat i"] s
    by (subst strip_no_space) (auto simp: str_int_def)
  moreover have "unsigned_of_string (c # cs) = Some i"
    using False unsigned_of_str_nat [of "nat i"] s by simp
  ultimately show ?thesis
    using is_digit_not_sign by (simp add: int_of_string_def)
qed

lemma str_int_inject [simp]: "str_int i = str_int j \<longleftrightarrow> i = j"
  by (metis int_of_str_int option.inject)

subsection \<open>Hexadecimal numbers\<close>

text \<open>\<open>'%x' % i\<close>, and padded with zeros to a width as in \<open>'%08x'\<close>\<close>

definition hex_char :: "nat \<Rightarrow> char" where
  "hex_char n = (if n < 10 then char_of (48 + n) else char_of (87 + n))"

fun hex_nat :: "nat \<Rightarrow> string" where
  "hex_nat n = (if n < 16 then [hex_char n] else hex_nat (n div 16) @ [hex_char (n mod 16)])"

declare hex_nat.simps [simp del]

definition str_hex :: "int \<Rightarrow> string" where
  "str_hex i = (if i < 0 then CHR ''-'' # hex_nat (nat (- i)) else hex_nat (nat i))"

definition hex_pad :: "nat \<Rightarrow> nat \<Rightarrow> string" where
  "hex_pad w n = replicate (w - length (hex_nat n)) (CHR ''0'') @ hex_nat n"

fun hex_digits :: "string \<Rightarrow> nat" where
  "hex_digits [] = 0"
| "hex_digits (c # cs) = (let n = of_char c :: nat in (if n < 58 then n - 48 else n - 87)) * 16 ^ length cs + hex_digits cs"

lemma hex_char_val: "n < 16 \<Longrightarrow> (let k = of_char (hex_char n) :: nat in (if k < 58 then k - 48 else k - 87)) = n"
  by (auto simp: hex_char_def Let_def)

lemma hex_digits_snoc: "hex_digits (cs @ [c]) = 16 * hex_digits cs + hex_digits [c]"
  by (induction cs) (auto simp: algebra_simps Let_def)

lemma hex_digits_nat [simp]: "hex_digits (hex_nat n) = n"
proof (induction n rule: hex_nat.induct)
  case (1 n)
  show ?case
  proof (cases "n < 16")
    case True
    then show ?thesis using hex_char_val [of n] by (subst hex_nat.simps) simp
  next
    case False
    then show ?thesis using 1 hex_char_val [of "n mod 16"]
      by (subst hex_nat.simps) (simp add: hex_digits_snoc)
  qed
qed

lemma hex_nat_inject [simp]: "hex_nat m = hex_nat n \<longleftrightarrow> m = n"
  by (metis hex_digits_nat)

lemma hex_digits_zeros: "hex_digits (replicate k (CHR ''0'') @ s) = hex_digits s"
  by (induction k) auto

lemma hex_pad_inject [simp]: "hex_pad w m = hex_pad w n \<longleftrightarrow> m = n"
  by (metis hex_digits_nat hex_digits_zeros hex_pad_def)

subsection \<open>Splitting, joining, searching\<close>

text \<open>\<open>s.split(c)\<close> for a one-character separator: \<open>''.split(c) == ['']\<close>.\<close>

fun split_on :: "char \<Rightarrow> string \<Rightarrow> string list" where
  "split_on d [] = [[]]"
| "split_on d (c # cs) = (if c = d then [] # split_on d cs
     else (case split_on d cs of [] \<Rightarrow> [[c]] | w # ws \<Rightarrow> (c # w) # ws))"

text \<open>\<open>sep.join(ws)\<close>\<close>

fun join :: "string \<Rightarrow> string list \<Rightarrow> string" where
  "join sep [] = []"
| "join sep [w] = w"
| "join sep (w # ws) = w @ sep @ join sep ws"

lemma split_on_not_Nil [simp]: "split_on d s \<noteq> []"
  by (induction s) (auto split: list.split)

lemma split_on_no_sep: "d \<notin> set s \<Longrightarrow> split_on d s = [s]"
  by (induction s) auto

lemma join_split: "join [d] (split_on d s) = s"
proof (induction s)
  case (Cons c cs)
  obtain w ws where w: "split_on d cs = w # ws"
    by (cases "split_on d cs") auto
  then show ?case using Cons by (cases ws) auto
qed simp

lemma split_on_append_sep: "d \<notin> set w \<Longrightarrow> split_on d (w @ d # s) = w # split_on d s"
  by (induction w) auto

lemma split_join:
  "ws \<noteq> [] \<Longrightarrow> \<forall>w \<in> set ws. d \<notin> set w \<Longrightarrow> split_on d (join [d] ws) = ws"
proof (induction "[d]" ws rule: join.induct)
  case (3 w v vs)
  then show ?case by (simp add: split_on_append_sep)
qed (auto simp: split_on_no_sep)

text \<open>\<open>s.split()\<close>: words between runs of white space.\<close>

fun words_acc :: "string \<Rightarrow> string \<Rightarrow> string list" where
  "words_acc w [] = (if w = [] then [] else [rev w])"
| "words_acc w (c # cs) = (if is_space c then (if w = [] then words_acc [] cs else rev w # words_acc [] cs)
     else words_acc (c # w) cs)"

definition py_split :: "string \<Rightarrow> string list" where
  "py_split s = words_acc [] s"

text \<open>\<open>p in s\<close> and \<open>s.count(p)\<close> (occurrences that do not overlap)\<close>

fun contains :: "string \<Rightarrow> string \<Rightarrow> bool" where
  "contains p [] = (p = [])"
| "contains p (c # cs) = (prefix p (c # cs) \<or> contains p cs)"

fun count_sub :: "string \<Rightarrow> string \<Rightarrow> nat" where
  "count_sub p [] = 0"
| "count_sub p (c # cs) = (if prefix p (c # cs) then Suc (count_sub p (drop (length p - 1) cs)) else count_sub p cs)"

lemma contains_sublist: "contains p s \<longleftrightarrow> sublist p s"
  by (induction s) (auto simp: sublist_Cons_right)

lemma count_sub_pos: "p \<noteq> [] \<Longrightarrow> 0 < count_sub p s \<longleftrightarrow> contains p s"
  by (induction s) auto

subsection \<open>Format strings\<close>

text \<open>\<open>s.format(a=..., b=...)\<close> with replacement fields \<open>{name}\<close> and the escapes \<open>{{\<close>, \<open>}}\<close>;
  positional fields are named by their number. \<open>None\<close> is the KeyError, IndexError or ValueError
  that Python raises for an unknown field or an unmatched brace.\<close>

fun take_field :: "string \<Rightarrow> (string \<times> string) option" where
  "take_field [] = None"
| "take_field (c # cs) = (if c = CHR ''}'' then Some ([], cs)
     else if c = CHR ''{'' then None
     else map_option (\<lambda>(f, r). (c # f, r)) (take_field cs))"

lemma take_field_shorter: "take_field s = Some (f, r) \<Longrightarrow> length r < length s"
  by (induction s arbitrary: f r) (fastforce split: if_splits)+

function py_format :: "string \<Rightarrow> (string \<times> string) list \<Rightarrow> string option" where
  "py_format [] args = Some []"
| "py_format (c # cs) args =
     (if c = CHR ''{'' then
        (if cs \<noteq> [] \<and> hd cs = CHR ''{'' then map_option ((#) c) (py_format (tl cs) args)
         else
           (case take_field cs of
              None \<Rightarrow> None
            | Some (f, r) \<Rightarrow>
                (case map_of args f of
                   None \<Rightarrow> None
                 | Some v \<Rightarrow> map_option ((@) v) (py_format r args))))
      else if c = CHR ''}'' then
        (if cs \<noteq> [] \<and> hd cs = CHR ''}'' then map_option ((#) c) (py_format (tl cs) args) else None)
      else map_option ((#) c) (py_format cs args))"
  by pat_completeness auto
termination
proof (relation "measure (length \<circ> fst)")
  show "((tl cs, args), c # cs, args) \<in> measure (length \<circ> fst)"
    for c :: char and cs :: string and args :: "(string \<times> string) list"
    by (simp add: less_Suc_eq_le)
  then show "((tl cs, args), c # cs, args) \<in> measure (length \<circ> fst)"
    for c :: char and cs :: string and args :: "(string \<times> string) list" .
qed (auto dest: take_field_shorter)

definition fmt :: "string \<Rightarrow> (string \<times> string) list \<Rightarrow> ('e, 's, string) pm" where
  "fmt s args = of_option KeyError s (py_format s args)"

lemma py_format_no_braces:
  "CHR ''{'' \<notin> set s \<Longrightarrow> CHR ''}'' \<notin> set s \<Longrightarrow> py_format s args = Some s"
  by (induction s) auto

lemma py_format_plain:
  "CHR ''{'' \<notin> set s \<Longrightarrow> CHR ''}'' \<notin> set s \<Longrightarrow> py_format (s @ t) args = map_option ((@) s) (py_format t args)"
  by (induction s) (cases "py_format t args"; auto)+

section \<open>Values\<close>

text \<open>Values of a YAML configuration or of a JSON reply. A dictionary is the list of its items in
  the order Python iterates over them.\<close>

datatype pv =
    VNone | VBool bool | VInt int | VFloat rat | VStr string
  | VList "pv list" | VDict "(string \<times> pv) list"

type_synonym dict = "(string \<times> pv) list"

fun truthy :: "pv \<Rightarrow> bool" where
  "truthy VNone = False"
| "truthy (VBool b) = b"
| "truthy (VInt i) = (i \<noteq> 0)"
| "truthy (VFloat q) = (q \<noteq> 0)"
| "truthy (VStr s) = (s \<noteq> [])"
| "truthy (VList xs) = (xs \<noteq> [])"
| "truthy (VDict d) = (d \<noteq> [])"

fun num_of :: "pv \<Rightarrow> rat option" where
  "num_of (VBool b) = Some (of_bool b)"
| "num_of (VInt i) = Some (of_int i)"
| "num_of (VFloat q) = Some q"
| "num_of _ = None"

text \<open>Comparison of a value with a number. Python 2 orders \<open>None\<close> before every number and every
  other type of value after them.\<close>

definition value_less_num :: "pv \<Rightarrow> rat \<Rightarrow> bool" where
  "value_less_num v x = (case num_of v of Some y \<Rightarrow> y < x | None \<Rightarrow> v = VNone)"

definition num_less_value :: "rat \<Rightarrow> pv \<Rightarrow> bool" where
  "num_less_value x v = (case num_of v of Some y \<Rightarrow> x < y | None \<Rightarrow> v \<noteq> VNone)"

definition value_le_num :: "pv \<Rightarrow> rat \<Rightarrow> bool" where
  "value_le_num v x = (case num_of v of Some y \<Rightarrow> y \<le> x | None \<Rightarrow> v = VNone)"

lemma num_cmp_VInt [simp]:
  "value_less_num (VInt i) (of_int j) = (i < j)"
  "num_less_value (of_int j) (VInt i) = (j < i)"
  "value_le_num (VInt i) (of_int j) = (i \<le> j)"
  by (simp_all add: value_less_num_def num_less_value_def value_le_num_def)

lemma num_cmp_total: "num_less_value x v \<or> value_le_num v x"
  by (auto simp: num_less_value_def value_le_num_def split: option.split)

lemma num_cmp_excl: "\<not> (num_less_value x v \<and> value_le_num v x)"
  by (auto simp: num_less_value_def value_le_num_def split: option.split)

text \<open>\<open>v == w\<close>: numbers by their value, whatever their type\<close>

definition py_eq :: "pv \<Rightarrow> pv \<Rightarrow> bool" where
  "py_eq v w = (case (num_of v, num_of w) of (Some a, Some b) \<Rightarrow> a = b | _ \<Rightarrow> v = w)"

lemma py_eq_simps [simp]:
  "py_eq (VStr s) v \<longleftrightarrow> v = VStr s"
  "py_eq v (VStr s) \<longleftrightarrow> v = VStr s"
  "py_eq (VInt i) (VInt j) \<longleftrightarrow> i = j"
  "py_eq v v"
  by (cases v; auto simp: py_eq_def split: option.split)+

text \<open>\<open>d.get(k, default)\<close>, \<open>d[k]\<close> and \<open>k in d\<close>\<close>

definition dict_get :: "dict \<Rightarrow> string \<Rightarrow> pv \<Rightarrow> pv" where
  "dict_get d k dflt = (case map_of d k of None \<Rightarrow> dflt | Some v \<Rightarrow> v)"

definition dict_has :: "dict \<Rightarrow> string \<Rightarrow> bool" where
  "dict_has d k \<longleftrightarrow> map_of d k \<noteq> None"

lemma dict_get_simps [simp]:
  "dict_get [] k v = v"
  "dict_get ((k', w) # d) k v = (if k' = k then w else dict_get d k v)"
  by (auto simp: dict_get_def)

lemma dict_has_simps [simp]:
  "\<not> dict_has [] k"
  "dict_has ((k', w) # d) k = (k' = k \<or> dict_has d k)"
  by (auto simp: dict_has_def)

text \<open>Subscripts: the raised class depends on the type of the value.\<close>

definition item :: "pv \<Rightarrow> string \<Rightarrow> ('e, 's, pv) pm" where
  "item v k = (case v of
      VDict d \<Rightarrow> of_option KeyError k (map_of d k)
    | _ \<Rightarrow> raise TypeError ''string subscript'')"

definition as_list :: "pv \<Rightarrow> ('e, 's, pv list) pm" where
  "as_list v = (case v of VList xs \<Rightarrow> ret xs | _ \<Rightarrow> raise TypeError ''not a list'')"

definition as_dict :: "pv \<Rightarrow> ('e, 's, dict) pm" where
  "as_dict v = (case v of VDict d \<Rightarrow> ret d | _ \<Rightarrow> raise AttributeError ''not a dict'')"

text \<open>A value used as a string (\<open>v.split\<close>, \<open>v.count\<close>)\<close>

definition as_str :: "pv \<Rightarrow> ('e, 's, string) pm" where
  "as_str v = (case v of VStr s \<Rightarrow> ret s | _ \<Rightarrow> raise AttributeError ''not a string'')"

text \<open>A value used as one word of a command\<close>

definition cmd_arg :: "pv \<Rightarrow> ('e, 's, string) pm" where
  "cmd_arg v = (case v of VStr s \<Rightarrow> ret s | _ \<Rightarrow> raise TypeError ''expected string or buffer'')"

text \<open>A value used in arithmetic\<close>

definition as_num :: "pv \<Rightarrow> ('e, 's, rat) pm" where
  "as_num v = of_option TypeError ''not a number'' (num_of v)"

text \<open>\<open>len(v)\<close>\<close>

definition py_len :: "pv \<Rightarrow> ('e, 's, nat) pm" where
  "py_len v = (case v of
      VStr s \<Rightarrow> ret (length s) | VList xs \<Rightarrow> ret (length xs) | VDict d \<Rightarrow> ret (length d)
    | _ \<Rightarrow> raise TypeError ''object has no len()'')"

text \<open>\<open>int(v)\<close>\<close>

definition py_int :: "pv \<Rightarrow> ('e, 's, int) pm" where
  "py_int v = (case v of
      VBool b \<Rightarrow> ret (of_bool b)
    | VInt i \<Rightarrow> ret i
    | VFloat q \<Rightarrow> ret (if 0 \<le> q then \<lfloor>q\<rfloor> else \<lceil>q\<rceil>)
    | VStr s \<Rightarrow> of_option ValueError s (int_of_string s)
    | _ \<Rightarrow> raise TypeError ''int() argument'')"

text \<open>\<open>xs[-1]\<close> and \<open>xs[0]\<close>\<close>

definition first_of :: "'a list \<Rightarrow> ('e, 's, 'a) pm" where
  "first_of xs = (case xs of [] \<Rightarrow> raise IndexError ''list index out of range'' | x # _ \<Rightarrow> ret x)"

definition last_of :: "'a list \<Rightarrow> ('e, 's, 'a) pm" where
  "last_of xs = (if xs = [] then raise IndexError ''list index out of range'' else ret (last xs))"

text \<open>The start of a task: \<open>config = {}\<close> when absent, then \<open>assert isinstance(config, dict), msg\<close>.\<close>

definition dict_config :: "string \<Rightarrow> pv \<Rightarrow> ('e, 's, dict) pm" where
  "dict_config msg v = (case v of VNone \<Rightarrow> ret [] | VDict d \<Rightarrow> ret d | _ \<Rightarrow> raise AssertionError msg)"

lemmas value_ops = item_def cmd_arg_def as_list_def as_dict_def as_str_def as_num_def py_int_def py_len_def first_of_def
  last_of_def fmt_def dict_config_def

context step_rel
begin

lemma keeps_value_ops [keeps_intros]:
  "keeps R (item v k :: ('e, 's, pv) pm)"
  "keeps R (cmd_arg v :: ('e, 's, string) pm)"
  "keeps R (as_list v :: ('e, 's, pv list) pm)"
  "keeps R (as_dict v :: ('e, 's, dict) pm)"
  "keeps R (as_str v :: ('e, 's, string) pm)"
  "keeps R (as_num v :: ('e, 's, rat) pm)"
  "keeps R (py_int v :: ('e, 's, int) pm)"
  "keeps R (py_len v :: ('e, 's, nat) pm)"
  "keeps R (first_of xs :: ('e, 's, 'b) pm)"
  "keeps R (last_of xs :: ('e, 's, 'b) pm)"
  "keeps R (fmt f args :: ('e, 's, string) pm)"
  "keeps R (dict_config msg v :: ('e, 's, dict) pm)"
  by (auto simp: value_ops intro!: keeps_intros split: pv.split list.split)

end

end
