(* ===== verification/Py_Json.thy ===== *)
theory Py_Json
  imports Py_Value
begin

text \<open>
  \<open>json.loads\<close> and \<open>json.dumps\<close> of Python's standard library, as the repository uses them on the
  replies of the cluster: an executable parser from text to \<open>pv\<close>, and the printer. The parser
  recurses on a budget twice the length of the text, which \<open>parse_fuel_enough\<close> shows is never
  the reason for a failure.
\<close>

section \<open>Scanning\<close>

definition is_json_ws :: "char \<Rightarrow> bool" where
  "is_json_ws c \<longleftrightarrow> c = CHR '' '' \<or> c = newline \<or> c = tab \<or> c = CHR 0x0D"

definition skip_ws :: "string \<Rightarrow> string" where
  "skip_ws s = dropWhile is_json_ws s"

definition hex_val :: "char \<Rightarrow> nat option" where
  "hex_val c = (let n = of_char c :: nat in
     if 48 \<le> n \<and> n \<le> 57 then Some (n - 48)
     else if 97 \<le> n \<and> n \<le> 102 then Some (n - 87)
     else if 65 \<le> n \<and> n \<le> 70 then Some (n - 55)
     else None)"

text \<open>The bytes of a code point of the basic plane.\<close>

definition utf8 :: "nat \<Rightarrow> string" where
  "utf8 n = (if n < 128 then [char_of n]
     else if n < 2048 then [char_of (192 + n div 64), char_of (128 + n mod 64)]
     else [char_of (224 + n div 4096), char_of (128 + (n div 64) mod 64), char_of (128 + n mod 64)])"

definition unescape :: "char \<Rightarrow> char option" where
  "unescape c = (if c = quote \<or> c = backslash \<or> c = CHR ''/'' then Some c
     else if c = CHR ''b'' then Some (CHR 0x08)
     else if c = CHR ''f'' then Some (CHR 0x0C)
     else if c = CHR ''n'' then Some newline
     else if c = CHR ''r'' then Some (CHR 0x0D)
     else if c = CHR ''t'' then Some tab
     else None)"

text \<open>The four digits after \<open>\u\<close>.\<close>

definition hex4 :: "string \<Rightarrow> (nat \<times> string) option" where
  "hex4 s = (if length s < 4 then None else
     (case (hex_val (s ! 0), hex_val (s ! 1), hex_val (s ! 2), hex_val (s ! 3)) of
        (Some a, Some b, Some c, Some d) \<Rightarrow> Some (4096 * a + 256 * b + 16 * c + d, drop 4 s)
      | _ \<Rightarrow> None))"

text \<open>One character of a string, an escape sequence included: its bytes and what follows it.\<close>

definition str_step :: "string \<Rightarrow> (string \<times> string) option" where
  "str_step s = (case s of
       [] \<Rightarrow> None
     | c # cs \<Rightarrow>
         if c = backslash then
           (case cs of
              [] \<Rightarrow> None
            | e # ds \<Rightarrow>
                if e = CHR ''u'' then map_option (\<lambda>(n, r). (utf8 n, r)) (hex4 ds)
                else map_option (\<lambda>x. ([x], ds)) (unescape e))
         else if (of_char c :: nat) < 32 then None
         else Some ([c], cs))"

lemma hex4_shorter: "hex4 s = Some (n, r) \<Longrightarrow> length r < length s"
  by (auto simp: hex4_def split: if_splits option.splits)

lemma str_step_shorter: "str_step s = Some (p, r) \<Longrightarrow> length r < length s"
  by (auto simp: str_step_def split: list.splits if_splits dest: hex4_shorter)

text \<open>A string, from after its opening quote.\<close>

function parse_str :: "string \<Rightarrow> (string \<times> string) option" where
  "parse_str s =
     (case s of
        [] \<Rightarrow> None
      | c # cs \<Rightarrow>
          if c = quote then Some ([], cs)
          else
            (case str_step s of
               None \<Rightarrow> None
             | Some (p, r) \<Rightarrow> map_option (\<lambda>(t, r'). (p @ t, r')) (parse_str r)))"
  by pat_completeness auto
termination
  by (relation "measure length") (auto dest: str_step_shorter)

declare parse_str.simps [simp del]

lemma parse_str_shorter: "parse_str s = Some (t, r) \<Longrightarrow> length r < length s"
proof (induction s arbitrary: t r rule: parse_str.induct)
  case (1 s)
  show ?case
  proof (cases s)
    case Nil
    then show ?thesis using 1 by (simp add: parse_str.simps)
  next
    case (Cons c cs)
    show ?thesis
    proof (cases "c = quote")
      case True
      then show ?thesis using "1.prems" Cons by (subst (asm) parse_str.simps) simp
    next
      case False
      then obtain p r1 t1 where st: "str_step s = Some (p, r1)" and "parse_str r1 = Some (t1, r)"
        using "1.prems" Cons by (subst (asm) parse_str.simps) (auto split: option.splits)
      then have "length r < length r1" using 1 Cons False by blast
      then show ?thesis using str_step_shorter [OF st] by simp
    qed
  qed
qed

text \<open>Numbers: \<open>-?(0|[1-9][0-9]*)(.[0-9]+)?([eE][-+]?[0-9]+)?\<close>; a fraction or an exponent makes
  the value a float.\<close>

definition take_digits :: "string \<Rightarrow> string \<times> string" where
  "take_digits s = (takeWhile is_digit s, dropWhile is_digit s)"

definition parse_int_part :: "string \<Rightarrow> (nat \<times> string) option" where
  "parse_int_part s = (case s of
       [] \<Rightarrow> None
     | c # cs \<Rightarrow>
         if c = CHR ''0'' then Some (0, cs)
         else if is_digit c then Some (nat_of_digits (takeWhile is_digit s), dropWhile is_digit s)
         else None)"

definition parse_frac :: "string \<Rightarrow> string \<times> string" where
  "parse_frac s = (case s of
       c # d # ds \<Rightarrow> if c = CHR ''.'' \<and> is_digit d
          then (takeWhile is_digit (d # ds), dropWhile is_digit (d # ds)) else ([], s)
     | _ \<Rightarrow> ([], s))"

definition parse_exp :: "string \<Rightarrow> int option \<times> string" where
  "parse_exp s = (case s of
       [] \<Rightarrow> (None, s)
     | c # cs \<Rightarrow>
         if c = CHR ''e'' \<or> c = CHR ''E'' then
           (let neg = (cs \<noteq> [] \<and> hd cs = CHR ''-'');
                ds = (if cs \<noteq> [] \<and> (hd cs = CHR ''-'' \<or> hd cs = CHR ''+'') then tl cs else cs);
                n = takeWhile is_digit ds
            in if n = [] then (None, s)
               else (Some ((if neg then -1 else 1) * int (nat_of_digits n)), dropWhile is_digit ds))
         else (None, s))"

definition ten_to :: "int \<Rightarrow> rat" where
  "ten_to e = (if 0 \<le> e then 10 ^ nat e else 1 / 10 ^ nat (- e))"

definition parse_num :: "string \<Rightarrow> (pv \<times> string) option" where
  "parse_num s =
     (let neg = (s \<noteq> [] \<and> hd s = CHR ''-'') in
      case parse_int_part (if neg then tl s else s) of
        None \<Rightarrow> None
      | Some (n, r1) \<Rightarrow>
          (case parse_frac r1 of (fr, r2) \<Rightarrow>
           case parse_exp r2 of (ex, r3) \<Rightarrow>
             if fr = [] \<and> ex = None then Some (VInt (if neg then - int n else int n), r3)
             else
               let m = of_nat n + of_nat (nat_of_digits fr) / 10 ^ length fr;
                   q = m * (case ex of None \<Rightarrow> 1 | Some e \<Rightarrow> ten_to e)
               in Some (VFloat (if neg then - q else q), r3)))"

section \<open>Values\<close>

text \<open>A repeated key keeps its last value.\<close>

definition dict_of_pairs :: "(string \<times> pv) list \<Rightarrow> dict" where
  "dict_of_pairs ps = fold (\<lambda>(k, v) d. alist_put k v d) ps []"

fun parse_value :: "nat \<Rightarrow> string \<Rightarrow> (pv \<times> string) option"
  and parse_items :: "nat \<Rightarrow> string \<Rightarrow> (pv list \<times> string) option"
  and parse_members :: "nat \<Rightarrow> string \<Rightarrow> ((string \<times> pv) list \<times> string) option" where
  "parse_value 0 s = None"
| "parse_value (Suc n) s = (case s of
       [] \<Rightarrow> None
     | c # cs \<Rightarrow>
         if c = quote then map_option (\<lambda>(t, r). (VStr t, r)) (parse_str cs)
         else if c = CHR ''{'' then
           (case skip_ws cs of
              [] \<Rightarrow> None
            | d # ds \<Rightarrow>
                if d = CHR ''}'' then Some (VDict [], ds)
                else map_option (\<lambda>(ps, r). (VDict (dict_of_pairs ps), r)) (parse_members n (d # ds)))
         else if c = CHR ''['' then
           (case skip_ws cs of
              [] \<Rightarrow> None
            | d # ds \<Rightarrow>
                if d = CHR '']'' then Some (VList [], ds)
                else map_option (\<lambda>(vs, r). (VList vs, r)) (parse_items n (d # ds)))
         else if prefix ''null'' s then Some (VNone, drop 4 s)
         else if prefix ''true'' s then Some (VBool True, drop 4 s)
         else if prefix ''false'' s then Some (VBool False, drop 5 s)
         else parse_num s)"
| "parse_items 0 s = None"
| "parse_items (Suc n) s =
     (case parse_value n s of
        None \<Rightarrow> None
      | Some (v, r) \<Rightarrow>
          (case skip_ws r of
             [] \<Rightarrow> None
           | c # cs \<Rightarrow>
               if c = CHR '']'' then Some ([v], cs)
               else if c = CHR '','' then map_option (\<lambda>(vs, r'). (v # vs, r')) (parse_items n (skip_ws cs))
               else None))"
| "parse_members 0 s = None"
| "parse_members (Suc n) s = (case s of
       [] \<Rightarrow> None
     | q # qs \<Rightarrow>
         if q \<noteq> quote then None
         else
           (case parse_str qs of
              None \<Rightarrow> None
            | Some (k, r) \<Rightarrow>
                (case skip_ws r of
                   [] \<Rightarrow> None
                 | c # cs \<Rightarrow>
                     if c \<noteq> CHR '':'' then None
                     else
                       (case parse_value n (skip_ws cs) of
                          None \<Rightarrow> None
                        | Some (v, r1) \<Rightarrow>
                            (case skip_ws r1 of
                               [] \<Rightarrow> None
                             | d # ds \<Rightarrow>
                                 if d = CHR ''}'' then Some ([(k, v)], ds)
                                 else if d = CHR '','' then
                                   map_option (\<lambda>(ps, r'). ((k, v) # ps, r')) (parse_members n (skip_ws ds))
                                 else None)))))"

definition json_budget :: "string \<Rightarrow> nat" where
  "json_budget s = 2 * length s + 2"

text \<open>\<open>json.loads(s)\<close>: \<open>None\<close> is ValueError.\<close>

definition json_loads :: "string \<Rightarrow> pv option" where
  "json_loads s = (case parse_value (json_budget s) (skip_ws s) of
       None \<Rightarrow> None
     | Some (v, r) \<Rightarrow> if skip_ws r = [] then Some v else None)"

definition loads :: "string \<Rightarrow> ('e, 's, pv) pm" where
  "loads s = of_option ValueError ''No JSON object could be decoded'' (json_loads s)"


section \<open>Printing\<close>

text \<open>\<open>json.dumps(v)\<close> with the default separators. \<open>ff\<close> is the textual form of a float. Bytes
  above 127 are printed as they are.\<close>

definition escape_char :: "char \<Rightarrow> string" where
  "escape_char c = (if c = quote \<or> c = backslash then [backslash, c]
     else if c = newline then [backslash, CHR ''n'']
     else if c = CHR 0x0D then [backslash, CHR ''r'']
     else if c = tab then [backslash, CHR ''t'']
     else if c = CHR 0x08 then [backslash, CHR ''b'']
     else if c = CHR 0x0C then [backslash, CHR ''f'']
     else if (of_char c :: nat) < 32 then
       [backslash, CHR ''u'', CHR ''0'', CHR ''0'', digit_char (of_char c div 16),
        (let d = of_char c mod 16 in if d < 10 then digit_char d else char_of (87 + d))]
     else [c])"

definition dumps_str :: "string \<Rightarrow> string" where
  "dumps_str s = quote # concat (map escape_char s) @ [quote]"

fun json_dumps :: "(rat \<Rightarrow> string) \<Rightarrow> pv \<Rightarrow> string" where
  "json_dumps ff VNone = ''null''"
| "json_dumps ff (VBool b) = (if b then ''true'' else ''false'')"
| "json_dumps ff (VInt i) = str_int i"
| "json_dumps ff (VFloat q) = ff q"
| "json_dumps ff (VStr s) = dumps_str s"
| "json_dumps ff (VList vs) = ''['' @ join '', '' (map (json_dumps ff) vs) @ '']''"
| "json_dumps ff (VDict d) =
     ''{'' @ join '', '' (map (\<lambda>(k, v). dumps_str k @ '': '' @ json_dumps ff v) d) @ ''}''"

section \<open>The budget\<close>

lemma length_skip_ws: "length (skip_ws s) \<le> length s"
  by (simp add: skip_ws_def length_dropWhile_le)

lemma skip_ws_Cons: "skip_ws s = c # cs \<Longrightarrow> length cs < length s"
  using length_skip_ws [of s] by simp

lemma parse_num_shorter: "parse_num s = Some (v, r) \<Longrightarrow> length r < length s"
proof -
  have i: "length r1 < length u" if "parse_int_part u = Some (n, r1)" for u n r1
    using that length_dropWhile_le [of is_digit]
    by (auto simp: parse_int_part_def less_Suc_eq_le split: list.splits if_splits)
  have f: "length r2 \<le> length u" if "parse_frac u = (fr, r2)" for u fr r2
    using that length_dropWhile_le [of is_digit]
    by (auto simp: parse_frac_def split: list.splits if_splits intro: le_SucI)
  have e: "length r3 \<le> length u" if "parse_exp u = (ex, r3)" for u ex r3
  proof (cases u)
    case (Cons c cs)
    define ds where "ds = (if cs \<noteq> [] \<and> (hd cs = CHR ''-'' \<or> hd cs = CHR ''+'') then tl cs else cs)"
    have "length (dropWhile is_digit ds) \<le> length u"
      using length_dropWhile_le [of is_digit ds] Cons by (auto simp: ds_def)
    then show ?thesis
      using that Cons by (auto simp: parse_exp_def Let_def simp flip: ds_def split: if_splits)
  qed (use that in \<open>simp add: parse_exp_def\<close>)
  assume "parse_num s = Some (v, r)"
  then obtain n r1 fr r2 ex where
    1: "parse_int_part (if s \<noteq> [] \<and> hd s = CHR ''-'' then tl s else s) = Some (n, r1)"
    and 2: "parse_frac r1 = (fr, r2)" and 3: "parse_exp r2 = (ex, r)"
    by (auto simp: parse_num_def Let_def split: option.splits prod.splits if_splits)
  have "length r \<le> length r1" using f [OF 2] e [OF 3] by simp
  also have "\<dots> < length s" using i [OF 1] by (auto split: if_splits)
  finally show ?thesis .
qed

lemma parse_shorter:
  shows "parse_value n s = Some (v, r) \<Longrightarrow> length r < length s"
    and "parse_items n s = Some (vs, r) \<Longrightarrow> length r < length s"
    and "parse_members n s = Some (ps, r) \<Longrightarrow> length r < length s"
proof (induction n arbitrary: s v r vs ps)
  case (Suc n)
  {
    case 1
    then show ?case
      using Suc.IH(2,3)
      by (fastforce split: list.splits if_splits dest: parse_str_shorter parse_num_shorter skip_ws_Cons
          simp: prefix_def)
  next
    case 2
    then obtain v r1 c cs where 1: "parse_value n s = Some (v, r1)" and 2: "skip_ws r1 = c # cs"
      and 3: "r = cs \<or> (\<exists>vs'. parse_items n (skip_ws cs) = Some (vs', r))"
      by (auto split: option.splits list.splits if_splits)
    have "length r \<le> length cs"
      using 3 Suc.IH(2) length_skip_ws [of cs] by (metis less_imp_le_nat order.trans order_refl)
    then show ?case using Suc.IH(1) [OF 1] skip_ws_Cons [OF 2] by simp
  next
    case 3
    then obtain q qs k r1 c cs v r2 d ds where
      s: "s = q # qs" and 1: "parse_str qs = Some (k, r1)" and 2: "skip_ws r1 = c # cs"
      and 3: "parse_value n (skip_ws cs) = Some (v, r2)" and 4: "skip_ws r2 = d # ds"
      and 5: "r = ds \<or> (\<exists>ps'. parse_members n (skip_ws ds) = Some (ps', r))"
      by (auto split: option.splits list.splits if_splits)
    have "length r \<le> length ds"
      using 5 Suc.IH(3) length_skip_ws [of ds] by (metis less_imp_le_nat order.trans order_refl)
    also have "\<dots> < length r2" using skip_ws_Cons [OF 4] .
    also have "\<dots> < length (skip_ws cs)" using Suc.IH(1) [OF 3] .
    also have "\<dots> \<le> length r1" using skip_ws_Cons [OF 2] length_skip_ws [of cs] by simp
    also have "\<dots> < length s" using parse_str_shorter [OF 1] s by simp
    finally show ?case .
  }
qed simp_all

text \<open>Past twice the length of its input, the budget has no influence on the result.\<close>

lemma parse_budget_step:
  shows "2 * length s < n \<Longrightarrow> parse_value (Suc n) s = parse_value n s"
    and "2 * length s + 1 < n \<Longrightarrow> parse_items (Suc n) s = parse_items n s"
    and "2 * length s + 1 < n \<Longrightarrow> parse_members (Suc n) s = parse_members n s"
proof (induction n arbitrary: s)
  case (Suc n)
  {
    case 1
    show ?case
    proof (cases s)
      case (Cons c cs)
      have "parse_items (Suc n) u = parse_items n u" "parse_members (Suc n) u = parse_members n u"
        if "skip_ws cs = u" for u
        using 1 Cons that length_skip_ws [of cs] by (intro Suc.IH; simp)+
      then show ?thesis
        using Cons by (subst (1 2) parse_value.simps(2))
          (cases "skip_ws cs"; simp del: parse_items.simps parse_members.simps)
    qed simp
  next
    case 2
    have v: "parse_value (Suc n) s = parse_value n s"
      using 2 by (intro Suc.IH) simp
    have "parse_items (Suc n) (skip_ws cs) = parse_items n (skip_ws cs)"
      if "parse_value n s = Some (v, r)" "skip_ws r = c # cs" for v r c cs
      using 2 parse_shorter(1) [OF that(1)] skip_ws_Cons [OF that(2)] length_skip_ws [of cs]
      by (intro Suc.IH) simp
    then show ?case
      by (subst (1 2) parse_items.simps(2)) (simp add: v del: parse_items.simps parse_value.simps split: option.split list.split)
  next
    case 3
    have v: "parse_value (Suc n) (skip_ws cs) = parse_value n (skip_ws cs)"
      if "s = q # qs" "parse_str qs = Some (k, r)" "skip_ws r = c # cs" for q qs k r c cs
      using 3 that parse_str_shorter [OF that(2)] skip_ws_Cons [OF that(3)] length_skip_ws [of cs]
      by (intro Suc.IH) simp
    have m: "parse_members (Suc n) (skip_ws ds) = parse_members n (skip_ws ds)"
      if "s = q # qs" "parse_str qs = Some (k, r)" "skip_ws r = c # cs"
        "parse_value n (skip_ws cs) = Some (v, r1)" "skip_ws r1 = d # ds" for q qs k r c cs v r1 d ds
      using 3 that(1) parse_str_shorter [OF that(2)] skip_ws_Cons [OF that(3)] length_skip_ws [of cs]
        parse_shorter(1) [OF that(4)] skip_ws_Cons [OF that(5)] length_skip_ws [of ds]
      by (intro Suc.IH) simp
    show ?case
      by (subst (1 2) parse_members.simps(2)) (auto simp: v m simp del: parse_members.simps parse_value.simps split: option.split list.split)
  }
qed simp_all

lemma parse_fuel_enough:
  assumes "json_budget s \<le> n"
  shows "parse_value n (skip_ws s) = parse_value (json_budget s) (skip_ws s)"
  using assms
proof (induction n rule: dec_induct)
  case (step n)
  then show ?case
    using length_skip_ws [of s] parse_budget_step(1) [of "skip_ws s" n] by (simp add: json_budget_def)
qed simp

end
