(* ===== verification/World.thy ===== *)
theory World
  imports Py_Json
begin

text \<open>
  The boundary between the repository and everything it talks to. Every call that leaves the
  repository (a command on a remote host, a daemon action, a power switch, the clock, a random
  number, a sleep) is an event; the state keeps the trace of the events so far, and the answer to
  an event is a function of the whole trace up to it. These functions are the fields of \<open>env\<close>,
  which every definition takes as its first argument: nothing is assumed of them unless a theorem
  says so. The remote hosts, daemons and paths of the test context are fields of \<open>env\<close> too.
\<close>

section \<open>Events\<close>

datatype daemon_op = DStop | DRestart "string list" | DReset | DWait | DSignal int bool
  | DExtend "string list"                  \<comment> \<open>\<open>command_kwargs['args'].extend([...])\<close>\<close>

datatype power_op = PowerOff | PowerOn | CheckStatus int

datatype event =
    Run string "string list" bool        \<comment> \<open>\<open>remote.run(args=[...], check_status=...)\<close>, waited for\<close>
  | RunLine string string bool           \<comment> \<open>the same with \<open>args\<close> one shell string\<close>
  | RunBg string "string list"           \<comment> \<open>\<open>remote.run(args=[...], wait=False)\<close>\<close>
  | RunAll "string list"                 \<comment> \<open>\<open>ctx.cluster.run\<close> with its processes waited for\<close>
  | FileMove string string string        \<comment> \<open>\<open>Remote.get_file\<close> then \<open>Remote.put_file\<close>: from, to, path\<close>
  | Daemon daemon_op string string string \<comment> \<open>operation, role, id, cluster\<close>
  | DaemonList string string             \<comment> \<open>\<open>iter_daemons_of_role(role, cluster)\<close>\<close>
  | Power power_op string
  | Reconnect int string
  | Sleep rat
  | Now
  | RandomBits
  | PollStop string                      \<comment> \<open>reading a stop flag another greenlet sets\<close>
  | WaitStop string rat                  \<comment> \<open>\<open>Event.wait(timeout)\<close> on such a flag\<close>
  | Proceed string                       \<comment> \<open>\<open>proceed()\<close> of a \<open>safe_while\<close>\<close>
  | Spawn string                         \<comment> \<open>\<open>gevent.spawn\<close> of a method\<close>
  | SetStop string                       \<comment> \<open>setting the stop flag of an object\<close>
  | Get string                           \<comment> \<open>\<open>greenlet.get()\<close>, or \<open>wait()\<close> of a background process: raises when it failed\<close>
  | Join string                          \<comment> \<open>\<open>greenlet.join()\<close>, which does not\<close>

record proc =
  exitstatus :: int
  p_stdout :: string
  p_stderr :: string

section \<open>The environment\<close>

text \<open>\<open>env_fuel\<close> is the number of iterations any one loop may start before the model gives up on
  it (outcome \<open>NoFuel\<close>).\<close>

record env =
  env_run :: "event list \<Rightarrow> pyexc + proc"
  env_act :: "event list \<Rightarrow> pyexc option"
  env_flag :: "event list \<Rightarrow> pyexc + bool"
  env_daemons :: "event list \<Rightarrow> (string \<times> bool) list"
  env_clock :: "event list \<Rightarrow> rat"
  env_bits :: "event list \<Rightarrow> int"
  env_stop :: "event list \<Rightarrow> bool"
  env_only :: "(string \<Rightarrow> bool) \<Rightarrow> string list"
  env_is_type :: "string \<Rightarrow> string \<Rightarrow> string \<Rightarrow> bool"
  env_split_role :: "string \<Rightarrow> string \<times> string \<times> string"
  env_testdir :: string
  env_conf :: "string \<Rightarrow> string \<Rightarrow> dict option"
  env_has_ipmi :: "string \<Rightarrow> bool"
  env_disks :: "string \<Rightarrow> (string \<times> string \<times> string list \<times> string) list option"
  env_roles :: "string \<Rightarrow> string list"
  env_mon_names :: "string list"
  env_first_mon :: string
  env_daemon_remote :: "string \<Rightarrow> string \<Rightarrow> string"
  env_clients :: "string list \<Rightarrow> (string \<times> string) list"
  env_deep_merge :: "dict \<Rightarrow> dict \<Rightarrow> dict"
  env_overrides :: "string \<Rightarrow> dict"
  env_ipmi_user :: bool
  env_repr :: "pv \<Rightarrow> string"
  env_fuel :: nat

record sys =
  trace :: "event list"

type_synonym ('z, 'a) io = "(env, 'z sys_scheme, 'a) pm"

section \<open>Primitive operations\<close>

definition external :: "event \<Rightarrow> (env \<Rightarrow> event list \<Rightarrow> 'a) \<Rightarrow> ('z, 'a) io" where
  "external e g = (\<lambda>E s. let t = trace s @ [e] in (Ok (g E t), s\<lparr>trace := t\<rparr>))"

definition run_cmd :: "string \<Rightarrow> string list \<Rightarrow> bool \<Rightarrow> ('z, proc) io" where
  "run_cmd host args check_status = bind (external (Run host args check_status) env_run) of_sum"

definition run_line :: "string \<Rightarrow> string \<Rightarrow> bool \<Rightarrow> ('z, proc) io" where
  "run_line host args check_status = bind (external (RunLine host args check_status) env_run) of_sum"

text \<open>An action with no answer but a possible exception.\<close>

definition act :: "event \<Rightarrow> ('z, unit) io" where
  "act e = bind (external e env_act) (\<lambda>x. case x of None \<Rightarrow> ret () | Some exc \<Rightarrow> reraise exc)"

definition flag :: "event \<Rightarrow> ('z, bool) io" where
  "flag e = bind (external e env_flag) of_sum"

definition daemon :: "daemon_op \<Rightarrow> string \<Rightarrow> string \<Rightarrow> string \<Rightarrow> ('z, unit) io" where
  "daemon op role i cl = act (Daemon op role i cl)"

definition now :: "('z, rat) io" where
  "now = external Now env_clock"

text \<open>\<open>time.sleep(v)\<close> for a value of the configuration and for a number; a negative time raises.\<close>

definition sleep :: "rat \<Rightarrow> ('z, unit) io" where
  "sleep q = (if q < 0 then raise IOError ''Invalid argument'' else external (Sleep q) (\<lambda>_ _. ()))"

definition sleep_value :: "pv \<Rightarrow> ('z, unit) io" where
  "sleep_value v = bind (as_num v) sleep"

text \<open>The 53 random bits \<open>random.random()\<close> scales to \<open>[0, 1)\<close>.\<close>

definition two53 :: int where
  "two53 = 9007199254740992"

definition random_bits :: "('z, int) io" where
  "random_bits = external RandomBits (\<lambda>E t. env_bits E t mod two53)"

definition random01 :: "('z, rat) io" where
  "random01 = bind random_bits (\<lambda>k. ret (of_int k / of_int two53))"

definition random_uniform :: "rat \<Rightarrow> rat \<Rightarrow> ('z, rat) io" where
  "random_uniform a b = bind random01 (\<lambda>x. ret (a + (b - a) * x))"

text \<open>\<open>int(random.random() * n)\<close>\<close>

definition random_below :: "nat \<Rightarrow> ('z, nat) io" where
  "random_below n = bind random_bits (\<lambda>k. ret (nat (k * int n div two53)))"

definition random_choice :: "'a list \<Rightarrow> ('z, 'a) io" where
  "random_choice xs = bind (random_below (length xs)) (\<lambda>i.
     if xs = [] then raise IndexError ''list index out of range'' else ret (xs ! i))"

text \<open>\<open>random.randrange(a, b)\<close> on whole numbers\<close>

definition random_randrange :: "int \<Rightarrow> int \<Rightarrow> ('z, int) io" where
  "random_randrange a b = (if b \<le> a then raise ValueError ''empty range for randrange()''
     else bind (random_below (nat (b - a))) (\<lambda>i. ret (a + int i)))"

text \<open>\<open>random.randrange(a, b)\<close> on floats, which have to be whole numbers\<close>

definition randrange_float :: "rat \<Rightarrow> rat \<Rightarrow> ('z, int) io" where
  "randrange_float a b =
     (if a \<noteq> of_int \<lfloor>a\<rfloor> then raise ValueError ''non-integer arg 1 for randrange()''
      else if b \<noteq> of_int \<lfloor>b\<rfloor> then raise ValueError ''non-integer stop for randrange()''
      else random_randrange \<lfloor>a\<rfloor> \<lfloor>b\<rfloor>)"

text \<open>\<open>random.sample(xs, k)\<close>: the draws without replacement that swap the last remaining element
  into the place of the one drawn, which is how the library draws from up to 21 elements.\<close>

fun sample_from :: "nat \<Rightarrow> 'a list \<Rightarrow> ('z, 'a list) io" where
  "sample_from 0 pool = ret []"
| "sample_from (Suc k) pool = bind (random_below (length pool)) (\<lambda>j.
     bind (sample_from k (butlast (pool[j := last pool]))) (\<lambda>rest. ret (pool ! j # rest)))"

definition random_sample :: "'a list \<Rightarrow> int \<Rightarrow> ('z, 'a list) io" where
  "random_sample xs k = (if k < 0 \<or> int (length xs) < k then raise ValueError ''sample larger than population''
     else sample_from (nat k) xs)"

text \<open>Reading a flag that another greenlet sets, as \<open>self.stopping\<close>.\<close>

definition poll_stop :: "string \<Rightarrow> ('z, bool) io" where
  "poll_stop name = external (PollStop name) env_stop"

definition wait_stop :: "string \<Rightarrow> rat \<Rightarrow> ('z, unit) io" where
  "wait_stop name q = external (WaitStop name q) (\<lambda>_ _. ())"

text \<open>\<open>(remote,) = ctx.cluster.only(role).remotes.iterkeys()\<close>\<close>

definition only_remote :: "string \<Rightarrow> ('z, string) io" where
  "only_remote role =
     bind (asks (\<lambda>E. env_only E (\<lambda>r. r = role))) (\<lambda>remotes.
     if length remotes = 1 then ret (hd remotes) else raise ValueError ''values to unpack'')"

text \<open>The host of the first monitor.\<close>

definition first_mon_remote :: "('z, string) io" where
  "first_mon_remote = bind (asks env_first_mon) only_remote"

text \<open>Starting another greenlet, telling it to stop and waiting for it.\<close>

definition spawn :: "string \<Rightarrow> ('z, unit) io" where
  "spawn f = external (Spawn f) (\<lambda>_ _. ())"

definition set_stop :: "string \<Rightarrow> ('z, unit) io" where
  "set_stop obj = external (SetStop obj) (\<lambda>_ _. ())"

definition join_greenlet :: "string \<Rightarrow> ('z, unit) io" where
  "join_greenlet f = external (Join f) (\<lambda>_ _. ())"

text \<open>\<open>float(v)\<close>; of the strings, those in the notation of a JSON number.\<close>

definition py_float :: "pv \<Rightarrow> ('z, rat) io" where
  "py_float v = (case v of
      VStr t \<Rightarrow> (case parse_num (strip t) of
        Some (n, []) \<Rightarrow> as_num n | _ \<Rightarrow> raise ValueError ''could not convert string to float'')
    | _ \<Rightarrow> as_num v)"

definition py_div :: "rat \<Rightarrow> rat \<Rightarrow> ('z, rat) io" where
  "py_div a b = (if b = 0 then raise ZeroDivisionError ''float division by zero'' else ret (a / b))"

text \<open>A loop bounded by the budget of the environment.\<close>

definition loop :: "('x \<Rightarrow> ('z, 'x + 'r) io) \<Rightarrow> 'x \<Rightarrow> ('z, 'r) io" where
  "loop b x = (\<lambda>E. loop_n (env_fuel E) b x E)"

definition while_m :: "('z, bool) io \<Rightarrow> ('z, unit) io \<Rightarrow> ('z, unit) io" where
  "while_m c b = loop (\<lambda>_. bind c (\<lambda>go. if go then bind b (\<lambda>_. ret (Inl ())) else ret (Inr ()))) ()"

text \<open>\<open>str(v)\<close>; the textual form of floats, lists and dictionaries is the environment's.\<close>

definition str_float :: "rat \<Rightarrow> ('z, string) io" where
  "str_float q = asks (\<lambda>E. env_repr E (VFloat q))"

definition py_str :: "pv \<Rightarrow> ('z, string) io" where
  "py_str v = (case v of
      VNone \<Rightarrow> ret ''None''
    | VBool b \<Rightarrow> ret (if b then ''True'' else ''False'')
    | VInt i \<Rightarrow> ret (str_int i)
    | VStr t \<Rightarrow> ret t
    | _ \<Rightarrow> asks (\<lambda>E. env_repr E v))"

section \<open>Execution\<close>

lemma exec_external [exec_simps]:
  "external e g E s = (Ok (g E (trace s @ [e])), s\<lparr>trace := trace s @ [e]\<rparr>)"
  by (simp add: external_def Let_def)

lemma exec_act: "act e E s =
  (case env_act E (trace s @ [e]) of None \<Rightarrow> Ok () | Some x \<Rightarrow> Raise x, s\<lparr>trace := trace s @ [e]\<rparr>)"
  by (simp add: act_def exec_simps exec_external split: option.split)

lemma exec_loop [exec_simps]: "loop b x E s = loop_n (env_fuel E) b x E s"
  by (simp add: loop_def)

lemma post_external [post_simps]:
  "post (external e g) E s P = P (Ok (g E (trace s @ [e]))) (s\<lparr>trace := trace s @ [e]\<rparr>)"
  by (simp add: post_def exec_simps)

lemma post_loop: "post (loop b x) E s P = post (loop_n (env_fuel E) b x) E s P"
  by (simp add: post_def loop_def)

lemma post_while_m:
  assumes "I s"
    and step: "\<And>t. I t \<Longrightarrow> post c E t (after (\<lambda>go u. if go then post b E u (after (\<lambda>_. I) P) else P (Ok ()) u) P)"
    and out: "\<And>t. I t \<Longrightarrow> P NoFuel t"
  shows "post (while_m c b) E s P"
  unfolding while_m_def post_loop
proof (rule post_loop_n [where I = "\<lambda>_. I"])
  fix t
  assume "I t"
  from step [OF this]
  show "post (bind c (\<lambda>go. if go then bind b (\<lambda>_. ret (Inl ())) else ret (Inr ()))) E t
      (after (\<lambda>y s'. case y of Inl x' \<Rightarrow> I s' | Inr r \<Rightarrow> P (Ok r) s') P)"
    unfolding post_bind
    by (rule post_mono) (auto simp: after_def post_simps split: res.splits elim!: post_mono)
qed (use assms in auto)

lemmas io_defs = run_cmd_def run_line_def act_def flag_def daemon_def now_def sleep_def
  sleep_value_def random_bits_def random01_def random_uniform_def random_below_def
  random_choice_def random_randrange_def random_sample_def while_m_def str_float_def py_str_def
  poll_stop_def py_div_def spawn_def set_stop_def join_greenlet_def
  randrange_float_def wait_stop_def only_remote_def first_mon_remote_def

text \<open>The loop of a greenlet, which runs until its stop flag is set: what the state satisfies at the
  head of the loop.\<close>

lemma post_poll_loop:
  assumes "I s"
    and poll: "\<And>t. I t \<Longrightarrow> I (t\<lparr>trace := trace t @ [PollStop name]\<rparr>)"
    and body: "\<And>t. I t \<Longrightarrow> post b E t (\<lambda>r t'. if r = Ok () then I t' else P r t')"
    and out: "\<And>t. I t \<Longrightarrow> P (Ok ()) t \<and> P NoFuel t"
  shows "post (while_m (bind (poll_stop name) (\<lambda>stopping. ret (\<not> stopping))) b) E s P"
proof (rule post_while_m [where I = I, OF assms(1)])
  fix t
  assume "I t"
  let ?u = "t\<lparr>trace := trace t @ [PollStop name]\<rparr>"
  have "I ?u" using \<open>I t\<close> by (rule poll)
  have "post b E ?u (after (\<lambda>_. I) P)"
    using body [OF \<open>I ?u\<close>] by (rule post_mono) (auto simp: after_def split: res.split if_splits)
  then show "post (bind (poll_stop name) (\<lambda>stopping. ret (\<not> stopping))) E t
      (after (\<lambda>go u. if go then post b E u (after (\<lambda>_. I) P) else P (Ok ()) u) P)"
    using out [OF \<open>I ?u\<close>] by (auto simp: poll_stop_def post_simps)
qed (use out in blast)

lemma two53_pos [simp]: "0 < two53"
  by (simp add: two53_def)

lemma random_index_less:
  assumes "0 < n"
  shows "nat ((k mod two53) * int n div two53) < n"
proof -
  have "(k mod two53) * int n < two53 * int n"
    using assms by simp
  moreover have "two53 * ((k mod two53) * int n div two53) \<le> (k mod two53) * int n"
    by (metis mult.commute div_mult_mod_eq le_add_same_cancel1 pos_mod_sign two53_pos)
  ultimately have "two53 * ((k mod two53) * int n div two53) < two53 * int n" by (rule le_less_trans [rotated])
  then have "(k mod two53) * int n div two53 < int n" by (rule mult_left_less_imp_less) (simp add: two53_def)
  then show ?thesis using assms by linarith
qed

lemma random_bits_unit: "0 \<le> (of_int (k mod two53) :: rat) / of_int two53 \<and> (of_int (k mod two53) :: rat) / of_int two53 < 1"
proof -
  have "(of_int (k mod two53) :: rat) < of_int two53" "(0 :: rat) \<le> of_int (k mod two53)"
    by (simp_all only: of_int_less_iff of_int_0_le_iff) simp_all
  moreover have "(0 :: rat) < of_int two53" by (simp add: two53_def)
  ultimately show ?thesis by (auto simp: divide_less_eq intro: divide_nonneg_pos)
qed

text \<open>A choice returns an element of its list.\<close>

lemma random_choice_member:
  "random_choice xs E s = (Ok x, s') \<Longrightarrow> x \<in> set xs"
  using random_index_less [of "length xs"]
  by (auto simp: random_choice_def random_below_def random_bits_def exec_simps split: if_splits)

lemma random_below_less: "random_below n E s = (Ok i, s') \<Longrightarrow> 0 < n \<Longrightarrow> i < n"
  using random_index_less [of n] by (auto simp: random_below_def random_bits_def exec_simps)

lemma random_randrange_bounds:
  assumes "random_randrange a b E s = (Ok x, s')"
  shows "a \<le> x" "x < b"
proof -
  from assms obtain i where i: "random_below (nat (b - a)) E s = (Ok i, s')" "x = a + int i" "a < b"
    by (auto simp: random_randrange_def exec_simps split: if_splits prod.splits res.splits)
  then have "i < nat (b - a)" using random_below_less [OF i(1)] by linarith
  then show "a \<le> x" "x < b" using i by auto
qed

text \<open>A sample has the size asked for, and its elements are distinct when the list's are.\<close>

lemma sample_from_props:
  "k \<le> length xs \<Longrightarrow> sample_from k xs E s = (Ok ys, s') \<Longrightarrow> length ys = k \<and> mset ys \<subseteq># mset xs"
proof (induction k arbitrary: xs ys s)
  case 0
  then show ?case by (simp add: exec_simps)
next
  case (Suc k)
  from Suc.prems(2) obtain j rest s1 where j: "random_below (length xs) E s = (Ok j, s1)"
    and r: "sample_from k (butlast (xs[j := last xs])) E s1 = (Ok rest, s')" and ys: "ys = xs ! j # rest"
    by (auto simp: exec_simps split: prod.splits res.splits)
  have "0 < length xs" using Suc.prems(1) by linarith
  then have jn: "j < length xs" using random_below_less [OF j] by simp
  from Suc.IH [OF _ r] Suc.prems(1) ys show ?case by (auto simp: mset_draw [OF jn])
qed

lemma random_sample_props:
  assumes "random_sample xs k E s = (Ok ys, s')"
  shows "int (length ys) = k" "set ys \<subseteq> set xs" "distinct xs \<Longrightarrow> distinct ys"
proof -
  from assms have k: "0 \<le> k" "nat k \<le> length xs" and ys: "sample_from (nat k) xs E s = (Ok ys, s')"
    by (auto simp: random_sample_def exec_simps split: if_splits)
  from sample_from_props [OF k(2) ys] have l: "length ys = nat k" and m: "mset ys \<subseteq># mset xs" by auto
  show "int (length ys) = k" using l k by simp
  show "set ys \<subseteq> set xs" using set_mset_mono [OF m] by simp
  show "distinct ys" if "distinct xs" using m that by (rule distinct_submset)
qed

section \<open>Time\<close>

text \<open>The seconds a sequence of events sleeps, and a well-behaved host: nobody sets the clock back while
  the test runs, and no signal cuts a sleep short, so that sleeping takes at least the time asked for. Python
  promises neither, so the properties that need it have it as a hypothesis.\<close>

definition slept :: "event list \<Rightarrow> rat" where
  "slept es = sum_list (map (\<lambda>e. case e of Sleep q \<Rightarrow> max 0 q | _ \<Rightarrow> 0) es)"

definition clock_ok :: "env \<Rightarrow> bool" where
  "clock_ok E \<longleftrightarrow> (\<forall>t u. env_clock E (t @ [Now]) + slept u \<le> env_clock E (t @ [Now] @ u @ [Now]))"

lemma slept_simps [simp]:
  "slept [] = 0"
  "slept (es @ fs) = slept es + slept fs"
  "slept (e # es) = (case e of Sleep q \<Rightarrow> max 0 q | _ \<Rightarrow> 0) + slept es"
  by (simp_all add: slept_def)

lemma slept_nonneg [simp]: "0 \<le> slept es"
  unfolding slept_def by (rule sum_list_nonneg) (auto split: event.split)

section \<open>Operations that only add events\<close>

text \<open>\<open>io_rel\<close>: the state differs in nothing but events added to the end of the trace.\<close>

definition io_rel :: "'z sys_scheme \<Rightarrow> 'z sys_scheme \<Rightarrow> bool" where
  "io_rel s s' \<longleftrightarrow> (\<exists>es. s' = s\<lparr>trace := trace s @ es\<rparr>)"

interpretation io: step_rel io_rel
proof
  show "io_rel s s" for s :: "'z sys_scheme"
    unfolding io_rel_def by (rule exI [of _ "[]"]) simp
  show "io_rel s u" if "io_rel s t" "io_rel t u" for s t u :: "'z sys_scheme"
    using that by (auto simp: io_rel_def)
qed

text \<open>The contract a component's relation has to meet so that every operation of this theory
  respects it: a step relation that allows adding an event.\<close>

locale io_step = step_rel R for R :: "'z sys_scheme \<Rightarrow> 'z sys_scheme \<Rightarrow> bool" +
  assumes step_event: "R s (s\<lparr>trace := trace s @ [e]\<rparr>)"
begin

lemma keeps_external [keeps_intros]: "keeps R (external e g)"
  by (simp add: keeps_def exec_simps step_event)

lemma keeps_io_ops [keeps_intros]:
  "keeps R (run_cmd h as b)"
  "keeps R (run_line h l b)"
  "keeps R (act e)"
  "keeps R (flag e)"
  "keeps R (daemon op r i c)"
  "keeps R now"
  "keeps R (sleep q)"
  "keeps R (sleep_value v)"
  "keeps R random_bits"
  "keeps R random01"
  "keeps R (random_uniform a b')"
  "keeps R (random_below n)"
  "keeps R (random_choice xs)"
  "keeps R (random_randrange lo hi)"
  "keeps R (str_float q)"
  "keeps R (poll_stop name)"
  "keeps R (py_div q q')"
  "keeps R (spawn f)"
  "keeps R (set_stop f)"
  "keeps R (join_greenlet f)"
  "keeps R (randrange_float x y)"
  "keeps R (wait_stop name q)"
  "keeps R (only_remote role)"
  "keeps R first_mon_remote"
  unfolding io_defs by (intro keeps_intros)+

lemma keeps_py_float [keeps_intros]: "keeps R (py_float v)"
  by (cases v) (auto simp: py_float_def intro!: keeps_intros split: option.split list.split)

lemma keeps_py_str [keeps_intros]: "keeps R (py_str v)"
  by (cases v) (auto simp: py_str_def intro!: keeps_intros)

lemma keeps_sample_from [keeps_intros]: "keeps R (sample_from k xs)"
  by (induction k arbitrary: xs) (auto intro!: keeps_intros)

lemma keeps_random_sample [keeps_intros]: "keeps R (random_sample xs k')"
  unfolding random_sample_def by (intro keeps_intros)

lemma keeps_loop [keeps_intros]:
  assumes "\<And>x. keeps R (b x)"
  shows "keeps R (loop b x)"
  using keeps_loop_n [OF assms] by (simp add: keeps_def loop_def)

lemma keeps_while_m [keeps_intros]: "keeps R c \<Longrightarrow> keeps R b \<Longrightarrow> keeps R (while_m c b)"
  unfolding while_m_def by (intro keeps_intros)

lemma step_events: "R s (s\<lparr>trace := trace s @ es\<rparr>)"
proof (induction es rule: rev_induct)
  case Nil
  then show ?case using step_refl [of s] by simp
next
  case (snoc e es)
  have "R (s\<lparr>trace := trace s @ es\<rparr>) (s\<lparr>trace := trace s @ es @ [e]\<rparr>)"
    using step_event [of "s\<lparr>trace := trace s @ es\<rparr>" e] by simp
  then show ?case using snoc step_trans by blast
qed

text \<open>An operation that only adds events respects every such relation.\<close>

lemma keeps_of_io: "keeps io_rel m \<Longrightarrow> keeps R m"
  by (erule keeps_mono) (auto simp: io_rel_def intro: step_events)

end

interpretation io: io_step io_rel
  by unfold_locales (auto simp: io_rel_def)

text \<open>Postconditions of such operations, alone and at the head of a sequence.\<close>

lemma post_io: "keeps io_rel m \<Longrightarrow> (\<And>r es. P r (s\<lparr>trace := trace s @ es\<rparr>)) \<Longrightarrow> post m E s P"
  by (erule post_keeps) (auto simp: io_rel_def)

lemma post_bind_io:
  assumes "keeps io_rel m"
    and "\<And>a es. post (f a) E (s\<lparr>trace := trace s @ es\<rparr>) P"
    and "\<And>x es. P (Raise x) (s\<lparr>trace := trace s @ es\<rparr>)"
    and "\<And>es. P NoFuel (s\<lparr>trace := trace s @ es\<rparr>)"
  shows "post (bind m f) E s P"
  unfolding post_bind by (rule post_io [OF assms(1)]) (auto simp: after_def assms(2-) split: res.split)

section \<open>What an operation sends\<close>

text \<open>\<open>sent_rel Q\<close>: the state differs only in events added to the trace, and each of them satisfies
  \<open>Q\<close>.\<close>

definition sent_rel :: "(event \<Rightarrow> bool) \<Rightarrow> 'z sys_scheme \<Rightarrow> 'z sys_scheme \<Rightarrow> bool" where
  "sent_rel Q s s' \<longleftrightarrow> (\<exists>es. s' = s\<lparr>trace := trace s @ es\<rparr> \<and> list_all Q es)"

interpretation sent: step_rel "sent_rel Q" for Q
proof
  show "sent_rel Q s s" for s :: "'a sys_scheme"
    unfolding sent_rel_def by (rule exI [of _ "[]"]) simp
  show "sent_rel Q s u" if "sent_rel Q s t" "sent_rel Q t u" for s t u :: "'a sys_scheme"
    using that by (auto simp: sent_rel_def)
qed

lemma sent_external [keeps_intros]: "Q e \<Longrightarrow> keeps (sent_rel Q) (external e g)"
  unfolding keeps_def sent_rel_def by (auto simp: exec_simps)

lemma sent_io_ops [keeps_intros]:
  "Q (Run h as b) \<Longrightarrow> keeps (sent_rel Q) (run_cmd h as b)"
  "Q (RunLine h l b) \<Longrightarrow> keeps (sent_rel Q) (run_line h l b)"
  "Q e \<Longrightarrow> keeps (sent_rel Q) (act e)"
  "Q e \<Longrightarrow> keeps (sent_rel Q) (flag e)"
  "Q (Daemon op r i c) \<Longrightarrow> keeps (sent_rel Q) (daemon op r i c)"
  "Q Now \<Longrightarrow> keeps (sent_rel Q) now"
  "Q (Sleep q) \<Longrightarrow> keeps (sent_rel Q) (sleep q)"
  "Q RandomBits \<Longrightarrow> keeps (sent_rel Q) random01"
  "Q RandomBits \<Longrightarrow> keeps (sent_rel Q) (random_uniform a b')"
  "Q RandomBits \<Longrightarrow> keeps (sent_rel Q) (random_choice xs)"
  "Q RandomBits \<Longrightarrow> keeps (sent_rel Q) (random_below n)"
  "Q RandomBits \<Longrightarrow> keeps (sent_rel Q) (random_randrange lo hi)"
  "Q (PollStop f) \<Longrightarrow> keeps (sent_rel Q) (poll_stop f)"
  unfolding io_defs by (intro keeps_intros; assumption?)+

lemma sent_sleep_value [keeps_intros]: "(\<And>q. Q (Sleep q)) \<Longrightarrow> keeps (sent_rel Q) (sleep_value v)"
  unfolding sleep_value_def by (intro keeps_intros)

lemma sent_py_str [keeps_intros]: "keeps (sent_rel Q) (py_str v)"
  by (cases v) (auto simp: py_str_def intro!: keeps_intros)

lemma sent_sample_from [keeps_intros]: "Q RandomBits \<Longrightarrow> keeps (sent_rel Q) (sample_from k xs)"
  by (induction k arbitrary: xs) (auto intro!: keeps_intros)

lemma sent_random_sample [keeps_intros]: "Q RandomBits \<Longrightarrow> keeps (sent_rel Q) (random_sample xs k)"
  unfolding random_sample_def by (intro keeps_intros)

lemma sent_loop [keeps_intros]:
  assumes "\<And>x. keeps (sent_rel Q) (b x)"
  shows "keeps (sent_rel Q) (loop b x)"
  using sent.keeps_loop_n [OF assms] by (simp add: keeps_def loop_def)

lemma sent_mono: "keeps (sent_rel Q) m \<Longrightarrow> (\<And>e. Q e \<Longrightarrow> Q' e) \<Longrightarrow> keeps (sent_rel Q') m"
  by (erule keeps_mono) (auto simp: sent_rel_def list_all_iff)

lemma sent_count:
  "sent_rel Q s s' \<Longrightarrow> (\<And>e. Q e \<Longrightarrow> \<not> P e) \<Longrightarrow> filter P (trace s') = filter P (trace s)"
  by (auto simp: sent_rel_def list_all_iff)

end
