(* ===== verification/Util.thy ===== *)
theory Util
  imports World
begin

text \<open>
  \<open>src/tasks/util/__init__.py\<close> (the host a role runs on) and \<open>src/tasks/util/rados.py\<close> (the
  rados command line and the commands that create pools and erasure code profiles).
\<close>

section \<open>util/__init__.py\<close>

definition get_remote :: "string \<Rightarrow> string \<Rightarrow> string \<Rightarrow> ('z, string) io" where
  "get_remote cl service_type service_id =
     bind (asks (\<lambda>E. env_only E (\<lambda>role. env_split_role E role = (cl, service_type, service_id)))) (\<lambda>remotes.
     if length remotes = 1 then ret (hd remotes)
     else raise KeyError (''Service '' @ cl @ ''.'' @ service_type @ ''.'' @ service_id @ '' not found''))"

definition get_remote_for_role :: "string \<Rightarrow> ('z, string) io" where
  "get_remote_for_role role =
     bind (asks (\<lambda>E. env_split_role E role)) (\<lambda>(cl, service_type, service_id).
     get_remote cl service_type service_id)"

section \<open>util/rados.py\<close>

definition coverage_args :: "env \<Rightarrow> string list" where
  "coverage_args E = [''adjust-ulimits'', ''zbkc-coverage'', env_testdir E @ ''/archive/coverage'']"

definition rados :: "string \<Rightarrow> string list \<Rightarrow> bool \<Rightarrow> ('z, int) io" where
  "rados remote cmd check_status =
     bind (asks coverage_args) (\<lambda>cov.
     bind (run_cmd remote (cov @ [''rados''] @ cmd) check_status) (\<lambda>proc.
     ret (exitstatus proc)))"

definition cmd_erasure_code_profile :: "string \<Rightarrow> (string \<times> string) list \<Rightarrow> string list" where
  "cmd_erasure_code_profile profile_name profile =
     (let profile' = (if profile = [] then
            [(''k'', ''2''), (''m'', ''1''), (''ruleset-failure-domain'', ''osd'')] else profile)
      in [''osd'', ''erasure-code-profile'', ''set'', profile_name] @
         map (\<lambda>(key, val). key @ ''='' @ val) profile')"

definition create_ec_pool :: "string \<Rightarrow> string \<Rightarrow> string \<Rightarrow> int \<Rightarrow> (string \<times> string) list \<Rightarrow> ('z, unit) io" where
  "create_ec_pool remote name profile_name pgnum profile =
     bind (run_cmd remote ([''sudo'', ''zbkc''] @ cmd_erasure_code_profile profile_name profile) True) (\<lambda>_.
     bind (run_cmd remote [''sudo'', ''zbkc'', ''osd'', ''pool'', ''create'', name,
             str_int pgnum, str_int pgnum, ''erasure'', profile_name] True) (\<lambda>_.
     ret ()))"

definition create_replicated_pool :: "string \<Rightarrow> string \<Rightarrow> int \<Rightarrow> ('z, unit) io" where
  "create_replicated_pool remote name pgnum =
     bind (run_cmd remote [''sudo'', ''zbkc'', ''osd'', ''pool'', ''create'', name,
             str_int pgnum, str_int pgnum] True) (\<lambda>_.
     ret ())"

definition create_cache_pool :: "string \<Rightarrow> string \<Rightarrow> string \<Rightarrow> int \<Rightarrow> int \<Rightarrow> ('z, unit) io" where
  "create_cache_pool remote base_name cache_name pgnum sz =
     bind (run_cmd remote [''sudo'', ''zbkc'', ''osd'', ''pool'', ''create'', cache_name, str_int pgnum] True) (\<lambda>_.
     bind (run_cmd remote [''sudo'', ''zbkc'', ''osd'', ''tier'', ''add-cache'', base_name, cache_name,
             str_int sz] True) (\<lambda>_.
     ret ()))"

lemmas util_defs = get_remote_def get_remote_for_role_def rados_def create_ec_pool_def
  create_replicated_pool_def create_cache_pool_def

context io_step
begin

lemma keeps_util [keeps_intros]:
  "keeps R (get_remote c t i)"
  "keeps R (get_remote_for_role role)"
  "keeps R (rados h cmd b)"
  "keeps R (create_ec_pool h name pn n prof)"
  "keeps R (create_replicated_pool h name n)"
  "keeps R (create_cache_pool h base name n k)"
  unfolding util_defs by (intro keeps_intros)+

end

section \<open>Properties\<close>

text \<open>Two different requests never produce the same profile command: an explicit profile can be
  read back from the command when its keys hold no equals sign, and the empty one stands for the
  three default settings.\<close>

lemma takeWhile_key: "CHR ''='' \<notin> set k \<Longrightarrow> takeWhile ((\<noteq>) (CHR ''='')) (k @ ''='' @ v) = k"
  by (induction k) auto

lemma dropWhile_key: "CHR ''='' \<notin> set k \<Longrightarrow> dropWhile ((\<noteq>) (CHR ''='')) (k @ ''='' @ v) = ''='' @ v"
  by (induction k) auto

lemma key_value_inject:
  assumes "CHR ''='' \<notin> set k" "CHR ''='' \<notin> set k'"
  shows "k @ ''='' @ v = k' @ ''='' @ v' \<longleftrightarrow> k = k' \<and> v = v'"
  using takeWhile_key dropWhile_key assms
  by (metis append_Cons append_Nil list.inject)

lemma profile_words_inject:
  assumes "\<forall>p \<in> set ps. CHR ''='' \<notin> set (fst p)" "\<forall>p \<in> set qs. CHR ''='' \<notin> set (fst p)"
  shows "map (\<lambda>(k, v). k @ ''='' @ v) ps = map (\<lambda>(k, v). k @ ''='' @ v) qs \<longleftrightarrow> ps = qs"
  using assms
proof (induction ps arbitrary: qs)
  case (Cons p ps)
  show ?case
  proof (cases qs)
    case (Cons q qs')
    show ?thesis
      using Cons Cons.prems Cons.IH [of qs'] key_value_inject [of "fst p" "fst q" "snd p" "snd q"]
      by (auto simp: case_prod_beta prod_eq_iff)
  qed (use Cons in simp)
qed auto

end
