(* ===== verification/Ending.thy ===== *)
theory Ending
  imports Util
begin

text \<open>
  Computations that end: \<open>ends k m\<close> says that \<open>m\<close> never stops for want of loop budget, from any
  state and with any answers, as soon as the environment allows \<open>k\<close> iterations. The theory has the
  rules for the combinators and the primitive operations, and the one for loops with a measure.
\<close>

definition ends :: "nat \<Rightarrow> (env, 's, 'a) pm \<Rightarrow> bool" where
  "ends k m \<longleftrightarrow> (\<forall>E s. k \<le> env_fuel E \<longrightarrow> fst (m E s) \<noteq> NoFuel)"

named_theorems ends_intros "rules for computations that end"

lemma endsI:
  fixes m :: "(env, 's, 'a) pm"
  shows "(\<And>E s s'. k \<le> env_fuel E \<Longrightarrow> m E s \<noteq> (NoFuel, s')) \<Longrightarrow> ends k m"
  by (auto simp: ends_def) (metis prod.collapse)

lemma endsD: "ends k m \<Longrightarrow> k \<le> env_fuel E \<Longrightarrow> m E s \<noteq> (NoFuel, s')"
  by (metis ends_def fst_conv)

lemma ends_more: "ends k m \<Longrightarrow> k \<le> n \<Longrightarrow> ends n m"
  by (simp add: ends_def)

lemma ends_basic [ends_intros]:
  "ends k (ret a)"
  "ends k (raise c msg)"
  "ends k (reraise x)"
  "ends k (gets f)"
  "ends k (asks g)"
  "ends k (modify h)"
  "ends k (py_assert b msg)"
  "ends k (of_option c msg opt)"
  "ends k (of_sum sm)"
  "ends k (external e ans)"
  by (auto simp: ends_def exec_simps split: option.split sum.split)

lemma ends_bind [ends_intros]:
  assumes "ends k m" and "\<And>a. ends k (f a)"
  shows "ends k (bind m f)"
  using endsD [OF assms(1)] endsD [OF assms(2)]
  by (intro endsI) (auto simp: exec_simps split: prod.splits res.splits)

lemma ends_if [ends_intros]: "(b \<Longrightarrow> ends k m1) \<Longrightarrow> (\<not> b \<Longrightarrow> ends k m2) \<Longrightarrow> ends k (if b then m1 else m2)"
  by simp

lemma ends_cases [ends_intros]:
  "ends k m1 \<Longrightarrow> (\<And>a. ends k (m2 a)) \<Longrightarrow> ends k (case x of None \<Rightarrow> m1 | Some a \<Rightarrow> m2 a)"
  "(\<And>a. ends k (n1 a)) \<Longrightarrow> (\<And>b. ends k (n2 b)) \<Longrightarrow> ends k (case y of Inl a \<Rightarrow> n1 a | Inr b \<Rightarrow> n2 b)"
  "(\<And>a b. ends k (p1 a b)) \<Longrightarrow> ends k (case z of (a, b) \<Rightarrow> p1 a b)"
  "ends k q1 \<Longrightarrow> (\<And>a as. ends k (q2 a as)) \<Longrightarrow> ends k (case l of [] \<Rightarrow> q1 | a # as \<Rightarrow> q2 a as)"
  "(\<And>v. ends k (r1 v)) \<Longrightarrow> ends k (let v = t in r1 v)"
  by (auto split: option.split sum.split prod.split list.split)

lemma ends_try [ends_intros]:
  assumes "ends k m" and "\<And>x. ends k (h x)"
  shows "ends k (try_except m catches h)"
  using endsD [OF assms(1)] endsD [OF assms(2)]
  by (intro endsI) (auto simp: exec_simps split: prod.splits res.splits if_splits)

lemma ends_try_finally [ends_intros]:
  assumes "ends k m" and "ends k h"
  shows "ends k (try_finally m h)"
  using endsD [OF assms(1)] endsD [OF assms(2)]
  by (intro endsI) (auto simp: exec_simps split: prod.splits res.splits)

lemma ends_for_each [ends_intros]: "(\<And>x. ends k (f x)) \<Longrightarrow> ends k (for_each xs f)"
  by (induction xs) (auto intro: ends_intros)

lemma ends_map_m [ends_intros]: "(\<And>x. ends k (g x)) \<Longrightarrow> ends k (map_m g xs)"
  by (induction xs) (auto intro: ends_intros)

lemma ends_mapfilter_m [ends_intros]: "(\<And>x. ends k (g x)) \<Longrightarrow> ends k (mapfilter_m g xs)"
  by (induction xs) (auto intro: ends_intros)

lemma ends_for_find [ends_intros]: "(\<And>x. ends k (g x)) \<Longrightarrow> ends k (for_find xs g)"
  by (induction xs) (auto intro!: ends_intros)

lemma ends_value_ops [ends_intros]:
  "ends k (item v key)"
  "ends k (cmd_arg v)"
  "ends k (as_list v)"
  "ends k (as_dict v)"
  "ends k (as_str v)"
  "ends k (as_num v)"
  "ends k (py_int v)"
  "ends k (py_len v)"
  "ends k (first_of xs)"
  "ends k (last_of xs)"
  "ends k (fmt f args)"
  "ends k (dict_config msg v)"
  by (auto simp: value_ops intro!: ends_intros split: pv.split list.split)

lemma ends_io_ops [ends_intros]:
  "ends k (run_cmd h as b)"
  "ends k (run_line h l b)"
  "ends k (act e)"
  "ends k (flag e)"
  "ends k (daemon op r i c)"
  "ends k now"
  "ends k (sleep q)"
  "ends k (sleep_value v)"
  "ends k random_bits"
  "ends k random01"
  "ends k (random_uniform a b')"
  "ends k (random_below n)"
  "ends k (random_choice xs)"
  "ends k (random_randrange lo hi)"
  "ends k (str_float q)"
  "ends k (poll_stop name)"
  "ends k (py_div q q')"
  "ends k (spawn g)"
  "ends k (set_stop g)"
  "ends k (join_greenlet g)"
  "ends k (randrange_float x y)"
  "ends k (wait_stop name q)"
  "ends k (only_remote role)"
  "ends k first_mon_remote"
  unfolding io_defs by (intro ends_intros)+

lemma ends_py_str [ends_intros]: "ends k (py_str v)"
  by (cases v) (auto simp: py_str_def intro!: ends_intros)

lemma ends_get_remote [ends_intros]: "ends k (get_remote c t i)"
  unfolding get_remote_def by (intro ends_intros)

text \<open>A loop whose local variables have a measure that every iteration makes smaller. \<open>I\<close> is an
  invariant of the local variables.\<close>

lemma ends_loop:
  assumes "I x" and "V x < k" and body: "\<And>x. ends k (b x)"
    and step: "\<And>x E s x' s'. I x \<Longrightarrow> b x E s = (Ok (Inl x'), s') \<Longrightarrow> I x' \<and> V x' < V x"
  shows "ends k (loop b x)"
proof (rule endsI)
  fix E :: env and s s'
  assume k: "k \<le> env_fuel E"
  have "post (loop_n (env_fuel E) b x) E s (\<lambda>r s'. r \<noteq> NoFuel)"
  proof (rule post_loop_n_total [where I = "\<lambda>x s. I x" and V = "\<lambda>x s. V x"])
    show "post (b x) E s (after (\<lambda>y s'. case y of Inl x' \<Rightarrow> I x' \<and> V x' < V x | Inr r \<Rightarrow> Ok r \<noteq> NoFuel)
        (\<lambda>r s'. r \<noteq> NoFuel))" if "I x" for x s
      using step [OF that] endsD [OF body k]
      by (intro postI) (auto simp: after_def split: res.split sum.split)
  qed (use assms k in auto)
  then show "loop b x E s \<noteq> (NoFuel, s')" by (auto simp: post_def loop_def)
qed

end
