(* ===== verification/Manager_Cmd.thy ===== *)
theory Manager_Cmd
  imports Ending
begin

text \<open>
  The class \<open>ZbkcManager\<close> of \<open>src/tasks/zbkc_manager.py\<close>: its state, the commands it sends to the
  cluster and to admin sockets, and the reading of the osd dump. The pool table, the placement
  group counters and the daemon operations are in the three theories after this one.
\<close>

section \<open>State\<close>

text \<open>\<open>mgr_controller\<close> is the remote the manager runs its commands on. The lock that makes the pool
  operations atomic against other greenlets has no effect inside one of them and is not part of
  the state.\<close>

record manager = sys +
  mgr_cluster :: string
  mgr_controller :: string
  mgr_config :: dict
  pools :: "(string \<times> int) list"
  next_pool_id :: int

type_synonym ('z, 'a) mgr = "(env, 'z manager_scheme, 'a) pm"

section \<open>Commands\<close>

definition zbkc_args :: "env \<Rightarrow> string \<Rightarrow> string \<Rightarrow> string list" where
  "zbkc_args E timeout cl =
     [''sudo''] @ coverage_args E @ [''timeout'', timeout, ''zbkc'', ''--cluster'', cl]"

definition raw_cluster_cmd :: "string list \<Rightarrow> ('z, string) mgr" where
  "raw_cluster_cmd args =
     bind (gets mgr_cluster) (\<lambda>cl.
     bind (gets mgr_controller) (\<lambda>controller.
     bind (asks (\<lambda>E. zbkc_args E ''120'' cl)) (\<lambda>pre.
     bind (run_cmd controller (pre @ args) True) (\<lambda>proc.
     ret (p_stdout proc)))))"

definition raw_cluster_cmd_result :: "string list \<Rightarrow> ('z, int) mgr" where
  "raw_cluster_cmd_result args =
     bind (gets mgr_cluster) (\<lambda>cl.
     bind (gets mgr_controller) (\<lambda>controller.
     bind (asks (\<lambda>E. zbkc_args E ''120'' cl)) (\<lambda>pre.
     bind (run_cmd controller (pre @ args) False) (\<lambda>proc.
     ret (exitstatus proc)))))"

definition run_zbkc_w :: "('z, unit) mgr" where
  "run_zbkc_w =
     bind (gets mgr_cluster) (\<lambda>cl.
     bind (gets mgr_controller) (\<lambda>controller.
     act (RunBg controller [''sudo'', ''daemon-helper'', ''kill'', ''zbkc'', ''--cluster'', cl, ''-w''])))"

definition do_rados :: "string \<Rightarrow> string list \<Rightarrow> bool \<Rightarrow> ('z, proc) mgr" where
  "do_rados remote cmd check_status =
     bind (gets mgr_cluster) (\<lambda>cl.
     bind (asks coverage_args) (\<lambda>cov.
     run_cmd remote (cov @ [''rados'', ''--cluster'', cl] @ cmd) check_status))"

definition rados_write_objects :: "string \<Rightarrow> int \<Rightarrow> int \<Rightarrow> int \<Rightarrow> bool \<Rightarrow> ('z, proc) mgr" where
  "rados_write_objects pool num_objects sz timelimit cleanup =
     bind (gets mgr_controller) (\<lambda>controller.
     do_rados controller
       ([''-p'', pool, ''--num-objects'', str_int num_objects, ''-b'', str_int sz,
         ''bench'', str_int timelimit, ''write''] @ (if cleanup then [] else [''--no-cleanup''])) True)"

definition namespace_args :: "string option \<Rightarrow> string list" where
  "namespace_args ns = (case ns of None \<Rightarrow> [] | Some n \<Rightarrow> [''-N'', n])"

definition do_put :: "string \<Rightarrow> string \<Rightarrow> string \<Rightarrow> string option \<Rightarrow> ('z, int) mgr" where
  "do_put pool obj fname namespace =
     bind (gets mgr_controller) (\<lambda>controller.
     bind (do_rados controller ([''-p'', pool] @ namespace_args namespace @ [''put'', obj, fname]) False) (\<lambda>proc.
     ret (exitstatus proc)))"

definition do_get :: "string \<Rightarrow> string \<Rightarrow> string \<Rightarrow> string option \<Rightarrow> ('z, int) mgr" where
  "do_get pool obj fname namespace =
     bind (gets mgr_controller) (\<lambda>controller.
     bind (do_rados controller ([''-p'', pool] @ namespace_args namespace @ [''get'', obj, fname]) False) (\<lambda>proc.
     ret (exitstatus proc)))"

definition do_rm :: "string \<Rightarrow> string \<Rightarrow> string option \<Rightarrow> ('z, int) mgr" where
  "do_rm pool obj namespace =
     bind (gets mgr_controller) (\<lambda>controller.
     bind (do_rados controller ([''-p'', pool] @ namespace_args namespace @ [''rm'', obj]) False) (\<lambda>proc.
     ret (exitstatus proc)))"

section \<open>Admin sockets\<close>

definition find_remote :: "string \<Rightarrow> string \<Rightarrow> ('z, string) mgr" where
  "find_remote service_type service_id =
     bind (gets mgr_cluster) (\<lambda>cl. get_remote cl service_type service_id)"

definition asok_path :: "string \<Rightarrow> string \<Rightarrow> string \<Rightarrow> string" where
  "asok_path cl service_type service_id = ''/var/run/zbkc/'' @ cl @ ''-'' @ service_type @ ''.'' @ service_id @ ''.asok''"

definition admin_socket :: "string \<Rightarrow> string \<Rightarrow> string list \<Rightarrow> bool \<Rightarrow> int \<Rightarrow> ('z, proc) mgr" where
  "admin_socket service_type service_id command check_status timeout =
     bind (find_remote service_type service_id) (\<lambda>remote.
     bind (gets mgr_cluster) (\<lambda>cl.
     bind (asks (\<lambda>E. zbkc_args E (str_int timeout) cl)) (\<lambda>pre.
     run_cmd remote (pre @ [''--admin-daemon'', asok_path cl service_type service_id] @ command) check_status)))"

definition osd_admin_socket :: "int \<Rightarrow> string list \<Rightarrow> bool \<Rightarrow> int \<Rightarrow> ('z, proc) mgr" where
  "osd_admin_socket osd_id command check_status timeout =
     admin_socket ''osd'' (str_int osd_id) command check_status timeout"

text \<open>One try every five seconds until the socket answers or \<open>tries * 5 > timeout\<close>.\<close>

definition wait_run_admin_socket_body ::
    "string \<Rightarrow> string \<Rightarrow> string list \<Rightarrow> pv \<Rightarrow> int \<Rightarrow> ('z, int + unit) mgr" where
  "wait_run_admin_socket_body service_type service_id args timeout tries =
     bind (admin_socket service_type service_id args False 0) (\<lambda>proc.
     if exitstatus proc = 0 then ret (Inr ())
     else if value_less_num timeout (of_int ((tries + 1) * 5)) then
       raise PlainException (''timed out waiting for admin_socket to appear after '' @
         service_type @ ''.'' @ service_id @ '' restart'')
     else bind (sleep 5) (\<lambda>_. ret (Inl (tries + 1))))"

definition wait_run_admin_socket :: "string \<Rightarrow> string \<Rightarrow> string list \<Rightarrow> pv \<Rightarrow> ('z, unit) mgr" where
  "wait_run_admin_socket service_type service_id args timeout =
     loop (wait_run_admin_socket_body service_type service_id args timeout) 0"

definition set_config :: "int \<Rightarrow> dict \<Rightarrow> ('z, unit) mgr" where
  "set_config osdnum argdict =
     for_each argdict (\<lambda>(k, v).
       bind (py_str v) (\<lambda>val.
       wait_run_admin_socket ''osd'' (str_int osdnum) [''config'', ''set'', k, val] (VInt 75)))"

section \<open>Status and osd dump\<close>

text \<open>The first line of a dump is not JSON.\<close>

definition loads_tail :: "string \<Rightarrow> ('z, pv) mgr" where
  "loads_tail out = loads (join [newline] (drop 1 (split_on newline out)))"

definition raw_cluster_status :: "('z, pv) mgr" where
  "raw_cluster_status = bind (raw_cluster_cmd [''status'', ''--format=json-pretty'']) loads"

definition raw_osd_status :: "('z, string) mgr" where
  "raw_osd_status = raw_cluster_cmd [''osd'', ''dump'']"

definition get_osd_dump_json :: "('z, pv) mgr" where
  "get_osd_dump_json = bind (raw_cluster_cmd [''osd'', ''dump'', ''--format=json'']) loads_tail"

definition get_osd_dump :: "('z, pv) mgr" where
  "get_osd_dump = bind get_osd_dump_json (\<lambda>j. item j ''osds'')"

definition list_pools :: "('z, string list) mgr" where
  "list_pools =
     bind get_osd_dump_json (\<lambda>osd_dump.
     bind (item osd_dump ''pools'') (\<lambda>ps.
     bind (as_list ps) (\<lambda>ps.
     map_m (\<lambda>i. bind (item i ''pool_name'') py_str) ps)))"

text \<open>The first element with \<open>d[key] == val\<close>; \<open>assert False\<close> when there is none.\<close>

fun find_item :: "string \<Rightarrow> string \<Rightarrow> pv list \<Rightarrow> ('z, pv option) mgr" where
  "find_item key val [] = ret None"
| "find_item key val (i # is) =
     bind (item i key) (\<lambda>v. if v = VStr val then ret (Some i) else find_item key val is)"

definition get_pool_dump :: "string \<Rightarrow> ('z, pv) mgr" where
  "get_pool_dump pool =
     bind get_osd_dump_json (\<lambda>osd_dump.
     bind (item osd_dump ''pools'') (\<lambda>ps.
     bind (as_list ps) (\<lambda>ps.
     bind (find_item ''pool_name'' pool ps) (\<lambda>r.
     of_option AssertionError [] r))))"

definition get_pool_num :: "string \<Rightarrow> ('z, int) mgr" where
  "get_pool_num pool = bind (get_pool_dump pool) (\<lambda>d. bind (item d ''pool'') py_int)"

text \<open>The number of a placement group is formatted into its id, so it is taken as text: some callers have
  a number, others the digits of an id.\<close>

definition get_pgid :: "string \<Rightarrow> string \<Rightarrow> ('z, string) mgr" where
  "get_pgid pool pgnum = bind (get_pool_num pool) (\<lambda>poolnum. ret (str_int poolnum @ ''.'' @ pgnum))"

definition kick_recovery_wq :: "int \<Rightarrow> ('z, string) mgr" where
  "kick_recovery_wq osdnum =
     raw_cluster_cmd [''tell'', ''osd.'' @ str_int osdnum, ''debug'', ''kick_recovery_wq'', ''0'']"

section \<open>The osd states\<close>

record osd_status =
  st_in :: "int list"
  st_out :: "int list"
  st_up :: "int list"
  st_down :: "int list"
  st_dead :: "int list"
  st_live :: "int list"
  st_raw :: "string list"

definition is_osd_line :: "string \<Rightarrow> bool" where
  "is_osd_line x \<longleftrightarrow> prefix ''osd.'' x \<and> (contains ''up'' x \<or> contains ''down'' x)"

text \<open>\<open>int(i[4:].split()[0])\<close>\<close>

definition line_osd :: "string \<Rightarrow> ('z, int) mgr" where
  "line_osd i = bind (first_of (py_split (drop 4 i))) (\<lambda>w. of_option ValueError w (int_of_string w))"

definition osds_with :: "string \<Rightarrow> string list \<Rightarrow> ('z, int list) mgr" where
  "osds_with word osd_lines = map_m line_osd (filter (contains word) osd_lines)"

definition daemon_osds :: "bool \<Rightarrow> ('z, int list) mgr" where
  "daemon_osds running =
     bind (gets mgr_cluster) (\<lambda>cl.
     bind (external (DaemonList ''osd'' cl) env_daemons) (\<lambda>ds.
     map_m (\<lambda>d. of_option ValueError (fst d) (int_of_string (fst d))) (filter (\<lambda>d. snd d = running) ds)))"

definition get_osd_status :: "('z, osd_status) mgr" where
  "get_osd_status =
     bind raw_osd_status (\<lambda>out.
     let osd_lines = filter is_osd_line (split_on newline out) in
     bind (osds_with '' in '' osd_lines) (\<lambda>in_osds.
     bind (osds_with '' out '' osd_lines) (\<lambda>out_osds.
     bind (osds_with '' up '' osd_lines) (\<lambda>up_osds.
     bind (osds_with '' down '' osd_lines) (\<lambda>down_osds.
     bind (daemon_osds False) (\<lambda>dead_osds.
     bind (daemon_osds True) (\<lambda>live_osds.
     ret \<lparr>st_in = in_osds, st_out = out_osds, st_up = up_osds, st_down = down_osds,
          st_dead = dead_osds, st_live = live_osds, st_raw = osd_lines\<rparr>)))))))"

section \<open>What the commands leave unchanged\<close>

text \<open>None of these operations changes anything but the trace: each respects every relation that
  allows adding events, whatever record the state is extended to.\<close>

lemmas manager_cmd_defs = raw_cluster_cmd_def raw_cluster_cmd_result_def run_zbkc_w_def do_rados_def
  rados_write_objects_def do_put_def do_get_def do_rm_def find_remote_def admin_socket_def
  osd_admin_socket_def wait_run_admin_socket_body_def wait_run_admin_socket_def set_config_def
  loads_tail_def loads_def raw_cluster_status_def raw_osd_status_def get_osd_dump_json_def
  get_osd_dump_def list_pools_def get_pool_dump_def get_pool_num_def get_pgid_def
  kick_recovery_wq_def line_osd_def osds_with_def daemon_osds_def get_osd_status_def

locale mgr_step = io_step R for R :: "'z manager_scheme \<Rightarrow> 'z manager_scheme \<Rightarrow> bool"
begin

lemma keeps_find_item [keeps_intros]: "keeps R (find_item key val xs)"
  by (induction xs) (auto intro!: keeps_intros)

lemma keeps_manager_cmd [keeps_intros]:
  "keeps R (raw_cluster_cmd as)"
  "keeps R (raw_cluster_cmd_result as)"
  "keeps R run_zbkc_w"
  "keeps R (do_rados h as b)"
  "keeps R (rados_write_objects p n k l b)"
  "keeps R (do_put p obj f ns)"
  "keeps R (do_get p obj f ns)"
  "keeps R (do_rm p obj ns)"
  "keeps R (find_remote t i)"
  "keeps R (admin_socket t i as b n)"
  "keeps R (osd_admin_socket j as b n)"
  "keeps R (wait_run_admin_socket t i as v)"
  "keeps R (set_config j d)"
  unfolding manager_cmd_defs by (intro keeps_intros)+

lemma keeps_manager_status [keeps_intros]:
  "keeps R raw_cluster_status"
  "keeps R raw_osd_status"
  "keeps R get_osd_dump_json"
  "keeps R get_osd_dump"
  "keeps R list_pools"
  "keeps R (get_pool_dump p)"
  "keeps R (get_pool_num p)"
  "keeps R (get_pgid p n)"
  "keeps R (kick_recovery_wq j)"
  "keeps R (line_osd l)"
  "keeps R (osds_with w ls)"
  "keeps R (daemon_osds b)"
  "keeps R get_osd_status"
  unfolding manager_cmd_defs by (intro keeps_intros)+

end

interpretation mio: mgr_step "io_rel :: 'z manager_scheme \<Rightarrow> 'z manager_scheme \<Rightarrow> bool"
  by unfold_locales

text \<open>What they send.\<close>

lemma raw_cluster_cmd_Ok:
  "raw_cluster_cmd args E s = (Ok out, s') \<Longrightarrow>
   s' = s\<lparr>trace := trace s @ [Run (mgr_controller s) (zbkc_args E ''120'' (mgr_cluster s) @ args) True]\<rparr>"
  by (auto simp: raw_cluster_cmd_def run_cmd_def exec_simps split: sum.splits)

lemma sent_raw_cluster_cmd [keeps_intros]:
  "(\<And>E h cl. Q (Run h (zbkc_args E ''120'' cl @ as) True)) \<Longrightarrow> keeps (sent_rel Q) (raw_cluster_cmd as)"
  unfolding raw_cluster_cmd_def keeps_def
  by (auto simp: exec_simps run_cmd_def sent_rel_def split: sum.split)

lemma sent_find_item [keeps_intros]: "keeps (sent_rel Q) (find_item key val xs)"
  by (induction xs) (auto intro!: keeps_intros)

lemma sent_loads [keeps_intros]: "keeps (sent_rel Q) (loads out)" "keeps (sent_rel Q) (loads_tail out)"
  unfolding loads_tail_def loads_def by (intro keeps_intros)+

end
