(* ===== verification/Manager_PG.thy ===== *)
theory Manager_PG
  imports Manager_Cmd
begin

text \<open>
  \<open>ZbkcManager\<close>: placement group statistics (histogram, counters by state), lookups by group and by
  object, scrubbing, and the loops that wait for the cluster to become clean, recovered, active or
  up.
\<close>

section \<open>Statistics\<close>

definition get_pg_stats :: "('z, pv list) mgr" where
  "get_pg_stats =
     bind (raw_cluster_cmd [''pg'', ''dump'', ''--format=json'']) (\<lambda>out.
     bind (loads_tail out) (\<lambda>j.
     bind (item j ''pg_stats'') as_list))"

definition pg_state :: "pv \<Rightarrow> ('z, string) mgr" where
  "pg_state pg = bind (item pg ''state'') as_str"

text \<open>\<open>ret[status] += 1\<close>, from 0 when the key is new\<close>

definition bump :: "string \<Rightarrow> (string \<times> int) list \<Rightarrow> (string \<times> int) list" where
  "bump status h = alist_put status ((case map_of h status of None \<Rightarrow> 0 | Some n \<Rightarrow> n) + 1) h"

fun histogram :: "(string \<times> int) list \<Rightarrow> pv list \<Rightarrow> ('z, (string \<times> int) list) mgr" where
  "histogram h [] = ret h"
| "histogram h (pg # pgs) = bind (pg_state pg) (\<lambda>st. histogram (fold bump (split_on (CHR ''+'') st) h) pgs)"

definition compile_pg_status :: "('z, (string \<times> int) list) mgr" where
  "compile_pg_status = bind get_pg_stats (histogram [])"

text \<open>\<open>for pg in pgs: if ...: num += 1\<close>\<close>

fun count_pgs :: "(string \<Rightarrow> bool) \<Rightarrow> pv list \<Rightarrow> ('z, int) mgr" where
  "count_pgs P [] = ret 0"
| "count_pgs P (pg # pgs) =
     bind (pg_state pg) (\<lambda>st. bind (count_pgs P pgs) (\<lambda>n. ret (if P st then n + 1 else n)))"

definition has :: "string \<Rightarrow> string \<Rightarrow> bool" where
  "has word st \<longleftrightarrow> count_sub word st \<noteq> 0"

definition pgst_creating :: "string \<Rightarrow> bool" where
  "pgst_creating st \<longleftrightarrow> contains ''creating'' st"

definition pgst_active_clean :: "string \<Rightarrow> bool" where
  "pgst_active_clean st \<longleftrightarrow> has ''active'' st \<and> has ''clean'' st \<and> \<not> has ''stale'' st"

definition pgst_active_recovered :: "string \<Rightarrow> bool" where
  "pgst_active_recovered st \<longleftrightarrow>
     has ''active'' st \<and> \<not> has ''recover'' st \<and> \<not> has ''backfill'' st \<and> \<not> has ''stale'' st"

definition pgst_active :: "string \<Rightarrow> bool" where
  "pgst_active st \<longleftrightarrow> has ''active'' st \<and> \<not> has ''stale'' st"

definition pgst_down :: "string \<Rightarrow> bool" where
  "pgst_down st \<longleftrightarrow> (has ''down'' st \<and> \<not> has ''stale'' st) \<or> (has ''incomplete'' st \<and> \<not> has ''stale'' st)"

definition pgst_active_down :: "string \<Rightarrow> bool" where
  "pgst_active_down st \<longleftrightarrow> (has ''active'' st \<and> \<not> has ''stale'' st) \<or> (has ''down'' st \<and> \<not> has ''stale'' st) \<or>
     (has ''incomplete'' st \<and> \<not> has ''stale'' st)"

definition get_num_creating :: "('z, int) mgr" where
  "get_num_creating = bind get_pg_stats (count_pgs pgst_creating)"

definition get_num_active_clean :: "('z, int) mgr" where
  "get_num_active_clean = bind get_pg_stats (count_pgs pgst_active_clean)"

definition get_num_active_recovered :: "('z, int) mgr" where
  "get_num_active_recovered = bind get_pg_stats (count_pgs pgst_active_recovered)"

definition get_num_active :: "('z, int) mgr" where
  "get_num_active = bind get_pg_stats (count_pgs pgst_active)"

definition get_num_down :: "('z, int) mgr" where
  "get_num_down = bind get_pg_stats (count_pgs pgst_down)"

definition get_num_active_down :: "('z, int) mgr" where
  "get_num_active_down = bind get_pg_stats (count_pgs pgst_active_down)"

definition get_num_pgs :: "('z, pv) mgr" where
  "get_num_pgs = bind raw_cluster_status (\<lambda>status. bind (item status ''pgmap'') (\<lambda>m. item m ''num_pgs''))"

definition get_num_unfound_objects :: "('z, pv) mgr" where
  "get_num_unfound_objects =
     bind raw_cluster_status (\<lambda>status.
     bind (item status ''pgmap'') (\<lambda>m.
     bind (as_dict m) (\<lambda>d. ret (dict_get d ''unfound_objects'' (VInt 0)))))"

definition get_is_making_recovery_progress :: "('z, bool) mgr" where
  "get_is_making_recovery_progress =
     bind raw_cluster_status (\<lambda>status.
     bind (item status ''pgmap'') (\<lambda>m.
     bind (as_dict m) (\<lambda>d.
     let kps = dict_get d ''recovering_keys_per_sec'' (VInt 0);
         bps = dict_get d ''recovering_bytes_per_sec'' (VInt 0);
         ops = dict_get d ''recovering_objects_per_sec'' (VInt 0)
     in ret (num_less_value 0 kps \<or> num_less_value 0 bps \<or> num_less_value 0 ops))))"

text \<open>\<open>n == v\<close> for an integer \<open>n\<close>\<close>

definition int_eq_value :: "int \<Rightarrow> pv \<Rightarrow> bool" where
  "int_eq_value n v \<longleftrightarrow> num_of v = Some (of_int n)"

definition all_pgs :: "('z, int) mgr \<Rightarrow> ('z, bool) mgr" where
  "all_pgs counter = bind counter (\<lambda>n. bind get_num_pgs (\<lambda>v. ret (int_eq_value n v)))"

definition is_clean :: "('z, bool) mgr" where
  "is_clean = all_pgs get_num_active_clean"

definition is_recovered :: "('z, bool) mgr" where
  "is_recovered = all_pgs get_num_active_recovered"

definition is_active_or_down :: "('z, bool) mgr" where
  "is_active_or_down = all_pgs get_num_active_down"

definition is_active :: "('z, bool) mgr" where
  "is_active = all_pgs get_num_active"

section \<open>Lookups\<close>

definition get_single_pg_stats :: "string \<Rightarrow> ('z, pv) mgr" where
  "get_single_pg_stats pgid =
     bind get_pg_stats (\<lambda>all_stats.
     bind (find_item ''pgid'' pgid all_stats) (\<lambda>r. ret (case r of None \<Rightarrow> VNone | Some pg \<Rightarrow> pg)))"

definition acting_of :: "string \<Rightarrow> int \<Rightarrow> ('z, pv list) mgr" where
  "acting_of pool pgnum =
     bind (raw_cluster_cmd [''pg'', ''dump'', ''--format=json'']) (\<lambda>output.
     bind (loads_tail output) (\<lambda>j.
     bind (get_pgid pool (str_int pgnum)) (\<lambda>pg_str.
     bind (item j ''pg_stats'') (\<lambda>stats.
     bind (as_list stats) (\<lambda>pgs.
     bind (find_item ''pgid'' pg_str pgs) (\<lambda>r.
     bind (of_option AssertionError [] r) (\<lambda>pg.
     bind (item pg ''acting'') as_list)))))))"

definition get_pg_replica :: "string \<Rightarrow> int \<Rightarrow> ('z, int) mgr" where
  "get_pg_replica pool pgnum = bind (acting_of pool pgnum) (\<lambda>acting. bind (last_of acting) py_int)"

definition get_pg_primary :: "string \<Rightarrow> int \<Rightarrow> ('z, int) mgr" where
  "get_pg_primary pool pgnum = bind (acting_of pool pgnum) (\<lambda>acting. bind (first_of acting) py_int)"

definition pg_state_has :: "string \<Rightarrow> string \<Rightarrow> int \<Rightarrow> ('z, bool) mgr" where
  "pg_state_has word pool pgnum =
     bind (get_pgid pool (str_int pgnum)) (\<lambda>pgstr.
     bind (get_single_pg_stats pgstr) (\<lambda>stats.
     bind (pg_state stats) (\<lambda>st. ret (contains word st))))"

definition pg_scrubbing :: "string \<Rightarrow> int \<Rightarrow> ('z, bool) mgr" where
  "pg_scrubbing pool pgnum = pg_state_has ''scrub'' pool pgnum"

definition pg_repairing :: "string \<Rightarrow> int \<Rightarrow> ('z, bool) mgr" where
  "pg_repairing pool pgnum = pg_state_has ''repair'' pool pgnum"

definition pg_inconsistent :: "string \<Rightarrow> int \<Rightarrow> ('z, bool) mgr" where
  "pg_inconsistent pool pgnum = pg_state_has ''inconsistent'' pool pgnum"

definition get_object_map :: "string \<Rightarrow> string \<Rightarrow> ('z, pv) mgr" where
  "get_object_map pool name = bind (raw_cluster_cmd [''--format=json'', ''osd'', ''map'', pool, name]) loads_tail"

definition get_object_primary :: "string \<Rightarrow> string \<Rightarrow> ('z, pv) mgr" where
  "get_object_primary pool name = bind (get_object_map pool name) (\<lambda>m. item m ''acting_primary'')"

text \<open>\<open>ERASURE_CODED_POOL = 3\<close>\<close>

definition get_object_pg_with_shard :: "string \<Rightarrow> string \<Rightarrow> pv \<Rightarrow> ('z, string) mgr" where
  "get_object_pg_with_shard pool name osdid =
     bind (get_pool_dump pool) (\<lambda>pool_dump.
     bind (get_object_map pool name) (\<lambda>object_map.
     bind (item pool_dump ''type'') (\<lambda>ty.
     if int_eq_value 3 ty then
       bind (item object_map ''acting'') (\<lambda>acting.
       bind (as_list acting) (\<lambda>acting.
       bind (of_option ValueError ''not in list'' (list_index osdid acting)) (\<lambda>shard.
       bind (item object_map ''pgid'') (\<lambda>pgid.
       bind (py_str pgid) (\<lambda>p.
       ret (p @ ''s'' @ str_int (int shard)))))))
     else bind (item object_map ''pgid'') py_str)))"

definition get_stuck_pgs :: "string \<Rightarrow> int \<Rightarrow> ('z, pv) mgr" where
  "get_stuck_pgs ty threshold =
     bind (raw_cluster_cmd [''pg'', ''dump_stuck'', ty, str_int threshold, ''--format=json'']) loads"

section \<open>Missing objects\<close>

text \<open>The replies come in pages; each page but the last has a true \<open>more\<close> and the next request
  carries the object id the page ended with.\<close>

definition put_item :: "string \<Rightarrow> pv \<Rightarrow> pv \<Rightarrow> ('z, pv) mgr" where
  "put_item k v r = (case r of VDict d \<Rightarrow> ret (VDict (alist_put k v d)) | _ \<Rightarrow> raise TypeError ''item assignment'')"

definition merge_page :: "pv option \<Rightarrow> pv \<Rightarrow> ('z, pv) mgr" where
  "merge_page r j = (case r of
       None \<Rightarrow> ret j
     | Some r0 \<Rightarrow>
         bind (item r0 ''objects'') (\<lambda>a. bind (as_list a) (\<lambda>xs.
         bind (item j ''objects'') (\<lambda>b. bind (as_list b) (\<lambda>ys.
         put_item ''objects'' (VList (xs @ ys)) r0)))))"

definition list_pg_missing_body :: "string \<Rightarrow> pv option \<times> pv \<Rightarrow> ('z, (pv option \<times> pv) + pv) mgr" where
  "list_pg_missing_body pgid = (\<lambda>(r, offset).
     bind (asks (\<lambda>E. json_dumps (\<lambda>q. env_repr E (VFloat q)) offset)) (\<lambda>off.
     bind (raw_cluster_cmd [''--'', ''pg'', pgid, ''list_missing'', off]) (\<lambda>out.
     bind (loads out) (\<lambda>j.
     bind (merge_page r j) (\<lambda>r1.
     bind (as_dict j) (\<lambda>d.
     case map_of d ''more'' of
       None \<Rightarrow> ret (Inr r1)
     | Some m \<Rightarrow>
         if int_eq_value 0 m then ret (Inr r1)
         else
           bind (item j ''objects'') (\<lambda>o1. bind (as_list o1) (\<lambda>objs.
           bind (last_of objs) (\<lambda>obj.
           bind (item obj ''oid'') (\<lambda>oid.
           ret (Inl (Some r1, oid))))))))))))"

definition list_pg_missing :: "string \<Rightarrow> ('z, pv) mgr" where
  "list_pg_missing pgid =
     bind (loop (list_pg_missing_body pgid) (None, VDict [])) (\<lambda>r.
     bind (as_dict r) (\<lambda>d. ret (VDict (alist_del ''more'' d))))"

section \<open>Scrubbing\<close>

definition get_last_scrub_stamp :: "string \<Rightarrow> string \<Rightarrow> ('z, pv) mgr" where
  "get_last_scrub_stamp pool pgnum =
     bind (get_pgid pool pgnum) (\<lambda>pgid.
     bind (get_single_pg_stats pgid) (\<lambda>stats. item stats ''last_scrub_stamp''))"

definition do_pg_scrub_body :: "string \<Rightarrow> string \<Rightarrow> string \<Rightarrow> pv \<Rightarrow> int \<Rightarrow> ('z, int + unit) mgr" where
  "do_pg_scrub_body pool pgnum stype init timer =
     bind (get_last_scrub_stamp pool pgnum) (\<lambda>stamp.
     if init \<noteq> stamp then ret (Inr ())
     else
       bind (py_assert (timer < 360) (''fatal timeout trying to '' @ stype)) (\<lambda>_.
       bind (if timer mod 120 = 0 then
               bind (get_pgid pool pgnum) (\<lambda>pgid.
               bind (raw_cluster_cmd [''pg'', stype, pgid]) (\<lambda>_. ret ()))
             else ret ()) (\<lambda>_.
       bind (sleep 10) (\<lambda>_.
       ret (Inl (timer + 10))))))"

definition do_pg_scrub :: "string \<Rightarrow> string \<Rightarrow> string \<Rightarrow> ('z, unit) mgr" where
  "do_pg_scrub pool pgnum stype =
     bind (get_last_scrub_stamp pool pgnum) (\<lambda>init. loop (do_pg_scrub_body pool pgnum stype init) 0)"


section \<open>Waiting\<close>

text \<open>\<open>start = time.time(); while not cond(): assert now - start < timeout; sleep 3\<close>, where a timeout
  of \<open>None\<close> waits for ever.\<close>

definition wait_until_body :: "('z, bool) mgr \<Rightarrow> pv \<Rightarrow> string \<Rightarrow> rat \<Rightarrow> ('z, rat + unit) mgr" where
  "wait_until_body cond timeout msg start =
     bind cond (\<lambda>c.
     if c then ret (Inr ())
     else
       bind (if timeout = VNone then ret ()
             else bind now (\<lambda>t. py_assert (num_less_value (t - start) timeout) msg)) (\<lambda>_.
       bind (sleep 3) (\<lambda>_.
       ret (Inl start))))"

definition wait_until :: "('z, bool) mgr \<Rightarrow> pv \<Rightarrow> string \<Rightarrow> ('z, unit) mgr" where
  "wait_until cond timeout msg = bind now (loop (wait_until_body cond timeout msg))"

text \<open>The same with a dump of the placement groups before the assertion, and with a start time that
  is set again whenever a counter changes. \<open>check\<close> is the part that tests the timeout; it returns
  the start time to go on with.\<close>

definition dump_and_assert :: "pv \<Rightarrow> string \<Rightarrow> rat \<Rightarrow> ('z, rat) mgr" where
  "dump_and_assert timeout msg start =
     bind (raw_cluster_cmd [''pg'', ''dump'']) (\<lambda>_.
     bind now (\<lambda>t.
     bind (py_assert (num_less_value (t - start) timeout) msg) (\<lambda>_.
     ret start)))"

definition check_timeout :: "pv \<Rightarrow> string \<Rightarrow> rat \<Rightarrow> ('z, rat) mgr" where
  "check_timeout timeout msg start =
     (if timeout = VNone then ret start
      else bind now (\<lambda>t.
        if value_le_num timeout (t - start) then dump_and_assert timeout msg start else ret start))"

definition wait_progress_body ::
    "('z, bool) mgr \<Rightarrow> ('z, int) mgr \<Rightarrow> (rat \<Rightarrow> ('z, rat) mgr) \<Rightarrow> rat \<times> int \<Rightarrow> ('z, (rat \<times> int) + unit) mgr" where
  "wait_progress_body cond counter check = (\<lambda>(start, num).
     bind cond (\<lambda>c.
     if c then ret (Inr ())
     else
       bind (check start) (\<lambda>start1.
       bind counter (\<lambda>cur.
       bind (if cur \<noteq> num then bind now (\<lambda>t. ret (t, cur)) else ret (start1, num)) (\<lambda>v.
       bind (sleep 3) (\<lambda>_.
       ret (Inl v)))))))"

definition wait_progress ::
    "('z, bool) mgr \<Rightarrow> ('z, int) mgr \<Rightarrow> (rat \<Rightarrow> ('z, rat) mgr) \<Rightarrow> ('z, unit) mgr" where
  "wait_progress cond counter check =
     bind now (\<lambda>start. bind counter (\<lambda>num. loop (wait_progress_body cond counter check) (start, num)))"

definition wait_for_clean :: "pv \<Rightarrow> ('z, unit) mgr" where
  "wait_for_clean timeout =
     wait_progress is_clean get_num_active_clean (\<lambda>start.
       if timeout = VNone then ret start
       else bind get_is_making_recovery_progress (\<lambda>p.
         if p then now
         else check_timeout timeout ''failed to become clean before timeout expired'' start))"

definition wait_for_recovery :: "pv \<Rightarrow> ('z, unit) mgr" where
  "wait_for_recovery timeout =
     wait_progress is_recovered get_num_active_recovered (\<lambda>start.
       bind now (\<lambda>t.
       if timeout = VNone then ret start
       else bind get_is_making_recovery_progress (\<lambda>p.
         if p then now
         else if value_le_num timeout (t - start) then
           bind (raw_cluster_cmd [''pg'', ''dump'']) (\<lambda>_.
           bind (py_assert (num_less_value (t - start) timeout) ''failed to recover before timeout expired'') (\<lambda>_.
           ret start))
         else ret start)))"

definition wait_for_active :: "pv \<Rightarrow> ('z, unit) mgr" where
  "wait_for_active timeout =
     wait_progress is_active get_num_active
       (check_timeout timeout ''failed to recover before timeout expired'')"

definition wait_for_active_or_down :: "pv \<Rightarrow> ('z, unit) mgr" where
  "wait_for_active_or_down timeout =
     wait_progress is_active_or_down get_num_active_down
       (check_timeout timeout ''failed to recover before timeout expired'')"

definition wait_till_active_body :: "pv \<Rightarrow> rat \<Rightarrow> ('z, rat + unit) mgr" where
  "wait_till_active_body timeout start =
     bind is_active (\<lambda>c.
     if c then ret (Inr ())
     else
       bind (check_timeout timeout ''failed to become active before timeout expired'' start) (\<lambda>_.
       bind (sleep 3) (\<lambda>_.
       ret (Inl start))))"

definition wait_till_active :: "pv \<Rightarrow> ('z, unit) mgr" where
  "wait_till_active timeout = bind now (loop (wait_till_active_body timeout))"

text \<open>\<open>y['up'] > 0\<close>\<close>

definition osd_up :: "pv \<Rightarrow> ('z, bool) mgr" where
  "osd_up y = bind (item y ''up'') (\<lambda>u. ret (num_less_value 0 u))"

definition are_all_osds_up :: "('z, bool) mgr" where
  "are_all_osds_up =
     bind get_osd_dump (\<lambda>x. bind (as_list x) (\<lambda>x.
     bind (map_m osd_up x) (\<lambda>ups.
     ret (length x = length (filter id ups)))))"

definition wait_for_all_up :: "pv \<Rightarrow> ('z, unit) mgr" where
  "wait_for_all_up timeout = wait_until are_all_osds_up timeout ''timeout expired in wait_for_all_up''"

text \<open>\<open>osds[osd]\<close>: the position in the dump, negative positions from the end\<close>

definition at_index :: "'a list \<Rightarrow> int \<Rightarrow> ('z, 'a) mgr" where
  "at_index xs i =
     (let n = int (length xs); j = (if i < 0 then n + i else i)
      in if 0 \<le> j \<and> j < n then ret (xs ! nat j) else raise IndexError ''list index out of range'')"

definition osd_is_up :: "int \<Rightarrow> ('z, bool) mgr" where
  "osd_is_up osd =
     bind get_osd_dump (\<lambda>x. bind (as_list x) (\<lambda>osds. bind (at_index osds osd) osd_up))"

definition wait_till_osd_is_up :: "int \<Rightarrow> pv \<Rightarrow> ('z, unit) mgr" where
  "wait_till_osd_is_up osd timeout =
     wait_until (osd_is_up osd) timeout (''osd.'' @ str_int osd @ '' failed to come up before timeout expired'')"

section \<open>What these operations leave unchanged\<close>

lemmas manager_pg_defs = get_pg_stats_def pg_state_def compile_pg_status_def get_num_creating_def
  get_num_active_clean_def get_num_active_recovered_def get_num_active_def get_num_down_def
  get_num_active_down_def get_num_pgs_def get_num_unfound_objects_def
  get_is_making_recovery_progress_def all_pgs_def is_clean_def is_recovered_def
  is_active_or_down_def is_active_def get_single_pg_stats_def acting_of_def get_pg_replica_def
  get_pg_primary_def pg_state_has_def pg_scrubbing_def pg_repairing_def pg_inconsistent_def
  get_object_map_def get_object_primary_def get_object_pg_with_shard_def get_stuck_pgs_def
  put_item_def merge_page_def list_pg_missing_body_def list_pg_missing_def
  get_last_scrub_stamp_def do_pg_scrub_body_def do_pg_scrub_def

lemmas manager_wait_defs = wait_until_body_def wait_until_def dump_and_assert_def check_timeout_def
  wait_progress_body_def wait_progress_def wait_for_clean_def wait_for_recovery_def
  wait_for_active_def wait_for_active_or_down_def wait_till_active_body_def wait_till_active_def
  osd_up_def are_all_osds_up_def wait_for_all_up_def at_index_def osd_is_up_def
  wait_till_osd_is_up_def

context mgr_step
begin

lemma keeps_put_item [keeps_intros]: "keeps R (put_item k v r)"
  unfolding put_item_def by (cases r) (auto intro: keeps_intros)

lemma keeps_pg_lists [keeps_intros]:
  "keeps R (pg_state pg)" "keeps R (count_pgs P pgs)" "keeps R (histogram h pgs)"
proof -
  show st: "keeps R (pg_state pg)" for pg
    unfolding pg_state_def by (intro keeps_intros)
  show "keeps R (count_pgs P pgs)"
    by (induction pgs) (auto intro!: keeps_intros st)
  show "keeps R (histogram h pgs)"
    by (induction pgs arbitrary: h) (auto intro!: keeps_intros st)
qed

lemma keeps_get_pg_stats [keeps_intros]: "keeps R get_pg_stats"
  unfolding get_pg_stats_def loads_tail_def loads_def by (intro keeps_intros)

lemma keeps_manager_pg [keeps_intros]:
  "keeps R compile_pg_status"
  "keeps R get_num_creating"
  "keeps R get_num_active_clean"
  "keeps R get_num_active_recovered"
  "keeps R get_num_active"
  "keeps R get_num_down"
  "keeps R get_num_active_down"
  "keeps R get_num_pgs"
  "keeps R get_num_unfound_objects"
  "keeps R get_is_making_recovery_progress"
  "keeps R is_clean"
  "keeps R is_recovered"
  "keeps R is_active_or_down"
  "keeps R is_active"
  "keeps R (get_single_pg_stats p)"
  "keeps R (get_pg_replica p n)"
  "keeps R (get_pg_primary p n)"
  "keeps R (pg_scrubbing p n)"
  "keeps R (pg_repairing p n)"
  "keeps R (pg_inconsistent p n)"
  unfolding manager_pg_defs loads_tail_def loads_def by (intro keeps_intros)+

lemma keeps_manager_pg2 [keeps_intros]:
  "keeps R (get_object_map p ob)"
  "keeps R (get_object_primary p ob)"
  "keeps R (get_object_pg_with_shard p ob v)"
  "keeps R (get_stuck_pgs t n)"
  "keeps R (get_last_scrub_stamp p w)"
  "keeps R (do_pg_scrub p w t)"
  unfolding manager_pg_defs loads_tail_def loads_def by (intro keeps_intros)+

lemma keeps_list_pg_missing [keeps_intros]: "keeps R (list_pg_missing p)"
  unfolding list_pg_missing_def list_pg_missing_body_def merge_page_def loads_def
  by (intro keeps_intros)

lemma keeps_check_timeout [keeps_intros]: "keeps R (check_timeout v m q)"
  unfolding check_timeout_def dump_and_assert_def by (intro keeps_intros)

lemma keeps_wait_until [keeps_intros]: "keeps R c \<Longrightarrow> keeps R (wait_until c v m)"
  unfolding wait_until_def wait_until_body_def by (intro keeps_intros)

lemma keeps_wait_progress [keeps_intros]:
  "keeps R c \<Longrightarrow> keeps R n \<Longrightarrow> (\<And>q. keeps R (k q)) \<Longrightarrow> keeps R (wait_progress c n k)"
  unfolding wait_progress_def wait_progress_body_def by (intro keeps_intros)

lemma keeps_manager_wait [keeps_intros]:
  "keeps R (wait_for_clean v)"
  "keeps R (wait_for_recovery v)"
  "keeps R (wait_for_active v)"
  "keeps R (wait_for_active_or_down v)"
  "keeps R (wait_till_active v)"
  "keeps R are_all_osds_up"
  "keeps R (wait_for_all_up v)"
  "keeps R (osd_is_up j)"
  "keeps R (wait_till_osd_is_up j v)"
  unfolding wait_for_clean_def wait_for_recovery_def wait_for_active_def wait_for_active_or_down_def
    wait_till_active_def wait_till_active_body_def are_all_osds_up_def osd_up_def wait_for_all_up_def
    osd_is_up_def at_index_def wait_till_osd_is_up_def
  by (intro keeps_intros)+

end

end
