(* ===== verification/Manager_Pool.thy ===== *)
theory Manager_Pool
  imports Manager_PG
begin

text \<open>
  \<open>ZbkcManager\<close>: the constructor and the table of pools (\<open>self.pools\<close>, pool name to number of
  placement groups) with the operations that create, remove, grow and query pools.
\<close>

section \<open>Properties of a pool\<close>

definition get_pool_property :: "string \<Rightarrow> string \<Rightarrow> ('z, int) mgr" where
  "get_pool_property pool_name prop =
     bind (raw_cluster_cmd [''osd'', ''pool'', ''get'', pool_name, prop]) (\<lambda>output.
     (case py_split output of
        _ # w # _ \<Rightarrow> of_option ValueError w (int_of_string w)
      | _ \<Rightarrow> raise IndexError ''list index out of range''))"

text \<open>Up to 51 tries, two seconds apart, while the cluster answers 11 (EAGAIN).\<close>

definition set_pool_property_body :: "string \<Rightarrow> string \<Rightarrow> int \<Rightarrow> int \<Rightarrow> ('z, int + unit) mgr" where
  "set_pool_property_body pool_name prop val tries =
     bind (raw_cluster_cmd_result [''osd'', ''pool'', ''set'', pool_name, prop, str_int val]) (\<lambda>r.
     if r \<noteq> 11 then ret (Inr ())
     else if 50 < tries + 1 then
       raise PlainException (''timed out getting EAGAIN when setting pool property '' @
         pool_name @ '' '' @ prop @ '' = '' @ str_int val)
     else bind (sleep 2) (\<lambda>_. ret (Inl (tries + 1))))"

definition set_pool_property :: "string \<Rightarrow> string \<Rightarrow> int \<Rightarrow> ('z, unit) mgr" where
  "set_pool_property pool_name prop val = loop (set_pool_property_body pool_name prop val) 0"

section \<open>The constructor\<close>

definition record_pool :: "string \<Rightarrow> ('z, unit) mgr" where
  "record_pool pool =
     try_except
       (bind (get_pool_property pool ''pg_num'') (\<lambda>n. modify (\<lambda>s. s\<lparr>pools := alist_put pool n (pools s)\<rparr>)))
       is_CommandFailed (\<lambda>_. ret ())"

definition manager_init :: "string \<Rightarrow> dict option \<Rightarrow> string \<Rightarrow> ('z, unit) mgr" where
  "manager_init controller config cl =
     bind (modify (\<lambda>s. s\<lparr>mgr_config := (case config of None \<Rightarrow> [] | Some d \<Rightarrow> d),
             mgr_controller := controller, next_pool_id := 0, mgr_cluster := cl\<rparr>)) (\<lambda>_.
     bind list_pools (\<lambda>ps.
     bind (modify (\<lambda>s. s\<lparr>pools := []\<rparr>)) (\<lambda>_.
     for_each ps record_pool)))"

section \<open>Creating and removing\<close>

definition create_pool :: "string \<Rightarrow> int \<Rightarrow> string option \<Rightarrow> int option \<Rightarrow> bool \<Rightarrow> ('z, unit) mgr" where
  "create_pool pool_name pg_num erasure_code_profile_name min_size hacky_overwrites =
     bind (gets pools) (\<lambda>ps.
     bind (py_assert (pool_name \<notin> fst ` set ps) []) (\<lambda>_.
     bind (case erasure_code_profile_name of
             Some (c # cs) \<Rightarrow> raw_cluster_cmd [''osd'', ''pool'', ''create'', pool_name,
                 str_int pg_num, str_int pg_num, ''erasure'', c # cs]
           | _ \<Rightarrow> raw_cluster_cmd [''osd'', ''pool'', ''create'', pool_name, str_int pg_num]) (\<lambda>_.
     bind (case min_size of
             None \<Rightarrow> ret []
           | Some m \<Rightarrow> raw_cluster_cmd [''osd'', ''pool'', ''set'', pool_name, ''min_size'', str_int m]) (\<lambda>_.
     bind (if hacky_overwrites then
             raw_cluster_cmd [''osd'', ''pool'', ''set'', pool_name,
               ''debug_white_box_testing_ec_overwrites'', ''true'']
           else ret []) (\<lambda>_.
     bind (modify (\<lambda>s. s\<lparr>pools := alist_put pool_name pg_num (pools s)\<rparr>)) (\<lambda>_.
     sleep 1))))))"

definition unique_pool_name :: "int \<Rightarrow> string" where
  "unique_pool_name i = ''unique_pool_'' @ str_int i"

definition create_pool_with_unique_name :: "int \<Rightarrow> string option \<Rightarrow> int option \<Rightarrow> bool \<Rightarrow> ('z, string) mgr" where
  "create_pool_with_unique_name pg_num erasure_code_profile_name min_size hacky_overwrites =
     bind (gets next_pool_id) (\<lambda>i.
     let name = unique_pool_name i in
     bind (modify (\<lambda>s. s\<lparr>next_pool_id := next_pool_id s + 1\<rparr>)) (\<lambda>_.
     bind (create_pool name pg_num erasure_code_profile_name min_size hacky_overwrites) (\<lambda>_.
     ret name)))"

definition remove_pool :: "string \<Rightarrow> ('z, unit) mgr" where
  "remove_pool pool_name =
     bind (gets pools) (\<lambda>ps.
     bind (py_assert (pool_name \<in> fst ` set ps) []) (\<lambda>_.
     bind (modify (\<lambda>s. s\<lparr>pools := alist_del pool_name (pools s)\<rparr>)) (\<lambda>_.
     bind (gets mgr_controller) (\<lambda>controller.
     bind (do_rados controller [''rmpool'', pool_name, pool_name, ''--yes-i-really-really-mean-it''] True) (\<lambda>_.
     ret ())))))"

text \<open>\<open>with manager.pool(...): body\<close>; as in the source, the pool is left behind when the body raises.\<close>

definition with_pool :: "string \<Rightarrow> int \<Rightarrow> string option \<Rightarrow> ('z, 'a) mgr \<Rightarrow> ('z, 'a) mgr" where
  "with_pool pool_name pg_num erasure_code_profile_name body =
     bind (create_pool pool_name pg_num erasure_code_profile_name None False) (\<lambda>_.
     bind body (\<lambda>a.
     bind (remove_pool pool_name) (\<lambda>_.
     ret a)))"

definition clear_pools :: "('z, unit) mgr" where
  "clear_pools = bind list_pools (\<lambda>ps. for_each ps remove_pool)"

definition create_erasure_code_profile :: "string \<Rightarrow> (string \<times> string) list \<Rightarrow> ('z, unit) mgr" where
  "create_erasure_code_profile profile_name profile =
     bind (raw_cluster_cmd (cmd_erasure_code_profile profile_name profile)) (\<lambda>_. ret ())"

definition add_pool_snap :: "string \<Rightarrow> string \<Rightarrow> ('z, unit) mgr" where
  "add_pool_snap pool_name snap_name =
     bind (raw_cluster_cmd [''osd'', ''pool'', ''mksnap'', pool_name, snap_name]) (\<lambda>_. ret ())"

definition remove_pool_snap :: "string \<Rightarrow> string \<Rightarrow> ('z, unit) mgr" where
  "remove_pool_snap pool_name snap_name =
     bind (raw_cluster_cmd [''osd'', ''pool'', ''rmsnap'', pool_name, snap_name]) (\<lambda>_. ret ())"

section \<open>Querying and growing\<close>

definition get_pool :: "('z, string) mgr" where
  "get_pool = bind (gets pools) (\<lambda>ps. random_choice (map fst ps))"

definition get_pool_pg_num :: "string \<Rightarrow> ('z, int) mgr" where
  "get_pool_pg_num pool_name =
     bind (gets pools) (\<lambda>ps. ret (case map_of ps pool_name of None \<Rightarrow> 0 | Some n \<Rightarrow> n))"

text \<open>\<open>isinstance(v, int)\<close>, with the integer\<close>

definition int_instance :: "pv \<Rightarrow> int option" where
  "int_instance v = (case v of VInt i \<Rightarrow> Some i | VBool b \<Rightarrow> Some (of_bool b) | _ \<Rightarrow> None)"

definition as_int :: "pv \<Rightarrow> ('z, int) io" where
  "as_int v = of_option TypeError ''integer argument expected'' (int_instance v)"

text \<open>\<open>max_pgs\<close> is whatever the caller passes: the comparison is Python's.\<close>

definition expand_pool :: "string \<Rightarrow> pv \<Rightarrow> pv \<Rightarrow> ('z, unit) mgr" where
  "expand_pool pool_name by max_pgs =
     bind (of_option AssertionError [] (int_instance by)) (\<lambda>n.
     bind (gets pools) (\<lambda>ps.
     bind (of_option AssertionError [] (map_of ps pool_name)) (\<lambda>cur.
     bind get_num_creating (\<lambda>c.
     if 0 < c then ret ()
     else if value_less_num max_pgs (of_int (cur + n)) then ret ()
     else
       bind (set_pool_property pool_name ''pg_num'' (cur + n)) (\<lambda>_.
       modify (\<lambda>s. s\<lparr>pools := alist_put pool_name (cur + n) (pools s)\<rparr>))))))"

definition set_pool_pgpnum :: "string \<Rightarrow> ('z, unit) mgr" where
  "set_pool_pgpnum pool_name =
     bind (gets pools) (\<lambda>ps.
     bind (of_option AssertionError [] (map_of ps pool_name)) (\<lambda>cur.
     bind get_num_creating (\<lambda>c.
     if 0 < c then ret ()
     else set_pool_property pool_name ''pgp_num'' cur)))"


section \<open>What these operations change\<close>

lemmas manager_pool_defs = get_pool_property_def set_pool_property_body_def set_pool_property_def
  record_pool_def create_pool_def create_pool_with_unique_name_def remove_pool_def with_pool_def
  clear_pools_def create_erasure_code_profile_def add_pool_snap_def remove_pool_snap_def
  get_pool_def get_pool_pg_num_def expand_pool_def set_pool_pgpnum_def

context io_step
begin

lemma keeps_as_int [keeps_intros]: "keeps R (as_int v)"
  unfolding as_int_def by (intro keeps_intros)

end

context mgr_step
begin

lemma keeps_pool_queries [keeps_intros]:
  "keeps R (get_pool_property p prop)"
  "keeps R (set_pool_property p prop n)"
  "keeps R (create_erasure_code_profile p prof)"
  "keeps R (add_pool_snap p sn)"
  "keeps R (remove_pool_snap p sn)"
  "keeps R get_pool"
  "keeps R (get_pool_pg_num p)"
  "keeps R (set_pool_pgpnum p)"
  unfolding manager_pool_defs by (intro keeps_intros)+

end

text \<open>The contract for the operations that change the table: the relation allows setting and
  deleting one entry and taking the next pool number.\<close>

locale pool_step = mgr_step R for R :: "'z manager_scheme \<Rightarrow> 'z manager_scheme \<Rightarrow> bool" +
  assumes step_put: "R s (s\<lparr>pools := alist_put k n (pools s)\<rparr>)"
    and step_del: "R s (s\<lparr>pools := alist_del k (pools s)\<rparr>)"
    and step_next: "R s (s\<lparr>next_pool_id := next_pool_id s + 1\<rparr>)"
begin

lemma keeps_put [keeps_intros]: "keeps R (modify (\<lambda>s. s\<lparr>pools := alist_put k n (pools s)\<rparr>))"
  by (rule keeps_modify) (rule step_put)

lemma keeps_del [keeps_intros]: "keeps R (modify (\<lambda>s. s\<lparr>pools := alist_del k (pools s)\<rparr>))"
  by (rule keeps_modify) (rule step_del)

lemma keeps_next [keeps_intros]: "keeps R (modify (\<lambda>s. s\<lparr>next_pool_id := next_pool_id s + 1\<rparr>))"
  by (rule keeps_modify) (rule step_next)

lemma keeps_pool_table [keeps_intros]:
  "keeps R (record_pool p)"
  "keeps R (create_pool p n prof ms hacky)"
  "keeps R (create_pool_with_unique_name n prof ms hacky)"
  "keeps R (remove_pool p)"
  "keeps R clear_pools"
  "keeps R (expand_pool p v w)"
  unfolding manager_pool_defs by (intro keeps_intros)+

lemma keeps_with_pool [keeps_intros]: "keeps R body \<Longrightarrow> keeps R (with_pool p n prof body)"
  unfolding with_pool_def by (intro keeps_intros)

end

text \<open>Two relations every pool operation respects: the table keeps one entry per pool, and the pool
  number never goes back.\<close>

definition pools_wf :: "'z manager_scheme \<Rightarrow> bool" where
  "pools_wf s \<longleftrightarrow> distinct (map fst (pools s))"

definition table_rel :: "'z manager_scheme \<Rightarrow> 'z manager_scheme \<Rightarrow> bool" where
  "table_rel s s' \<longleftrightarrow> (pools_wf s \<longrightarrow> pools_wf s') \<and> next_pool_id s \<le> next_pool_id s' \<and>
     mgr_cluster s' = mgr_cluster s \<and> mgr_controller s' = mgr_controller s \<and> mgr_config s' = mgr_config s"

interpretation table: pool_step table_rel
  by unfold_locales (auto simp: table_rel_def pools_wf_def distinct_alist_put distinct_alist_del)

end
