(* ===== verification/Manager_Daemon.thy ===== *)
theory Manager_Daemon
  imports Manager_Pool
begin

text \<open>
  \<open>ZbkcManager\<close>: stopping, restarting and marking osds and monitors, the monitor quorum; the
  function \<open>mount_osd_data\<close>; and the class \<open>ObjectStoreTool\<close>, which runs the offline tool on a
  stopped osd.
\<close>

section \<open>The configuration file\<close>

text \<open>The file is fed to the standard input of one shell command on every host.\<close>

definition write_conf :: "string \<Rightarrow> ('z, unit) io" where
  "write_conf conf_path =
     act (RunAll [''sudo'', ''mkdir'', ''-p'', ''/etc/zbkc'', ''&&'', ''sudo'', ''chmod'', ''0755'', ''/etc/zbkc'', ''&&'',
       ''sudo'', ''python'', ''-c'',
       ''import shutil, sys; shutil.copyfileobj(sys.stdin, file(sys.argv[1], '' @ [quote] @ ''wb'' @ [quote] @ ''))'',
       conf_path, ''&&'', ''sudo'', ''chmod'', ''0644'', conf_path])"

section \<open>Mounting\<close>

definition mount_osd_data :: "string \<Rightarrow> string \<Rightarrow> string \<Rightarrow> ('z, unit) io" where
  "mount_osd_data remote cl osd =
     (let role0 = cl @ ''.osd.'' @ osd;
          alt_role = (if cl \<noteq> ''zbkc'' then role0 else ''osd.'' @ osd)
      in bind (asks (\<lambda>E. env_disks E remote)) (\<lambda>disks.
         case disks of
           None \<Rightarrow> ret ()
         | Some roles \<Rightarrow>
             (let role = (if alt_role \<in> fst ` set roles then alt_role else role0)
              in case map_of roles role of
                   None \<Rightarrow> ret ()
                 | Some (dev, mount_options, fstype) \<Rightarrow>
                     bind (run_cmd remote [''sudo'', ''mount'', ''-t'', fstype, ''-o'', join '','' mount_options,
                             dev, ''/var/lib/zbkc/osd/'' @ cl @ ''-'' @ osd] True) (\<lambda>_.
                     ret ()))))"

section \<open>Osds\<close>

definition mark_out_osd :: "int \<Rightarrow> ('z, unit) mgr" where
  "mark_out_osd osd = bind (raw_cluster_cmd [''osd'', ''out'', str_int osd]) (\<lambda>_. ret ())"

definition mark_in_osd :: "int \<Rightarrow> ('z, unit) mgr" where
  "mark_in_osd osd = bind (raw_cluster_cmd [''osd'', ''in'', str_int osd]) (\<lambda>_. ret ())"

definition mark_down_osd :: "int \<Rightarrow> ('z, unit) mgr" where
  "mark_down_osd osd = bind (raw_cluster_cmd [''osd'', ''down'', str_int osd]) (\<lambda>_. ret ())"

definition assert_ipmi :: "string \<Rightarrow> ('z, unit) mgr" where
  "assert_ipmi remote =
     bind (asks (\<lambda>E. env_has_ipmi E remote)) (\<lambda>b.
     py_assert b ''powercycling requested but RemoteConsole is not initialized.  Check ipmi config.'')"

definition make_admin_daemon_dir :: "string \<Rightarrow> ('z, unit) mgr" where
  "make_admin_daemon_dir remote =
     bind (run_cmd remote [''sudo'', ''install'', ''-d'', ''-m0777'', ''--'', ''/var/run/zbkc''] True) (\<lambda>_. ret ())"

definition mgr_daemon :: "daemon_op \<Rightarrow> string \<Rightarrow> string \<Rightarrow> ('z, unit) mgr" where
  "mgr_daemon op role i = bind (gets mgr_cluster) (\<lambda>cl. daemon op role i cl)"

text \<open>\<open>'%d' % v\<close>\<close>

definition fmt_d :: "pv \<Rightarrow> ('z, string) mgr" where
  "fmt_d v = bind (as_num v) (\<lambda>q. ret (str_int (if 0 \<le> q then \<lfloor>q\<rfloor> else \<lceil>q\<rceil>)))"

definition kill_osd :: "int \<Rightarrow> ('z, unit) mgr" where
  "kill_osd osd =
     bind (gets mgr_config) (\<lambda>config.
     if truthy (dict_get config ''powercycle'' VNone) then
       bind (find_remote ''osd'' (str_int osd)) (\<lambda>remote.
       bind (assert_ipmi remote) (\<lambda>_.
       act (Power PowerOff remote)))
     else if truthy (dict_get config ''bdev_inject_crash'' VNone) \<and>
             truthy (dict_get config ''bdev_inject_crash_probability'' VNone) then
       bind (random_uniform 0 1) (\<lambda>x.
       if num_less_value x (dict_get config ''bdev_inject_crash_probability'' (VFloat (1 / 2))) then
         bind (fmt_d (dict_get config ''bdev_inject_crash'' VNone)) (\<lambda>n.
         bind (raw_cluster_cmd [''--'', ''tell'', ''osd.'' @ str_int osd, ''injectargs'',
                 ''--bdev-inject-crash '' @ n]) (\<lambda>_.
         bind (try_except (bind (mgr_daemon DWait ''osd'' (str_int osd)) (\<lambda>_. ret True)) any_class (\<lambda>_. ret False)) (\<lambda>ended.
         if ended then raise RuntimeError (''osd.'' @ str_int osd @ '' did not fail'') else ret ())))
       else mgr_daemon DStop ''osd'' (str_int osd))
     else mgr_daemon DStop ''osd'' (str_int osd))"

definition blackhole_kill_osd :: "int \<Rightarrow> ('z, unit) mgr" where
  "blackhole_kill_osd osd =
     bind (raw_cluster_cmd [''--'', ''tell'', ''osd.'' @ str_int osd, ''injectargs'', ''--objectstore-blackhole'']) (\<lambda>_.
     bind (sleep 2) (\<lambda>_.
     mgr_daemon DStop ''osd'' (str_int osd)))"

text \<open>The id of an osd is a number, or the name of its role as a string.\<close>

definition revive_osd_id :: "string \<Rightarrow> pv \<Rightarrow> bool \<Rightarrow> ('z, unit) mgr" where
  "revive_osd_id osd timeout skip_admin_check =
     bind (gets mgr_config) (\<lambda>config.
     bind (gets mgr_cluster) (\<lambda>cl.
     bind (if truthy (dict_get config ''powercycle'' VNone) then
             bind (find_remote ''osd'' osd) (\<lambda>remote.
             bind (assert_ipmi remote) (\<lambda>_.
             bind (act (Power PowerOn remote)) (\<lambda>_.
             bind (flag (Power (CheckStatus 300) remote)) (\<lambda>ok.
             if \<not> ok then raise PlainException (''Failed to revive osd.'' @ osd @ '' via ipmi'')
             else
               bind (act (Reconnect 60 remote)) (\<lambda>_.
               bind (mount_osd_data remote cl osd) (\<lambda>_.
               bind (make_admin_daemon_dir remote) (\<lambda>_.
               mgr_daemon DReset ''osd'' osd)))))))
           else ret ()) (\<lambda>_.
     bind (mgr_daemon (DRestart []) ''osd'' osd) (\<lambda>_.
     if skip_admin_check then ret ()
     else wait_run_admin_socket ''osd'' osd [''dump_ops_in_flight''] timeout))))"

definition revive_osd :: "int \<Rightarrow> pv \<Rightarrow> bool \<Rightarrow> ('z, unit) mgr" where
  "revive_osd osd timeout skip_admin_check = revive_osd_id (str_int osd) timeout skip_admin_check"

definition signal_osd :: "int \<Rightarrow> int \<Rightarrow> bool \<Rightarrow> ('z, unit) mgr" where
  "signal_osd osd sig silent = mgr_daemon (DSignal sig silent) ''osd'' (str_int osd)"

section \<open>Monitors\<close>

definition signal_mon :: "string \<Rightarrow> int \<Rightarrow> bool \<Rightarrow> ('z, unit) mgr" where
  "signal_mon mon sig silent = mgr_daemon (DSignal sig silent) ''mon'' mon"

definition kill_mon :: "string \<Rightarrow> ('z, unit) mgr" where
  "kill_mon mon =
     bind (gets mgr_config) (\<lambda>config.
     if truthy (dict_get config ''powercycle'' VNone) then
       bind (find_remote ''mon'' mon) (\<lambda>remote.
       bind (assert_ipmi remote) (\<lambda>_.
       act (Power PowerOff remote)))
     else mgr_daemon DStop ''mon'' mon)"

definition revive_mon :: "string \<Rightarrow> ('z, unit) mgr" where
  "revive_mon mon =
     bind (gets mgr_config) (\<lambda>config.
     bind (if truthy (dict_get config ''powercycle'' VNone) then
             bind (find_remote ''mon'' mon) (\<lambda>remote.
             bind (assert_ipmi remote) (\<lambda>_.
             bind (act (Power PowerOn remote)) (\<lambda>_.
             make_admin_daemon_dir remote)))
           else ret ()) (\<lambda>_.
     mgr_daemon (DRestart []) ''mon'' mon))"

text \<open>\<open>ctx.zbkc[cluster].conf[section][key]\<close>\<close>

definition conf_item :: "string \<Rightarrow> string \<Rightarrow> string \<Rightarrow> ('z, string) io" where
  "conf_item cl section key =
     bind (asks (\<lambda>E. env_conf E cl section)) (\<lambda>sec.
     bind (of_option KeyError section sec) (\<lambda>d.
     bind (of_option KeyError key (map_of d key)) as_str))"

definition get_mon_status :: "string \<Rightarrow> ('z, pv) mgr" where
  "get_mon_status mon =
     bind (gets mgr_cluster) (\<lambda>cl.
     bind (conf_item cl (''mon.'' @ mon) ''mon addr'') (\<lambda>addr.
     bind (raw_cluster_cmd [''-m'', addr, ''mon_status'']) loads))"

definition get_mon_quorum :: "('z, pv list) mgr" where
  "get_mon_quorum =
     bind (raw_cluster_cmd [''quorum_status'']) (\<lambda>out.
     bind (loads out) (\<lambda>j.
     bind (item j ''quorum'') as_list))"

definition wait_for_mon_quorum_size :: "int \<Rightarrow> pv \<Rightarrow> ('z, unit) mgr" where
  "wait_for_mon_quorum_size sz timeout =
     wait_until (bind get_mon_quorum (\<lambda>q. ret (int (length q) = sz))) timeout
       (''failed to reach quorum size '' @ str_int sz @ '' before timeout expired'')"

definition get_mon_health :: "('z, pv) mgr" where
  "get_mon_health = bind (raw_cluster_cmd [''health'', ''--format=json'']) loads"

text \<open>\<open>s.splitlines()\<close>\<close>

definition splitlines :: "string \<Rightarrow> string list" where
  "splitlines s = (let ls = split_on newline s in if last ls = [] then butlast ls else ls)"

definition get_mds_status :: "string \<Rightarrow> ('z, pv) mgr" where
  "get_mds_status mds =
     bind (raw_cluster_cmd [''mds'', ''dump'', ''--format=json'']) (\<lambda>out.
     bind (loads (join '' '' (drop 1 (splitlines out)))) (\<lambda>j.
     bind (item j ''info'') (\<lambda>info.
     bind (as_dict info) (\<lambda>d.
     bind (find_item ''name'' mds (map snd d)) (\<lambda>r.
     ret (case r of None \<Rightarrow> VNone | Some i \<Rightarrow> i))))))"

definition get_filepath :: "('z, string) mgr" where
  "get_filepath = bind (gets mgr_cluster) (\<lambda>cl. ret (''/var/lib/zbkc/osd/'' @ cl @ ''-{id}''))"

section \<open>ObjectStoreTool\<close>

record objectstore_tool =
  ost_osd :: int
  ost_object_name :: string
  ost_do_revive :: bool
  ost_pgid :: string
  ost_remote :: string
  ost_paths :: string

text \<open>An osd id used as a number in later calls.\<close>

definition osd_number :: "pv \<Rightarrow> ('z, int) mgr" where
  "osd_number v = of_option TypeError ''osd id'' (int_instance v)"

text \<open>\<open>osd\<close> is the keyword argument: a number or the word primary; \<open>None\<close> when absent. An absent
  object name is the empty string: the code only tests whether it is true.\<close>

definition objectstore_tool_init :: "string \<Rightarrow> pv \<Rightarrow> string \<Rightarrow> bool \<Rightarrow> ('z, objectstore_tool) mgr" where
  "objectstore_tool_init pool osd0 object_name do_revive =
     bind (if truthy osd0 \<and> pool \<noteq> [] \<and> object_name \<noteq> [] \<and> osd0 = VStr ''primary''
           then get_object_primary pool object_name else ret osd0) (\<lambda>osd.
     bind (py_assert (truthy osd) []) (\<lambda>_.
     bind (if object_name \<noteq> [] then get_object_pg_with_shard pool object_name osd else ret []) (\<lambda>pgid.
     bind (py_str osd) (\<lambda>o_str.
     bind (asks (\<lambda>E. env_only E (\<lambda>role. role = ''osd.'' @ o_str))) (\<lambda>remotes.
     bind (first_of remotes) (\<lambda>remote.
     bind get_filepath (\<lambda>fp.
     bind (fmt fp [(''id'', o_str)]) (\<lambda>path.
     bind (osd_number osd) (\<lambda>n.
     ret \<lparr>ost_osd = n, ost_object_name = object_name, ost_do_revive = do_revive, ost_pgid = pgid,
          ost_remote = remote,
          ost_paths = ''--data-path '' @ path @ '' --journal-path '' @ path @ ''/journal''\<rparr>)))))))))"

text \<open>With a standard input the command needs \<open>base64.encode(stdin)\<close>, a call with one argument of a
  function that takes two.\<close>

definition ost_build_cmd :: "objectstore_tool \<Rightarrow> string \<Rightarrow> string \<Rightarrow> string \<Rightarrow> ('z, string) mgr" where
  "ost_build_cmd t options0 args0 stdin =
     (let named = (ost_object_name t \<noteq> []);
          lines = (if named then
            [''object=$(sudo adjust-ulimits zbkc-objectstore-tool '' @ ost_paths t @ '' --pgid '' @ ost_pgid t @
             '' --op list |grep '' @ [CHR 0x27, quote] @ ''oid'' @ [quote] @ '':'' @ [quote] @ ost_object_name t @
             [quote, CHR 0x27] @ '')''] else []);
          args = (if named then [quote] @ ''$object'' @ [quote] @ '' '' @ args0 else args0);
          options = (if named then options0 @ '' --pgid '' @ ost_pgid t else options0);
          cmd = ''sudo adjust-ulimits zbkc-objectstore-tool '' @ ost_paths t @ '' '' @ options @ '' '' @ args
      in if stdin \<noteq> [] then raise TypeError ''encode() takes at least 2 arguments (1 given)''
         else ret (join [newline] (lines @ [cmd])))"

definition ost_run :: "objectstore_tool \<Rightarrow> string \<Rightarrow> string \<Rightarrow> string \<Rightarrow> ('z, unit) mgr" where
  "ost_run t options args stdin =
     bind (kill_osd (ost_osd t)) (\<lambda>_.
     bind (ost_build_cmd t options args stdin) (\<lambda>cmd.
     try_finally
       (bind (run_cmd (ost_remote t) [''bash'', ''-e'', ''-x'', ''-c'', cmd] False) (\<lambda>proc.
        if exitstatus proc \<noteq> 0 then raise PlainException (p_stdout proc @ '' '' @ p_stderr proc)
        else ret ()))
       (if ost_do_revive t then revive_osd (ost_osd t) (VInt 150) False else ret ())))"

definition objectstore_tool_call :: "string \<Rightarrow> string \<Rightarrow> string \<Rightarrow> pv \<Rightarrow> string \<Rightarrow> bool \<Rightarrow> ('z, unit) mgr" where
  "objectstore_tool_call pool options args osd object_name do_revive =
     bind (objectstore_tool_init pool osd object_name do_revive) (\<lambda>t. ost_run t options args [])"

section \<open>What these operations leave unchanged\<close>

lemmas manager_daemon_defs = mark_out_osd_def mark_in_osd_def mark_down_osd_def assert_ipmi_def
  make_admin_daemon_dir_def mgr_daemon_def fmt_d_def kill_osd_def blackhole_kill_osd_def
  revive_osd_id_def revive_osd_def signal_osd_def signal_mon_def kill_mon_def revive_mon_def conf_item_def
  get_mon_status_def get_mon_quorum_def wait_for_mon_quorum_size_def get_mon_health_def
  get_mds_status_def get_filepath_def osd_number_def objectstore_tool_init_def
  ost_build_cmd_def ost_run_def objectstore_tool_call_def

context io_step
begin

lemma keeps_mount_osd_data [keeps_intros]: "keeps R (mount_osd_data h c i)"
  unfolding mount_osd_data_def by (intro keeps_intros)

lemma keeps_write_conf [keeps_intros]: "keeps R (write_conf p)"
  unfolding write_conf_def by (intro keeps_intros)

lemma keeps_conf_item [keeps_intros]: "keeps R (conf_item c sec k)"
  unfolding conf_item_def by (intro keeps_intros)

end

context mgr_step
begin

lemma keeps_manager_daemon [keeps_intros]:
  "keeps R (mark_out_osd j)"
  "keeps R (mark_in_osd j)"
  "keeps R (mark_down_osd j)"
  "keeps R (assert_ipmi h)"
  "keeps R (make_admin_daemon_dir h)"
  "keeps R (mgr_daemon op role i)"
  "keeps R (fmt_d v)"
  "keeps R (kill_osd j)"
  "keeps R (blackhole_kill_osd j)"
  "keeps R (revive_osd_id i v b)"
  "keeps R (revive_osd j v b)"
  "keeps R (signal_osd j g b)"
  "keeps R (signal_mon mn g b)"
  "keeps R (kill_mon mn)"
  "keeps R (revive_mon mn)"
  unfolding manager_daemon_defs by (intro keeps_intros)+

lemma keeps_manager_mon [keeps_intros]:
  "keeps R (get_mon_status mn)"
  "keeps R get_mon_quorum"
  "keeps R (wait_for_mon_quorum_size j v)"
  "keeps R get_mon_health"
  "keeps R (get_mds_status mn)"
  "keeps R get_filepath"
  unfolding get_mon_status_def get_mon_quorum_def wait_for_mon_quorum_size_def get_mon_health_def
    get_mds_status_def get_filepath_def loads_def
  by (intro keeps_intros)+

lemma keeps_objectstore_tool [keeps_intros]:
  "keeps R (objectstore_tool_init p v ob b)"
  "keeps R (ost_build_cmd t ops as inp)"
  "keeps R (ost_run t ops as inp)"
  "keeps R (objectstore_tool_call p ops as v ob b)"
  unfolding objectstore_tool_init_def osd_number_def ost_build_cmd_def ost_run_def
    objectstore_tool_call_def
  by (intro keeps_intros)+

end

end
