(* ===== verification/Scrub.thy ===== *)
theory Scrub
  imports Manager_Daemon
begin

text \<open>
  The class \<open>Scrubber\<close> of \<open>src/tasks/scrub.py\<close>: the constructor, which waits for a clean cluster
  reads the osds that are up and starts the greenlet, the loop the greenlet runs, and the task.
\<close>

definition scrubber_init :: "('z, int list) mgr" where
  "scrubber_init =
     bind (wait_for_clean VNone) (\<lambda>_.
     bind get_osd_status (\<lambda>osd_status.
     bind (spawn ''do_scrub'') (\<lambda>_.
     ret (st_up osd_status))))"

definition scrubber_do_join :: "('z, unit) mgr" where
  "scrubber_do_join = bind (set_stop ''scrubber'') (\<lambda>_. act (Get ''do_scrub''))"

definition do_scrub :: "int list \<Rightarrow> dict \<Rightarrow> ('z, unit) mgr" where
  "do_scrub osds config =
     (let frequency = dict_get config ''frequency'' (VInt 30);
          deep = dict_get config ''deep'' (VInt 0)
      in while_m (bind (poll_stop ''scrubber'') (\<lambda>stopping. ret (\<not> stopping)))
           (bind (random_choice osds) (\<lambda>osd.
            let cmd = (if truthy deep then ''deep-scrub'' else ''scrub'') in
            bind (raw_cluster_cmd [''osd'', cmd, str_int osd]) (\<lambda>_.
            sleep_value frequency))))"

text \<open>The task: wait until as many osds are up as the cluster has, start the scrubber, run what the
  task list holds inside it (\<open>body\<close>, the \<open>yield\<close>), and join it however that ended. \<open>num_osds\<close> is
  \<open>teuthology.num_instances_of_type(ctx.cluster, 'osd')\<close>.\<close>

definition scrub_task :: "pv \<Rightarrow> nat \<Rightarrow> ('z, unit) mgr \<Rightarrow> ('z, unit) mgr" where
  "scrub_task config0 num_osds body =
     bind (dict_config ''scrub task only accepts a dict for configuration'' config0) (\<lambda>config.
     bind first_mon_remote (\<lambda>mon.
     bind (manager_init mon None ''zbkc'') (\<lambda>_.
     bind (while_m (bind get_osd_status (\<lambda>st. ret (length (st_up st) < num_osds))) (sleep 10)) (\<lambda>_.
     bind scrubber_init (\<lambda>_.
     try_finally body scrubber_do_join)))))"

context mgr_step
begin

lemma keeps_scrub [keeps_intros]:
  "keeps R scrubber_init"
  "keeps R scrubber_do_join"
  "keeps R (do_scrub osds cfg)"
  unfolding scrubber_init_def scrubber_do_join_def do_scrub_def by (intro keeps_intros)+

end

end
