(* ===== verification/Sample.thy ===== *)
theory Sample
  imports Manager_Cmd
begin

text \<open>
  A small concrete cluster, on which the properties that have hypotheses are evaluated: one host
  that runs everything, a clock that counts the seconds slept, random bits that are all zero, and
  commands that succeed with the output a table of replies gives for their last words.
\<close>

definition ok_proc :: "string \<Rightarrow> proc" where
  "ok_proc out = \<lparr>exitstatus = 0, p_stdout = out, p_stderr = []\<rparr>"

text \<open>The reply to a command is the first one whose words end the command; a command with no reply
  in the table succeeds with no output.\<close>

definition reply :: "(string list \<times> proc) list \<Rightarrow> event list \<Rightarrow> pyexc + proc" where
  "reply table t = (case last t of
       Run _ args _ \<Rightarrow> (case filter (\<lambda>(w, p). suffix w args) table of (_, p) # _ \<Rightarrow> Inr p | [] \<Rightarrow> Inr (ok_proc []))
     | _ \<Rightarrow> Inr (ok_proc []))"

definition sample_env :: "(string list \<times> proc) list \<Rightarrow> env" where
  "sample_env table =
     \<lparr>env_run = reply table,
      env_act = (\<lambda>_. None),
      env_flag = (\<lambda>_. Inr False),
      env_daemons = (\<lambda>_. []),
      env_clock = slept,
      env_bits = (\<lambda>_. 0),
      env_stop = (\<lambda>t. 2 \<le> length (filter (\<lambda>e. case e of PollStop _ \<Rightarrow> True | _ \<Rightarrow> False) t)),
      env_only = (\<lambda>_. [''host1'']),
      env_is_type = (\<lambda>_ _ _. True),
      env_split_role = (\<lambda>_. (''zbkc'', ''osd'', ''0'')),
      env_testdir = ''/home/ubuntu/cephtest'',
      env_conf = (\<lambda>_ _. Some []),
      env_has_ipmi = (\<lambda>_. False),
      env_disks = (\<lambda>_. None),
      env_roles = (\<lambda>_. []),
      env_mon_names = [''mon.a'', ''mon.b'', ''mon.c''],
      env_first_mon = ''mon.a'',
      env_daemon_remote = (\<lambda>_ _. ''host1''),
      env_clients = map (\<lambda>r. (r, ''host1'')),
      env_deep_merge = (\<lambda>d o'. o' @ d),
      env_overrides = (\<lambda>_. []),
      env_ipmi_user = False,
      env_repr = (\<lambda>_. ''0.5''),
      env_fuel = 60\<rparr>"

definition sample_mgr :: manager where
  "sample_mgr = \<lparr>trace = [], mgr_cluster = ''zbkc'', mgr_controller = ''host1'', mgr_config = [],
     pools = [(''rbd'', 8)], next_pool_id = 0\<rparr>"

text \<open>Replies to \<open>osd dump\<close>, \<open>pg dump\<close> (with the scrub stamp and the state of the one group) and
  \<open>status\<close>.\<close>

definition dumped :: "string \<Rightarrow> proc" where
  "dumped json = ok_proc (''dumped all'' @ [newline] @ json)"

definition osd_dump_reply :: "string list \<times> proc" where
  \<open>osd_dump_reply = ([''osd'', ''dump'', ''--format=json''],
     dumped ''{"pools": [{"pool_name": "rbd", "pool": 1, "type": 1}], "osds": [{"osd": 0, "up": 1}]}'')\<close>

definition pg_dump_reply :: "string \<Rightarrow> string \<Rightarrow> string list \<times> proc" where
  \<open>pg_dump_reply stamp state = ([''pg'', ''dump'', ''--format=json''],
     dumped (''{"pg_stats": [{"pgid": "1.0", "last_scrub_stamp": "'' @ stamp @ ''", "state": "'' @ state @ ''"}]}''))\<close>

definition status_reply :: "string list \<times> proc" where
  \<open>status_reply = ([''status'', ''--format=json-pretty''], ok_proc ''{"pgmap": {"num_pgs": 1}}'')\<close>

lemma sample_fuel [simp]: "env_fuel (sample_env table) = 60"
  by (simp add: sample_env_def)

end
