(* ===== verification/Manager_Bounds.thy ===== *)
theory Manager_Bounds
  imports Scrub Sample
begin

text \<open>
  The retry loops of the manager end, and send a bounded number of commands: waiting for an admin
  socket, setting a property of a pool, scrubbing a placement group.
\<close>

section \<open>Ending\<close>

lemma ends_manager_cmd [ends_intros]:
  "ends k (raw_cluster_cmd as)"
  "ends k (raw_cluster_cmd_result as)"
  "ends k (find_remote t i)"
  "ends k (admin_socket t i as b n)"
  "ends k (do_rados h as b)"
  unfolding raw_cluster_cmd_def raw_cluster_cmd_result_def find_remote_def admin_socket_def do_rados_def
  by (intro ends_intros)+

lemma ends_find_item [ends_intros]: "ends k (find_item key val xs)"
  by (induction xs) (auto intro!: ends_intros)

lemma ends_manager_status [ends_intros]:
  "ends k get_osd_dump_json"
  "ends k list_pools"
  "ends k (get_pool_dump p)"
  "ends k (get_pool_num p)"
  "ends k (get_pgid p n)"
  "ends k get_pg_stats"
  "ends k (get_single_pg_stats i)"
  "ends k (get_last_scrub_stamp p n)"
  "ends k get_osd_dump"
  "ends k get_num_pgs"
  "ends k get_osd_status"
  "ends k get_mon_quorum"
  unfolding get_osd_dump_json_def get_osd_dump_def list_pools_def get_pool_dump_def get_pool_num_def
    get_pgid_def get_pg_stats_def get_single_pg_stats_def get_last_scrub_stamp_def get_num_pgs_def
    raw_cluster_status_def loads_tail_def loads_def get_osd_status_def raw_osd_status_def
    osds_with_def daemon_osds_def line_osd_def get_mon_quorum_def
  by (intro ends_intros)+

lemma tries_left: "\<not> t < (n + 1) * 5 \<Longrightarrow> n + 1 \<le> (t :: int) div 5"
  by presburger

lemma ends_wait_run_admin_socket [ends_intros]:
  assumes "nat (t div 5) + 1 \<le> k"
  shows "ends k (wait_run_admin_socket ty i args (VInt t))"
  unfolding wait_run_admin_socket_def
proof (rule ends_loop [where I = "\<lambda>n. 0 \<le> n" and V = "\<lambda>n. nat (t div 5 - n)"])
  show "ends k (wait_run_admin_socket_body ty i args (VInt t) n)" for n
    unfolding wait_run_admin_socket_body_def by (intro ends_intros)
  show "0 \<le> n' \<and> nat (t div 5 - n') < nat (t div 5 - n)"
    if "0 \<le> n" "wait_run_admin_socket_body ty i args (VInt t) n E s = (Ok (Inl n'), s')" for n E s n' s'
  proof -
    have "n' = n + 1 \<and> \<not> value_less_num (VInt t) (of_int ((n + 1) * 5))"
      using that(2)
      by (auto simp: wait_run_admin_socket_body_def exec_simps sleep_def split: res.splits if_splits prod.splits)
    then show ?thesis
      using that(1) tries_left [of t n] by (simp only: num_cmp_VInt) simp
  qed
qed (use assms in auto)

lemma ends_revive_osd [ends_intros]:
  assumes "nat (t div 5) + 1 \<le> k"
  shows "ends k (revive_osd i (VInt t) b)"
  unfolding revive_osd_def revive_osd_id_def assert_ipmi_def make_admin_daemon_dir_def mount_osd_data_def mgr_daemon_def
  using assms by (intro ends_intros)

lemma ends_set_pool_property [ends_intros]:
  assumes "51 \<le> k"
  shows "ends k (set_pool_property p prop v)"
  unfolding set_pool_property_def
proof (rule ends_loop [where I = "\<lambda>n. 0 \<le> n" and V = "\<lambda>n. nat (50 - n)"])
  show "ends k (set_pool_property_body p prop v n)" for n
    unfolding set_pool_property_body_def by (intro ends_intros)
  show "0 \<le> n' \<and> nat (50 - n') < nat (50 - n)"
    if "0 \<le> n" "set_pool_property_body p prop v n E s = (Ok (Inl n'), s')" for n E s n' s'
    using that
    by (auto simp: set_pool_property_body_def exec_simps sleep_def split: res.splits if_splits prod.splits)
qed (use assms in auto)

lemma ends_do_pg_scrub [ends_intros]:
  assumes "37 \<le> k"
  shows "ends k (do_pg_scrub p n stype)"
proof -
  have "ends k (loop (do_pg_scrub_body p n stype init) 0)" for init
  proof (rule ends_loop [where I = "\<lambda>t. 0 \<le> t" and V = "\<lambda>t. nat ((369 - t) div 10)"])
    show "ends k (do_pg_scrub_body p n stype init t)" for t
      unfolding do_pg_scrub_body_def by (intro ends_intros)
    show "0 \<le> t' \<and> nat ((369 - t') div 10) < nat ((369 - t) div 10)"
      if "0 \<le> t" "do_pg_scrub_body p n stype init t E s = (Ok (Inl t'), s')" for t E s t' s'
    proof -
      have "t' = t + 10 \<and> t < 360"
        using that(2)
        by (auto simp: do_pg_scrub_body_def exec_simps sleep_def split: res.splits if_splits prod.splits)
      then show ?thesis using that(1) by linarith
    qed
  qed (use assms in auto)
  then show ?thesis unfolding do_pg_scrub_def by (intro ends_intros)
qed

section \<open>Counting commands\<close>

definition is_run :: "event \<Rightarrow> bool" where
  "is_run e = (case e of Run _ _ _ \<Rightarrow> True | _ \<Rightarrow> False)"

definition runs :: "'z sys_scheme \<Rightarrow> nat" where
  "runs s = length (filter is_run (trace s))"

lemma runs_event [simp]:
  "runs (s\<lparr>trace := trace s @ es\<rparr>) = runs s + length (filter is_run es)"
  "is_run (Run h as b)" "\<not> is_run (Sleep q)"
  by (simp_all add: runs_def is_run_def)

text \<open>The answer to the last command of the trace.\<close>

definition last_status :: "env \<Rightarrow> 'z sys_scheme \<Rightarrow> int option" where
  "last_status E s = (case env_run E (trace s) of Inl _ \<Rightarrow> None | Inr p \<Rightarrow> Some (exitstatus p))"

text \<open>C14: Waiting for an admin socket with a timeout of \<open>t\<close> seconds ends, after at most
  \<open>t div 5 + 1\<close> commands (one, when \<open>t\<close> is negative); it returns only when the last command it sent
  succeeded.\<close>

theorem wait_run_admin_socket_bounded:
  assumes "nat (t div 5) + 1 \<le> env_fuel E"
  shows "post (wait_run_admin_socket ty i args (VInt t)) E s
    (\<lambda>r s'. r \<noteq> NoFuel \<and> runs s' \<le> runs s + nat (t div 5) + 1 \<and> (r = Ok () \<longrightarrow> last_status E s' = Some 0))"
  unfolding wait_run_admin_socket_def post_loop
proof (rule post_loop_n_total [where I = "\<lambda>n u. 0 \<le> n \<and> n \<le> max 0 (t div 5) \<and> runs u \<le> runs s + nat n"
      and V = "\<lambda>n u. nat (t div 5 - n)"], goal_cases)
  case (3 n u)
  then show ?case
    using tries_left [of t n]
    by (auto simp: wait_run_admin_socket_body_def admin_socket_def find_remote_def get_remote_def
        run_cmd_def sleep_def post_simps last_status_def simp del: of_int_mult of_int_add split: sum.split)
qed (use assms in auto)

theorem wait_run_admin_socket_bounded_witness:
  "fst (wait_run_admin_socket ''osd'' ''0'' [''dump_ops_in_flight''] (VInt 150) (sample_env []) sample_mgr) = Ok () \<and>
   post (wait_run_admin_socket ''osd'' ''0'' [''dump_ops_in_flight''] (VInt 150)) (sample_env []) sample_mgr
    (\<lambda>r s'. r \<noteq> NoFuel \<and> runs s' \<le> runs sample_mgr + nat (150 div 5) + 1 \<and>
      (r = Ok () \<longrightarrow> last_status (sample_env []) s' = Some 0))"
proof (rule conjI, code_simp)
qed (rule wait_run_admin_socket_bounded, simp)

text \<open>C15: Setting a property of a pool ends after at most 51 commands. It returns only when the last
  answer was not 11 (EAGAIN), and gives up with the timeout exception only when the last answer
  was 11.\<close>

theorem set_pool_property_bounded:
  assumes "51 \<le> env_fuel E"
  shows "post (set_pool_property p prop v) E s
    (\<lambda>r s'. r \<noteq> NoFuel \<and> runs s' \<le> runs s + 51 \<and>
      (r = Ok () \<longrightarrow> (\<exists>st. last_status E s' = Some st \<and> st \<noteq> 11)) \<and>
      (\<forall>x. r = Raise x \<longrightarrow> env_run E (trace s') = Inl x \<or> last_status E s' = Some 11 \<and> runs s' = runs s + 51))"
  unfolding set_pool_property_def post_loop
proof (rule post_loop_n_total [where I = "\<lambda>n u. 0 \<le> n \<and> n \<le> 50 \<and> runs u = runs s + nat n"
      and V = "\<lambda>n u. nat (50 - n)"], goal_cases)
  case (3 n u)
  then show ?case
    by (auto simp: set_pool_property_body_def raw_cluster_cmd_result_def run_cmd_def sleep_def
        post_simps last_status_def split: sum.split)
qed (use assms in auto)

theorem set_pool_property_bounded_witness:
  "fst (set_pool_property ''rbd'' ''pg_num'' 8 (sample_env []) sample_mgr) = Ok () \<and>
   post (set_pool_property ''rbd'' ''pg_num'' 8) (sample_env []) sample_mgr
    (\<lambda>r s'. r \<noteq> NoFuel \<and> runs s' \<le> runs sample_mgr + 51 \<and>
      (r = Ok () \<longrightarrow> (\<exists>st. last_status (sample_env []) s' = Some st \<and> st \<noteq> 11)) \<and>
      (\<forall>x. r = Raise x \<longrightarrow> env_run (sample_env []) (trace s') = Inl x \<or>
         last_status (sample_env []) s' = Some 11 \<and> runs s' = runs sample_mgr + 51))"
proof (rule conjI, code_simp)
qed (rule set_pool_property_bounded, simp)

text \<open>A scrub is submitted by the command \<open>pg <stype> <pgid>\<close>.\<close>

definition submits :: "string \<Rightarrow> event \<Rightarrow> bool" where
  "submits stype e = (case e of
     Run _ args _ \<Rightarrow> (case rev args of pgid # t # g # _ \<Rightarrow> t = stype \<and> g = ''pg'' | _ \<Rightarrow> False) | _ \<Rightarrow> False)"

definition submissions :: "string \<Rightarrow> 'z sys_scheme \<Rightarrow> nat" where
  "submissions stype s = length (filter (submits stype) (trace s))"

lemma sent_scrub_queries:
  assumes "stype \<noteq> ''dump''"
  shows "keeps (sent_rel (\<lambda>e. \<not> submits stype e)) (get_pgid p n)"
    and "keeps (sent_rel (\<lambda>e. \<not> submits stype e)) (get_last_scrub_stamp p n)"
proof -
  show 1: "keeps (sent_rel (\<lambda>e. \<not> submits stype e)) (get_pgid p n)"
    unfolding get_pgid_def get_pool_num_def get_pool_dump_def get_osd_dump_json_def loads_tail_def loads_def
    by (intro keeps_intros) (simp add: submits_def)
  have "keeps (sent_rel (\<lambda>e. \<not> submits stype e)) (get_single_pg_stats i)" for i
    unfolding get_single_pg_stats_def get_pg_stats_def loads_tail_def loads_def
    using assms by (intro keeps_intros) (simp add: submits_def)
  then show "keeps (sent_rel (\<lambda>e. \<not> submits stype e)) (get_last_scrub_stamp p n)"
    unfolding get_last_scrub_stamp_def by (intro keeps_intros 1)
qed

lemma sent_submissions: "sent_rel (\<lambda>e. \<not> submits stype e) s s' \<Longrightarrow> submissions stype s' = submissions stype s"
  by (auto simp: submissions_def dest: sent_count [where P = "submits stype"])

lemma submissions_event:
  "submissions stype (s\<lparr>trace := trace s @ [e]\<rparr>) = submissions stype s + (if submits stype e then 1 else 0)"
  by (simp add: submissions_def)

text \<open>Submitting once, and not at all.\<close>

lemma post_scrub_submit:
  assumes "stype \<noteq> ''dump''"
  shows "post (bind (get_pgid p n) (\<lambda>pgid. bind (raw_cluster_cmd [''pg'', stype, pgid]) (\<lambda>_. ret ()))) E u
    (\<lambda>r u'. r \<noteq> NoFuel \<and> submissions stype u' \<le> submissions stype u + 1)"
proof (rule post_bindI [where Q = "\<lambda>r u'. r \<noteq> NoFuel \<and> submissions stype u' = submissions stype u"])
  show "post (get_pgid p n) E u (\<lambda>r u'. r \<noteq> NoFuel \<and> submissions stype u' = submissions stype u)"
    using sent_submissions keepsD [OF sent_scrub_queries(1) [OF assms]]
      endsD [OF ends_manager_status(5) [of 0]]
    by (intro postI) fastforce
qed (auto simp: raw_cluster_cmd_def run_cmd_def post_simps submissions_event split: sum.split)

definition scrub_bound :: "int \<Rightarrow> nat" where
  "scrub_bound t = nat ((t + 119) div 120)"

lemma scrub_bound_submit:
  assumes "0 \<le> t" "t mod 120 = 0"
  shows "scrub_bound (t + 10) = scrub_bound t + 1"
proof -
  obtain q where q: "t = 120 * q" using assms(2) by (auto simp: mod_eq_0_iff_dvd elim: dvdE)
  have "(t + 10 + 119) div 120 = q + 1" by (rule int_div_pos_eq [where r = 9]) (simp_all add: q)
  moreover have "(t + 119) div 120 = q" by (rule int_div_pos_eq [where r = 119]) (simp_all add: q)
  ultimately show ?thesis using assms(1) q by (simp add: scrub_bound_def)
qed

lemma scrub_bound_mono: "t \<le> u \<Longrightarrow> scrub_bound t \<le> scrub_bound u"
  unfolding scrub_bound_def by (simp add: zdiv_mono1 nat_mono)

lemma scrub_bound_3: "t \<le> 360 \<Longrightarrow> scrub_bound t \<le> 3"
  using scrub_bound_mono [of t 360] by (simp add: scrub_bound_def)

lemma post_last_scrub_stamp:
  assumes "stype \<noteq> ''dump''"
  shows "post (get_last_scrub_stamp p n) E u (\<lambda>r u'. r \<noteq> NoFuel \<and>
    submissions stype u' = submissions stype u \<and> get_last_scrub_stamp p n E u = (r, u'))"
  using sent_submissions keepsD [OF sent_scrub_queries(2) [OF assms]] endsD [OF ends_manager_status(8) [of 0]]
  by (intro postI) fastforce

text \<open>One round of the loop at time \<open>k\<close>, with \<open>B\<close> submissions before it.\<close>

definition scrub_round :: "env \<Rightarrow> string \<Rightarrow> string \<Rightarrow> pv \<Rightarrow> nat \<Rightarrow> string \<Rightarrow> int \<Rightarrow> (int + unit) res \<Rightarrow> 'z manager_scheme \<Rightarrow> bool" where
  "scrub_round E p n init B stype k r u' \<longleftrightarrow> r \<noteq> NoFuel \<and> submissions stype u' \<le> B + 3 \<and>
     (case r of
        Ok (Inl k') \<Rightarrow> k' = k + 10 \<and> k < 360 \<and> submissions stype u' \<le> B + scrub_bound k'
      | Ok (Inr _) \<Rightarrow> \<exists>stamp u. get_last_scrub_stamp p n E u = (Ok stamp, u') \<and> stamp \<noteq> init
      | _ \<Rightarrow> True)"

lemma post_scrub_round:
  assumes k: "0 \<le> k" "k mod 10 = 0" "k \<le> 360" and u: "submissions stype u \<le> B + scrub_bound k"
    and st: "stype \<noteq> ''dump''"
  shows "post (do_pg_scrub_body p n stype init k) E u (scrub_round E p n init B stype k)"
proof -
  have le3: "scrub_bound k \<le> 3" "k < 360 \<Longrightarrow> scrub_bound (k + 10) \<le> 3"
    using k by (auto intro!: scrub_bound_3)
  have grow: "scrub_bound k \<le> scrub_bound (k + 10)" by (rule scrub_bound_mono) simp
  let ?tail = "\<lambda>_::unit. bind (sleep 10) (\<lambda>_. ret (Inl (k + 10) :: int + unit))"
  have submit: "post (bind (if k mod 120 = 0 then bind (get_pgid p n) (\<lambda>pgid.
       bind (raw_cluster_cmd [''pg'', stype, pgid]) (\<lambda>_. ret ())) else ret ()) ?tail) E t
       (scrub_round E p n init B stype k)"
    if "submissions stype t = submissions stype u" "k < 360" for t :: "'a manager_scheme"
  proof (rule post_bindI [where Q = "\<lambda>r t'. r \<noteq> NoFuel \<and> submissions stype t' \<le> B + scrub_bound (k + 10)"])
    show "post (if k mod 120 = 0 then bind (get_pgid p n) (\<lambda>pgid.
       bind (raw_cluster_cmd [''pg'', stype, pgid]) (\<lambda>_. ret ())) else ret ()) E t
       (\<lambda>r t'. r \<noteq> NoFuel \<and> submissions stype t' \<le> B + scrub_bound (k + 10))"
      using that u grow k scrub_bound_submit [of k]
      by (auto simp: post_basic intro: post_mono [OF post_scrub_submit [OF st]])
  qed (use le3 that in \<open>auto simp: sleep_def post_simps scrub_round_def submissions_event submits_def\<close>)
  show ?thesis
    unfolding do_pg_scrub_body_def
  proof (rule post_bindI [OF post_last_scrub_stamp [OF st]])
    fix stamp t
    assume t: "Ok stamp \<noteq> NoFuel \<and> submissions stype t = submissions stype u \<and> get_last_scrub_stamp p n E u = (Ok stamp, t)"
    show "post (if init \<noteq> stamp then ret (Inr ()) else bind (py_assert (k < 360) (''fatal timeout trying to '' @ stype)) (\<lambda>_.
       bind (if k mod 120 = 0 then bind (get_pgid p n) (\<lambda>pgid.
       bind (raw_cluster_cmd [''pg'', stype, pgid]) (\<lambda>_. ret ())) else ret ()) ?tail)) E t
       (scrub_round E p n init B stype k)"
      using t u le3 submit [of t]
      by (auto simp: post_if post_basic post_bind [of "py_assert _ _"] post_py_assert after_simps scrub_round_def
          simp del: post_bind)
  qed (use u le3 in \<open>auto simp: scrub_round_def\<close>)
qed

text \<open>C16: Scrubbing a placement group ends, with at most three submissions of the scrub and within
  37 looks at the scrub stamp; it returns only when the stamp differs from the one read before the
  first submission.\<close>

theorem do_pg_scrub_bounded:
  assumes "37 \<le> env_fuel E" and "stype \<noteq> ''dump''"
  shows "post (do_pg_scrub p n stype) E s (\<lambda>r s'. r \<noteq> NoFuel \<and> submissions stype s' \<le> submissions stype s + 3 \<and>
    (r = Ok () \<longrightarrow> (\<exists>init s1 stamp s2. get_last_scrub_stamp p n E s = (Ok init, s1) \<and>
       get_last_scrub_stamp p n E s2 = (Ok stamp, s') \<and> stamp \<noteq> init)))"
proof -
  let ?sub = "\<lambda>u. submissions stype u"
  have scrub: "post (loop (do_pg_scrub_body p n stype init) 0) E t
      (\<lambda>r s'. r \<noteq> NoFuel \<and> ?sub s' \<le> ?sub s + 3 \<and>
        (r = Ok () \<longrightarrow> (\<exists>stamp s2. get_last_scrub_stamp p n E s2 = (Ok stamp, s') \<and> stamp \<noteq> init)))"
    if t: "?sub t = ?sub s" for init and t :: "'a manager_scheme"
    unfolding post_loop
  proof (rule post_loop_n_total [where I = "\<lambda>k u. 0 \<le> k \<and> k mod 10 = 0 \<and> k \<le> 360 \<and> ?sub u \<le> ?sub s + scrub_bound k"
        and V = "\<lambda>k u. nat ((369 - k) div 10)"], goal_cases)
    case (3 k u)
    then have "post (do_pg_scrub_body p n stype init k) E u (scrub_round E p n init (?sub s) stype k)"
      using assms(2) by (intro post_scrub_round) auto
    then show ?case
    proof (rule post_mono, goal_cases)
      case (1 r u')
      then show ?case using 3 by (auto simp: scrub_round_def after_def split: res.split sum.split)
    qed
  qed (use assms t in \<open>auto simp: scrub_bound_def\<close>)
  show ?thesis
    unfolding do_pg_scrub_def
    by (rule post_bindI [OF post_last_scrub_stamp [OF assms(2)]])
      (auto intro!: post_mono [OF scrub])
qed

text \<open>A cluster on which the stamp changes once a scrub has been submitted.\<close>

definition scrub_env :: env where
  "scrub_env = (sample_env [])\<lparr>env_run := \<lambda>t. reply [osd_dump_reply,
     pg_dump_reply (if list_ex (submits ''scrub'') t then ''later'' else ''early'') ''active+clean''] t\<rparr>"

theorem do_pg_scrub_bounded_witness:
  "fst (do_pg_scrub ''rbd'' ''0'' ''scrub'' scrub_env sample_mgr) = Ok () \<and>
   post (do_pg_scrub ''rbd'' ''0'' ''scrub'') scrub_env sample_mgr (\<lambda>r s'. r \<noteq> NoFuel \<and>
     submissions ''scrub'' s' \<le> submissions ''scrub'' sample_mgr + 3 \<and>
     (r = Ok () \<longrightarrow> (\<exists>init s1 stamp s2. get_last_scrub_stamp ''rbd'' ''0'' scrub_env sample_mgr = (Ok init, s1) \<and>
       get_last_scrub_stamp ''rbd'' ''0'' scrub_env s2 = (Ok stamp, s') \<and> stamp \<noteq> init)))"
proof (rule conjI, code_simp)
qed (rule do_pg_scrub_bounded, simp_all add: scrub_env_def)

end
