(* ===== verification/Manager_Waits.thy ===== *)
theory Manager_Waits
  imports Manager_Bounds
begin

text \<open>
  What the counters of placement groups count, what a wait that returns has seen, and that the waits
  with a fixed timeout end.
\<close>

section \<open>Counting\<close>

definition has_state :: "pv \<Rightarrow> string \<Rightarrow> bool" where
  "has_state pg st \<longleftrightarrow> (case pg of VDict d \<Rightarrow> map_of d ''state'' = Some (VStr st) | _ \<Rightarrow> False)"

lemma pg_state_Ok: "pg_state pg E s = (Ok st, s') \<longleftrightarrow> s' = s \<and> has_state pg st"
  by (auto simp: pg_state_def has_state_def item_def as_str_def exec_simps
      split: pv.splits option.splits prod.splits res.splits)

lemma count_pgs_Ok:
  "count_pgs P pgs E s = (Ok n, s') \<Longrightarrow>
     s' = s \<and> (\<exists>sts. list_all2 has_state pgs sts \<and> n = int (length (filter P sts)))"
proof (induction pgs arbitrary: n s s')
  case (Cons pg pgs)
  then obtain st m u where st: "pg_state pg E s = (Ok st, u)" and m: "count_pgs P pgs E u = (Ok m, s')"
    and n: "n = (if P st then m + 1 else m)"
    by (auto simp: exec_simps split: res.splits prod.splits)
  have u: "u = s" "has_state pg st" using st by (simp_all add: pg_state_Ok)
  from Cons.IH [OF m] obtain sts where "s' = u" "list_all2 has_state pgs sts" "m = int (length (filter P sts))"
    by blast
  then show ?case using u n by (auto intro!: exI [of _ "st # sts"])
qed (simp add: exec_simps)

lemma has_iff: "w \<noteq> [] \<Longrightarrow> has w st \<longleftrightarrow> contains w st"
  using count_sub_pos [of w st] by (simp add: has_def)

text \<open>The reading of the answers on which \<open>all_pgs\<close> is true.\<close>

definition all_are :: "(string \<Rightarrow> bool) \<Rightarrow> env \<Rightarrow> 'z manager_scheme \<Rightarrow> bool" where
  "all_are P E s' \<longleftrightarrow> (\<exists>u v pgs sts n. get_pg_stats E u = (Ok pgs, v) \<and> list_all2 has_state pgs sts \<and>
     get_num_pgs E v = (Ok n, s') \<and> num_of n = Some (of_nat (length (filter P sts))))"

lemma all_pgs_True:
  assumes "all_pgs (bind get_pg_stats (count_pgs P)) E u = (Ok True, s')"
  shows "all_are P E s'"
proof -
  obtain pgs v k w n where *: "get_pg_stats E u = (Ok pgs, v)" "count_pgs P pgs E v = (Ok k, w)"
    "get_num_pgs E w = (Ok n, s')" "int_eq_value k n"
    using assms by (auto simp: all_pgs_def exec_simps split: res.splits prod.splits)
  from count_pgs_Ok [OF *(2)] obtain sts where
    "w = v" "list_all2 has_state pgs sts" "k = int (length (filter P sts))"
    by blast
  then show ?thesis using * unfolding all_are_def int_eq_value_def by simp blast
qed

lemma all_counted:
  assumes "list_all2 R xs ys" and "num_of n = Some (of_nat (length (filter P ys)))" and "num_of n = Some (of_nat (length xs))"
  shows "list_all P ys"
proof -
  have "length (filter P ys) = length ys" using assms list_all2_lengthD [OF assms(1)] by simp
  then show ?thesis by (metis filter_True length_filter_less less_irrefl list_all_iff)
qed

definition clean_state :: "string \<Rightarrow> bool" where
  "clean_state st \<longleftrightarrow> contains ''active'' st \<and> contains ''clean'' st \<and> \<not> contains ''stale'' st"

section \<open>What a wait that returns has seen\<close>

lemma wait_progress_Ok:
  assumes "wait_progress cond counter check E s = (Ok (), s')"
  shows "\<exists>u. cond E u = (Ok True, s')"
proof -
  have "post (wait_progress cond counter check) E s (\<lambda>r s'. r = Ok () \<longrightarrow> (\<exists>u. cond E u = (Ok True, s')))"
    unfolding wait_progress_def post_bind post_loop
  proof (intro postI, goal_cases)
    case (1 r t)
    have "post (loop_n n (wait_progress_body cond counter check) x) E u
        (\<lambda>r s'. r = Ok () \<longrightarrow> (\<exists>u. cond E u = (Ok True, s')))" for n x u
    proof (rule post_loop_n [where I = "\<lambda>_ _. True"], goal_cases)
      case (2 x u)
      show ?case
        by (rule postI)
          (auto simp: wait_progress_body_def exec_simps after_def split: res.splits prod.splits sum.splits if_splits)
    qed auto
    then show ?case
      by (cases r) (auto simp: after_def post_loop intro!: postI split: res.split)
  qed
  then show ?thesis using assms by (simp add: post_def)
qed

text \<open>C5: When \<open>wait_for_clean\<close> returns, the last thing it did was to read a placement group dump and
  a cluster status in which the number of groups that are active and clean and not stale is the
  number of groups of the cluster. If the dump has as many groups as the status counts, then every group
  of the dump is active and clean and not stale.\<close>

theorem wait_for_clean_clean:
  assumes "wait_for_clean timeout E s = (Ok (), s')"
  shows "\<exists>u v pgs sts n. get_pg_stats E u = (Ok pgs, v) \<and> list_all2 has_state pgs sts \<and> get_num_pgs E v = (Ok n, s') \<and>
    num_of n = Some (of_nat (length (filter clean_state sts))) \<and>
    (num_of n = Some (of_nat (length pgs)) \<longrightarrow> list_all clean_state sts)"
proof -
  have "\<exists>u. is_clean E u = (Ok True, s')"
    using assms unfolding wait_for_clean_def by (rule wait_progress_Ok)
  then have "all_are pgst_active_clean E s'"
    unfolding is_clean_def get_num_active_clean_def by (blast intro: all_pgs_True)
  then have "all_are clean_state E s'" by (simp add: clean_state_def [abs_def] pgst_active_clean_def [abs_def] has_iff)
  then show ?thesis unfolding all_are_def by (blast intro: all_counted)
qed

definition clean_env :: env where
  "clean_env = sample_env [pg_dump_reply ''early'' ''active+clean'', status_reply]"

theorem wait_for_clean_clean_witness:
  "\<exists>s' u v pgs sts n. wait_for_clean (VInt 300) clean_env sample_mgr = (Ok (), s') \<and>
    get_pg_stats clean_env u = (Ok pgs, v) \<and> list_all2 has_state pgs sts \<and> get_num_pgs clean_env v = (Ok n, s') \<and>
    num_of n = Some (of_nat (length (filter clean_state sts))) \<and>
    (num_of n = Some (of_nat (length pgs)) \<longrightarrow> list_all clean_state sts)"
proof -
  have "fst (wait_for_clean (VInt 300) clean_env sample_mgr) = Ok ()" by code_simp
  note run = run_eq [OF this]
  from wait_for_clean_clean [OF run] run show ?thesis by blast
qed

section \<open>Waits with a fixed timeout\<close>

text \<open>The loop of \<open>wait_until\<close> started at the end of the trace \<open>t0 @ [Now]\<close>: with a clock that keeps
  its promise, every round that goes on brings the timeout three seconds nearer.\<close>

lemma clock_since:
  assumes "clock_ok E" and "trace u = t0 @ [Now] @ es"
  shows "slept es \<le> env_clock E (trace u @ [Now]) - env_clock E (t0 @ [Now])"
  using assms unfolding clock_ok_def by (auto simp: algebra_simps dest!: spec [of _ t0])

definition rounds_left :: "rat \<Rightarrow> rat \<Rightarrow> nat" where
  "rounds_left T d = nat (\<lfloor>(T - d) / 3\<rfloor> + 1)"

lemma rounds_left_less:
  assumes "d < T" "d + 3 \<le> d'"
  shows "rounds_left T d' < rounds_left T d"
proof -
  have "(T - d') / 3 \<le> (T - d) / 3 - 1" using assms(2) by (simp add: field_simps)
  then have "\<lfloor>(T - d') / 3\<rfloor> \<le> \<lfloor>(T - d) / 3\<rfloor> - 1" by linarith
  moreover have "0 \<le> \<lfloor>(T - d) / 3\<rfloor>" using assms(1) by simp
  ultimately show ?thesis by (simp add: rounds_left_def)
qed

lemma post_wait_until:
  assumes cond: "keeps io_rel cond" "ends k cond" and clock: "clock_ok E"
    and fuel: "k \<le> env_fuel E" "rounds_left (of_int T) 0 < env_fuel E"
  shows "post (wait_until cond (VInt T) msg) E s (\<lambda>r s'. r \<noteq> NoFuel \<and>
    (r = Ok () \<longrightarrow> (\<exists>u. cond E u = (Ok True, s'))))"
proof -
  let ?P = "\<lambda>r s'. r \<noteq> NoFuel \<and> (r = Ok () \<longrightarrow> (\<exists>u. cond E u = (Ok True, s')))"
  let ?start = "env_clock E (trace s @ [Now])"
  let ?I = "\<lambda>st u. st = ?start \<and> (\<exists>es. trace u = trace s @ [Now] @ es)"
  let ?d = "\<lambda>u. slept (drop (length (trace s)) (trace u))"
  have "post (loop_n (env_fuel E) (wait_until_body cond (VInt T) msg) ?start) E (s\<lparr>trace := trace s @ [Now]\<rparr>) ?P"
  proof (rule post_loop_n_total [where I = ?I and V = "\<lambda>st u. rounds_left (of_int T) (?d u)"], goal_cases)
    case (3 st u)
    then obtain es where es: "trace u = trace s @ [Now] @ es" and st: "st = ?start" by blast
    show ?case
      unfolding wait_until_body_def
    proof (rule post_bindI [OF postI [where P = "\<lambda>r v. cond E u = (r, v)"]])
      fix c v
      assume c: "cond E u = (Ok c, v)"
      obtain fs where v: "v = u\<lparr>trace := trace u @ fs\<rparr>"
        using keepsD [OF cond(1) c] by (auto simp: io_rel_def)
      have late: "slept (es @ fs) \<le> env_clock E (trace v @ [Now]) - ?start"
        by (rule clock_since [OF clock]) (simp add: v es)
      have less: "rounds_left (of_int T) (slept (es @ fs) + 3) < rounds_left (of_int T) (slept es)"
        if "env_clock E (trace v @ [Now]) - ?start < of_int T"
      proof (rule rounds_left_less)
        show "slept es < of_int T" using that late slept_nonneg [of fs] by (simp only: slept_simps)
      qed simp
      show "post (if c then ret (Inr ()) else bind (if VInt T = VNone then ret () else
          bind now (\<lambda>t. py_assert (num_less_value (t - st) (VInt T)) msg)) (\<lambda>_. bind (sleep 3) (\<lambda>_. ret (Inl st)))) E v
         (after (\<lambda>y s'. case y of Inl x' \<Rightarrow> ?I x' s' \<and> rounds_left (of_int T) (?d s') < rounds_left (of_int T) (?d u)
            | Inr r \<Rightarrow> ?P (Ok r) s') ?P)"
        using c v es st less
        by (auto simp: now_def sleep_def post_simps num_less_value_def)
    qed (use endsD [OF cond(2) fuel(1)] in \<open>auto simp: after_def\<close>)
  qed (use fuel in auto)
  then show ?thesis
    unfolding wait_until_def now_def by (simp add: post_simps post_loop)
qed

lemma cond_quorum:
  "keeps io_rel (bind get_mon_quorum (\<lambda>q. ret (int (length q) = n)))"
  "ends k (bind get_mon_quorum (\<lambda>q. ret (int (length q) = n)))"
  by (intro keeps_intros, intro ends_intros)

lemma cond_all_up:
  "keeps io_rel are_all_osds_up" "ends k are_all_osds_up"
  by (intro keeps_intros, unfold are_all_osds_up_def osd_up_def, intro ends_intros)

definition up_flag :: "pv \<Rightarrow> bool" where
  "up_flag y = (case y of VDict d \<Rightarrow> (case map_of d ''up'' of Some v \<Rightarrow> num_less_value 0 v | None \<Rightarrow> False) | _ \<Rightarrow> False)"

lemma osd_up_Ok: "osd_up y E s = (Ok b, u) \<Longrightarrow> u = s \<and> b = up_flag y"
  by (auto simp: osd_up_def up_flag_def item_def exec_simps split: pv.splits option.splits)

lemma map_m_osd_up_Ok: "map_m osd_up ys E s = (Ok ups, s') \<Longrightarrow> s' = s \<and> ups = map up_flag ys"
proof (induction ys arbitrary: ups s s')
  case (Cons y ys)
  then obtain b bs u where b: "osd_up y E s = (Ok b, u)" and bs: "map_m osd_up ys E u = (Ok bs, s')" "ups = b # bs"
    by (auto simp: exec_simps split: res.splits prod.splits)
  then show ?case using osd_up_Ok [OF b] Cons.IH [OF bs(1)] by simp
qed (simp add: exec_simps)

lemma all_kept: "length (filter id bs) = length bs \<Longrightarrow> list_all id bs"
proof (induction bs)
  case (Cons b bs)
  then show ?case using length_filter_le [of "\<lambda>a. a" bs] by (cases b) auto
qed simp

lemma are_all_osds_up_True:
  assumes "are_all_osds_up E u = (Ok True, s')"
  shows "\<exists>osds. get_osd_dump E u = (Ok (VList osds), s') \<and>
    list_all up_flag osds"
proof -
  obtain osds t ups where *: "get_osd_dump E u = (Ok (VList osds), t)" "map_m osd_up osds E t = (Ok ups, s')"
    "length osds = length (filter id ups)"
    using assms by (auto simp: are_all_osds_up_def as_list_def exec_simps split: pv.splits res.splits prod.splits)
  from map_m_osd_up_Ok [OF *(2)] have ups: "s' = t" "ups = map up_flag osds" by auto
  have "list_all id ups" using *(3) ups(2) by (intro all_kept) simp
  then show ?thesis using * ups by (auto simp: list_all_iff)
qed

lemma quorum_size_True:
  assumes "bind get_mon_quorum (\<lambda>q. ret (int (length q) = n)) E u = (Ok True, s')"
  shows "\<exists>q. get_mon_quorum E u = (Ok q, s') \<and> int (length q) = n"
proof (cases "get_mon_quorum E u")
  case (Pair r t)
  then show ?thesis using assms by (cases r) (auto simp: exec_simps)
qed

text \<open>C6: Waiting for a monitor quorum of a given size with a timeout of \<open>T\<close> seconds ends, if time
  passes while it sleeps; when it returns, the last quorum it read has that size.\<close>

theorem wait_for_mon_quorum_size_bounded:
  assumes "clock_ok E" and "rounds_left (of_int T) 0 < env_fuel E"
  shows "post (wait_for_mon_quorum_size n (VInt T)) E s (\<lambda>r s'. r \<noteq> NoFuel \<and>
    (r = Ok () \<longrightarrow> (\<exists>u q. get_mon_quorum E u = (Ok q, s') \<and> int (length q) = n)))"
  unfolding wait_for_mon_quorum_size_def
  by (rule post_mono [OF post_wait_until [OF cond_quorum(1) cond_quorum(2) [where k = 0] assms(1) _ assms(2)]])
    (auto dest!: quorum_size_True)

lemma sample_clock: "clock_ok (sample_env table)"
  by (simp add: clock_ok_def sample_env_def)

definition quorum_env :: env where
  \<open>quorum_env = sample_env [([''quorum_status''], ok_proc ''{"quorum": [0, 1, 2]}'')]\<close>

theorem wait_for_mon_quorum_size_bounded_witness:
  "fst (wait_for_mon_quorum_size 3 (VInt 60) quorum_env sample_mgr) = Ok () \<and>
   post (wait_for_mon_quorum_size 3 (VInt 60)) quorum_env sample_mgr (\<lambda>r s'. r \<noteq> NoFuel \<and>
    (r = Ok () \<longrightarrow> (\<exists>u q. get_mon_quorum quorum_env u = (Ok q, s') \<and> int (length q) = 3)))"
proof (rule conjI, code_simp)
qed (rule wait_for_mon_quorum_size_bounded, simp_all add: quorum_env_def sample_clock rounds_left_def)

text \<open>C7: Waiting for all osds to be up with a timeout of \<open>T\<close> seconds ends, if time passes while it
  sleeps; when it returns, every osd of the last dump it read has a positive up flag.\<close>

theorem wait_for_all_up_bounded:
  assumes "clock_ok E" and "rounds_left (of_int T) 0 < env_fuel E"
  shows "post (wait_for_all_up (VInt T)) E s (\<lambda>r s'. r \<noteq> NoFuel \<and>
    (r = Ok () \<longrightarrow> (\<exists>u osds. get_osd_dump E u = (Ok (VList osds), s') \<and>
       list_all up_flag osds)))"
  unfolding wait_for_all_up_def
proof (rule post_mono [OF post_wait_until [OF cond_all_up(1) cond_all_up(2) [where k = 0] assms(1) _ assms(2)]], goal_cases)
  case (2 r s')
  then show ?case using are_all_osds_up_True [of E _ s'] by blast
qed simp

definition up_env :: env where
  "up_env = sample_env [osd_dump_reply]"

theorem wait_for_all_up_bounded_witness:
  "fst (wait_for_all_up (VInt 60) up_env sample_mgr) = Ok () \<and>
   post (wait_for_all_up (VInt 60)) up_env sample_mgr (\<lambda>r s'. r \<noteq> NoFuel \<and>
    (r = Ok () \<longrightarrow> (\<exists>u osds. get_osd_dump up_env u = (Ok (VList osds), s') \<and>
       list_all up_flag osds)))"
proof (rule conjI, code_simp)
qed (rule wait_for_all_up_bounded, simp_all add: up_env_def sample_clock rounds_left_def)

end
