(* ===== verification/Mon_Thrash.thy ===== *)
theory Mon_Thrash
  imports Manager_Waits Manager_Daemon
begin

text \<open>
  \<open>src/tasks/mon_thrash.py\<close>: the class \<open>MonitorThrasher\<close>, which kills, freezes and revives
  monitors, and the task that runs it. The thrasher's settings extend the state of the cluster
  manager it works with.
\<close>

section \<open>State\<close>

record mon_thrasher = manager +
  random_seed :: int
  revive_delay :: rat
  thrash_delay :: rat
  thrash_many :: pv
  maintain_quorum :: pv
  scrub :: pv
  freeze_mon_probability :: rat
  freeze_mon_duration :: rat
  store_thrash :: pv
  store_thrash_probability :: int

type_synonym ('z, 'a) mon_thr = "(env, 'z mon_thrasher_scheme, 'a) pm"

text \<open>\<open>[f[len('mon.'):] for f in teuthology.get_mon_names(ctx)]\<close>\<close>

definition get_mons :: "('z, string list) io" where
  "get_mons = asks (\<lambda>E. map (drop 4) (env_mon_names E))"

text \<open>\<open>max(math.ceil(m/2.0)-1, 0)\<close> of \<open>m\<close> monitors when the quorum has to stay\<close>

definition max_killable :: "('z, int) mon_thr" where
  "max_killable =
     bind get_mons (\<lambda>mons.
     bind (gets maintain_quorum) (\<lambda>mq.
     let m = int (length mons) in
     ret (if truthy mq then max (\<lceil>of_int m / (2 :: rat)\<rceil> - 1) 0 else m)))"

section \<open>The constructor\<close>

definition seed_of :: "dict \<Rightarrow> ('z, int) mon_thr" where
  "seed_of config =
     (if dict_get config ''seed'' VNone = VNone then bind now (\<lambda>t. py_int (VFloat t))
      else py_int (dict_get config ''seed'' VNone))"

definition mon_thrasher_init :: "dict option \<Rightarrow> ('z, unit) mon_thr" where
  "mon_thrasher_init config0 =
     bind (wait_for_clean VNone) (\<lambda>_.
     let config = (case config0 of None \<Rightarrow> [] | Some d \<Rightarrow> d) in
     bind (seed_of config) (\<lambda>seed.
     bind (modify (\<lambda>s. s\<lparr>random_seed := seed\<rparr>)) (\<lambda>_.
     bind (py_float (dict_get config ''revive_delay'' (VFloat 10))) (\<lambda>rd.
     bind (modify (\<lambda>s. s\<lparr>revive_delay := rd\<rparr>)) (\<lambda>_.
     bind (py_float (dict_get config ''thrash_delay'' (VFloat 0))) (\<lambda>td.
     bind (modify (\<lambda>s. s\<lparr>thrash_delay := td,
             thrash_many := dict_get config ''thrash_many'' (VBool False),
             maintain_quorum := dict_get config ''maintain_quorum'' (VBool True),
             scrub := dict_get config ''scrub'' (VBool True)\<rparr>)) (\<lambda>_.
     bind (py_float (dict_get config ''freeze_mon_probability'' (VInt 10))) (\<lambda>fp.
     bind (modify (\<lambda>s. s\<lparr>freeze_mon_probability := fp\<rparr>)) (\<lambda>_.
     bind (py_float (dict_get config ''freeze_mon_duration'' (VFloat 15))) (\<lambda>fd.
     bind (modify (\<lambda>s. s\<lparr>freeze_mon_duration := fd\<rparr>)) (\<lambda>_.
     bind max_killable (\<lambda>n.
     bind (py_assert (0 < n) ''Unable to kill at least one monitor with the current config.'') (\<lambda>_.
     bind (modify (\<lambda>s. s\<lparr>store_thrash := dict_get config ''store_thrash'' (VBool False)\<rparr>)) (\<lambda>_.
     bind (py_int (dict_get config ''store_thrash_probability'' (VInt 50))) (\<lambda>stp.
     bind (modify (\<lambda>s. s\<lparr>store_thrash_probability := stp\<rparr>)) (\<lambda>_.
     bind (if truthy (dict_get config ''store_thrash'' (VBool False)) then
             bind (py_assert (0 < stp) ''store_thrash is set, probability must be > 0'') (\<lambda>_.
             py_assert (truthy (dict_get config ''maintain_quorum'' (VBool True)))
               ''store_thrash = true must imply maintain_quorum = true'')
           else ret ()) (\<lambda>_.
     spawn ''mon_do_thrash'')))))))))))))))))"

definition mon_do_join :: "('z, unit) mon_thr" where
  "mon_do_join = bind (set_stop ''mon_thrasher'') (\<lambda>_. act (Get ''mon_do_thrash''))"

section \<open>One monitor\<close>

definition should_thrash_store :: "('z, bool) mon_thr" where
  "should_thrash_store =
     bind (gets store_thrash) (\<lambda>st.
     if \<not> truthy st then ret False
     else
       bind (random_randrange 0 101) (\<lambda>x.
       bind (gets store_thrash_probability) (\<lambda>p.
       ret (x < p))))"

definition thrash_store :: "string \<Rightarrow> ('z, unit) mon_thr" where
  "thrash_store mon =
     bind (conf_item ''zbkc'' (''mon.'' @ mon) ''mon addr'') (\<lambda>addr.
     bind (raw_cluster_cmd [''-m'', addr, ''sync'', ''force'']) (\<lambda>out.
     bind (loads out) (\<lambda>j.
     bind (item j ''ret'') (\<lambda>r.
     py_assert (int_eq_value 0 r) (''error forcing store sync on mon.'' @ mon @ '':'' @ [newline] @ out)))))"

definition should_freeze_mon :: "('z, bool) mon_thr" where
  "should_freeze_mon =
     bind (random_randrange 0 101) (\<lambda>x.
     bind (gets freeze_mon_probability) (\<lambda>p.
     ret (of_int x < p)))"

definition freeze_mon :: "string \<Rightarrow> ('z, unit) mon_thr" where
  "freeze_mon mon = signal_mon mon 19 False"

definition unfreeze_mon :: "string \<Rightarrow> ('z, unit) mon_thr" where
  "unfreeze_mon mon = signal_mon mon 18 False"

definition thr_kill_mon :: "string \<Rightarrow> ('z, unit) mon_thr" where
  "thr_kill_mon mon = kill_mon mon"

definition thr_revive_mon :: "string \<Rightarrow> ('z, unit) mon_thr" where
  "thr_revive_mon mon = revive_mon mon"

section \<open>The loop\<close>

text \<open>The monitor is leader or peon and sees a quorum of \<open>n\<close>.\<close>

definition check_mon :: "int \<Rightarrow> string \<Rightarrow> ('z, unit) mon_thr" where
  "check_mon n m =
     bind (get_mon_status m) (\<lambda>s.
     bind (item s ''state'') (\<lambda>st.
     bind (py_assert (st = VStr ''leader'' \<or> st = VStr ''peon'') []) (\<lambda>_.
     bind (item s ''quorum'') (\<lambda>q.
     bind (py_len q) (\<lambda>k.
     py_assert (int k = n) [])))))"

fun choose_freeze :: "string list \<Rightarrow> string list \<Rightarrow> ('z, string list) mon_thr" where
  "choose_freeze mons_to_kill [] = ret []"
| "choose_freeze mons_to_kill (mon # mons) =
     (if mon \<in> set mons_to_kill then choose_freeze mons_to_kill mons
      else
        bind should_freeze_mon (\<lambda>b.
        bind (choose_freeze mons_to_kill mons) (\<lambda>rest.
        ret (if b then mon # rest else rest))))"

definition thrash_and_kill :: "string \<Rightarrow> ('z, unit) mon_thr" where
  "thrash_and_kill mon =
     bind should_thrash_store (\<lambda>b.
     bind (gets maintain_quorum) (\<lambda>mq.
     bind (if b \<and> truthy mq then thrash_store mon else ret ()) (\<lambda>_.
     thr_kill_mon mon)))"

definition freeze_for_a_while :: "string list \<Rightarrow> ('z, unit) mon_thr" where
  "freeze_for_a_while mons_to_freeze =
     (if mons_to_freeze = [] then ret ()
      else
        bind (for_each mons_to_freeze freeze_mon) (\<lambda>_.
        bind (gets freeze_mon_duration) (\<lambda>d.
        bind (sleep d) (\<lambda>_.
        for_each mons_to_freeze unfreeze_mon))))"

text \<open>Every monitor is in the quorum, which has \<open>n\<close> members.\<close>

definition check_quorum :: "int \<Rightarrow> string list \<Rightarrow> ('z, unit) mon_thr" where
  "check_quorum n mons =
     bind (wait_for_mon_quorum_size n (VInt 300)) (\<lambda>_. for_each mons (check_mon n))"

definition choose_kill :: "string list \<Rightarrow> ('z, string list) mon_thr" where
  "choose_kill mons =
     bind max_killable (\<lambda>mk.
     bind (random_randrange 1 (mk + 1)) (\<lambda>kill_up_to.
     random_sample mons kill_up_to))"

text \<open>Killing, freezing, and waiting for the monitors that are left.\<close>

definition break_mons :: "string list \<Rightarrow> string list \<Rightarrow> string list \<Rightarrow> ('z, unit) mon_thr" where
  "break_mons mons mons_to_kill mons_to_freeze =
     bind (for_each mons_to_kill thrash_and_kill) (\<lambda>_.
     bind (freeze_for_a_while mons_to_freeze) (\<lambda>_.
     bind (gets maintain_quorum) (\<lambda>mq.
     bind (if truthy mq then
             check_quorum (int (length mons) - int (length mons_to_kill))
               (filter (\<lambda>m. m \<notin> set mons_to_kill) mons)
           else ret ()) (\<lambda>_.
     bind (gets revive_delay) sleep))))"

text \<open>What follows once the killed monitors have been revived.\<close>

definition settle_mons :: "string list \<Rightarrow> string list \<Rightarrow> ('z, unit) mon_thr" where
  "settle_mons mons mons_to_freeze =
     bind (freeze_for_a_while mons_to_freeze) (\<lambda>_.
     bind (check_quorum (int (length mons)) mons) (\<lambda>_.
     bind (gets scrub) (\<lambda>sc.
     bind (if truthy sc then
             try_except (bind (raw_cluster_cmd [''scrub'']) (\<lambda>_. ret ())) is_Exception (\<lambda>_. ret ())
           else ret ()) (\<lambda>_.
     bind (gets thrash_delay) (\<lambda>td.
     if 0 < td then sleep td else ret ())))))"

definition mon_thrash_round :: "('z, unit) mon_thr" where
  "mon_thrash_round =
     bind get_mons (\<lambda>mons.
     bind (check_quorum (int (length mons)) mons) (\<lambda>_.
     bind (choose_kill mons) (\<lambda>mons_to_kill.
     bind (choose_freeze mons_to_kill mons) (\<lambda>mons_to_freeze.
     bind (break_mons mons mons_to_kill mons_to_freeze) (\<lambda>_.
     bind (for_each mons_to_kill thr_revive_mon) (\<lambda>_.
     settle_mons mons mons_to_freeze))))))"

definition mon_do_thrash :: "('z, unit) mon_thr" where
  "mon_do_thrash =
     while_m (bind (poll_stop ''mon_thrasher'') (\<lambda>stopping. ret (\<not> stopping))) mon_thrash_round"

section \<open>The task\<close>

definition mon_thrash_task :: "pv \<Rightarrow> ('z, unit) mon_thr \<Rightarrow> ('z, unit) mon_thr" where
  "mon_thrash_task config0 body =
     bind (dict_config ''mon_thrash task only accepts a dict for configuration'' config0) (\<lambda>config.
     bind get_mons (\<lambda>mons.
     bind (py_assert (2 < length mons) ''mon_thrash task requires at least 3 monitors'') (\<lambda>_.
     bind first_mon_remote (\<lambda>mon.
     bind (manager_init mon None ''zbkc'') (\<lambda>_.
     bind (mon_thrasher_init (Some config)) (\<lambda>_.
     try_finally body
       (bind mon_do_join (\<lambda>_.
        bind get_mons (\<lambda>mons.
        wait_for_mon_quorum_size (int (length mons)) (VInt 300))))))))))"

end
