(* ===== verification/Pending.thy ===== *)
theory Pending
  imports World
begin

text \<open>
  Requests that are read off a trace: the names something has been switched off (stopped, frozen) for
  and not yet on again. The thrashers' properties are stated with it.
\<close>

section \<open>Requests that are pending\<close>

text \<open>The names an event of the first kind has been seen for and none of the second kind since.\<close>

definition pending_step :: "(event \<Rightarrow> string option) \<Rightarrow> (event \<Rightarrow> string option) \<Rightarrow> event \<Rightarrow> string list \<Rightarrow> string list" where
  "pending_step on off e xs = (case on e of
       Some m \<Rightarrow> List.insert m xs
     | None \<Rightarrow> (case off e of Some m \<Rightarrow> removeAll m xs | None \<Rightarrow> xs))"

definition pending :: "(event \<Rightarrow> string option) \<Rightarrow> (event \<Rightarrow> string option) \<Rightarrow> event list \<Rightarrow> string list" where
  "pending on off t = fold (pending_step on off) t []"

lemma pending_snoc: "pending on off (t @ [e]) = pending_step on off e (pending on off t)"
  by (simp add: pending_def)

lemma pending_distinct: "distinct (pending on off t)"
  by (induction t rule: rev_induct)
    (auto simp: pending_def pending_step_def distinct_removeAll split: option.split)

text \<open>Events that open a request only for names of \<open>K\<close>.\<close>

definition opens :: "(event \<Rightarrow> string option) \<Rightarrow> string set \<Rightarrow> event \<Rightarrow> bool" where
  "opens on K e = (case on e of Some m \<Rightarrow> m \<in> K | None \<Rightarrow> True)"

lemma opens_mono: "opens on K e \<Longrightarrow> K \<subseteq> K' \<Longrightarrow> opens on K' e"
  by (auto simp: opens_def split: option.splits)

lemma pending_subset:
  "list_all (opens on K) es \<Longrightarrow> set (pending on off (t @ es)) \<subseteq> set (pending on off t) \<union> K"
proof (induction es rule: rev_induct)
  case (snoc e es)
  then show ?case
    unfolding append_assoc [symmetric] pending_snoc
    by (auto simp: pending_step_def opens_def split: option.splits)
qed simp

lemma sent_pending:
  "sent_rel (opens on K) s s' \<Longrightarrow> set (pending on off (trace s')) \<subseteq> set (pending on off (trace s)) \<union> K"
  using pending_subset by (fastforce simp: sent_rel_def)

text \<open>A loop that closes the request of every name it goes over.\<close>

lemma post_close_all:
  assumes "\<And>k s. post (f k) E s (\<lambda>r s'. set (pending on off (trace s')) \<subseteq> set (pending on off (trace s)) \<and>
      (r = Ok () \<longrightarrow> k \<notin> set (pending on off (trace s'))))"
  shows "post (for_each ks f) E s (\<lambda>r s'. set (pending on off (trace s')) \<subseteq> set (pending on off (trace s)) \<and>
      (r = Ok () \<longrightarrow> set (pending on off (trace s')) \<inter> set ks = {}))"
proof (induction ks arbitrary: s)
  case Nil
  then show ?case by (simp add: post_simps)
next
  case (Cons k ks)
  show ?case
    unfolding for_each.simps
  proof (rule post_bindI [OF assms], goal_cases)
    case (1 u t)
    then show ?case by (intro post_mono [OF Cons.IH]) auto
  qed auto
qed

text \<open>Events that close no request, and a loop that opens one for every name it goes over.\<close>

lemma pending_mono:
  "list_all (\<lambda>e. off e = None) es \<Longrightarrow> set (pending on off t) \<subseteq> set (pending on off (t @ es))"
proof (induction es rule: rev_induct)
  case (snoc e es)
  then show ?case
    unfolding append_assoc [symmetric] pending_snoc
    by (auto simp: pending_step_def split: option.splits)
qed simp

lemma pending_stays:
  "k \<in> set (pending on off t) \<Longrightarrow> list_all (\<lambda>e. off e \<noteq> Some k) es \<Longrightarrow> k \<in> set (pending on off (t @ es))"
proof (induction es rule: rev_induct)
  case (snoc e es)
  then show ?case
    unfolding append_assoc [symmetric] pending_snoc
    by (auto simp: pending_step_def split: option.splits)
qed simp

lemma open_all:
  assumes "for_each ks f E s = (Ok (), s')" and "I s"
    and "\<And>k t t'. I t \<Longrightarrow> f k E t = (Ok (), t') \<Longrightarrow> I t' \<and>
      set (pending on off (trace t)) \<subseteq> set (pending on off (trace t')) \<and> k \<in> set (pending on off (trace t'))"
  shows "set ks \<union> set (pending on off (trace s)) \<subseteq> set (pending on off (trace s'))"
  using assms(1,2)
proof (induction ks arbitrary: s)
  case (Cons k ks)
  then obtain t where "f k E s = (Ok (), t)" "for_each ks f E t = (Ok (), s')" by (auto simp: bind_Ok)
  with assms(3) [OF Cons.prems(2)] Cons.IH show ?case by fastforce
qed (simp add: exec_simps)

end
