(* ===== verification/Mon_Thrash_Props.thy ===== *)
theory Mon_Thrash_Props
  imports Mon_Thrash Pending Sample
begin

text \<open>
  What the monitor thrasher does to the monitors, read off the trace: which ones have been told to
  stop and not yet to start again, and which ones are frozen.
\<close>

section \<open>Stopped and frozen monitors\<close>

definition mon_stop :: "event \<Rightarrow> string option" where
  "mon_stop e = (case e of Daemon DStop r m _ \<Rightarrow> if r = ''mon'' then Some m else None | _ \<Rightarrow> None)"

definition mon_start :: "event \<Rightarrow> string option" where
  "mon_start e = (case e of Daemon (DRestart _) r m _ \<Rightarrow> if r = ''mon'' then Some m else None | _ \<Rightarrow> None)"

definition mon_signal :: "int \<Rightarrow> event \<Rightarrow> string option" where
  "mon_signal n e = (case e of Daemon (DSignal k _) r m _ \<Rightarrow> if r = ''mon'' \<and> k = n then Some m else None | _ \<Rightarrow> None)"

definition down_mons :: "event list \<Rightarrow> string list" where
  "down_mons t = pending mon_stop mon_start t"

definition frozen_mons :: "event list \<Rightarrow> string list" where
  "frozen_mons t = pending (mon_signal 19) (mon_signal 18) t"

lemmas mon_event_defs = mon_stop_def mon_start_def mon_signal_def opens_def

text \<open>What each operation may send: \<open>K\<close> are the monitors it may stop, \<open>F\<close> the ones it may freeze.\<close>

definition mon_events :: "string set \<Rightarrow> string set \<Rightarrow> event \<Rightarrow> bool" where
  "mon_events K F e \<longleftrightarrow> opens mon_stop K e \<and> opens (mon_signal 19) F e"

abbreviation "quiet \<equiv> mon_events {} {}"

lemma mon_events_simps [simp]:
  "mon_events K F (Run h as b)"
  "mon_events K F (Sleep q)"
  "mon_events K F Now"
  "mon_events K F RandomBits"
  "mon_events K F (PollStop f)"
  "mon_events K F (Power op h)"
  "mon_events K F (Daemon (DRestart as) r m c)"
  "mon_events K F (Daemon (DSignal 18 b) r m c)"
  "mon_events K F (Daemon DStop ''mon'' m c) \<longleftrightarrow> m \<in> K"
  "mon_events K F (Daemon (DSignal 19 b) ''mon'' m c) \<longleftrightarrow> m \<in> F"
  by (simp_all add: mon_events_def mon_event_defs)

lemma quiet_mon_events: "quiet e \<Longrightarrow> mon_events K F e"
  by (auto simp: mon_events_def elim: opens_mono)

lemma quiet_sent: "sent_rel quiet s s' \<Longrightarrow> sent_rel (mon_events K F) s s'"
  unfolding sent_rel_def by (auto simp: list_all_iff intro: quiet_mon_events)

lemma sent_mgr_daemon [keeps_intros]:
  "(\<And>c. Q (Daemon op r i c)) \<Longrightarrow> keeps (sent_rel Q) (mgr_daemon op r i)"
  unfolding mgr_daemon_def by (intro keeps_intros)

lemma sent_mon_queries [keeps_intros]:
  "keeps (sent_rel (mon_events K F)) (wait_for_mon_quorum_size n v)"
  "keeps (sent_rel (mon_events K F)) (check_mon n m)"
  "keeps (sent_rel (mon_events K F)) (thrash_store m)"
  "keeps (sent_rel (mon_events K F)) should_thrash_store"
  "keeps (sent_rel (mon_events K F)) should_freeze_mon"
  "keeps (sent_rel (mon_events K F)) (choose_kill mons)"
  unfolding wait_for_mon_quorum_size_def wait_until_def wait_until_body_def get_mon_quorum_def
    check_mon_def get_mon_status_def conf_item_def thrash_store_def should_thrash_store_def
    should_freeze_mon_def choose_kill_def max_killable_def get_mons_def
  by (intro keeps_intros mon_events_simps)+

lemma sent_mon_daemons [keeps_intros]:
  "m \<in> K \<Longrightarrow> keeps (sent_rel (mon_events K F)) (thrash_and_kill m)"
  "keeps (sent_rel (mon_events K F)) (thr_revive_mon m)"
  "m \<in> F \<Longrightarrow> keeps (sent_rel (mon_events K F)) (freeze_mon m)"
  "keeps (sent_rel (mon_events K F)) (unfreeze_mon m)"
  unfolding thrash_and_kill_def thr_kill_mon_def kill_mon_def thr_revive_mon_def revive_mon_def
    freeze_mon_def unfreeze_mon_def signal_mon_def find_remote_def get_remote_def assert_ipmi_def
    make_admin_daemon_dir_def
  by (intro keeps_intros; simp)+

lemma sent_choose_freeze [keeps_intros]: "keeps (sent_rel (mon_events K F)) (choose_freeze ks mons)"
  by (induction mons) (auto intro!: keeps_intros)

lemma sent_check_quorum [keeps_intros]: "keeps (sent_rel (mon_events K F)) (check_quorum n mons)"
  unfolding check_quorum_def by (intro keeps_intros)

lemma sent_freeze_for_a_while: "keeps (sent_rel (mon_events K (set fs))) (freeze_for_a_while fs)"
  unfolding freeze_for_a_while_def
  by (intro keeps_intros sent.keeps_for_each_set; simp)

lemma sent_break_mons: "keeps (sent_rel (mon_events (set ks) (set fs))) (break_mons mons ks fs)"
  unfolding break_mons_def
  by (intro keeps_intros sent.keeps_for_each_set sent_freeze_for_a_while; simp)

lemma sent_settle_mons: "keeps (sent_rel (mon_events {} (set fs))) (settle_mons mons fs)"
  unfolding settle_mons_def
  by (intro keeps_intros sent_freeze_for_a_while; simp)

section \<open>One round\<close>

lemma post_mgr_daemon:
  assumes "\<And>r. r \<noteq> NoFuel \<Longrightarrow> P r (s\<lparr>trace := trace s @ [Daemon op role i (mgr_cluster s)]\<rparr>)"
  shows "post (mgr_daemon op role i) E s P"
  unfolding mgr_daemon_def daemon_def act_def
  by (simp add: post_simps assms split: option.split)

lemma post_revive_all:
  "post (for_each ks thr_revive_mon) E s (\<lambda>r s'. set (down_mons (trace s')) \<subseteq> set (down_mons (trace s)) \<and>
     (r = Ok () \<longrightarrow> set (down_mons (trace s')) \<inter> set ks = {}))"
  unfolding down_mons_def
proof (rule post_close_all)
  fix k and u :: "'a mon_thrasher_scheme"
  let ?P = "\<lambda>r u'. set (pending mon_stop mon_start (trace u')) \<subseteq> set (pending mon_stop mon_start (trace u)) \<and>
    (r = Ok () \<longrightarrow> k \<notin> set (pending mon_stop mon_start (trace u')))"
  have q: "set (pending mon_stop mon_start (trace t)) \<subseteq> set (pending mon_stop mon_start (trace u))"
    if "sent_rel quiet u t" for t
    using that sent_pending [of mon_stop "{}" u t] by (auto simp: sent_rel_def mon_events_def list_all_iff)
  show "post (thr_revive_mon k) E u ?P"
    unfolding thr_revive_mon_def revive_mon_def post_steps
    by (rule post_bind_keeps [where R = "sent_rel quiet"])
      (auto simp: find_remote_def get_remote_def assert_ipmi_def make_admin_daemon_dir_def pending_snoc
        pending_step_def mon_stop_def mon_start_def dest!: q intro!: keeps_intros post_mgr_daemon)
qed

lemma post_unfreeze_all:
  "post (for_each fs unfreeze_mon) E s (\<lambda>r s'. set (frozen_mons (trace s')) \<subseteq> set (frozen_mons (trace s)) \<and>
     (r = Ok () \<longrightarrow> set (frozen_mons (trace s')) \<inter> set fs = {}))"
  unfolding frozen_mons_def
  by (rule post_close_all)
    (auto simp: unfreeze_mon_def signal_mon_def pending_snoc pending_step_def mon_signal_def
      intro!: post_mgr_daemon)

text \<open>No monitor is frozen that was not before.\<close>

definition thaw_rel :: "'z sys_scheme \<Rightarrow> 'z sys_scheme \<Rightarrow> bool" where
  "thaw_rel s s' \<longleftrightarrow> set (frozen_mons (trace s')) \<subseteq> set (frozen_mons (trace s))"

interpretation thaw: step_rel thaw_rel
  by unfold_locales (auto simp: thaw_rel_def)

lemma sent_thaw_rel: "sent_rel (mon_events K {}) s s' \<Longrightarrow> thaw_rel s s'"
  using sent_pending [of "mon_signal 19" "{}" s s' "mon_signal 18"]
  by (auto simp: thaw_rel_def frozen_mons_def sent_rel_def mon_events_def list_all_iff)

lemma sent_thaw: "keeps (sent_rel (mon_events K {})) m \<Longrightarrow> ok_keeps thaw_rel m"
  by (rule ok_keeps_of_keeps, erule keeps_mono, erule sent_thaw_rel)

lemma thaw_freeze_for_a_while: "ok_keeps thaw_rel (freeze_for_a_while fs)"
proof (rule ok_keepsI)
  fix E s u s'
  assume run: "freeze_for_a_while fs E s = (Ok u, s')"
  show "thaw_rel s s'"
  proof (cases "fs = []")
    case True
    then show ?thesis using run by (simp add: freeze_for_a_while_def exec_simps thaw_rel_def)
  next
    case False
    have "keeps (sent_rel (mon_events {} (set fs))) (bind (for_each fs freeze_mon) (\<lambda>_. bind (gets freeze_mon_duration) sleep))"
      by (intro keeps_intros sent.keeps_for_each_set; simp)
    moreover have "bind (bind (for_each fs freeze_mon) (\<lambda>_. bind (gets freeze_mon_duration) sleep))
        (\<lambda>_. for_each fs unfreeze_mon) E s = (Ok u, s')"
      using run False by (simp add: freeze_for_a_while_def bind_assoc)
    ultimately obtain t where t: "sent_rel (mon_events {} (set fs)) s t"
      "for_each fs unfreeze_mon E t = (Ok u, s')"
      by (auto simp: exec_bind [of "bind m f" for m f] split: prod.splits res.splits dest: keepsD)
    have "sent_rel (opens (mon_signal 19) (set fs)) s t"
      using t(1) by (auto simp: sent_rel_def mon_events_def list_all_iff)
    from sent_pending [OF this, of "mon_signal 18"] postD [OF post_unfreeze_all t(2)]
    show ?thesis by (auto simp: thaw_rel_def frozen_mons_def)
  qed
qed

lemma thaw_break_mons: "ok_keeps thaw_rel (break_mons mons ks fs)"
  unfolding break_mons_def
proof (rule thaw.ok_keeps_bind)
  show "ok_keeps thaw_rel (for_each ks thrash_and_kill)"
    by (rule sent_thaw [where K = "set ks"], intro sent.keeps_for_each_set keeps_intros)
qed (rule thaw.ok_keeps_bind [OF thaw_freeze_for_a_while], rule sent_thaw, intro keeps_intros; simp)

lemma thaw_settle_mons: "ok_keeps thaw_rel (settle_mons mons fs)"
  unfolding settle_mons_def
  by (rule thaw.ok_keeps_bind [OF thaw_freeze_for_a_while], rule sent_thaw, intro keeps_intros; simp)

text \<open>With the quorum to be kept, fewer than half of the monitors are chosen.\<close>

lemma choose_kill_minority:
  assumes "choose_kill mons E s = (Ok ks, s')" and "truthy (maintain_quorum s)"
    and "length mons = length (env_mon_names E)"
  shows "2 * length ks < length mons"
proof -
  let ?mk = "max (\<lceil>of_nat (length mons) / (2 :: rat)\<rceil> - 1) 0"
  from assms obtain x s1 where x: "random_randrange 1 (?mk + 1) E s = (Ok x, s1)"
    and ks: "random_sample mons x E s1 = (Ok ks, s')"
    by (auto simp: choose_kill_def max_killable_def get_mons_def exec_simps Let_def
        split: prod.splits res.splits)
  have "int (length ks) = x" using random_sample_props(1) [OF ks] .
  moreover have "1 \<le> x" "x \<le> ?mk" using random_randrange_bounds [OF x] by auto
  ultimately have "of_int (int (length ks)) < of_nat (length mons) / (2 :: rat)" by linarith
  then have "of_nat (2 * length ks) < (of_nat (length mons) :: rat)" by simp
  then show ?thesis by (simp only: of_nat_less_iff)
qed

text \<open>No monitor is down that was not before.\<close>

definition down_rel :: "'z sys_scheme \<Rightarrow> 'z sys_scheme \<Rightarrow> bool" where
  "down_rel s s' \<longleftrightarrow> set (down_mons (trace s')) \<subseteq> set (down_mons (trace s))"

interpretation down: step_rel down_rel
  by unfold_locales (auto simp: down_rel_def)

lemma sent_down: "sent_rel (mon_events K F) s s' \<Longrightarrow> set (down_mons (trace s')) \<subseteq> set (down_mons (trace s)) \<union> K"
  using sent_pending [of mon_stop K s s' mon_start]
  by (auto simp: down_mons_def sent_rel_def mon_events_def list_all_iff)

lemma sent_down_rel: "keeps (sent_rel (mon_events {} F)) m \<Longrightarrow> ok_keeps down_rel m"
  by (rule ok_keeps_of_keeps, erule keeps_mono, drule sent_down) (simp add: down_rel_def)

text \<open>The monitors that are killed are the ones that are revived.\<close>

lemma down_break_revive:
  "ok_keeps down_rel (bind (break_mons mons ks fs) (\<lambda>_. for_each ks thr_revive_mon))"
proof (rule ok_keepsI)
  fix E s u s'
  assume "bind (break_mons mons ks fs) (\<lambda>_. for_each ks thr_revive_mon) E s = (Ok u, s')"
  then obtain v t where t: "break_mons mons ks fs E s = (Ok v, t)" "for_each ks thr_revive_mon E t = (Ok u, s')"
    by (auto simp: exec_bind split: prod.splits res.splits)
  from sent_down [OF keepsD [OF sent_break_mons t(1)]] postD [OF post_revive_all t(2)]
  show "down_rel s s'" by (auto simp: down_rel_def)
qed

text \<open>The part of a round that follows the choice of the monitors to kill.\<close>

lemma round_rest:
  fixes ks mons
  defines "rest \<equiv> bind (choose_freeze ks mons) (\<lambda>fs. bind (break_mons mons ks fs) (\<lambda>_.
     bind (for_each ks thr_revive_mon) (\<lambda>_. settle_mons mons fs)))"
  shows "keeps (sent_rel (mon_events (set ks) UNIV)) rest" "ok_keeps thaw_rel rest" "ok_keeps down_rel rest"
proof -
  show "keeps (sent_rel (mon_events (set ks) UNIV)) rest"
    unfolding rest_def
    by (intro keeps_intros sent_mono [OF sent_break_mons] sent_mono [OF sent_settle_mons])
      (auto simp: mon_events_def elim: opens_mono)
  show "ok_keeps thaw_rel rest"
    unfolding rest_def
    by (intro thaw.ok_keeps_bind thaw_break_mons thaw_settle_mons sent_thaw [where K = "{}"] keeps_intros)
  show "ok_keeps down_rel rest"
    unfolding rest_def bind_assoc [of "break_mons m k f" for m k f, symmetric]
    by (intro down.ok_keeps_bind [OF sent_down_rel [where F = "{}"]]
        down.ok_keeps_bind [OF down_break_revive] sent_down_rel [OF sent_settle_mons] keeps_intros)
qed

lemma round_restores:
  "ok_keeps thaw_rel mon_thrash_round" "ok_keeps down_rel mon_thrash_round"
  unfolding mon_thrash_round_def get_mons_def
  by (intro thaw.ok_keeps_bind [OF sent_thaw [where K = "{}"]] round_rest keeps_intros)
    (intro down.ok_keeps_bind [OF sent_down_rel [where F = "{}"]] round_rest keeps_intros)

text \<open>A round stops only monitors of a minority \<open>ks\<close>.\<close>

lemma post_round_minority:
  assumes "env_mon_names E \<noteq> []"
  shows "post mon_thrash_round E s (\<lambda>r s'. \<exists>ks. (truthy (maintain_quorum s) \<longrightarrow> 2 * length ks < length (env_mon_names E)) \<and>
        sent_rel (mon_events (set ks) UNIV) s s')"
    (is "post _ E s ?P")
proof -
  have quiet: "?P r t" if "sent_rel quiet s t" for r :: "unit res" and t
    using quiet_sent [OF that, of "{}" UNIV] assms by (intro exI [of _ "[]"]) simp
  let ?n = "length (env_mon_names E)"
  show ?thesis
    unfolding mon_thrash_round_def get_mons_def post_steps
  proof (rule post_bind_keeps [where R = "sent_rel quiet"])
    fix v t
    assume st: "sent_rel quiet s t"
    then have mq: "maintain_quorum t = maintain_quorum s" by (auto simp: sent_rel_def)
    let ?mons = "map (drop 4) (env_mon_names E)"
    let ?Q = "\<lambda>r u. sent_rel quiet s u \<and> (\<forall>ks. r = Ok ks \<longrightarrow> truthy (maintain_quorum s) \<longrightarrow> 2 * length ks < ?n)"
    have ck: "post (choose_kill ?mons) E t ?Q"
    proof (rule postI)
      fix r u
      assume run: "choose_kill ?mons E t = (r, u)"
      then have "sent_rel quiet t u" by (rule keepsD [OF sent_mon_queries(6)])
      then show "?Q r u" using st run sent.step_trans choose_kill_minority [of ?mons E t _ u] mq by auto
    qed
    show "post (bind (choose_kill ?mons) (\<lambda>ks. bind (choose_freeze ks ?mons) (\<lambda>fs.
        bind (break_mons ?mons ks fs) (\<lambda>_. bind (for_each ks thr_revive_mon) (\<lambda>_. settle_mons ?mons fs)))))
        E t ?P"
    proof (rule post_bindI [OF ck])
      fix ks :: "string list" and u
      assume u: "sent_rel quiet s u \<and> (\<forall>ks'. Ok ks = Ok ks' \<longrightarrow> truthy (maintain_quorum s) \<longrightarrow> 2 * length ks' < ?n)"
      then have "sent_rel (mon_events (set ks) UNIV) s u" by (auto intro: quiet_sent)
      then show "post (bind (choose_freeze ks ?mons) (\<lambda>fs. bind (break_mons ?mons ks fs) (\<lambda>_.
          bind (for_each ks thr_revive_mon) (\<lambda>_. settle_mons ?mons fs)))) E u ?P"
        using u by (intro post_keeps [OF round_rest(1)]) (auto intro: sent.step_trans)
    qed (auto intro: quiet)
  qed (auto intro: quiet keeps_intros)
qed

section \<open>The loop\<close>

text \<open>At every moment from \<open>s\<close> to \<open>s'\<close> fewer than half of \<open>n\<close> monitors are down.\<close>

definition majority_up :: "nat \<Rightarrow> event list \<Rightarrow> event list \<Rightarrow> bool" where
  "majority_up n t t' \<longleftrightarrow> (\<exists>es. t' = t @ es \<and> (\<forall>u. prefix u es \<longrightarrow> 2 * length (down_mons (t @ u)) < n))"

lemma majority_up_trans:
  assumes "majority_up n t u" "majority_up n u v"
  shows "majority_up n t v"
proof -
  from assms obtain es fs where e: "u = t @ es" "v = t @ es @ fs"
    "\<And>x. prefix x es \<Longrightarrow> 2 * length (down_mons (t @ x)) < n"
    "\<And>x. prefix x fs \<Longrightarrow> 2 * length (down_mons (t @ es @ x)) < n"
    by (auto simp: majority_up_def)
  have "2 * length (down_mons (t @ x)) < n" if "prefix x (es @ fs)" for x
    using that e(3,4) by (auto simp: prefix_append)
  then show ?thesis using e by (auto simp: majority_up_def)
qed

lemma sent_majority_up:
  assumes "sent_rel (mon_events (set ks) F) s s'" and "down_mons (trace s) = []" and "2 * length ks < n"
  shows "majority_up n (trace s) (trace s')"
proof -
  from assms(1) obtain es where es: "trace s' = trace s @ es" "list_all (mon_events (set ks) F) es"
    by (auto simp: sent_rel_def)
  have "2 * length (down_mons (trace s @ u)) < n" if "prefix u es" for u
  proof -
    have "list_all (opens mon_stop (set ks)) u"
      using es(2) that by (auto simp: prefix_def mon_events_def list_all_iff)
    then have "set (down_mons (trace s @ u)) \<subseteq> set ks"
      using pending_subset [of mon_stop "set ks" u mon_start "trace s"] assms(2) by (simp add: down_mons_def)
    then have "length (down_mons (trace s @ u)) \<le> length ks"
      using pending_distinct [of mon_stop mon_start "trace s @ u"]
      by (metis card_length card_mono distinct_card down_mons_def finite_set order_trans)
    then show ?thesis using assms(3) by simp
  qed
  then show ?thesis using es by (auto simp: majority_up_def)
qed

lemma round_majority_up:
  assumes "env_mon_names E \<noteq> []" and "truthy (maintain_quorum t)" and "down_mons (trace t) = []"
    and "mon_thrash_round E t = (r, t')"
  shows "majority_up (length (env_mon_names E)) (trace t) (trace t')" "maintain_quorum t' = maintain_quorum t"
    "r = Ok () \<Longrightarrow> down_mons (trace t') = []"
proof -
  from postD [OF post_round_minority [OF assms(1)] assms(4)] assms(2) obtain ks
    where ks: "2 * length ks < length (env_mon_names E)" "sent_rel (mon_events (set ks) UNIV) t t'" by auto
  show "majority_up (length (env_mon_names E)) (trace t) (trace t')"
    using sent_majority_up [OF ks(2) assms(3) ks(1)] .
  show "maintain_quorum t' = maintain_quorum t" using ks(2) by (auto simp: sent_rel_def)
  show "down_mons (trace t') = []" if "r = Ok ()"
    using ok_keepsD [OF round_restores(2), of E t "()" t'] assms(3,4) that by (simp add: down_rel_def)
qed

lemma down_poll [simp]: "down_mons (t @ [PollStop name]) = down_mons t"
  by (simp add: down_mons_def pending_snoc pending_step_def mon_stop_def mon_start_def)

lemma frozen_poll [simp]: "frozen_mons (t @ [PollStop name]) = frozen_mons t"
  by (simp add: frozen_mons_def pending_snoc pending_step_def mon_signal_def)

lemma majority_up_poll:
  assumes "majority_up n t t'" "down_mons t' = []" "0 < n"
  shows "majority_up n t (t' @ [PollStop name])"
proof -
  have "majority_up n t' (t' @ [PollStop name])"
    unfolding majority_up_def using assms(2,3) by (intro exI [of _ "[PollStop name]"]) (auto simp: prefix_Cons)
  then show ?thesis using assms(1) majority_up_trans by blast
qed

text \<open>A cluster of three monitors that all answer when asked for the quorum.\<close>

definition quorum_reply :: "nat \<Rightarrow> string" where
  \<open>quorum_reply k = (if k = 3 then ''{"state": "peon", "quorum": [0, 1, 2]}''
     else if k = 2 then ''{"state": "peon", "quorum": [0, 1]}'' else ''{"state": "probing", "quorum": []}'')\<close>

definition mon_env :: env where
  "mon_env = (sample_env [])\<lparr>env_run := \<lambda>t. Inr (ok_proc (quorum_reply (3 - length (down_mons t)))),
     env_conf := \<lambda>_ _. Some [(''mon addr'', VStr ''10.0.0.1:6789'')]\<rparr>"

definition mon_thr0 :: mon_thrasher where
  "mon_thr0 = \<lparr>trace = [], mgr_cluster = ''zbkc'', mgr_controller = ''host1'', mgr_config = [],
     pools = [], next_pool_id = 0, random_seed = 1, revive_delay = 10, thrash_delay = 1,
     thrash_many = VBool False, maintain_quorum = VBool True, scrub = VBool True,
     freeze_mon_probability = 10, freeze_mon_duration = 15, store_thrash = VBool False,
     store_thrash_probability = 50\<rparr>"

text \<open>C18: Keeping the quorum: when the option is set and no monitor is down at the start, then at every
  moment of the run, however it ends, fewer than half of the monitors have been told to stop and not
  yet to start again.\<close>

theorem mon_do_thrash_quorum:
  assumes "env_mon_names E \<noteq> []" and "truthy (maintain_quorum s)" and "down_mons (trace s) = []"
  shows "post mon_do_thrash E s (\<lambda>r s'. majority_up (length (env_mon_names E)) (trace s) (trace s'))"
  unfolding mon_do_thrash_def
proof (rule post_poll_loop [where I = "\<lambda>t. majority_up (length (env_mon_names E)) (trace s) (trace t) \<and>
    truthy (maintain_quorum t) \<and> down_mons (trace t) = []"], goal_cases)
  case 1
  then show ?case using assms by (auto simp: majority_up_def)
next
  case (2 t)
  then show ?case using assms(1) by (auto intro: majority_up_poll)
next
  case (3 t)
  then show ?case using round_majority_up [OF assms(1), of t] majority_up_trans by (intro postI) auto
qed simp

theorem mon_do_thrash_quorum_witness:
  "fst (mon_do_thrash mon_env mon_thr0) = Ok () \<and>
   post mon_do_thrash mon_env mon_thr0 (\<lambda>r s'. majority_up 3 [] (trace s'))"
proof (rule conjI, code_simp)
  have "env_mon_names mon_env = [''mon.a'', ''mon.b'', ''mon.c'']" "truthy (maintain_quorum mon_thr0)" "trace mon_thr0 = []"
    by (simp_all add: mon_env_def mon_thr0_def sample_env_def)
  then show "post mon_do_thrash mon_env mon_thr0 (\<lambda>r s'. majority_up 3 [] (trace s'))"
    using mon_do_thrash_quorum [of mon_env mon_thr0] by (simp add: down_mons_def pending_def numeral_3_eq_3)
qed

lemma round_settles:
  assumes "mon_thrash_round E t = (Ok (), t')" and "down_mons (trace t) = []" and "frozen_mons (trace t) = []"
  shows "down_mons (trace t') = []" "frozen_mons (trace t') = []"
  using ok_keepsD [OF round_restores(1) assms(1)] ok_keepsD [OF round_restores(2) assms(1)] assms(2,3)
  by (simp_all add: down_rel_def thaw_rel_def)

text \<open>C19: When the thrashing loop returns, every monitor that was killed has been told to start again and
  every monitor that was frozen to go on, whatever the settings.\<close>

theorem mon_do_thrash_restores:
  assumes "mon_do_thrash E s = (Ok (), s')" and "down_mons (trace s) = []" and "frozen_mons (trace s) = []"
  shows "down_mons (trace s') = [] \<and> frozen_mons (trace s') = []"
proof -
  have "post mon_do_thrash E s (\<lambda>r s'. r = Ok () \<longrightarrow> down_mons (trace s') = [] \<and> frozen_mons (trace s') = [])"
    unfolding mon_do_thrash_def
  proof (rule post_poll_loop [where I = "\<lambda>t. down_mons (trace t) = [] \<and> frozen_mons (trace t) = []"], goal_cases)
    case (3 t)
    then show ?case by (intro postI) (auto dest: round_settles)
  qed (use assms(2,3) in auto)
  from postD [OF this assms(1)] show ?thesis by simp
qed

theorem mon_do_thrash_restores_witness:
  "\<exists>s'. mon_do_thrash mon_env mon_thr0 = (Ok (), s') \<and> down_mons (trace s') = [] \<and> frozen_mons (trace s') = []"
proof -
  let ?run = "mon_do_thrash mon_env mon_thr0"
  have "fst ?run = Ok ()" by code_simp
  then have run: "?run = (Ok (), snd ?run)" by (rule run_eq)
  have "down_mons (trace mon_thr0) = [] \<and> frozen_mons (trace mon_thr0) = []" by code_simp
  then show ?thesis
    using mon_do_thrash_restores [OF run] run by (intro exI [of _ "snd ?run"] conjI) auto
qed

text \<open>C20: The task refuses to run with fewer than three monitors, whatever its options say, before it
  sends anything.\<close>

theorem mon_thrash_task_needs_three:
  assumes "length (env_mon_names E) \<le> 2"
  shows "\<exists>msg. mon_thrash_task config body E s = (Raise (PyExc AssertionError msg), s)"
  using assms
  by (cases config) (auto simp: mon_thrash_task_def dict_config_def get_mons_def exec_simps)

theorem mon_thrash_task_needs_three_witness:
  "length (env_mon_names (mon_env\<lparr>env_mon_names := [''mon.a'', ''mon.b'']\<rparr>)) \<le> 2 \<and>
   (\<exists>msg. mon_thrash_task (VDict [(''maintain_quorum'', VBool False)]) (ret ())
      (mon_env\<lparr>env_mon_names := [''mon.a'', ''mon.b'']\<rparr>) mon_thr0 = (Raise (PyExc AssertionError msg), mon_thr0))"
proof
  show l: "length (env_mon_names (mon_env\<lparr>env_mon_names := [''mon.a'', ''mon.b'']\<rparr>)) \<le> 2" by simp
qed (rule mon_thrash_task_needs_three, simp)

section \<open>Freezing and the quorum\<close>

text \<open>Events that start no monitor and let none go on.\<close>

definition no_mercy :: "event \<Rightarrow> bool" where
  "no_mercy e \<longleftrightarrow> mon_start e = None \<and> mon_signal 18 e = None"

lemma no_mercy_simps [simp]:
  "no_mercy (Run h as b)" "no_mercy RandomBits" "no_mercy (Daemon DStop r m c)"
  "no_mercy (Daemon (DSignal 19 b) r m c)"
  by (simp_all add: no_mercy_def mon_start_def mon_signal_def)

lemma no_mercy_pending:
  assumes "sent_rel no_mercy s s'"
  shows "set (down_mons (trace s)) \<subseteq> set (down_mons (trace s'))" "set (frozen_mons (trace s)) \<subseteq> set (frozen_mons (trace s'))"
proof -
  obtain es where s': "s' = s\<lparr>trace := trace s @ es\<rparr>" and es: "list_all no_mercy es"
    using assms by (auto simp: sent_rel_def)
  show "set (down_mons (trace s)) \<subseteq> set (down_mons (trace s'))"
    unfolding s' down_mons_def using es by simp (rule pending_mono, auto simp: no_mercy_def list_all_iff)
  show "set (frozen_mons (trace s)) \<subseteq> set (frozen_mons (trace s'))"
    unfolding s' frozen_mons_def using es by simp (rule pending_mono, auto simp: no_mercy_def list_all_iff)
qed

text \<open>Monitors are stopped one by one, not with their hosts.\<close>

definition stops_daemons :: "'z manager_scheme \<Rightarrow> bool" where
  "stops_daemons s \<longleftrightarrow> \<not> truthy (dict_get (mgr_config s) ''powercycle'' VNone)"

lemma killed_down:
  assumes "thrash_and_kill m E s = (Ok (), s')" and "stops_daemons s"
  shows "sent_rel no_mercy s s' \<and> m \<in> set (down_mons (trace s'))"
proof -
  let ?store = "bind should_thrash_store (\<lambda>b. bind (gets maintain_quorum) (\<lambda>mq. if b \<and> truthy mq then thrash_store m else ret ()))"
  have "bind ?store (\<lambda>_. thr_kill_mon m) E s = (Ok (), s')" using assms(1) by (simp add: thrash_and_kill_def bind_assoc)
  then obtain u t where t: "?store E s = (Ok u, t)" "thr_kill_mon m E t = (Ok (), s')"
    unfolding bind_Ok [of ?store] by blast
  have "keeps (sent_rel no_mercy) ?store"
    unfolding should_thrash_store_def thrash_store_def conf_item_def by (intro keeps_intros; simp)
  note sent = keepsD [OF this t(1)]
  then have "s' = t\<lparr>trace := trace t @ [Daemon DStop ''mon'' m (mgr_cluster t)]\<rparr>"
    using t(2) assms(2) by (auto simp: thr_kill_mon_def kill_mon_def mgr_daemon_def daemon_def stops_daemons_def sent_rel_def
        exec_simps exec_act split: option.splits)
  then show ?thesis
    using sent by (auto simp: sent_rel_def down_mons_def pending_snoc [of _ _ "trace t"] pending_step_def mon_stop_def)
qed

lemma frozen_frozen:
  assumes "freeze_mon m E s = (Ok (), s')"
  shows "sent_rel no_mercy s s' \<and> m \<in> set (frozen_mons (trace s'))"
proof -
  have "s' = s\<lparr>trace := trace s @ [Daemon (DSignal 19 False) ''mon'' m (mgr_cluster s)]\<rparr>"
    using assms by (auto simp: freeze_mon_def signal_mon_def mgr_daemon_def daemon_def exec_simps exec_act split: option.splits)
  then show ?thesis
    by (auto simp: sent_rel_def frozen_mons_def pending_snoc pending_step_def mon_signal_def)
qed

text \<open>With draws that all fall below the probability, every monitor that is not killed is frozen.\<close>

lemma io_mon_parts:
  "keeps io_rel should_freeze_mon" "keeps io_rel (freeze_mon m)" "keeps io_rel (unfreeze_mon m)" "keeps io_rel (check_quorum n mons)"
  "keeps io_rel (choose_kill mons)" "keeps io_rel (thrash_and_kill m)" "keeps io_rel (thr_revive_mon m)"
  unfolding should_freeze_mon_def freeze_mon_def unfreeze_mon_def check_quorum_def check_mon_def choose_kill_def max_killable_def
    get_mons_def thrash_and_kill_def should_thrash_store_def thrash_store_def thr_kill_mon_def thr_revive_mon_def loads_def
  by (intro keeps_intros)+

lemma io_choose_freeze: "keeps io_rel (choose_freeze ks mons)"
  by (induction mons) (auto intro!: keeps_intros io_mon_parts)

lemma io_freeze_for_a_while: "keeps io_rel (freeze_for_a_while fs)"
  unfolding freeze_for_a_while_def by (intro keeps_intros io_mon_parts)

lemma io_settle_mons: "keeps io_rel (settle_mons mons fs)"
  unfolding settle_mons_def by (intro keeps_intros io_freeze_for_a_while io_mon_parts)

lemma io_prefix: "keeps io_rel m \<Longrightarrow> m E s = (r, s') \<Longrightarrow> prefix (trace s) (trace s')"
  using keepsD [of io_rel m E s r s'] by (auto simp: io_rel_def prefix_def)

lemma choose_freeze_all:
  fixes s t :: "'z mon_thrasher_scheme"
  assumes "\<And>u :: 'z mon_thrasher_scheme. freeze_mon_probability u = freeze_mon_probability s \<Longrightarrow> fst (should_freeze_mon E u) = Ok True"
    and "freeze_mon_probability t = freeze_mon_probability s" and "choose_freeze ks mons E t = (Ok fs, t')"
  shows "set fs = set mons - set ks"
  using assms(2,3)
proof (induction mons arbitrary: t fs)
  case (Cons m mons)
  show ?case
  proof (cases "m \<in> set ks")
    case False
    then obtain b u rest where b: "should_freeze_mon E t = (Ok b, u)" and rest: "choose_freeze ks mons E u = (Ok rest, t')"
      and fs: "fs = (if b then m # rest else rest)"
      using Cons.prems(2) by (auto simp: bind_Ok exec_basic)
    from keepsD [OF io_mon_parts(1) b] have "freeze_mon_probability u = freeze_mon_probability s"
      using Cons.prems(1) by (auto simp: io_rel_def)
    moreover have b using assms(1) [OF Cons.prems(1)] b by simp
    ultimately show ?thesis using Cons.IH [OF _ rest] fs False by auto
  qed (use Cons in auto)
qed (auto simp: exec_basic)

lemma kill_all:
  assumes "for_each ks thrash_and_kill E s = (Ok (), s')" and "stops_daemons s"
  shows "set ks \<subseteq> set (down_mons (trace s'))"
proof -
  have "set ks \<union> set (down_mons (trace s)) \<subseteq> set (down_mons (trace s'))"
    unfolding down_mons_def
  proof (rule open_all [where I = stops_daemons, OF assms])
    fix k t t'
    assume t: "stops_daemons t" "thrash_and_kill k E t = (Ok (), t')"
    from killed_down [OF t(2,1)] no_mercy_pending(1) [of t t'] t(1)
    show "stops_daemons t' \<and> set (pending mon_stop mon_start (trace t)) \<subseteq> set (pending mon_stop mon_start (trace t')) \<and>
        k \<in> set (pending mon_stop mon_start (trace t'))"
      by (auto simp: stops_daemons_def sent_rel_def down_mons_def)
  qed
  then show ?thesis by simp
qed

lemma freeze_all:
  assumes "for_each fs freeze_mon E s = (Ok (), s')"
  shows "set fs \<subseteq> set (frozen_mons (trace s'))" "set (down_mons (trace s)) \<subseteq> set (down_mons (trace s'))"
proof -
  have "set fs \<union> set (frozen_mons (trace s)) \<subseteq> set (frozen_mons (trace s'))"
    unfolding frozen_mons_def
  proof (rule open_all [where I = "\<lambda>_. True", OF assms])
    fix k t t'
    assume "freeze_mon k E t = (Ok (), t')"
    from frozen_frozen [OF this] no_mercy_pending(2) [of t t']
    show "True \<and> set (pending (mon_signal 19) (mon_signal 18) (trace t)) \<subseteq> set (pending (mon_signal 19) (mon_signal 18) (trace t')) \<and>
        k \<in> set (pending (mon_signal 19) (mon_signal 18) (trace t'))"
      by (simp add: frozen_mons_def)
  qed simp
  then show "set fs \<subseteq> set (frozen_mons (trace s'))" by simp
  have "keeps (sent_rel no_mercy) (for_each fs freeze_mon)"
    unfolding freeze_mon_def signal_mon_def by (intro keeps_intros) simp
  from no_mercy_pending(1) [OF keepsD [OF this assms]] show "set (down_mons (trace s)) \<subseteq> set (down_mons (trace s'))" .
qed

lemma broken_all:
  fixes s :: "'z mon_thrasher_scheme"
  assumes "break_mons mons ks fs E s = (Ok (), s')" and "stops_daemons s"
  shows "\<exists>t. prefix t (trace s') \<and> set ks \<subseteq> set (down_mons t) \<and> set fs \<subseteq> set (frozen_mons t)"
proof -
  define rest :: "('z, unit) mon_thr" where "rest = bind (gets maintain_quorum) (\<lambda>mq.
     bind (if truthy mq then check_quorum (int (length mons) - int (length ks)) (filter (\<lambda>m. m \<notin> set ks) mons) else ret ()) (\<lambda>_.
     bind (gets revive_delay) sleep))"
  have io: "keeps io_rel rest" unfolding rest_def by (intro keeps_intros io_mon_parts)
  obtain t u where kill: "for_each ks thrash_and_kill E s = (Ok (), t)" and freeze: "freeze_for_a_while fs E t = (Ok (), u)"
    and r: "rest E u = (Ok (), s')"
    using assms(1) unfolding break_mons_def rest_def [symmetric] by (auto simp: bind_Ok)
  note down = kill_all [OF kill assms(2)]
  show ?thesis
  proof (cases "fs = []")
    case True
    then show ?thesis
      using down prefix_order.trans [OF io_prefix [OF io_freeze_for_a_while freeze] io_prefix [OF io r]]
      by (intro exI [of _ "trace t"]) auto
  next
    case False
    then obtain v where v: "for_each fs freeze_mon E t = (Ok (), v)"
      "bind (gets freeze_mon_duration) (\<lambda>d. bind (sleep d) (\<lambda>_. for_each fs unfreeze_mon)) E v = (Ok (), u)"
      using freeze by (auto simp: freeze_for_a_while_def bind_Ok [of "for_each fs freeze_mon"])
    have "keeps io_rel (bind (gets freeze_mon_duration) (\<lambda>d. bind (sleep d) (\<lambda>_. for_each fs unfreeze_mon)))"
      by (intro keeps_intros io_mon_parts)
    from prefix_order.trans [OF io_prefix [OF this v(2)] io_prefix [OF io r]] show ?thesis
      using freeze_all [OF v(1)] down by (intro exI [of _ "trace v"]) auto
  qed
qed

text \<open>C21: Freezing is not limited by the option that keeps the quorum: in every round in which the random draws fall
  below the probability of a freeze, whatever the option says, there is a moment at which every monitor is down or
  frozen. The monitors are taken to be stopped one by one, not by switching off their hosts.\<close>

theorem freeze_ignores_quorum:
  fixes s :: "'z mon_thrasher_scheme"
  assumes draws: "\<And>u :: 'z mon_thrasher_scheme. freeze_mon_probability u = freeze_mon_probability s \<Longrightarrow>
      fst (should_freeze_mon E u) = Ok True"
    and "\<not> truthy (dict_get (mgr_config s) ''powercycle'' VNone)" and "mon_thrash_round E s = (Ok (), s')"
  shows "\<exists>t. prefix t (trace s') \<and>
    set (map (drop 4) (env_mon_names E)) \<subseteq> set (down_mons t) \<union> set (frozen_mons t)"
proof -
  let ?mons = "map (drop 4) (env_mon_names E)"
  obtain t1 ks t2 fs t3 t4 t5 where 1: "check_quorum (int (length ?mons)) ?mons E s = (Ok (), t1)"
    and 2: "choose_kill ?mons E t1 = (Ok ks, t2)" and 3: "choose_freeze ks ?mons E t2 = (Ok fs, t3)"
    and 4: "break_mons ?mons ks fs E t3 = (Ok (), t4)" and 5: "for_each ks thr_revive_mon E t4 = (Ok (), t5)"
    and 6: "settle_mons ?mons fs E t5 = (Ok (), s')"
    using assms(3) by (auto simp: mon_thrash_round_def get_mons_def bind_Ok exec_basic)
  have io: "io_rel s t1" "io_rel t1 t2" "io_rel t2 t3"
    using keepsD [OF io_mon_parts(4) 1] keepsD [OF io_mon_parts(5) 2] keepsD [OF io_choose_freeze 3] by auto
  have p: "freeze_mon_probability t2 = freeze_mon_probability s" and "stops_daemons t3"
    using io assms(2) by (auto simp: io_rel_def stops_daemons_def)
  from broken_all [OF 4 this(2)] obtain t where t: "prefix t (trace t4)" "set ks \<subseteq> set (down_mons t)"
    "set fs \<subseteq> set (frozen_mons t)" by blast
  have "keeps io_rel (for_each ks thr_revive_mon :: ('z, unit) mon_thr)" by (intro keeps_intros io_mon_parts)
  from io_prefix [OF this 5] io_prefix [OF io_settle_mons 6] t(1) have "prefix t (trace s')"
    using prefix_order.trans by blast
  moreover have "set fs = set ?mons - set ks" by (rule choose_freeze_all [OF draws p 3])
  ultimately show ?thesis using t by blast
qed

theorem freeze_ignores_quorum_witness:
  "\<exists>s' t. truthy (maintain_quorum mon_thr0) \<and> mon_thrash_round mon_env mon_thr0 = (Ok (), s') \<and> prefix t (trace s') \<and>
     {''a'', ''b'', ''c''} \<subseteq> set (down_mons t) \<union> set (frozen_mons t)"
proof -
  let ?run = "mon_thrash_round mon_env mon_thr0"
  have "fst ?run = Ok ()" by code_simp
  note run = run_eq [OF this]
  have draws: "fst (should_freeze_mon mon_env u) = Ok True" if "freeze_mon_probability u = freeze_mon_probability mon_thr0"
    for u :: mon_thrasher
    using that by (simp add: should_freeze_mon_def random_randrange_def random_below_def random_bits_def exec_simps mon_env_def
        sample_env_def mon_thr0_def)
  have "\<not> truthy (dict_get (mgr_config mon_thr0) ''powercycle'' VNone)" by code_simp
  from freeze_ignores_quorum [OF draws this run] obtain t where "prefix t (trace (snd ?run))"
    "set (map (drop 4) (env_mon_names mon_env)) \<subseteq> set (down_mons t) \<union> set (frozen_mons t)" by blast
  moreover have "map (drop 4) (env_mon_names mon_env) = [''a'', ''b'', ''c'']" "truthy (maintain_quorum mon_thr0)" by code_simp+
  ultimately show ?thesis using run by (intro exI [of _ "snd ?run"] exI [of _ t]) simp
qed

end
