(* ===== verification/Fs_Cluster.thy ===== *)
theory Fs_Cluster
  imports Manager_Daemon "HOL-Library.List_Lexorder" "HOL-Library.Char_ord"
begin

text \<open>
  \<open>src/tasks/zbkcfs/filesystem.py\<close>, first part: the class \<open>FSStatus\<close> (queries on a snapshot of the
  file system map), the class \<open>ZbkcCluster\<close> and the class \<open>MDSCluster\<close> (operations on the metadata
  servers). The state of a cluster object extends the state of the cluster manager it creates.
\<close>

section \<open>FSStatus\<close>

text \<open>A status is the file system map as read. The methods that are generators in the source come in
  two forms: one that gives the list a caller makes of the generator, and one that runs a loop body
  on its elements and stops as soon as the body leaves the loop with a value.\<close>

type_synonym fs_status = pv

definition new_status :: "('z, fs_status) mgr" where
  "new_status = bind (raw_cluster_cmd [''fs'', ''dump'', ''--format=json-pretty'']) loads"

definition get_filesystems :: "fs_status \<Rightarrow> ('z, pv list) mgr" where
  "get_filesystems st = bind (item st ''filesystems'') as_list"

definition get_standbys :: "fs_status \<Rightarrow> ('z, pv list) mgr" where
  "get_standbys st = bind (item st ''standbys'') as_list"

text \<open>\<open>fs['mdsmap']['info'].values()\<close>\<close>

definition mds_infos :: "pv \<Rightarrow> ('z, pv list) mgr" where
  "mds_infos fs =
     bind (item fs ''mdsmap'') (\<lambda>m.
     bind (item m ''info'') (\<lambda>i.
     bind (as_dict i) (\<lambda>d. ret (map snd d))))"

definition for_all :: "fs_status \<Rightarrow> (pv \<Rightarrow> ('z, 'r option) mgr) \<Rightarrow> ('z, 'r option) mgr" where
  "for_all st f =
     bind (get_standbys st) (\<lambda>infos.
     bind (for_find infos f) (\<lambda>r.
     case r of
       Some v \<Rightarrow> ret (Some v)
     | None \<Rightarrow>
         bind (get_filesystems st) (\<lambda>fss.
         for_find fss (\<lambda>fs. bind (mds_infos fs) (\<lambda>is. for_find is f)))))"

definition get_fsmap :: "fs_status \<Rightarrow> pv \<Rightarrow> ('z, pv) mgr" where
  "get_fsmap st fscid =
     bind (get_filesystems st) (\<lambda>fss.
     bind (for_find fss (\<lambda>fs.
             if fscid = VNone then ret (Some fs)
             else bind (item fs ''id'') (\<lambda>i. ret (if py_eq i fscid then Some fs else None)))) (\<lambda>r.
     bind (py_str fscid) (\<lambda>n.
     of_option RuntimeError (''FSCID '' @ n @ '' not in map'') r)))"

definition get_fsmap_byname :: "fs_status \<Rightarrow> pv \<Rightarrow> ('z, pv) mgr" where
  "get_fsmap_byname st name =
     bind (get_filesystems st) (\<lambda>fss.
     bind (for_find fss (\<lambda>fs.
             if name = VNone then ret (Some fs)
             else bind (item fs ''mdsmap'') (\<lambda>m. bind (item m ''fs_name'') (\<lambda>n.
               ret (if py_eq n name then Some fs else None))))) (\<lambda>r.
     bind (py_str name) (\<lambda>n.
     of_option RuntimeError (''FS '' @ n @ '' not in map'') r)))"

definition get_replays :: "fs_status \<Rightarrow> pv \<Rightarrow> ('z, pv list) mgr" where
  "get_replays st fscid =
     bind (get_fsmap st fscid) (\<lambda>fs.
     bind (mds_infos fs) (\<lambda>infos.
     mapfilter_m (\<lambda>info. bind (item info ''state'') (\<lambda>v.
       ret (if v = VStr ''up:standby-replay'' then Some info else None))) infos))"

text \<open>\<open>info['rank'] >= 0\<close>\<close>

definition holds_rank :: "pv \<Rightarrow> ('z, bool) mgr" where
  "holds_rank info = bind (item info ''rank'') (\<lambda>r. ret (\<not> value_less_num r 0))"

text \<open>\<open>[g(info) for info in status.get_ranks(fscid)]\<close>\<close>

definition map_ranks :: "(pv \<Rightarrow> ('z, 'b) mgr) \<Rightarrow> fs_status \<Rightarrow> pv \<Rightarrow> ('z, 'b list) mgr" where
  "map_ranks g st fscid =
     bind (get_fsmap st fscid) (\<lambda>fs.
     bind (mds_infos fs) (\<lambda>infos.
     mapfilter_m (\<lambda>info. bind (holds_rank info) (\<lambda>b.
       if b then bind (g info) (\<lambda>v. ret (Some v)) else ret None)) infos))"

definition for_ranks :: "fs_status \<Rightarrow> pv \<Rightarrow> (pv \<Rightarrow> ('z, 'r option) mgr) \<Rightarrow> ('z, 'r option) mgr" where
  "for_ranks st fscid f =
     bind (get_fsmap st fscid) (\<lambda>fs.
     bind (mds_infos fs) (\<lambda>infos.
     for_find infos (\<lambda>info. bind (holds_rank info) (\<lambda>b. if b then f info else ret None))))"

definition get_rank :: "fs_status \<Rightarrow> pv \<Rightarrow> pv \<Rightarrow> ('z, pv) mgr" where
  "get_rank st fscid rank =
     bind (for_ranks st fscid (\<lambda>info. bind (item info ''rank'') (\<lambda>r.
             ret (if py_eq r rank then Some info else None)))) (\<lambda>r.
     bind (py_str fscid) (\<lambda>a.
     bind (py_str rank) (\<lambda>b.
     of_option RuntimeError (''FSCID '' @ a @ '' has no rank '' @ b) r)))"

definition get_mds :: "fs_status \<Rightarrow> string \<Rightarrow> ('z, pv) mgr" where
  "get_mds st name =
     bind (for_all st (\<lambda>info. bind (item info ''name'') (\<lambda>n.
             ret (if n = VStr name then Some info else None)))) (\<lambda>r.
     ret (case r of None \<Rightarrow> VNone | Some info \<Rightarrow> info))"

definition get_mds_addr :: "fs_status \<Rightarrow> string \<Rightarrow> ('z, pv) mgr" where
  "get_mds_addr st name =
     bind (get_mds st name) (\<lambda>info.
     if truthy info then item info ''addr''
     else
       bind (for_all st (\<lambda>_. ret (None :: unit option))) (\<lambda>_.
       raise RuntimeError (''MDS id '' @ name @ '' not found in map'')))"

section \<open>ZbkcCluster\<close>

text \<open>\<open>zbkc_conf\<close> are the sections of the configuration file the test sets itself
  (\<open>ctx.zbkc['zbkc'].conf\<close>).\<close>

record mds_cluster = manager +
  zbkc_conf :: "(string \<times> (string \<times> string) list) list"
  mds_ids :: "string list"

type_synonym ('z, 'a) mdsc = "(env, 'z mds_cluster_scheme, 'a) pm"

definition admin_remote :: "('z, string) io" where
  "admin_remote = first_mon_remote"

definition zbkc_cluster_init :: "('z, unit) mdsc" where
  "zbkc_cluster_init = bind admin_remote (\<lambda>remote. manager_init remote None ''zbkc'')"

definition json_asok :: "string list \<Rightarrow> string \<Rightarrow> string \<Rightarrow> ('z, pv) mgr" where
  "json_asok command service_type service_id =
     bind (admin_socket service_type service_id command True 0) (\<lambda>proc.
     if strip (p_stdout proc) \<noteq> [] then loads (p_stdout proc) else ret VNone)"

definition get_config :: "string \<Rightarrow> string option \<Rightarrow> ('z, pv) mgr" where
  "get_config key service_type0 =
     (let service_type = (case service_type0 of None \<Rightarrow> ''mon'' | Some t \<Rightarrow> t) in
      bind (asks (\<lambda>E. sort (env_roles E service_type))) (\<lambda>ids.
      bind (first_of ids) (\<lambda>service_id.
      bind (json_asok [''config'', ''get'', key] service_type service_id) (\<lambda>r.
      item r key))))"

definition conf_path :: string where
  "conf_path = ''/etc/zbkc/zbkc.conf''"

definition set_zbkc_conf :: "string \<Rightarrow> string \<Rightarrow> string \<Rightarrow> ('z, unit) mdsc" where
  "set_zbkc_conf subsys key val =
     bind (gets zbkc_conf) (\<lambda>conf.
     let sec = (case map_of conf subsys of None \<Rightarrow> [] | Some d \<Rightarrow> d) in
     bind (modify (\<lambda>s. s\<lparr>zbkc_conf := alist_put subsys (alist_put key val sec) conf\<rparr>)) (\<lambda>_.
     write_conf conf_path))"

definition clear_zbkc_conf :: "string \<Rightarrow> string \<Rightarrow> ('z, unit) mdsc" where
  "clear_zbkc_conf subsys key =
     bind (gets zbkc_conf) (\<lambda>conf.
     bind (of_option KeyError subsys (map_of conf subsys)) (\<lambda>sec.
     bind (of_option KeyError key (map_of sec key)) (\<lambda>_.
     bind (modify (\<lambda>s. s\<lparr>zbkc_conf := alist_put subsys (alist_del key sec) conf\<rparr>)) (\<lambda>_.
     write_conf conf_path))))"

section \<open>MDSCluster\<close>

text \<open>The daemons are those of the zbkc task (\<open>ctx.daemons\<close> is present).\<close>

definition mds_cluster_init :: "('z, unit) mdsc" where
  "mds_cluster_init =
     bind zbkc_cluster_init (\<lambda>_.
     bind (asks (\<lambda>E. env_roles E ''mds'')) (\<lambda>ids.
     bind (modify (\<lambda>s. s\<lparr>mds_ids := ids\<rparr>)) (\<lambda>_.
     if ids = [] then raise RuntimeError ''This task requires at least one MDS'' else ret ())))"

text \<open>\<open>self.mds_daemons[id_]\<close> and an operation on it\<close>

definition mds_daemon :: "daemon_op \<Rightarrow> string \<Rightarrow> ('z, unit) mdsc" where
  "mds_daemon op i =
     bind (gets mds_ids) (\<lambda>ids.
     if i \<in> set ids then daemon op ''mds'' i ''zbkc'' else raise KeyError i)"

text \<open>A callback for one server or for all; \<open>what\<close> names the callback. The callbacks for all run in
  greenlets of their own, which are started one after the other and waited for together, unless the
  caller asks for one after the other.\<close>

definition one_or_all :: "string option \<Rightarrow> string \<Rightarrow> (string \<Rightarrow> ('z, unit) mdsc) \<Rightarrow> bool \<Rightarrow> ('z, unit) mdsc" where
  "one_or_all mds_id what cb in_parallel =
     (case mds_id of
        Some i \<Rightarrow> cb i
      | None \<Rightarrow>
          bind (gets mds_ids) (\<lambda>ids.
          if in_parallel then
            bind (for_each ids (\<lambda>i. spawn (what @ '' '' @ i))) (\<lambda>_. act (Get what))
          else for_each ids cb))"

definition mds_stop_one :: "string \<Rightarrow> ('z, unit) mdsc" where
  "mds_stop_one i = mds_daemon DStop i"

definition mds_stop :: "string option \<Rightarrow> ('z, unit) mdsc" where
  "mds_stop mds_id = one_or_all mds_id ''mds_stop'' mds_stop_one True"

definition mds_fail_one :: "string \<Rightarrow> ('z, unit) mdsc" where
  "mds_fail_one i = bind (raw_cluster_cmd [''mds'', ''fail'', i]) (\<lambda>_. ret ())"

definition mds_fail :: "string option \<Rightarrow> ('z, unit) mdsc" where
  "mds_fail mds_id = one_or_all mds_id ''mds_fail'' mds_fail_one True"

definition mds_restart_one :: "string \<Rightarrow> ('z, unit) mdsc" where
  "mds_restart_one i = mds_daemon (DRestart []) i"

definition mds_restart :: "string option \<Rightarrow> ('z, unit) mdsc" where
  "mds_restart mds_id = one_or_all mds_id ''mds_restart'' mds_restart_one True"

definition fail_restart_one :: "string \<Rightarrow> ('z, unit) mdsc" where
  "fail_restart_one i =
     bind (mds_daemon DStop i) (\<lambda>_.
     bind (raw_cluster_cmd [''mds'', ''fail'', i]) (\<lambda>_.
     mds_daemon (DRestart []) i))"

definition mds_fail_restart :: "string option \<Rightarrow> ('z, unit) mdsc" where
  "mds_fail_restart mds_id = one_or_all mds_id ''fail_restart'' fail_restart_one True"

text \<open>\<open>{pool['pool']: pool['pool_name'] for pool in pools}\<close>, later entries for the same pool winning\<close>

fun pool_names :: "(pv \<times> pv) list \<Rightarrow> pv list \<Rightarrow> ('z, (pv \<times> pv) list) mgr" where
  "pool_names d [] = ret d"
| "pool_names d (p # ps) =
     bind (item p ''pool_name'') (\<lambda>n.
     bind (item p ''pool'') (\<lambda>i.
     pool_names (alist_put i n d) ps))"

definition osd_dump_field :: "string \<Rightarrow> ('z, pv) mgr" where
  "osd_dump_field key =
     bind (raw_cluster_cmd [''osd'', ''dump'', ''--format=json-pretty'']) (\<lambda>out.
     bind (loads out) (\<lambda>j. item j key))"

definition delete_pool :: "pv \<Rightarrow> ('z, unit) mgr" where
  "delete_pool name =
     bind (cmd_arg name) (\<lambda>n.
     bind (raw_cluster_cmd [''osd'', ''pool'', ''delete'', n, n, ''--yes-i-really-really-mean-it'']) (\<lambda>_. ret ()))"

definition set_cluster_down :: "pv \<Rightarrow> ('z, unit) mgr" where
  "set_cluster_down fs =
     bind (item fs ''mdsmap'') (\<lambda>m.
     bind (item m ''fs_name'') (\<lambda>v.
     bind (cmd_arg v) (\<lambda>n.
     bind (raw_cluster_cmd [''fs'', ''set'', n, ''cluster_down'', ''true'']) (\<lambda>_. ret ()))))"

definition delete_filesystem :: "(pv \<times> pv) list \<Rightarrow> pv \<Rightarrow> ('z, unit) mgr" where
  "delete_filesystem pool_id_name fs =
     bind (item fs ''mdsmap'') (\<lambda>mdsmap.
     bind (item mdsmap ''metadata_pool'') (\<lambda>mp.
     bind (of_option KeyError ''metadata_pool'' (map_of pool_id_name mp)) (\<lambda>metadata_pool.
     bind (item mdsmap ''up'') (\<lambda>up.
     bind (as_dict up) (\<lambda>up.
     bind (for_each (map snd up) (\<lambda>gid. bind (py_str gid) (\<lambda>g.
             bind (raw_cluster_cmd [''mds'', ''fail'', g]) (\<lambda>_. ret ())))) (\<lambda>_.
     bind (item mdsmap ''fs_name'') (\<lambda>v.
     bind (cmd_arg v) (\<lambda>n.
     bind (raw_cluster_cmd [''fs'', ''rm'', n, ''--yes-i-really-mean-it'']) (\<lambda>_.
     bind (delete_pool metadata_pool) (\<lambda>_.
     bind (item mdsmap ''data_pools'') (\<lambda>dps.
     bind (as_list dps) (\<lambda>dps.
     for_each dps (\<lambda>p.
       bind (of_option KeyError ''data_pools'' (map_of pool_id_name p)) delete_pool)))))))))))))"

definition delete_all_filesystems :: "('z, unit) mgr" where
  "delete_all_filesystems =
     bind (osd_dump_field ''pools'') (\<lambda>ps.
     bind (as_list ps) (\<lambda>ps.
     bind (pool_names [] ps) (\<lambda>pool_id_name.
     bind new_status (\<lambda>st.
     bind (get_filesystems st) (\<lambda>fss.
     bind (for_each fss set_cluster_down) (\<lambda>_.
     bind new_status (\<lambda>st.
     bind (get_filesystems st) (\<lambda>fss.
     for_each fss (delete_filesystem pool_id_name)))))))))"

definition get_standby_daemons :: "('z, pv list) mgr" where
  "get_standby_daemons =
     bind new_status (\<lambda>st.
     bind (get_standbys st) (\<lambda>infos.
     bind (map_m (\<lambda>i. item i ''name'') infos) (\<lambda>names. ret (remdups names))))"

definition get_mds_hostnames :: "('z, string list) mdsc" where
  "get_mds_hostnames =
     bind (gets mds_ids) (\<lambda>ids.
     bind (map_m (\<lambda>i. find_remote ''mds'' i) ids) (\<lambda>hosts. ret (remdups hosts)))"

text \<open>\<open>re.match("(.+):(.+)/(.+)", addr).groups()\<close>: the splits of a string at a character, the last
  one first, and the first combination of splits with no empty part.\<close>

fun splits_at :: "char \<Rightarrow> string \<Rightarrow> (string \<times> string) list" where
  "splits_at d [] = []"
| "splits_at d (c # cs) = map (\<lambda>(a, b). (c # a, b)) (splits_at d cs) @ (if c = d then [([], cs)] else [])"

definition addr_groups :: "string \<Rightarrow> (string \<times> string \<times> string) option" where
  "addr_groups addr =
     (case [(ip, port, inst). (ip, rest) \<leftarrow> splits_at (CHR '':'') (takeWhile ((\<noteq>) newline) addr), ip \<noteq> [],
            (port, inst) \<leftarrow> splits_at (CHR ''/'') rest, port \<noteq> [], inst \<noteq> []] of
        [] \<Rightarrow> None | g # _ \<Rightarrow> Some g)"

definition iptables_args :: "bool \<Rightarrow> string \<Rightarrow> string \<Rightarrow> string \<Rightarrow> string list" where
  "iptables_args blocked chain port_flag port =
     [''sudo'', ''iptables'', if blocked then ''-A'' else ''-D'', chain, ''-p'', ''tcp'', port_flag, port,
      ''-j'', ''REJECT'', ''-m'', ''comment'', ''--comment'', ''teuthology'']"

definition set_block :: "bool \<Rightarrow> string \<Rightarrow> ('z, unit) mdsc" where
  "set_block blocked i =
     bind (find_remote ''mds'' i) (\<lambda>remote.
     bind new_status (\<lambda>st.
     bind (get_mds_addr st i) (\<lambda>addr.
     bind (cmd_arg addr) (\<lambda>a.
     bind (of_option AttributeError ''groups'' (addr_groups a)) (\<lambda>(ip, port, inst).
     bind (run_cmd remote (iptables_args blocked ''OUTPUT'' ''--sport'' port) True) (\<lambda>_.
     bind (run_cmd remote (iptables_args blocked ''INPUT'' ''--dport'' port) True) (\<lambda>_.
     ret ())))))))"

definition set_clients_block :: "bool \<Rightarrow> string option \<Rightarrow> ('z, unit) mdsc" where
  "set_clients_block blocked mds_id = one_or_all mds_id ''set_block'' (set_block blocked) False"

definition get_mds_info :: "string \<Rightarrow> ('z, pv) mgr" where
  "get_mds_info mds_id = bind new_status (\<lambda>st. get_mds st mds_id)"

definition is_full :: "('z, bool) mgr" where
  "is_full = bind (osd_dump_field ''flags'') (\<lambda>flags. bind (as_str flags) (\<lambda>f. ret (contains ''full'' f)))"

definition is_pool_full :: "string \<Rightarrow> ('z, bool) mgr" where
  "is_pool_full pool_name =
     bind (osd_dump_field ''pools'') (\<lambda>ps.
     bind (as_list ps) (\<lambda>ps.
     bind (for_find ps (\<lambda>pool.
             bind (item pool ''pool_name'') (\<lambda>n.
             if n = VStr pool_name then
               bind (item pool ''flags_names'') (\<lambda>v.
               bind (as_str v) (\<lambda>f. ret (Some (''full'' \<in> set (split_on (CHR '','') f)))))
             else ret None))) (\<lambda>r.
     of_option RuntimeError (''Pool not found '' @ pool_name) r)))"

section \<open>What these operations leave unchanged\<close>

lemmas fs_status_defs = new_status_def get_filesystems_def get_standbys_def mds_infos_def for_all_def
  get_fsmap_def get_fsmap_byname_def get_replays_def holds_rank_def map_ranks_def for_ranks_def
  get_rank_def get_mds_def get_mds_addr_def

context mgr_step
begin

lemma keeps_status_basic [keeps_intros]:
  "keeps R new_status"
  "keeps R (get_filesystems st)"
  "keeps R (get_standbys st)"
  "keeps R (mds_infos fs)"
  "keeps R (holds_rank i)"
  "keeps R (get_fsmap st v)"
  unfolding fs_status_defs loads_def by (intro keeps_intros)+

lemma keeps_for_all [keeps_intros]: "(\<And>i. keeps R (f i)) \<Longrightarrow> keeps R (for_all st f)"
  unfolding for_all_def by (intro keeps_intros)

lemma keeps_ranks [keeps_intros]:
  "(\<And>i. keeps R (f i)) \<Longrightarrow> keeps R (for_ranks st v f)"
  "(\<And>i. keeps R (g i)) \<Longrightarrow> keeps R (map_ranks g st v)"
  unfolding for_ranks_def map_ranks_def by (intro keeps_intros; assumption)+

lemma keeps_status [keeps_intros]:
  "keeps R (get_fsmap_byname st v)"
  "keeps R (get_replays st v)"
  "keeps R (get_rank st v w)"
  "keeps R (get_mds st n)"
  "keeps R (get_mds_addr st n)"
  "keeps R (get_mds_info n)"
  unfolding fs_status_defs get_mds_info_def loads_def by (intro keeps_intros)+

lemma keeps_pool_names [keeps_intros]: "keeps R (pool_names d ps)"
  by (induction ps arbitrary: d) (auto intro!: keeps_intros)

lemma keeps_mds_cluster_queries [keeps_intros]:
  "keeps R (json_asok as t i)"
  "keeps R (get_config key t')"
  "keeps R (osd_dump_field key)"
  "keeps R (delete_pool v)"
  "keeps R delete_all_filesystems"
  "keeps R get_standby_daemons"
  "keeps R is_full"
  "keeps R (is_pool_full n)"
  unfolding json_asok_def get_config_def osd_dump_field_def delete_pool_def delete_all_filesystems_def
    set_cluster_down_def delete_filesystem_def get_standby_daemons_def is_full_def is_pool_full_def loads_def
  by (intro keeps_intros)+

end

locale mds_step = mgr_step R for R :: "'z mds_cluster_scheme \<Rightarrow> 'z mds_cluster_scheme \<Rightarrow> bool"
begin

lemma keeps_mds_daemon [keeps_intros]: "keeps R (mds_daemon op i)"
  unfolding mds_daemon_def by (intro keeps_intros)

lemma keeps_one_or_all [keeps_intros]: "(\<And>i. keeps R (cb i)) \<Longrightarrow> keeps R (one_or_all x what cb b)"
  unfolding one_or_all_def by (intro keeps_intros)

lemma keeps_mds_ops [keeps_intros]:
  "keeps R (mds_stop x)"
  "keeps R (mds_fail x)"
  "keeps R (mds_restart x)"
  "keeps R (mds_fail_restart x)"
  "keeps R get_mds_hostnames"
  "keeps R (set_clients_block b x)"
  unfolding mds_stop_def mds_stop_one_def mds_fail_def mds_fail_one_def mds_restart_def mds_restart_one_def
    mds_fail_restart_def fail_restart_one_def get_mds_hostnames_def set_clients_block_def set_block_def
  by (intro keeps_intros)+

end

interpretation cio: mds_step "io_rel :: 'z mds_cluster_scheme \<Rightarrow> 'z mds_cluster_scheme \<Rightarrow> bool"
  by unfold_locales

end
