(* ===== verification/Filesystem.thy ===== *)
theory Filesystem
  imports Fs_Cluster
begin

text \<open>
  \<open>src/tasks/zbkcfs/filesystem.py\<close>, second part: the class \<open>Filesystem\<close>, which drives one file system:
  finding or creating it, its pools, the health of its metadata servers, waiting for states, its
  objects in the pools, and the offline tools.
\<close>

section \<open>State\<close>

text \<open>\<open>fs_id\<close>, \<open>fs_name\<close> and \<open>metadata_pool_name\<close> may be \<open>None\<close>; \<open>data_pools\<close> maps pool ids to names and
  may be \<open>None\<close>.\<close>

record filesystem = mds_cluster +
  fs_id :: pv
  fs_name :: pv
  metadata_pool_name :: pv
  data_pools :: "(pv \<times> pv) list option"
  client_id :: string
  client_remote :: string

type_synonym ('z, 'a) fsm = "(env, 'z filesystem_scheme, 'a) pm"

section \<open>Finding the file system\<close>

definition load_pool_names :: "fs_status \<Rightarrow> ('z, unit) fsm" where
  "load_pool_names st =
     bind (gets fs_id) (\<lambda>i.
     bind (get_fsmap st i) (\<lambda>fsmap.
     bind get_osd_dump_json (\<lambda>osd_map.
     bind (item osd_map ''pools'') (\<lambda>ps.
     bind (as_list ps) (\<lambda>ps.
     bind (pool_names [] ps) (\<lambda>id_to_name.
     bind (item fsmap ''mdsmap'') (\<lambda>mdsmap.
     bind (item mdsmap ''metadata_pool'') (\<lambda>mp.
     bind (of_option KeyError ''metadata_pool'' (map_of id_to_name mp)) (\<lambda>name.
     bind (modify (\<lambda>s. s\<lparr>metadata_pool_name := name, data_pools := Some []\<rparr>)) (\<lambda>_.
     bind (item mdsmap ''data_pools'') (\<lambda>dps.
     bind (as_list dps) (\<lambda>dps.
     for_each dps (\<lambda>p.
       bind (of_option KeyError ''data_pools'' (map_of id_to_name p)) (\<lambda>n.
       modify (\<lambda>s. s\<lparr>data_pools := map_option (alist_put p n) (data_pools s)\<rparr>)))))))))))))))"

definition get_pool_names :: "bool \<Rightarrow> fs_status option \<Rightarrow> ('z, unit) fsm" where
  "get_pool_names refresh st0 =
     bind (gets metadata_pool_name) (\<lambda>mp.
     bind (gets data_pools) (\<lambda>dps.
     if refresh \<or> mp = VNone \<or> dps = None then
       bind (case st0 of None \<Rightarrow> new_status | Some st \<Rightarrow> ret st) load_pool_names
     else ret ()))"

text \<open>The map of the file system: by id, by name, or the only one there is.\<close>

definition find_fsmap :: "fs_status \<Rightarrow> ('z, pv) fsm" where
  "find_fsmap st =
     bind (gets fs_id) (\<lambda>i.
     bind (gets fs_name) (\<lambda>n.
     if i \<noteq> VNone then get_fsmap st i
     else if n \<noteq> VNone then get_fsmap_byname st n
     else
       bind (get_filesystems st) (\<lambda>fss.
       case fss of
         [fs] \<Rightarrow> ret fs
       | [] \<Rightarrow> raise RuntimeError ''no file system available''
       | _ \<Rightarrow> raise RuntimeError ''more than one file system available'')))"

definition getinfo :: "bool \<Rightarrow> ('z, fs_status) fsm" where
  "getinfo refresh =
     bind new_status (\<lambda>st.
     bind (find_fsmap st) (\<lambda>fsmap.
     bind (item fsmap ''id'') (\<lambda>i.
     bind (modify (\<lambda>s. s\<lparr>fs_id := i\<rparr>)) (\<lambda>_.
     bind (item fsmap ''mdsmap'') (\<lambda>m.
     bind (item m ''fs_name'') (\<lambda>n.
     bind (modify (\<lambda>s. s\<lparr>fs_name := n\<rparr>)) (\<lambda>_.
     bind (get_pool_names refresh (Some st)) (\<lambda>_.
     ret st))))))))"

section \<open>Creating\<close>

definition get_pgs_per_fs_pool :: "('z, int) fsm" where
  "get_pgs_per_fs_pool =
     bind (get_config ''mon_pg_warn_min_per_osd'' None) (\<lambda>v.
     bind (py_int v) (\<lambda>n.
     bind (asks (\<lambda>E. env_roles E ''osd'')) (\<lambda>osds.
     ret (n * int (length osds)))))"

text \<open>\<open>self.metadata_pool_name\<close> is kept when it is set already, the name is \<open>zbkcfs\<close> when it is not.\<close>

definition fs_create :: "('z, unit) fsm" where
  "fs_create =
     bind (modify (\<lambda>s. if fs_name s = VNone then s\<lparr>fs_name := VStr ''zbkcfs''\<rparr> else s)) (\<lambda>_.
     bind (gets fs_name) (\<lambda>nv.
     bind (py_str nv) (\<lambda>name.
     bind (modify (\<lambda>s. if metadata_pool_name s = VNone
             then s\<lparr>metadata_pool_name := VStr (name @ ''_metadata'')\<rparr> else s)) (\<lambda>_.
     let data_pool_name = name @ ''_data'' in
     bind get_pgs_per_fs_pool (\<lambda>n.
     bind (gets metadata_pool_name) (\<lambda>mpv.
     bind (cmd_arg mpv) (\<lambda>mp.
     bind (raw_cluster_cmd [''osd'', ''pool'', ''create'', mp, str_int n]) (\<lambda>_.
     bind (raw_cluster_cmd [''osd'', ''pool'', ''create'', data_pool_name, str_int n]) (\<lambda>_.
     bind (cmd_arg nv) (\<lambda>fsn.
     bind (raw_cluster_cmd [''fs'', ''new'', fsn, mp, data_pool_name]) (\<lambda>_.
     bind (getinfo True) (\<lambda>_.
     ret ()))))))))))))"

text \<open>A failing listing with exit status 22 counts as a legacy configuration.\<close>

definition legacy_configured :: "('z, bool) fsm" where
  "legacy_configured =
     try_except
       (bind (raw_cluster_cmd [''--format=json-pretty'', ''osd'', ''lspools'']) (\<lambda>out_text.
        bind (loads out_text) (\<lambda>ps.
        bind (as_list ps) (\<lambda>ps.
        bind (map_m (\<lambda>p. item p ''poolname'') ps) (\<lambda>names.
        if VStr ''metadata'' \<in> set names then
          bind (modify (\<lambda>s. s\<lparr>metadata_pool_name := VStr ''metadata''\<rparr>)) (\<lambda>_. ret True)
        else ret False)))))
       is_CommandFailed
       (\<lambda>x. if exc_class x = CommandFailedError 22 then ret True else reraise x)"

definition fs_exists :: "('z, bool) fsm" where
  "fs_exists =
     bind (raw_cluster_cmd [''fs'', ''ls'', ''--format=json-pretty'']) (\<lambda>out.
     bind (loads out) (\<lambda>l.
     bind (as_list l) (\<lambda>l.
     bind (gets fs_name) (\<lambda>name.
     bind (map_m (\<lambda>fs. item fs ''name'') l) (\<lambda>names.
     ret (list_ex (py_eq name) names))))))"

text \<open>\<open>create\<close> is \<open>None\<close>, \<open>True\<close> or a name. The stashing of the object on the test context, for
  interactive use, is left out.\<close>

definition filesystem_init :: "pv \<Rightarrow> pv \<Rightarrow> ('z, unit) fsm" where
  "filesystem_init fscid create =
     bind mds_cluster_init (\<lambda>_.
     bind (modify (\<lambda>s. s\<lparr>fs_id := VNone, fs_name := VNone, metadata_pool_name := VNone, data_pools := None\<rparr>)) (\<lambda>_.
     bind (asks (\<lambda>E. env_roles E ''client'')) (\<lambda>client_list.
     bind (first_of client_list) (\<lambda>cid.
     bind (modify (\<lambda>s. s\<lparr>client_id := cid\<rparr>)) (\<lambda>_.
     bind (asks (\<lambda>E. env_clients E [''client.'' @ cid])) (\<lambda>clients.
     bind (first_of clients) (\<lambda>cl.
     bind (modify (\<lambda>s. s\<lparr>client_remote := snd cl\<rparr>)) (\<lambda>_.
     bind (if create \<noteq> VNone then
             if fscid \<noteq> VNone then raise RuntimeError ''cannot specify fscid when creating fs''
             else
               bind (modify (\<lambda>s. s\<lparr>fs_name := (if create = VBool True then VStr ''zbkcfs'' else create)\<rparr>)) (\<lambda>_.
               bind legacy_configured (\<lambda>legacy.
               if \<not> legacy then fs_create else ret ()))
           else if fscid \<noteq> VNone then modify (\<lambda>s. s\<lparr>fs_id := fscid\<rparr>)
           else ret ()) (\<lambda>_.
     bind (getinfo True) (\<lambda>_.
     ret ()))))))))))"

definition recreate :: "('z, unit) fsm" where
  "recreate =
     bind delete_all_filesystems (\<lambda>_.
     bind (modify (\<lambda>s. s\<lparr>fs_id := VNone\<rparr>)) (\<lambda>_.
     fs_create))"

section \<open>Ranks and pools\<close>

definition deactivate :: "int \<Rightarrow> ('z, unit) fsm" where
  "deactivate rank =
     (if rank < 0 then raise RuntimeError ''invalid rank''
      else if rank = 0 then raise RuntimeError ''cannot deactivate rank 0''
      else
        bind (gets fs_id) (\<lambda>i.
        bind (fmt_d i) (\<lambda>f.
        bind (raw_cluster_cmd [''mds'', ''deactivate'', f @ '':'' @ str_int rank]) (\<lambda>_. ret ()))))"

definition set_max_mds :: "int \<Rightarrow> ('z, unit) fsm" where
  "set_max_mds max_mds =
     bind (gets fs_name) (\<lambda>v.
     bind (cmd_arg v) (\<lambda>name.
     bind (raw_cluster_cmd [''fs'', ''set'', name, ''max_mds'', str_int max_mds]) (\<lambda>_. ret ())))"

definition fs_df :: "('z, pv) fsm" where
  "fs_df = bind (raw_cluster_cmd [''df'', ''--format=json-pretty'']) loads"

definition get_mds_map :: "('z, pv) fsm" where
  "get_mds_map =
     bind new_status (\<lambda>st.
     bind (gets fs_id) (\<lambda>i.
     bind (get_fsmap st i) (\<lambda>fs. item fs ''mdsmap'')))"

definition the_data_pools :: "('z, (pv \<times> pv) list) fsm" where
  "the_data_pools =
     bind (gets data_pools) (\<lambda>d. of_option AttributeError ''NoneType'' d)"

definition add_data_pool :: "string \<Rightarrow> ('z, pv) fsm" where
  "add_data_pool name =
     bind get_pgs_per_fs_pool (\<lambda>n.
     bind (raw_cluster_cmd [''osd'', ''pool'', ''create'', name, str_int n]) (\<lambda>_.
     bind (gets fs_name) (\<lambda>v.
     bind (cmd_arg v) (\<lambda>fsn.
     bind (raw_cluster_cmd [''fs'', ''add_data_pool'', fsn, name]) (\<lambda>_.
     bind (get_pool_names True None) (\<lambda>_.
     bind the_data_pools (\<lambda>d.
     case filter (\<lambda>p. snd p = VStr name) d of
       (poolid, _) # _ \<Rightarrow> ret poolid
     | [] \<Rightarrow> raise RuntimeError (''could not get just created pool '' @ name))))))))"

text \<open>\<open>if refresh or self.data_pools is None: self.get_pool_names(refresh = True)\<close>\<close>

definition refresh_data_pools :: "bool \<Rightarrow> ('z, (pv \<times> pv) list) fsm" where
  "refresh_data_pools refresh =
     bind (gets data_pools) (\<lambda>d.
     bind (if refresh \<or> d = None then get_pool_names True None else ret ()) (\<lambda>_.
     the_data_pools))"

definition single_data_pool :: "bool \<Rightarrow> ('z, pv \<times> pv) fsm" where
  "single_data_pool refresh =
     bind (refresh_data_pools refresh) (\<lambda>d.
     bind (py_assert (length d = 1) []) (\<lambda>_.
     first_of d))"

definition get_data_pool_name :: "bool \<Rightarrow> ('z, pv) fsm" where
  "get_data_pool_name refresh = bind (single_data_pool refresh) (\<lambda>p. ret (snd p))"

definition get_data_pool_id :: "bool \<Rightarrow> ('z, pv) fsm" where
  "get_data_pool_id refresh = bind (single_data_pool refresh) (\<lambda>p. ret (fst p))"

definition get_data_pool_names :: "bool \<Rightarrow> ('z, pv list) fsm" where
  "get_data_pool_names refresh = bind (refresh_data_pools refresh) (\<lambda>d. ret (map snd d))"

definition get_metadata_pool_name :: "('z, pv) fsm" where
  "get_metadata_pool_name = gets metadata_pool_name"

definition get_namespace_id :: "('z, pv) fsm" where
  "get_namespace_id = gets fs_id"

definition get_pool_df :: "string \<Rightarrow> ('z, pv) fsm" where
  "get_pool_df pool_name =
     bind fs_df (\<lambda>df.
     bind (item df ''pools'') (\<lambda>ps.
     bind (as_list ps) (\<lambda>ps.
     bind (for_find ps (\<lambda>p.
             bind (item p ''name'') (\<lambda>n.
             if n = VStr pool_name then bind (item p ''stats'') (\<lambda>v. ret (Some v)) else ret None))) (\<lambda>r.
     of_option RuntimeError (''Pool name '' @ pool_name @ '' not found'') r))))"

definition get_usage :: "('z, pv) fsm" where
  "get_usage = bind fs_df (\<lambda>df. bind (item df ''stats'') (\<lambda>st. item st ''total_used_bytes''))"

section \<open>Names of daemons\<close>

text \<open>\<open>sorted(infos, lambda a, b: cmp(a['rank'], b['rank']))\<close>; ranks are numbers. A list of at most one
  element is returned without looking at its rank.\<close>

definition sort_infos :: "pv list \<Rightarrow> ('z, pv list) fsm" where
  "sort_infos infos =
     (if length infos \<le> 1 then ret infos
      else
        bind (map_m (\<lambda>i. bind (item i ''rank'') as_num) infos) (\<lambda>ranks.
        ret (map snd (sort_key fst (zip ranks infos)))))"

definition map_infos :: "('z, pv list) fsm" where
  "map_infos =
     bind get_mds_map (\<lambda>m.
     bind (item m ''info'') (\<lambda>i.
     bind (as_dict i) (\<lambda>d.
     sort_infos (map snd d))))"

text \<open>The daemons in a state; \<open>state\<close> is \<open>None\<close> for all of them.\<close>

definition get_daemon_names :: "pv \<Rightarrow> ('z, pv list) fsm" where
  "get_daemon_names state =
     bind map_infos (\<lambda>infos.
     mapfilter_m (\<lambda>i. bind (item i ''state'') (\<lambda>st.
       if py_eq st state \<or> state = VNone then bind (item i ''name'') (\<lambda>n. ret (Some n))
       else ret None)) infos)"

definition get_active_names :: "('z, pv list) fsm" where
  "get_active_names = get_daemon_names (VStr ''up:active'')"

text \<open>\<open>mds_status['rank'] != -1 and mds_status['state'] != 'up:standby-replay'\<close>, then a field\<close>

definition ranked_field :: "string \<Rightarrow> pv \<Rightarrow> ('z, pv option) fsm" where
  "ranked_field field i =
     bind (item i ''rank'') (\<lambda>r.
     if py_eq r (VInt (-1)) then ret None
     else
       bind (item i ''state'') (\<lambda>st.
       if st = VStr ''up:standby-replay'' then ret None
       else bind (item i field) (\<lambda>v. ret (Some v))))"

definition get_all_mds_rank :: "('z, pv list) fsm" where
  "get_all_mds_rank = bind map_infos (mapfilter_m (ranked_field ''rank''))"

definition get_rank_names :: "('z, pv list) fsm" where
  "get_rank_names = bind map_infos (mapfilter_m (ranked_field ''name''))"

definition get_lone_mds_id :: "('z, string) fsm" where
  "get_lone_mds_id =
     bind (gets mds_ids) (\<lambda>ids.
     if length ids \<noteq> 1 then
       bind get_rank_names (\<lambda>alive.
       if length alive = 1 then cmd_arg (hd alive)
       else raise ValueError ''Explicit MDS argument required when multiple MDSs in use'')
     else ret (hd ids))"

definition mds_asok :: "string list \<Rightarrow> string option \<Rightarrow> ('z, pv) fsm" where
  "mds_asok command mds_id =
     bind (case mds_id of None \<Rightarrow> get_lone_mds_id | Some i \<Rightarrow> ret i) (\<lambda>i.
     json_asok command ''mds'' i)"

definition read_cache :: "string \<Rightarrow> int option \<Rightarrow> ('z, pv) fsm" where
  "read_cache path depth =
     (let cmd = [''dump'', ''tree'', path] @ (case depth of None \<Rightarrow> [] | Some d \<Rightarrow> [str_int d]) in
      bind (mds_asok cmd None) (\<lambda>r.
      bind (py_len r) (\<lambda>n.
      if n = 0 then raise RuntimeError (''Path not found in cache: '' @ path) else ret r)))"

section \<open>Health\<close>

definition healthy_states :: "pv set" where
  "healthy_states = {VStr ''up:active'', VStr ''up:standby'', VStr ''up:standby-replay''}"

text \<open>The number of active servers; \<open>None\<close> when one is in another state.\<close>

fun count_active :: "int \<Rightarrow> pv list \<Rightarrow> ('z, int option) fsm" where
  "count_active n [] = ret (Some n)"
| "count_active n (i # is) =
     bind (item i ''state'') (\<lambda>st.
     if st \<notin> healthy_states then ret None
     else count_active (if st = VStr ''up:active'' then n + 1 else n) is)"

text \<open>The map that all checks are made on: the old command when the new one is refused with exit
  status 22 (EINVAL).\<close>

definition health_map :: "('z, pv) fsm" where
  "health_map =
     try_except get_mds_map is_CommandFailed
       (\<lambda>x. if exc_class x = CommandFailedError 22
            then bind (raw_cluster_cmd [''mds'', ''dump'', ''--format=json'']) loads
            else reraise x)"

text \<open>Asking an active server for its own state; \<open>Some False\<close> leaves the loop.\<close>

definition ask_active :: "pv \<Rightarrow> ('z, bool option) fsm" where
  "ask_active i =
     bind (item i ''state'') (\<lambda>st.
     if st \<noteq> VStr ''up:active'' then ret None
     else
       bind (item i ''name'') (\<lambda>nv.
       bind (cmd_arg nv) (\<lambda>n.
       bind (try_except (bind (mds_asok [''status''] (Some n)) (\<lambda>v. ret (Inr v))) is_CommandFailed
               (\<lambda>x. ret (Inl (if exc_class x = CommandFailedError 22 then None else Some False)))) (\<lambda>r.
       case r of
         Inl b \<Rightarrow> ret b
       | Inr daemon_status \<Rightarrow>
           bind (item daemon_status ''state'') (\<lambda>ds.
           ret (if ds \<noteq> VStr ''up:active'' then Some False else None))))))"

definition are_daemons_healthy :: "('z, bool) fsm" where
  "are_daemons_healthy =
     bind health_map (\<lambda>mds_map.
     bind (item mds_map ''info'') (\<lambda>i.
     bind (as_dict i) (\<lambda>d.
     bind (count_active 0 (map snd d)) (\<lambda>c.
     case c of
       None \<Rightarrow> ret False
     | Some active_count \<Rightarrow>
         bind (item mds_map ''max_mds'') (\<lambda>mx.
         if value_le_num mx (of_int active_count) then
           bind (for_find (map snd d) ask_active) (\<lambda>r. ret (case r of None \<Rightarrow> True | Some b \<Rightarrow> b))
         else ret False)))))"

section \<open>Waiting\<close>

definition wait_for_daemons_body :: "int \<Rightarrow> int \<Rightarrow> ('z, int + unit) fsm" where
  "wait_for_daemons_body timeout elapsed =
     bind are_daemons_healthy (\<lambda>h.
     if h then ret (Inr ())
     else
       bind (sleep 1) (\<lambda>_.
       if timeout < elapsed + 1 then raise RuntimeError ''Timed out waiting for MDS daemons to become healthy''
       else ret (Inl (elapsed + 1))))"

text \<open>\<open>DAEMON_WAIT_TIMEOUT\<close> is 120.\<close>

definition wait_for_daemons :: "int option \<Rightarrow> ('z, unit) fsm" where
  "wait_for_daemons timeout =
     loop (wait_for_daemons_body (case timeout of None \<Rightarrow> 120 | Some t \<Rightarrow> t)) 0"

text \<open>The state of one server, or the goal when exactly one rank is in it, or the rejected state when
  some rank is in it.\<close>

definition current_state :: "fs_status \<Rightarrow> pv \<Rightarrow> pv \<Rightarrow> string option \<Rightarrow> ('z, pv) fsm" where
  "current_state st goal reject mds_id = (case mds_id of
       Some i \<Rightarrow> bind (get_mds st i) (\<lambda>info. if truthy info then item info ''state'' else ret VNone)
     | None \<Rightarrow>
         bind (gets fs_id) (\<lambda>fscid.
         bind (map_ranks (\<lambda>i. item i ''state'') st fscid) (\<lambda>states.
         ret (if filter (\<lambda>s. s = goal) states = [goal] then goal
              else if reject \<in> set states then reject
              else VNone))))"

definition wait_for_state_body :: "pv \<Rightarrow> pv \<Rightarrow> pv \<Rightarrow> string option \<Rightarrow> rat \<Rightarrow> ('z, rat + rat) fsm" where
  "wait_for_state_body goal reject timeout mds_id started_at =
     bind new_status (\<lambda>st.
     bind (current_state st goal reject mds_id) (\<lambda>cur.
     bind now (\<lambda>t.
     let elapsed = t - started_at in
     if cur = goal then ret (Inr elapsed)
     else if reject \<noteq> VNone \<and> cur = reject then raise RuntimeError ''MDS in reject state''
     else if timeout \<noteq> VNone \<and> value_less_num timeout elapsed then
       bind (gets fs_id) (\<lambda>fscid.
       bind (get_fsmap st fscid) (\<lambda>_.
       raise RuntimeError ''Reached timeout waiting for state''))
     else bind (sleep 1) (\<lambda>_. ret (Inl started_at)))))"

definition wait_for_state :: "string \<Rightarrow> string option \<Rightarrow> pv \<Rightarrow> string option \<Rightarrow> ('z, rat) fsm" where
  "wait_for_state goal_state reject timeout mds_id =
     bind now (loop (wait_for_state_body (VStr goal_state)
       (case reject of None \<Rightarrow> VNone | Some r \<Rightarrow> VStr r) timeout mds_id))"

section \<open>Objects\<close>

text \<open>\<open>os.path.join(self._prefix, tool)\<close> with the empty prefix is the tool itself.\<close>

definition client_run :: "string list \<Rightarrow> ('z, proc) fsm" where
  "client_run args = bind (gets client_remote) (\<lambda>r. run_cmd r args True)"

definition put_metadata_object_raw :: "string \<Rightarrow> string \<Rightarrow> ('z, unit) fsm" where
  "put_metadata_object_raw object_id infile =
     bind (gets metadata_pool_name) (\<lambda>v.
     bind (cmd_arg v) (\<lambda>pool.
     bind (client_run [''sudo'', ''rados'', ''-p'', pool, ''put'', object_id, infile]) (\<lambda>_. ret ())))"

definition get_metadata_object_raw :: "string \<Rightarrow> ('z, string) fsm" where
  "get_metadata_object_raw object_id =
     (let temp_bin_path = ''/tmp/'' @ object_id @ ''.bin'' in
      bind (gets metadata_pool_name) (\<lambda>v.
      bind (cmd_arg v) (\<lambda>pool.
      bind (client_run [''sudo'', ''rados'', ''-p'', pool, ''get'', object_id, temp_bin_path]) (\<lambda>_.
      ret temp_bin_path))))"

definition get_metadata_object :: "string \<Rightarrow> string \<Rightarrow> ('z, pv) fsm" where
  "get_metadata_object object_type object_id =
     bind (gets metadata_pool_name) (\<lambda>v.
     bind (cmd_arg v) (\<lambda>pool.
     bind (client_run [''sudo'', ''rados'', ''-p'', pool, ''get'', object_id, ''/tmp/out.bin'']) (\<lambda>_.
     bind (client_run [''sudo'', ''zbkc-dencoder'', ''type'', object_type, ''import'', ''/tmp/out.bin'',
             ''decode'', ''dump_json'']) (\<lambda>proc.
     loads (strip (p_stdout proc))))))"

text \<open>\<open>"{0:x}.00000000".format(ino)\<close>\<close>

definition first_object :: "int \<Rightarrow> string" where
  "first_object ino = str_hex ino @ ''.00000000''"

definition get_journal_version :: "('z, pv) fsm" where
  "get_journal_version =
     bind (get_metadata_object ''JournalPointer'' ''400.00000000'') (\<lambda>d.
     bind (item d ''journal_pointer'') (\<lambda>p.
     bind (item p ''front'') (\<lambda>f.
     bind (of_option ValueError ''Unknown format code'' (int_instance f)) (\<lambda>journal_ino.
     bind (get_metadata_object ''Journaler::Header'' (first_object journal_ino)) (\<lambda>h.
     bind (item h ''journal_header'') (\<lambda>j.
     item j ''stream_format''))))))"

text \<open>\<open>self.mds_daemons[self.mds_ids[0]].remote\<close>\<close>

definition first_mds_remote :: "('z, string) fsm" where
  "first_mds_remote =
     bind (gets mds_ids) (\<lambda>ids.
     bind (first_of ids) (\<lambda>i.
     asks (\<lambda>E. env_daemon_remote E ''mds'' i)))"

definition default_data_pool :: "string option \<Rightarrow> ('z, string) fsm" where
  "default_data_pool pool = (case pool of
       Some p \<Rightarrow> ret p
     | None \<Rightarrow> bind (get_data_pool_name False) cmd_arg)"

definition read_data_xattr :: "int \<Rightarrow> string \<Rightarrow> string \<Rightarrow> string option \<Rightarrow> ('z, pv) fsm" where
  "read_data_xattr ino_no xattr_name ty pool0 =
     bind first_mds_remote (\<lambda>remote.
     bind (default_data_pool pool0) (\<lambda>pool.
     let obj_name = first_object ino_no in
     bind (try_except (run_cmd remote [''rados'', ''-p'', pool, ''getxattr'', obj_name, xattr_name] True)
             is_CommandFailed (\<lambda>_. raise ObjectNotFound obj_name)) (\<lambda>_.
     bind (run_cmd remote [''zbkc-dencoder'', ''type'', ty, ''import'', ''-'', ''decode'', ''dump_json''] True) (\<lambda>p.
     loads (strip (p_stdout p))))))"

definition write_data_xattr :: "int \<Rightarrow> string \<Rightarrow> string \<Rightarrow> string option \<Rightarrow> ('z, unit) fsm" where
  "write_data_xattr ino_no xattr_name data pool0 =
     bind first_mds_remote (\<lambda>remote.
     bind (default_data_pool pool0) (\<lambda>pool.
     bind (run_cmd remote [''rados'', ''-p'', pool, ''setxattr'', first_object ino_no, xattr_name, data] True) (\<lambda>_.
     ret ())))"

definition read_backtrace :: "int \<Rightarrow> string option \<Rightarrow> ('z, pv) fsm" where
  "read_backtrace ino_no pool = read_data_xattr ino_no ''parent'' ''inode_backtrace_t'' pool"

definition read_layout :: "int \<Rightarrow> string option \<Rightarrow> ('z, pv) fsm" where
  "read_layout ino_no pool = read_data_xattr ino_no ''layout'' ''file_layout_t'' pool"

definition fs_rados :: "string list \<Rightarrow> pv \<Rightarrow> string option \<Rightarrow> ('z, string) fsm" where
  "fs_rados args0 pool0 namespace =
     bind (if pool0 = VNone then get_metadata_pool_name else ret pool0) (\<lambda>pv.
     bind first_mds_remote (\<lambda>remote.
     bind (cmd_arg pv) (\<lambda>pool.
     let ns = (case namespace of Some (c # cs) \<Rightarrow> [''--namespace'', c # cs] | _ \<Rightarrow> []) in
     bind (run_cmd remote ([''rados'', ''-p'', pool] @ ns @ args0) True) (\<lambda>p.
     ret (strip (p_stdout p))))))"

text \<open>The stripe size is 4 MiB; the objects of an inode are numbered from 0.\<close>

definition stripe_size :: int where
  "stripe_size = 4194304"

definition want_objects :: "int \<Rightarrow> int \<Rightarrow> string list" where
  "want_objects ino size0 =
     (let sz = max stripe_size size0
      in map (\<lambda>n. str_hex ino @ ''.'' @ hex_pad 8 n) [0..<nat ((sz - 1) div stripe_size + 1)])"

definition enumerate_data_objects :: "int \<Rightarrow> int \<Rightarrow> ('z, string list \<times> string list) fsm" where
  "enumerate_data_objects ino sz =
     bind (get_data_pool_name False) (\<lambda>pool.
     bind (fs_rados [''ls''] pool None) (\<lambda>out.
     ret (want_objects ino sz, split_on newline out)))"

definition data_objects_present :: "int \<Rightarrow> int \<Rightarrow> ('z, bool) fsm" where
  "data_objects_present ino sz =
     bind (enumerate_data_objects ino sz) (\<lambda>(want, exist).
     ret (set want - set exist = {}))"

definition data_objects_absent :: "int \<Rightarrow> int \<Rightarrow> ('z, bool) fsm" where
  "data_objects_absent ino sz =
     bind (enumerate_data_objects ino sz) (\<lambda>(want, exist).
     ret (set want \<inter> set exist = {}))"

definition list_dirfrag :: "int \<Rightarrow> ('z, string list) fsm" where
  "list_dirfrag dir_ino =
     bind (try_except (fs_rados [''listomapkeys'', first_object dir_ino] VNone None)
             is_CommandFailed (\<lambda>_. raise ObjectNotFound (first_object dir_ino))) (\<lambda>keys.
     ret (if keys \<noteq> [] then split_on newline keys else []))"

definition erase_metadata_objects :: "string \<Rightarrow> ('z, unit) fsm" where
  "erase_metadata_objects pre =
     bind (fs_rados [''ls''] VNone None) (\<lambda>out.
     for_each (filter (prefix pre) (split_on newline out)) (\<lambda>ob.
       bind (fs_rados [''rm'', ob] VNone None) (\<lambda>_. ret ())))"

definition obj_prefix :: "int \<Rightarrow> int \<Rightarrow> string" where
  "obj_prefix multiplier rank = str_hex (multiplier * 256 + rank) @ ''.''"

definition table_prefix :: "int \<Rightarrow> string" where
  "table_prefix rank = ''mds'' @ str_int rank @ ''_''"

definition erase_mds_objects :: "int \<Rightarrow> ('z, unit) fsm" where
  "erase_mds_objects rank =
     bind (erase_metadata_objects (obj_prefix 2 rank)) (\<lambda>_.
     bind (erase_metadata_objects (obj_prefix 3 rank)) (\<lambda>_.
     bind (erase_metadata_objects (obj_prefix 4 rank)) (\<lambda>_.
     erase_metadata_objects (table_prefix rank))))"

section \<open>Tools\<close>

definition tool_args :: "string \<Rightarrow> int option \<Rightarrow> bool \<Rightarrow> string list" where
  "tool_args tool rank quiet =
     [tool, if quiet then ''--debug-mds=1'' else ''--debug-mds=4'', ''--debug-objecter=1''] @
     (case rank of None \<Rightarrow> [] | Some r \<Rightarrow> [''--rank'', str_int r])"

definition tool_remote :: "('z, string) fsm" where
  "tool_remote = first_mds_remote"

definition run_tool :: "string \<Rightarrow> string list \<Rightarrow> int option \<Rightarrow> bool \<Rightarrow> ('z, string) fsm" where
  "run_tool tool args rank quiet =
     bind now (\<lambda>_.
     bind tool_remote (\<lambda>remote.
     bind (run_cmd remote (tool_args tool rank quiet @ args) True) (\<lambda>p.
     bind now (\<lambda>_.
     ret (strip (p_stdout p))))))"

definition journal_tool :: "string list \<Rightarrow> int option \<Rightarrow> bool \<Rightarrow> ('z, string) fsm" where
  "journal_tool args rank quiet = run_tool ''zbkcfs-journal-tool'' args rank quiet"

definition table_tool :: "string list \<Rightarrow> bool \<Rightarrow> ('z, string) fsm" where
  "table_tool args quiet = run_tool ''zbkcfs-table-tool'' args None quiet"

text \<open>The arguments of worker \<open>n\<close> of \<open>m\<close>: the first word is the command.\<close>

definition worker_args :: "nat \<Rightarrow> nat \<Rightarrow> string list \<Rightarrow> string list" where
  "worker_args n m args =
     (if 1 < m then [hd args] @ [''--worker_n'', str_nat n, ''--worker_m'', str_nat m] @ tl args else args)"

text \<open>One worker is waited for at once and its result returned; several run as greenlets of their own,
  named by their arguments.\<close>

definition data_scan :: "string list \<Rightarrow> bool \<Rightarrow> nat \<Rightarrow> ('z, string option) fsm" where
  "data_scan args quiet worker_count =
     (if worker_count = 1 then
        bind (spawn (join '' '' (worker_args 0 1 args))) (\<lambda>_.
        bind (run_tool ''zbkcfs-data-scan'' args None quiet) (\<lambda>r. ret (Some r)))
      else if 1 < worker_count \<and> args = [] then raise IndexError ''list index out of range''
      else
        bind (for_each [0..<worker_count] (\<lambda>n. spawn (join '' '' (worker_args n worker_count args)))) (\<lambda>_.
        bind (for_each [0..<worker_count] (\<lambda>n. act (Get (join '' '' (worker_args n worker_count args))))) (\<lambda>_.
        ret None)))"

end
