(* ===== verification/Fs_Props.thy ===== *)
theory Fs_Props
  imports Filesystem Sample
begin

text \<open>
  Properties of the file system object: the data objects of an inode, the objects of a rank, the
  addresses of servers, the order of ranks, and the configuration a test sets.
\<close>

section \<open>Data objects\<close>

text \<open>The object that holds the byte at an offset.\<close>

definition object_of :: "int \<Rightarrow> int \<Rightarrow> string" where
  "object_of ino off = str_hex ino @ ''.'' @ hex_pad 8 (nat (off div stripe_size))"

lemma set_want_objects:
  "set (want_objects ino sz) = object_of ino ` {off. 0 \<le> off \<and> off < max stripe_size sz}"
proof -
  let ?m = "max stripe_size sz"
  have n: "n < nat ((?m - 1) div stripe_size + 1) \<longleftrightarrow> int n * stripe_size < ?m" for n
  proof -
    have "?m - 1 = 4194304 * ((?m - 1) div 4194304) + (?m - 1) mod 4194304" "0 \<le> (?m - 1) mod 4194304"
      "(?m - 1) mod 4194304 < 4194304" by simp_all
    then show ?thesis unfolding stripe_size_def by linarith
  qed
  show ?thesis
  proof (intro equalityI subsetI)
    fix x
    assume "x \<in> set (want_objects ino sz)"
    then obtain k where "k < nat ((?m - 1) div stripe_size + 1)" "x = object_of ino (int k * stripe_size)"
      by (auto simp: want_objects_def object_of_def Let_def stripe_size_def)
    then show "x \<in> object_of ino ` {off. 0 \<le> off \<and> off < ?m}"
      using n by (intro image_eqI [of _ _ "int k * stripe_size"]) (auto simp: stripe_size_def)
  next
    fix x
    assume "x \<in> object_of ino ` {off. 0 \<le> off \<and> off < ?m}"
    then obtain off where off: "0 \<le> off" "off < ?m" "x = object_of ino off" by auto
    have "int (nat (off div stripe_size)) * stripe_size \<le> off"
      using off(1) minus_mod_eq_mult_div [of off stripe_size] pos_mod_sign [of stripe_size off]
      by (auto simp: stripe_size_def)
    then have "nat (off div stripe_size) < nat ((?m - 1) div stripe_size + 1)" using off(2) n by simp
    then show "x \<in> set (want_objects ino sz)"
      using off(3) by (auto simp: want_objects_def object_of_def Let_def)
  qed
qed

lemma distinct_want_objects: "distinct (want_objects ino sz)"
  unfolding want_objects_def Let_def by (simp add: distinct_map inj_on_def)

text \<open>C22: The check for data objects is exact: when it returns, it says whether every byte of the inode
  (and at least the first stripe) lies in an object of the pool's listing; and the objects it looks for
  are pairwise different.\<close>

theorem data_objects_present_exact:
  assumes "data_objects_present ino sz E s = (Ok b, s')"
  shows "\<exists>exist. enumerate_data_objects ino sz E s = (Ok (want_objects ino sz, exist), s') \<and>
    (b \<longleftrightarrow> (\<forall>off. 0 \<le> off \<and> off < max stripe_size sz \<longrightarrow> object_of ino off \<in> set exist)) \<and>
    distinct (want_objects ino sz)"
proof -
  from assms obtain want exist where run: "enumerate_data_objects ino sz E s = (Ok (want, exist), s')"
    and b: "b \<longleftrightarrow> set want - set exist = {}"
    by (auto simp: data_objects_present_def exec_simps split: prod.splits res.splits)
  moreover have "want = want_objects ino sz"
    using run by (auto simp: enumerate_data_objects_def exec_simps split: prod.splits res.splits)
  ultimately show ?thesis using distinct_want_objects by (auto simp: set_want_objects)
qed

section \<open>Addresses\<close>

lemma splits_at_app: "d \<notin> set b \<Longrightarrow> \<exists>rest. splits_at d (a @ d # b) = (a, b) # rest"
proof (induction a)
  case Nil
  have "splits_at d b = []" using Nil by (induction b) auto
  then show ?case by simp
next
  case (Cons c a)
  then show ?case by auto
qed

text \<open>C23: The address of a server is taken apart into the parts it was put together from, when the port
  and the instance hold no separator.\<close>

theorem addr_groups_roundtrip:
  assumes "ip \<noteq> []" "port \<noteq> []" "inst \<noteq> []"
    and "CHR '':'' \<notin> set (port @ inst)" "CHR ''/'' \<notin> set inst" "newline \<notin> set (ip @ port @ inst)"
  shows "addr_groups (ip @ '':'' @ port @ ''/'' @ inst) = Some (ip, port, inst)"
proof -
  let ?rest = "port @ CHR ''/'' # inst"
  have nl: "takeWhile ((\<noteq>) newline) (ip @ '':'' @ port @ ''/'' @ inst) = ip @ CHR '':'' # ?rest"
    using assms(6) by (subst takeWhile_eq_all_conv [THEN iffD2]) auto
  obtain r1 where r1: "splits_at (CHR '':'') (ip @ CHR '':'' # ?rest) = (ip, ?rest) # r1"
    using splits_at_app [of "CHR '':''" ?rest ip] assms(4) by auto
  obtain r2 where r2: "splits_at (CHR ''/'') ?rest = (port, inst) # r2"
    using splits_at_app [of "CHR ''/''" inst port] assms(5) by auto
  show ?thesis unfolding addr_groups_def nl r1 using r2 assms(1-3) by simp
qed

theorem addr_groups_roundtrip_witness:
  "addr_groups (''10.214.133.138'' @ '':'' @ ''6807'' @ ''/'' @ ''10825'') = Some (''10.214.133.138'', ''6807'', ''10825'')"
  by (rule addr_groups_roundtrip) simp_all

section \<open>Objects of a rank\<close>

definition belongs :: "string \<Rightarrow> int \<Rightarrow> bool" where
  "belongs ob rank \<longleftrightarrow> prefix (obj_prefix 2 rank) ob \<or> prefix (obj_prefix 3 rank) ob \<or>
     prefix (obj_prefix 4 rank) ob \<or> prefix (table_prefix rank) ob"

lemma hex_char_not: "n < 16 \<Longrightarrow> hex_char n \<noteq> CHR ''.'' \<and> hex_char n \<noteq> CHR ''m''"
proof -
  assume n: "n < 16"
  have c: "(of_char (hex_char n) :: nat) = (if n < 10 then 48 + n else 87 + n)"
    using n by (simp add: hex_char_def)
  have "hex_char n \<noteq> x" if "(of_char x :: nat) < 48 \<or> 102 < (of_char x :: nat)" for x
    using c that n by (auto split: if_splits)
  then show ?thesis by simp
qed

lemma hex_nat_chars: "set (hex_nat n) \<inter> {CHR ''.'', CHR ''m''} = {}"
proof (induction n rule: hex_nat.induct)
  case (1 n)
  then show ?case using hex_char_not [of n] hex_char_not [of "n mod 16"] by (subst hex_nat.simps) auto
qed

lemma str_hex_chars: "0 \<le> i \<Longrightarrow> set (str_hex i) \<inter> {CHR ''.'', CHR ''m''} = {}"
  using hex_nat_chars by (simp add: str_hex_def)

lemma str_hex_inject: "0 \<le> i \<Longrightarrow> 0 \<le> j \<Longrightarrow> str_hex i = str_hex j \<longleftrightarrow> i = j"
  by (auto simp: str_hex_def)

lemma prefix_before: "d \<notin> set w \<Longrightarrow> prefix (w @ [d]) s \<Longrightarrow> takeWhile ((\<noteq>) d) s = w"
  by (auto simp: prefix_def takeWhile_append)

lemma str_int_no_underscore: "CHR ''_'' \<notin> set (str_int i)"
proof -
  have "\<not> is_digit (CHR ''_'')" by (simp add: is_digit_def digit_val_def)
  then have "CHR ''_'' \<notin> set (str_nat n)" for n using str_nat_digits [of n] by (auto simp: list_all_iff)
  then show ?thesis by (auto simp: str_int_def)
qed

lemma str_hex_not_Nil: "str_hex i \<noteq> []"
proof -
  have "hex_nat n \<noteq> []" for n by (subst hex_nat.simps) simp
  then show ?thesis by (simp add: str_hex_def)
qed

lemma obj_prefix_owner:
  assumes "prefix (obj_prefix k r) ob" "prefix (obj_prefix k' r') ob" "0 \<le> k * 256 + r" "0 \<le> k' * 256 + r'"
  shows "k * 256 + r = k' * 256 + r'"
proof -
  have "takeWhile ((\<noteq>) (CHR ''.'')) ob = str_hex (k * 256 + r)" "takeWhile ((\<noteq>) (CHR ''.'')) ob = str_hex (k' * 256 + r')"
    using assms str_hex_chars by (auto simp: obj_prefix_def intro!: prefix_before)
  then show ?thesis using assms(3,4) str_hex_inject by simp
qed

lemma table_prefix_owner:
  assumes "prefix (table_prefix r) ob" "prefix (table_prefix r') ob"
  shows "r = r'"
proof -
  have "takeWhile ((\<noteq>) (CHR ''_'')) ob = ''mds'' @ str_int i" if "prefix (table_prefix i) ob" for i
    using that str_int_no_underscore [of i] by (intro prefix_before) (auto simp: table_prefix_def)
  from this [OF assms(1)] this [OF assms(2)] show ?thesis by simp
qed

lemma obj_not_table: "prefix (obj_prefix k r) ob \<Longrightarrow> 0 \<le> k * 256 + r \<Longrightarrow> \<not> prefix (table_prefix r') ob"
  using str_hex_chars [of "k * 256 + r"] str_hex_not_Nil [of "k * 256 + r"]
  by (cases "str_hex (k * 256 + r)") (auto simp: obj_prefix_def table_prefix_def prefix_def)

lemma belongs_cases:
  assumes "belongs ob r"
  obtains k where "k \<in> {2, 3, 4}" "prefix (obj_prefix k r) ob" | "prefix (table_prefix r) ob"
  using assms unfolding belongs_def by blast

lemma belongs_unique:
  assumes "0 \<le> r" "r < 256" "0 \<le> r'" "r' < 256" "belongs ob r" "belongs ob r'"
  shows "r = r'"
  using assms(5)
proof (cases rule: belongs_cases)
  case (1 k)
  from assms(6) show ?thesis
  proof (cases rule: belongs_cases)
    case (1 k')
    have "k * 256 + r = k' * 256 + r'"
      using 1 \<open>prefix (obj_prefix k r) ob\<close> \<open>k \<in> {2, 3, 4}\<close> assms(1,3) by (intro obj_prefix_owner [of k r ob]) auto
    then show ?thesis using 1(1) \<open>k \<in> {2, 3, 4}\<close> assms(1-4) by auto
  next
    case 2
    then show ?thesis using obj_not_table [of k r ob r'] 1 assms(1) by auto
  qed
next
  case 2
  from assms(6) show ?thesis
  proof (cases rule: belongs_cases)
    case (1 k')
    then show ?thesis using obj_not_table [of k' r' ob r] 2 assms(3) by auto
  qed (rule table_prefix_owner [OF 2])
qed

text \<open>The object a command removes, after the pool it removes it from.\<close>

definition removes :: "event \<Rightarrow> (string \<times> string) option" where
  "removes e = (case e of
     Run _ args _ \<Rightarrow> (case args of [a, b, pool, d, ob] \<Rightarrow> if a = ''rados'' \<and> d = ''rm'' then Some (pool, ob) else None | _ \<Rightarrow> None)
   | _ \<Rightarrow> None)"

text \<open>Nothing happens but events, and every object removed is one of \<open>P\<close>, from the pool the metadata is in.\<close>

definition removes_rel :: "(string \<Rightarrow> bool) \<Rightarrow> 'z filesystem_scheme \<Rightarrow> 'z filesystem_scheme \<Rightarrow> bool" where
  "removes_rel P s s' \<longleftrightarrow> (\<exists>es. s' = s\<lparr>trace := trace s @ es\<rparr> \<and>
     list_all (\<lambda>e. \<forall>pool ob. removes e = Some (pool, ob) \<longrightarrow> VStr pool = metadata_pool_name s \<and> P ob) es)"

interpretation rm: step_rel "removes_rel P" for P
proof
  show "removes_rel P s s" for s :: "'a filesystem_scheme"
    unfolding removes_rel_def by (rule exI [of _ "[]"]) simp
  show "removes_rel P s u" if "removes_rel P s t" "removes_rel P t u" for s t u :: "'a filesystem_scheme"
    using that by (auto simp: removes_rel_def)
qed

text \<open>Without a pool named, the command goes to the pool of the metadata.\<close>

lemma fs_rados_sends:
  "(\<exists>h pool. snd (fs_rados args VNone None E s) = s\<lparr>trace := trace s @ [Run h ([''rados'', ''-p'', pool] @ args) True]\<rparr> \<and>
     VStr pool = metadata_pool_name s) \<or> snd (fs_rados args VNone None E s) = s"
proof (cases "\<exists>pool. metadata_pool_name s = VStr pool")
  case True
  then obtain pool where "metadata_pool_name s = VStr pool" by blast
  then show ?thesis
    by (cases "mds_ids s") (simp_all add: fs_rados_def get_metadata_pool_name_def first_mds_remote_def first_of_def cmd_arg_def
        run_cmd_def exec_simps split: sum.split, blast)
next
  case False
  then show ?thesis
    by (cases "mds_ids s"; cases "metadata_pool_name s") (simp_all add: fs_rados_def get_metadata_pool_name_def
        first_mds_remote_def first_of_def cmd_arg_def exec_simps)
qed

lemma rm_fs_rados:
  assumes "\<And>h pool p ob. removes (Run h ([''rados'', ''-p'', pool] @ args) True) = Some (p, ob) \<Longrightarrow> p = pool \<and> P ob"
  shows "keeps (removes_rel P) (fs_rados args VNone None)"
proof (rule keepsI)
  fix E :: env and s :: "'a filesystem_scheme"
  from fs_rados_sends [of args E s] show "removes_rel P s (snd (fs_rados args VNone None E s))"
  proof (elim disjE exE conjE)
    fix h pool
    assume "snd (fs_rados args VNone None E s) = s\<lparr>trace := trace s @ [Run h ([''rados'', ''-p'', pool] @ args) True]\<rparr>"
      and "VStr pool = metadata_pool_name s"
    then show ?thesis
      unfolding removes_rel_def using assms [of h pool]
      by (intro exI [of _ "[Run h ([''rados'', ''-p'', pool] @ args) True]"]) auto
  qed (simp add: rm.step_refl)
qed

lemma rm_erase_metadata_objects:
  assumes "\<And>ob. prefix pre ob \<Longrightarrow> P ob"
  shows "keeps (removes_rel P) (erase_metadata_objects pre)"
  unfolding erase_metadata_objects_def
  by (intro keeps_intros rm.keeps_for_each_set rm_fs_rados) (auto simp: removes_def assms)

lemma rm_erase_mds_objects: "keeps (removes_rel (\<lambda>ob. belongs ob rank)) (erase_mds_objects rank)"
  unfolding erase_mds_objects_def
  by (intro keeps_intros rm_erase_metadata_objects) (simp_all add: belongs_def)

text \<open>C24: Erasing the objects of a rank below 256 removes objects of that rank only, and from the metadata pool only:
  whatever the listings say and however it ends, no object of another rank below 256 and no object of another
  pool is removed. For 256 and more the names of one table run into those of the next.\<close>

theorem erase_mds_objects_safe:
  assumes "0 \<le> rank" "rank < 256"
  shows "post (erase_mds_objects rank) E s (\<lambda>r s'. \<exists>es. trace s' = trace s @ es \<and>
    list_all (\<lambda>e. case removes e of None \<Rightarrow> True
      | Some (pool, ob) \<Rightarrow> VStr pool = metadata_pool_name s \<and> belongs ob rank \<and>
          (\<forall>r'. 0 \<le> r' \<and> r' < 256 \<and> r' \<noteq> rank \<longrightarrow> \<not> belongs ob r')) es)"
proof (rule post_keeps [OF rm_erase_mds_objects])
  fix r :: "unit res" and s'
  assume "removes_rel (\<lambda>ob. belongs ob rank) s s'"
  then obtain es where es: "trace s' = trace s @ es" "list_all (\<lambda>e. \<forall>pool ob. removes e = Some (pool, ob) \<longrightarrow>
      VStr pool = metadata_pool_name s \<and> belongs ob rank) es" by (auto simp: removes_rel_def)
  have "\<not> belongs ob r'" if "belongs ob rank" "0 \<le> r' \<and> r' < 256 \<and> r' \<noteq> rank" for ob r'
    using belongs_unique [of rank r' ob] assms that by auto
  then show "\<exists>es. trace s' = trace s @ es \<and> list_all (\<lambda>e. case removes e of None \<Rightarrow> True
      | Some (pool, ob) \<Rightarrow> VStr pool = metadata_pool_name s \<and> belongs ob rank \<and>
          (\<forall>r'. 0 \<le> r' \<and> r' < 256 \<and> r' \<noteq> rank \<longrightarrow> \<not> belongs ob r')) es"
    using es by (intro exI [of _ es]) (auto simp: list_all_iff split: option.split)
qed

section \<open>A sample\<close>

definition sample_fs :: filesystem where
  "sample_fs = \<lparr>trace = [], mgr_cluster = ''zbkc'', mgr_controller = ''host1'', mgr_config = [],
     pools = [], next_pool_id = 0, zbkc_conf = [], mds_ids = [''a'', ''b''], fs_id = VInt 1,
     fs_name = VStr ''zbkcfs'', metadata_pool_name = VStr ''zbkcfs_metadata'',
     data_pools = Some [(VInt 2, VStr ''zbkcfs_data'')], client_id = ''0'', client_remote = ''host1''\<rparr>"

definition list_env :: "string \<Rightarrow> env" where
  "list_env out = sample_env [([''ls''], ok_proc out)]"

theorem erase_mds_objects_safe_witness:
  "fst (erase_mds_objects 1 (list_env (''201.00000000'' @ [newline] @ ''202.00000000'')) sample_fs) = Ok () \<and>
   post (erase_mds_objects 1) (list_env (''201.00000000'' @ [newline] @ ''202.00000000'')) sample_fs (\<lambda>r s'.
     \<exists>es. trace s' = trace sample_fs @ es \<and> list_all (\<lambda>e. case removes e of None \<Rightarrow> True
      | Some (pool, ob) \<Rightarrow> VStr pool = metadata_pool_name sample_fs \<and> belongs ob 1 \<and>
          (\<forall>r'. 0 \<le> r' \<and> r' < 256 \<and> r' \<noteq> 1 \<longrightarrow> \<not> belongs ob r')) es)"
proof (rule conjI, code_simp)
qed (rule erase_mds_objects_safe, simp_all)

theorem data_objects_present_exact_witness:
  "\<exists>b s' exist. data_objects_present 16 5000000 (list_env (''10.00000000'' @ [newline] @ ''10.00000001'')) sample_fs = (Ok b, s') \<and>
    enumerate_data_objects 16 5000000 (list_env (''10.00000000'' @ [newline] @ ''10.00000001'')) sample_fs =
      (Ok (want_objects 16 5000000, exist), s') \<and> b"
proof -
  let ?E = "list_env (''10.00000000'' @ [newline] @ ''10.00000001'')"
  let ?run = "data_objects_present 16 5000000 ?E sample_fs"
  have "fst ?run = Ok True" by code_simp
  then have "?run = (Ok True, snd ?run)" by (rule run_eq)
  from data_objects_present_exact [OF this] this show ?thesis by blast
qed

section \<open>The configuration a test sets\<close>

text \<open>What a key of a section is set to.\<close>

definition conf_value :: "'z mds_cluster_scheme \<Rightarrow> string \<Rightarrow> string \<Rightarrow> string option" where
  "conf_value s subsys key = Option.bind (map_of (zbkc_conf s) subsys) (\<lambda>d. map_of d key)"

text \<open>C25: Setting a configuration value and clearing it again: the value can be read in between, clearing
  it raises nothing but what writing the file raises, and afterwards every other value is what it was
  and this one is unset.\<close>

theorem zbkc_conf_roundtrip:
  fixes s :: "'a mds_cluster_scheme"
  assumes "set_zbkc_conf subsys key val E s = (r1, s1)" and "clear_zbkc_conf subsys key E s1 = (r2, s2)"
  shows "conf_value s1 subsys key = Some val \<and> conf_value s2 subsys key = None \<and>
    (\<forall>a b. (a, b) \<noteq> (subsys, key) \<longrightarrow> conf_value s1 a b = conf_value s a b \<and> conf_value s2 a b = conf_value s a b) \<and>
    r2 = (case env_act E (trace s2) of None \<Rightarrow> Ok () | Some x \<Rightarrow> Raise x)"
proof -
  let ?sec = "case map_of (zbkc_conf s) subsys of None \<Rightarrow> [] | Some d \<Rightarrow> d"
  obtain e where w: "write_conf conf_path = (act e :: ('a, unit) mdsc)"
    unfolding write_conf_def by blast
  have s1: "s1 = s\<lparr>zbkc_conf := alist_put subsys (alist_put key val ?sec) (zbkc_conf s), trace := trace s @ [e]\<rparr>"
    using assms(1) unfolding set_zbkc_conf_def Let_def w by (simp add: exec_simps exec_act)
  have sec: "map_of (zbkc_conf s1) subsys = Some (alist_put key val ?sec)" using s1 by simp
  have s2: "s2 = s1\<lparr>zbkc_conf := alist_put subsys (alist_del key (alist_put key val ?sec)) (zbkc_conf s1),
      trace := trace s1 @ [e]\<rparr> \<and> r2 = (case env_act E (trace s1 @ [e]) of None \<Rightarrow> Ok () | Some x \<Rightarrow> Raise x)"
    using assms(2) unfolding clear_zbkc_conf_def w by (simp add: exec_simps exec_act sec)
  show ?thesis using s2 by (auto simp: conf_value_def s1 split: option.split)
qed

theorem zbkc_conf_roundtrip_witness:
  "\<exists>r1 s1 r2 s2. set_zbkc_conf ''mds'' ''debug mds'' ''20'' (sample_env []) sample_fs = (r1, s1) \<and>
     clear_zbkc_conf ''mds'' ''debug mds'' (sample_env []) s1 = (r2, s2) \<and>
     conf_value s1 ''mds'' ''debug mds'' = Some ''20'' \<and> conf_value s2 ''mds'' ''debug mds'' = None"
proof -
  obtain r1 s1 where 1: "set_zbkc_conf ''mds'' ''debug mds'' ''20'' (sample_env []) sample_fs = (r1, s1)" by fastforce
  obtain r2 s2 where 2: "clear_zbkc_conf ''mds'' ''debug mds'' (sample_env []) s1 = (r2, s2)" by fastforce
  show ?thesis using 1 2 zbkc_conf_roundtrip [OF 1 2] by blast
qed

section \<open>Fields\<close>

definition field :: "pv \<Rightarrow> string \<Rightarrow> pv option" where
  "field v k = (case v of VDict d \<Rightarrow> map_of d k | _ \<Rightarrow> None)"

lemma item_field: "item v k E s = (Ok x, s') \<longleftrightarrow> field v k = Some x \<and> s' = s"
  by (cases v) (auto simp: item_def field_def exec_simps split: option.splits)

lemma item_Some: "field v k = Some x \<Longrightarrow> item v k E s = (Ok x, s)"
  by (simp add: item_field)

section \<open>The order of ranks\<close>

lemma insort_key_map: "insort_key fst (g x) (map g ys) = map g (insort_key (\<lambda>y. fst (g y)) x ys)"
  by (induction ys) auto

lemma sort_key_map: "sort_key fst (map g xs) = map g (sort_key (\<lambda>y. fst (g y)) xs)"
  by (induction xs) (simp_all add: insort_key_map)

lemma sort_key_zip: "map snd (sort_key fst (zip (map f xs) xs)) = sort_key f xs"
proof -
  have "zip (map f xs) xs = map (\<lambda>x. (f x, x)) xs" by (induction xs) auto
  then show ?thesis by (simp add: sort_key_map o_def)
qed

lemma sort_key_of_int: "sort_key (\<lambda>x. (of_int (f x) :: rat)) xs = sort_key f xs"
proof -
  have "insort_key (\<lambda>x. (of_int (f x) :: rat)) y ys = insort_key f y ys" for y ys by (induction ys) auto
  then show ?thesis by (induction xs) simp_all
qed

definition info_rank :: "pv \<Rightarrow> int" where
  "info_rank i = (case field i ''rank'' of Some (VInt r) \<Rightarrow> r | _ \<Rightarrow> -1)"

definition wf_info :: "pv \<Rightarrow> bool" where
  "wf_info i \<longleftrightarrow> (case field i ''rank'' of Some (VInt r) \<Rightarrow> True | _ \<Rightarrow> False) \<and>
     field i ''state'' \<noteq> None \<and> field i ''name'' \<noteq> None"

lemma wf_info_rank: "wf_info i \<Longrightarrow> field i ''rank'' = Some (VInt (info_rank i))"
  by (auto simp: wf_info_def info_rank_def split: option.splits pv.splits)

text \<open>The server holds a rank itself, and does not just follow the journal of one that does.\<close>

definition has_rank :: "pv \<Rightarrow> bool" where
  "has_rank i \<longleftrightarrow> info_rank i \<noteq> -1 \<and> field i ''state'' \<noteq> Some (VStr ''up:standby-replay'')"

lemma map_m_pure: "(\<And>x. x \<in> set xs \<Longrightarrow> f x E s = (Ok (g x), s)) \<Longrightarrow> map_m f xs E s = (Ok (map g xs), s)"
  by (induction xs) (auto simp: exec_simps)

lemma mapfilter_m_pure:
  "(\<And>x. x \<in> set xs \<Longrightarrow> f x E s = (Ok (if P x then Some (g x) else None), s)) \<Longrightarrow>
   mapfilter_m f xs E s = (Ok (map g (filter P xs)), s)"
  by (induction xs) (auto simp: exec_simps)

lemma sort_infos_pure: "list_all wf_info infos \<Longrightarrow> sort_infos infos E s = (Ok (sort_key info_rank infos), s)"
proof -
  assume wf: "list_all wf_info infos"
  have "map_m (\<lambda>i. bind (item i ''rank'') as_num) infos E s = (Ok (map (\<lambda>i. of_int (info_rank i)) infos), s)"
    using wf by (intro map_m_pure) (auto simp: list_all_iff wf_info_rank exec_simps item_Some as_num_def)
  moreover have "sort_key info_rank infos = infos" if "length infos \<le> 1"
    using that by (cases infos) auto
  ultimately show ?thesis
    by (simp add: sort_infos_def exec_simps sort_key_zip sort_key_of_int)
qed

lemma ranked_field_pure:
  "wf_info i \<Longrightarrow> ranked_field ''name'' i E s = (Ok (if has_rank i
     then Some (the (field i ''name'')) else None), s)"
  by (frule wf_info_rank) (auto simp: wf_info_def has_rank_def ranked_field_def exec_simps item_Some)

text \<open>C26: The names of the ranks are those of the servers of the map that hold a rank, each as often as it is in the
  map, and they come in the order of the ranks; for every map whose entries have a whole number as rank, a state
  and a name.\<close>

theorem get_rank_names_spec:
  assumes "get_mds_map E s = (Ok m, s')" and "field m ''info'' = Some (VDict d)" and "list_all wf_info (map snd d)"
  shows "\<exists>holders. get_rank_names E s = (Ok (map (\<lambda>i. the (field i ''name'')) holders), s') \<and>
    mset holders = filter_mset has_rank (mset (map snd d)) \<and> sorted (map info_rank holders)"
proof -
  let ?infos = "sort_key info_rank (map snd d)"
  have "map_infos E s = (Ok ?infos, s')"
    using assms by (simp add: map_infos_def exec_simps item_Some as_dict_def sort_infos_pure)
  moreover have "mapfilter_m (ranked_field ''name'') ?infos E s' = (Ok (map (\<lambda>i. the (field i ''name'')) (filter has_rank ?infos)), s')"
    using assms(3) by (intro mapfilter_m_pure ranked_field_pure) (auto simp: list_all_iff)
  ultimately have "get_rank_names E s = (Ok (map (\<lambda>i. the (field i ''name'')) (filter has_rank ?infos)), s')"
    by (simp add: get_rank_names_def exec_simps)
  moreover have "mset (filter has_rank ?infos) = filter_mset has_rank (mset (map snd d))" by (simp add: mset_filter)
  moreover have "sorted (map info_rank (filter has_rank ?infos))" by (simp add: sorted_filter)
  ultimately show ?thesis by blast
qed

text \<open>A file system with two servers, the one of rank 1 first in the map.\<close>

definition fs_dump :: "string list \<times> proc" where
  \<open>fs_dump = ([''fs'', ''dump'', ''--format=json-pretty''],
     ok_proc (''{"standbys": [], "filesystems": [{"id": 1, "mdsmap": {"fs_name": "zbkcfs", "max_mds": 2, '' @
       ''"metadata_pool": 1, "data_pools": [2], "failed": [], '' @
       ''"info": {"g2": {"name": "b", "rank": 1, "gid": 2, "state": "up:active"}, '' @
       ''"g1": {"name": "a", "rank": 0, "gid": 1, "state": "up:active"}}}}]}''))\<close>

theorem get_rank_names_spec_witness:
  "\<exists>m d s' holders. get_mds_map (sample_env [fs_dump]) sample_fs = (Ok m, s') \<and> field m ''info'' = Some (VDict d) \<and>
     list_all wf_info (map snd d) \<and> length d = 2 \<and>
     get_rank_names (sample_env [fs_dump]) sample_fs = (Ok (map (\<lambda>i. the (field i ''name'')) holders), s') \<and>
     mset holders = filter_mset has_rank (mset (map snd d)) \<and> sorted (map info_rank holders)"
proof -
  let ?run = "get_mds_map (sample_env [fs_dump]) sample_fs"
  define m where "m = (case fst ?run of Ok m \<Rightarrow> m | _ \<Rightarrow> VNone)"
  define d where "d = (case field m ''info'' of Some (VDict d) \<Rightarrow> d | _ \<Rightarrow> [])"
  have "fst ?run = Ok m" unfolding m_def by code_simp
  then have 1: "?run = (Ok m, snd ?run)" by (rule run_eq)
  have 2: "field m ''info'' = Some (VDict d)" unfolding d_def m_def by code_simp
  have 3: "list_all wf_info (map snd d)" unfolding d_def m_def by code_simp
  have "length d = 2" unfolding d_def m_def by code_simp
  with get_rank_names_spec [OF 1 2 3] 1 2 3 show ?thesis by blast
qed

end
