(* ===== verification/Fs_Health.thy ===== *)
theory Fs_Health
  imports Fs_Props Manager_Bounds
begin

text \<open>
  Properties of the file system object, continued: what a healthy file system is, waiting for one, and
  what the object knows after it has read its information.
\<close>

section \<open>Health\<close>

lemma count_active_Some:
  "count_active n is E s = (Ok (Some k), s') \<Longrightarrow>
   s' = s \<and> list_all (\<lambda>i. \<exists>st \<in> healthy_states. field i ''state'' = Some st) is \<and>
   k = n + int (length (filter (\<lambda>i. field i ''state'' = Some (VStr ''up:active'')) is))"
proof (induction "is" arbitrary: n s)
  case (Cons i "is")
  from Cons.prems obtain st where st: "field i ''state'' = Some st" "st \<in> healthy_states"
    and rest: "count_active (if st = VStr ''up:active'' then n + 1 else n) is E s = (Ok (Some k), s')"
    by (auto simp: exec_simps item_field split: prod.splits res.splits if_splits)
  from Cons.IH [OF rest] st show ?case by auto
qed (simp add: exec_simps)

text \<open>C27: A file system is reported healthy only on a map in which every server is active, standby or
  standby-replay, and at least \<open>max_mds\<close> of them are active.\<close>

theorem are_daemons_healthy_sound:
  assumes "are_daemons_healthy E s = (Ok True, s')"
  shows "\<exists>m d mx s1. health_map E s = (Ok m, s1) \<and> field m ''info'' = Some (VDict d) \<and> field m ''max_mds'' = Some mx \<and>
    list_all (\<lambda>i. \<exists>st \<in> healthy_states. field i ''state'' = Some st) (map snd d) \<and>
    value_le_num mx (of_nat (length (filter (\<lambda>i. field i ''state'' = Some (VStr ''up:active'')) (map snd d))))"
proof -
  from assms obtain m s1 d k s2 mx where "health_map E s = (Ok m, s1)" "field m ''info'' = Some (VDict d)"
    "count_active 0 (map snd d) E s1 = (Ok (Some k), s2)" "field m ''max_mds'' = Some mx" "value_le_num mx (of_int k)"
    by (auto simp: are_daemons_healthy_def bind_Ok item_field as_dict_def exec_basic
        split: option.splits if_splits pv.splits)
  with count_active_Some show ?thesis by fastforce
qed

definition health_env :: env where
  \<open>health_env = sample_env [fs_dump, ([''status''], ok_proc ''{"state": "up:active"}'')]\<close>

theorem are_daemons_healthy_sound_witness:
  "\<exists>s' m d mx s1. are_daemons_healthy health_env sample_fs = (Ok True, s') \<and> health_map health_env sample_fs = (Ok m, s1) \<and>
     field m ''info'' = Some (VDict d) \<and> field m ''max_mds'' = Some mx \<and>
     value_le_num mx (of_nat (length (filter (\<lambda>i. field i ''state'' = Some (VStr ''up:active'')) (map snd d))))"
proof -
  let ?run = "are_daemons_healthy health_env sample_fs"
  have "fst ?run = Ok True" by code_simp
  then have "?run = (Ok True, snd ?run)" by (rule run_eq)
  from are_daemons_healthy_sound [OF this] this show ?thesis by blast
qed

section \<open>Waiting\<close>

lemma ends_fs_queries [ends_intros]:
  "ends k new_status"
  "ends k (get_filesystems st)"
  "ends k (get_standbys st)"
  "ends k (mds_infos fs)"
  "ends k (get_fsmap st v)"
  "ends k get_mds_map"
  "ends k (json_asok as t i)"
  "ends k (sort_infos infos)"
  "ends k map_infos"
  "ends k (ranked_field f info)"
  "ends k get_rank_names"
  "ends k get_lone_mds_id"
  "ends k (mds_asok as x)"
  unfolding new_status_def get_filesystems_def get_standbys_def mds_infos_def get_fsmap_def get_mds_map_def json_asok_def
    loads_def sort_infos_def map_infos_def ranked_field_def get_rank_names_def get_lone_mds_id_def mds_asok_def
  by (intro ends_intros)+

lemma ends_count_active [ends_intros]: "ends k (count_active n is)"
  by (induction "is" arbitrary: n) (auto intro!: ends_intros)

lemma ends_are_daemons_healthy [ends_intros]: "ends k are_daemons_healthy"
  unfolding are_daemons_healthy_def health_map_def ask_active_def loads_def by (intro ends_intros)

text \<open>C28: Waiting for a healthy file system ends after at most one check per second of the timeout and one
  more, whatever the cluster answers, and returns only when the last check found it healthy.\<close>

theorem wait_for_daemons_bounded:
  assumes "nat t < env_fuel E"
  shows "post (wait_for_daemons (Some t)) E s (\<lambda>r s'. r \<noteq> NoFuel \<and>
    (r = Ok () \<longrightarrow> (\<exists>u. are_daemons_healthy E u = (Ok True, s'))))"
  unfolding wait_for_daemons_def option.case post_loop
proof (rule post_loop_n_total [where I = "\<lambda>e u. 0 \<le> e" and V = "\<lambda>e u. nat (t - e)"], goal_cases)
  case (3 e u)
  have "are_daemons_healthy E u \<noteq> (NoFuel, u')" for u' by (rule endsD [OF ends_are_daemons_healthy [of 0]]) simp
  then show ?case
    using 3 unfolding wait_for_daemons_body_def
    by (intro postI)
      (auto simp: exec_simps sleep_def after_def split: prod.splits res.splits if_splits)
qed (use assms in auto)

theorem wait_for_daemons_bounded_witness:
  "fst (wait_for_daemons (Some 5) health_env sample_fs) = Ok () \<and>
   post (wait_for_daemons (Some 5)) health_env sample_fs (\<lambda>r s'. r \<noteq> NoFuel \<and>
     (r = Ok () \<longrightarrow> (\<exists>u. are_daemons_healthy health_env u = (Ok True, s'))))"
proof (rule conjI, code_simp)
qed (rule wait_for_daemons_bounded, simp add: health_env_def)

text \<open>Waiting for a state returns only when the status read last shows it: it is the state of the named
  server, or that of exactly one rank. Nothing but a look at the clock comes after that status.\<close>

theorem wait_for_state_reached:
  assumes "wait_for_state goal reject timeout mds_id E s = (Ok elapsed, s')"
  shows "\<exists>st u1 u2 u3 t. new_status E u1 = (Ok st, u2) \<and>
    current_state st (VStr goal) (case reject of None \<Rightarrow> VNone | Some r \<Rightarrow> VStr r) mds_id E u2 = (Ok (VStr goal), u3) \<and>
    now E u3 = (Ok t, s')"
    (is "?P s'")
proof -
  have "post (wait_for_state goal reject timeout mds_id) E s (\<lambda>r s'. \<forall>e. r = Ok e \<longrightarrow> ?P s')"
    unfolding wait_for_state_def
  proof (rule post_bindI [where Q = "\<lambda>_ _. True"], goal_cases)
    case (2 started u)
    show ?case
      unfolding post_loop
    proof (rule post_loop_n [where I = "\<lambda>_ _. True"], goal_cases)
      case (2 x t)
      show ?case
        unfolding wait_for_state_body_def Let_def
        by (intro postI) (auto simp: exec_simps after_def split: prod.splits res.splits if_splits; blast)
    qed auto
  qed (auto simp: post_def)
  from postD [OF this assms] show ?thesis by simp
qed

end
