(* ===== verification/Mds_Thrash.thy ===== *)
theory Mds_Thrash
  imports Filesystem
begin

text \<open>
  \<open>src/tasks/mds_thrash.py\<close>: the class \<open>MDSThrasher\<close>, which kills and revives the metadata servers of
  one file system and changes their number, and the task, which runs one thrasher per file system.
  The counters of \<open>do_thrash\<close>, which are only logged, are left out.
\<close>

section \<open>State\<close>

text \<open>The thrasher's settings extend the state of the file system object it works on. The thrasher also
  has a cluster manager of its own, which differs from the file system's in the host it runs on.\<close>

record mds_thrasher = filesystem +
  mt_config :: dict
  mt_controller :: string
  mt_max_mds :: pv
  randomize :: bool
  thrash_max_mds :: rat
  max_thrash :: int
  max_thrash_delay :: rat
  thrash_in_replay :: rat
  max_replay_thrash_delay :: rat
  max_revive_delay :: rat

type_synonym ('z, 'a) mdst = "(env, 'z mds_thrasher_scheme, 'a) pm"

text \<open>Running an operation of another cluster manager, with its host and its own table of pools.\<close>

definition other_manager :: "string \<Rightarrow> ('z, 'a) mgr \<Rightarrow> ('z, 'a) mgr" where
  "other_manager host m = (\<lambda>E s. case m E (s\<lparr>mgr_controller := host\<rparr>) of
     (r, s') \<Rightarrow> (r, s'\<lparr>mgr_controller := mgr_controller s, mgr_config := mgr_config s,
                      pools := pools s, next_pool_id := next_pool_id s\<rparr>))"

section \<open>The constructor\<close>

definition mds_thrasher_init :: "string \<Rightarrow> dict \<Rightarrow> pv \<Rightarrow> ('z, unit) mdst" where
  "mds_thrasher_init controller config fs_max_mds =
     bind (other_manager controller is_clean) (\<lambda>clean.
     bind (py_assert clean []) (\<lambda>_.
     bind (modify (\<lambda>s. s\<lparr>mt_config := config, mt_controller := controller, mt_max_mds := fs_max_mds,
             randomize := truthy (dict_get config ''randomize'' (VBool True))\<rparr>)) (\<lambda>_.
     bind (py_float (dict_get config ''thrash_max_mds'' (VFloat (1 / 4)))) (\<lambda>x.
     bind (modify (\<lambda>s. s\<lparr>thrash_max_mds := x\<rparr>)) (\<lambda>_.
     bind (py_int (dict_get config ''max_thrash'' (VInt 1))) (\<lambda>n.
     bind (modify (\<lambda>s. s\<lparr>max_thrash := n\<rparr>)) (\<lambda>_.
     bind (py_float (dict_get config ''thrash_delay'' (VFloat 120))) (\<lambda>x.
     bind (modify (\<lambda>s. s\<lparr>max_thrash_delay := x\<rparr>)) (\<lambda>_.
     bind (py_float (dict_get config ''thrash_in_replay'' (VBool False))) (\<lambda>x.
     bind (modify (\<lambda>s. s\<lparr>thrash_in_replay := x\<rparr>)) (\<lambda>_.
     bind (py_assert (0 \<le> x \<and> x \<le> 1) ''thrash_in_replay must be between [0.0, 1.0]'') (\<lambda>_.
     bind (py_float (dict_get config ''max_replay_thrash_delay'' (VFloat 4))) (\<lambda>x.
     bind (modify (\<lambda>s. s\<lparr>max_replay_thrash_delay := x\<rparr>)) (\<lambda>_.
     bind (py_float (dict_get config ''max_revive_delay'' (VFloat 10))) (\<lambda>x.
     modify (\<lambda>s. s\<lparr>max_revive_delay := x\<rparr>))))))))))))))))"

section \<open>One server\<close>

definition mds_assert_ipmi :: "string \<Rightarrow> ('z, unit) mdst" where
  "mds_assert_ipmi remote =
     bind (asks (\<lambda>E. env_has_ipmi E remote)) (\<lambda>b.
     py_assert b ''powercycling requested but RemoteConsole is not initialized.  Check ipmi config.'')"

definition kill_mds :: "string \<Rightarrow> ('z, unit) mdst" where
  "kill_mds mds =
     bind (gets mt_config) (\<lambda>config.
     if truthy (dict_get config ''powercycle'' VNone) then
       bind (only_remote (''mds.'' @ mds)) (\<lambda>remote.
       bind (mds_assert_ipmi remote) (\<lambda>_.
       act (Power PowerOff remote)))
     else daemon DStop ''mds'' mds ''zbkc'')"

text \<open>A rank of 0 is not a true value: no hot standby is asked for.\<close>

definition revive_mds :: "string \<Rightarrow> int option \<Rightarrow> ('z, unit) mdst" where
  "revive_mds mds standby_for_rank =
     bind (gets mt_config) (\<lambda>config.
     bind (if truthy (dict_get config ''powercycle'' VNone) then
             bind (only_remote (''mds.'' @ mds)) (\<lambda>remote.
             bind (mds_assert_ipmi remote) (\<lambda>_.
             bind (act (Power PowerOn remote)) (\<lambda>_.
             make_admin_daemon_dir remote)))
           else ret ()) (\<lambda>_.
     let args = (case standby_for_rank of
            None \<Rightarrow> [] | Some r \<Rightarrow> if r = 0 then [] else [''--hot-standby'', str_int r]) in
     daemon (DRestart args) ''mds'' mds ''zbkc''))"

section \<open>Waiting\<close>

definition is_laggy :: "pv \<Rightarrow> bool" where
  "is_laggy info = (case info of VDict d \<Rightarrow> dict_has d ''laggy_since'' | _ \<Rightarrow> False)"

definition map_max_mds :: "fs_status \<Rightarrow> ('z, pv) mdst" where
  "map_max_mds st =
     bind (gets fs_id) (\<lambda>i.
     bind (get_fsmap st i) (\<lambda>fs.
     bind (item fs ''mdsmap'') (\<lambda>m. item m ''max_mds'')))"

text \<open>\<open>filter(lambda info: "up:active" == info['state'] and "laggy_since" not in info, ...)\<close>, counted\<close>

definition count_alive :: "fs_status \<Rightarrow> ('z, nat) mdst" where
  "count_alive st =
     bind (gets fs_id) (\<lambda>i.
     bind (map_ranks ret st i) (\<lambda>infos.
     bind (mapfilter_m (\<lambda>info. bind (item info ''state'') (\<lambda>v.
             ret (if v = VStr ''up:active'' \<and> \<not> is_laggy info then Some info else None))) infos) (\<lambda>alive.
     ret (length alive))))"

text \<open>The server that has taken over \<open>rank\<close> from \<open>gid\<close>, if any; every exception counts as none.\<close>

definition taken_over :: "fs_status \<Rightarrow> pv \<Rightarrow> pv \<Rightarrow> ('z, pv option) mdst" where
  "taken_over st rank gid =
     try_except
       (bind (gets fs_id) (\<lambda>i.
        bind (get_rank st i rank) (\<lambda>info.
        bind (item info ''gid'') (\<lambda>g.
        if \<not> py_eq g gid then bind (item info ''name'') (\<lambda>n. ret (Some n)) else ret None))))
       any_class (\<lambda>_. ret None)"

text \<open>\<open>who\<close> is the rank and the gid that is to be replaced, or \<open>None\<close> to wait until enough servers are
  active.\<close>

definition wait_for_stable_body ::
    "(pv \<times> pv) option \<Rightarrow> fs_status \<times> int \<Rightarrow> ('z, (fs_status \<times> int) + (fs_status \<times> pv)) mdst" where
  "wait_for_stable_body who = (\<lambda>(st, itercount).
     bind (map_max_mds st) (\<lambda>max_mds.
     bind (case who of
             Some (rank, gid) \<Rightarrow> taken_over st rank gid
           | None \<Rightarrow> bind (count_alive st) (\<lambda>n.
               ret (if value_le_num max_mds (of_nat n) then Some VNone else None))) (\<lambda>r.
     case r of
       Some name \<Rightarrow> ret (Inr (st, name))
     | None \<Rightarrow>
         bind (if 10 < itercount + 1 then bind new_status (\<lambda>_. ret ()) else ret ()) (\<lambda>_.
         bind (sleep 2) (\<lambda>_.
         bind new_status (\<lambda>st'.
         ret (Inl (st', itercount + 1))))))))"

definition wait_for_stable :: "(pv \<times> pv) option \<Rightarrow> ('z, fs_status \<times> pv) mdst" where
  "wait_for_stable who = bind new_status (\<lambda>st. loop (wait_for_stable_body who) (st, 0))"

text \<open>Until the map says that a killed server is gone: not there, laggy, or among the failed.\<close>

definition wait_for_crash :: "string \<Rightarrow> ('z, unit) mdst" where
  "wait_for_crash name = loop (\<lambda>_.
     bind new_status (\<lambda>st.
     bind (get_mds st name) (\<lambda>info.
     if \<not> truthy info \<or> is_laggy info then ret (Inr ())
     else
       bind (gets fs_id) (\<lambda>i.
       bind (get_fsmap st i) (\<lambda>fs.
       bind (item fs ''mdsmap'') (\<lambda>m.
       bind (item m ''failed'') (\<lambda>f.
       bind (as_list f) (\<lambda>failed.
       if VStr name \<in> set failed then ret (Inr ())
       else bind (sleep 2) (\<lambda>_. ret (Inl ())))))))))) ()"

text \<open>Until a revived server is a standby again.\<close>

definition wait_for_standby :: "string \<Rightarrow> ('z, unit) mdst" where
  "wait_for_standby name = loop (\<lambda>_.
     bind new_status (\<lambda>st.
     bind (get_mds st name) (\<lambda>info.
     bind (if truthy info then bind (item info ''state'') (\<lambda>v.
             ret (v = VStr ''up:standby'' \<or> v = VStr ''up:standby-replay'')) else ret False) (\<lambda>standby.
     if standby then ret (Inr ())
     else bind (sleep 2) (\<lambda>_. ret (Inl ())))))) ()"

section \<open>The loop\<close>

definition random_delay :: "rat \<Rightarrow> ('z, rat) mdst" where
  "random_delay mx =
     bind (gets randomize) (\<lambda>b.
     if b then bind (randrange_float 0 mx) (\<lambda>n. ret (of_int n)) else ret mx)"

text \<open>A new number of active servers: any from 1 to the number at the start but the present one. When
  it is lower, that many ranks other than 0 are deactivated.\<close>

definition max_mds_options :: "int \<Rightarrow> int \<Rightarrow> int list" where
  "max_mds_options cur limit = [1..cur - 1] @ [cur + 1..limit]"

definition set_new_max_mds :: "int \<Rightarrow> int \<Rightarrow> ('z, fs_status) mdst" where
  "set_new_max_mds max_mds new_max_mds =
     bind (set_max_mds new_max_mds) (\<lambda>_.
     bind (random_sample [1..max_mds - 1] (max 0 (max_mds - new_max_mds))) (\<lambda>ranks.
     bind (for_each ranks deactivate) (\<lambda>_.
     bind (wait_for_stable None) (\<lambda>(st', _).
     ret st'))))"

definition change_max_mds :: "fs_status \<Rightarrow> ('z, fs_status) mdst" where
  "change_max_mds st =
     bind (randrange_float 0 1) (\<lambda>x.
     bind (gets thrash_max_mds) (\<lambda>p.
     if of_int x \<le> p then
       bind (map_max_mds st) (\<lambda>mv.
       bind (as_int mv) (\<lambda>max_mds.
       bind (gets mt_max_mds) (\<lambda>lv.
       bind (as_int lv) (\<lambda>limit.
       let options = max_mds_options max_mds limit in
       if options = [] then ret st
       else
         bind (random_sample options 1) (\<lambda>sample.
         bind (first_of sample) (set_new_max_mds max_mds))))))
     else ret st))"

text \<open>The weight of a server: 1 without weights, else its entry, else the string \<open>'0.0'\<close>.\<close>

definition mds_weight :: "string \<Rightarrow> ('z, pv) mdst" where
  "mds_weight label =
     bind (gets mt_config) (\<lambda>config.
     case map_of config ''thrash_weights'' of
       None \<Rightarrow> ret (VFloat 1)
     | Some w \<Rightarrow> bind (as_dict w) (\<lambda>d. ret (dict_get d label (VStr ''0.0''))))"

definition thrash_one :: "string \<Rightarrow> pv \<Rightarrow> pv \<Rightarrow> ('z, unit) mdst" where
  "thrash_one name rank gid =
     bind (kill_mds name) (\<lambda>_.
     bind (wait_for_crash name) (\<lambda>_.
     bind (wait_for_stable (Some (rank, gid))) (\<lambda>_.
     bind (gets max_revive_delay) (\<lambda>mx.
     bind (random_delay mx) (\<lambda>delay.
     bind (sleep delay) (\<lambda>_.
     bind (revive_mds name None) (\<lambda>_.
     wait_for_standby name)))))))"

text \<open>\<open>seen\<close> is the number of ranks looked at before this one.\<close>

definition thrash_info :: "int \<Rightarrow> pv \<Rightarrow> ('z, int + int) mdst" where
  "thrash_info seen info =
     bind (item info ''name'') (\<lambda>nv.
     bind (cmd_arg nv) (\<lambda>name.
     bind (item info ''rank'') (\<lambda>rank.
     bind (item info ''gid'') (\<lambda>gid.
     bind (gets mt_config) (\<lambda>config.
     bind (gets max_thrash) (\<lambda>mx.
     if \<not> dict_has config ''thrash_weights'' \<and> mx < seen + 1 then ret (Inr (seen + 1))
     else
       bind (mds_weight (''mds.'' @ name)) (\<lambda>weight.
       bind (randrange_float 0 1) (\<lambda>skip.
       if value_le_num weight (of_int skip) then ret (Inl (seen + 1))
       else bind (thrash_one name rank gid) (\<lambda>_. ret (Inl (seen + 1)))))))))))"

text \<open>\<open>for info in status.get_ranks(self.fs.id)\<close>\<close>

definition thrash_ranks :: "fs_status \<Rightarrow> ('z, unit) mdst" where
  "thrash_ranks st =
     bind (gets fs_id) (\<lambda>i.
     bind (get_fsmap st i) (\<lambda>fs.
     bind (mds_infos fs) (\<lambda>infos.
     bind (fold_until (\<lambda>seen info.
             bind (holds_rank info) (\<lambda>b. if b then thrash_info seen info else ret (Inl seen))) 0 infos) (\<lambda>_.
     ret ()))))"

text \<open>The event \<open>self.stopping\<close> of the thrasher of a file system.\<close>

definition stop_flag :: "string \<Rightarrow> string" where
  "stop_flag name = ''mds_thrasher '' @ name"

definition own_flag :: "'z mds_thrasher_scheme \<Rightarrow> string" where
  "own_flag s = stop_flag (case fs_name s of VStr name \<Rightarrow> name | _ \<Rightarrow> [])"

definition mds_thrash_round :: "('z, unit) mdst" where
  "mds_thrash_round =
     bind (gets max_thrash_delay) (\<lambda>mx.
     bind (random_delay mx) (\<lambda>delay.
     bind (if 0 < delay then bind (gets own_flag) (\<lambda>f. bind (wait_stop f delay) (\<lambda>_. poll_stop f))
           else ret False) (\<lambda>stopped.
     if stopped then ret ()
     else
       bind new_status (\<lambda>st.
       bind (change_max_mds st) thrash_ranks))))"

definition mds_do_thrash :: "('z, unit) mdst" where
  "mds_do_thrash =
     while_m (bind (bind (gets own_flag) poll_stop) (\<lambda>stopping. ret (\<not> stopping))) mds_thrash_round"

text \<open>The greenlet: the exception is logged and raised again.\<close>

definition mds_run :: "('z, unit) mdst" where
  "mds_run = try_except mds_do_thrash any_class reraise"

definition mds_stop_thrasher :: "string \<Rightarrow> ('z, unit) mdst" where
  "mds_stop_thrasher name = set_stop (stop_flag name)"

section \<open>The task\<close>

definition steady_states :: "pv set" where
  "steady_states = {VStr ''up:active'', VStr ''up:standby'', VStr ''up:standby-replay''}"

definition is_steady :: "fs_status \<Rightarrow> ('z, bool) mdst" where
  "is_steady st =
     bind (for_all st (\<lambda>info. bind (item info ''state'') (\<lambda>v.
             ret (if v \<in> steady_states then None else Some ())))) (\<lambda>r.
     ret (r = None))"

definition wait_steady :: "('z, fs_status) mdst" where
  "wait_steady = bind new_status (loop (\<lambda>st.
     bind (is_steady st) (\<lambda>steady.
     if steady then ret (Inr st)
     else bind (sleep 2) (\<lambda>_. bind new_status (\<lambda>st'. ret (Inl st'))))))"

text \<open>\<open>thrashers[name] = thrasher\<close> for every file system. The state holds the settings of the thrasher
  built last; each thrasher runs in a greenlet of its own.\<close>

fun start_thrashers :: "string \<Rightarrow> dict \<Rightarrow> string list \<Rightarrow> pv list \<Rightarrow> ('z, string list) mdst" where
  "start_thrashers controller config names [] = ret names"
| "start_thrashers controller config names (fs # fss) =
     bind (item fs ''mdsmap'') (\<lambda>m.
     bind (item m ''fs_name'') (\<lambda>nv.
     bind (cmd_arg nv) (\<lambda>name.
     bind (item fs ''id'') (\<lambda>i.
     bind (filesystem_init i VNone) (\<lambda>_.
     bind (item m ''max_mds'') (\<lambda>mx.
     bind (mds_thrasher_init controller config mx) (\<lambda>_.
     bind (spawn (''mds_thrasher '' @ name)) (\<lambda>_.
     start_thrashers controller config (if name \<in> set names then names else names @ [name]) fss))))))))"

definition join_thrasher :: "string \<Rightarrow> ('z, unit) mdst" where
  "join_thrasher name =
     bind (mds_stop_thrasher name) (\<lambda>_.
     bind (act (Get (''mds_thrasher '' @ name))) (\<lambda>_.
     join_greenlet (''mds_thrasher '' @ name)))"

text \<open>The \<open>random.seed\<close> with the configured number or the time is part of what the environment answers;
  a seed that is not a number raises.\<close>

definition mds_thrash_task :: "pv \<Rightarrow> ('z, unit) mdst \<Rightarrow> ('z, unit) mdst" where
  "mds_thrash_task config0 body =
     bind mds_cluster_init (\<lambda>_.
     bind (dict_config ''mds_thrash task only accepts a dict for configuration'' config0) (\<lambda>config.
     bind (asks (\<lambda>E. env_roles E ''mds'')) (\<lambda>mdslist.
     bind (py_assert (1 < length mdslist) ''mds_thrash task requires at least 2 metadata servers'') (\<lambda>_.
     bind (case map_of config ''seed'' of
             Some v \<Rightarrow> py_int v
           | None \<Rightarrow> bind now (\<lambda>t. py_int (VFloat t))) (\<lambda>_.
     bind (first_of mdslist) (\<lambda>m.
     bind (only_remote (''mds.'' @ m)) (\<lambda>first.
     bind (other_manager first (manager_init first None ''zbkc'')) (\<lambda>_.
     bind wait_steady (\<lambda>st.
     bind (other_manager first (wait_for_clean VNone)) (\<lambda>_.
     bind (get_filesystems st) (\<lambda>fss.
     bind (start_thrashers first config [] fss) (\<lambda>thrashers.
     try_finally body (for_each thrashers join_thrasher)))))))))))))"

end
