(* ===== verification/Mds_Thrash_Props.thy ===== *)
theory Mds_Thrash_Props
  imports Mds_Thrash Pending Fs_Props
begin

text \<open>
  What the metadata server thrasher does to the servers, read off the trace: which ones have been told
  to stop (or whose hosts have been switched off) and not yet to start again; what it does to the
  number of active servers; and which servers its weights choose.
\<close>

section \<open>Servers that are down\<close>

definition mds_off :: "event \<Rightarrow> string option" where
  "mds_off e = (case e of
      Daemon DStop r m _ \<Rightarrow> if r = ''mds'' then Some (''mds.'' @ m) else None
    | Power PowerOff h \<Rightarrow> Some (''host.'' @ h)
    | _ \<Rightarrow> None)"

definition mds_on :: "event \<Rightarrow> string option" where
  "mds_on e = (case e of
      Daemon (DRestart _) r m _ \<Rightarrow> if r = ''mds'' then Some (''mds.'' @ m) else None
    | Power PowerOn h \<Rightarrow> Some (''host.'' @ h)
    | _ \<Rightarrow> None)"

definition mds_down :: "event list \<Rightarrow> string list" where
  "mds_down t = pending mds_off mds_on t"

abbreviation "calm \<equiv> opens mds_off {}"

lemma calm_simps [simp]:
  "opens mds_off K (Run h as b)"
  "opens mds_off K (RunLine h l b)"
  "opens mds_off K (Sleep q)"
  "opens mds_off K Now"
  "opens mds_off K RandomBits"
  "opens mds_off K (PollStop f)"
  "opens mds_off K (WaitStop f q)"
  "opens mds_off K (Daemon (DRestart as) r m c)"
  "opens mds_off K (Power PowerOn h)"
  by (simp_all add: opens_def mds_off_def)

lemma sent_calm: "sent_rel calm s s' \<Longrightarrow> set (mds_down (trace s')) \<subseteq> set (mds_down (trace s))"
  using sent_pending [of mds_off "{}" s s' mds_on] by (simp add: mds_down_def)

section \<open>What is calm\<close>

lemma sent_io_rest [keeps_intros]:
  "Q RandomBits \<Longrightarrow> keeps (sent_rel Q) (randrange_float x y)"
  "Q (WaitStop f q) \<Longrightarrow> keeps (sent_rel Q) (wait_stop f q)"
  "keeps (sent_rel Q) (only_remote role)"
  unfolding randrange_float_def wait_stop_def only_remote_def by (intro keeps_intros; assumption?)+

text \<open>What the thrasher sends while it looks and waits.\<close>

definition looks :: "(event \<Rightarrow> bool) \<Rightarrow> bool" where
  "looks Q \<longleftrightarrow> (\<forall>E h cl. Q (Run h (zbkc_args E ''120'' cl @ [''fs'', ''dump'', ''--format=json-pretty'']) True)) \<and>
     (\<forall>q. Q (Sleep q)) \<and> Q RandomBits"

lemma looks_calm [simp]: "looks (opens mds_off K)"
  by (simp add: looks_def)

lemma sent_new_status [keeps_intros]: "looks Q \<Longrightarrow> keeps (sent_rel Q) new_status"
  unfolding new_status_def by (intro keeps_intros) (simp add: looks_def)

lemma sent_delay [keeps_intros]:
  "looks Q \<Longrightarrow> keeps (sent_rel Q) (sleep q)"
  "looks Q \<Longrightarrow> keeps (sent_rel Q) (randrange_float x y)"
  "looks Q \<Longrightarrow> keeps (sent_rel Q) (random_delay q)"
  unfolding random_delay_def by (intro keeps_intros; simp add: looks_def)+

lemma sent_status [keeps_intros]:
  "keeps (sent_rel Q) (get_filesystems st)"
  "keeps (sent_rel Q) (get_standbys st)"
  "keeps (sent_rel Q) (mds_infos fs)"
  "keeps (sent_rel Q) (get_fsmap st v)"
  "keeps (sent_rel Q) (holds_rank info)"
  "keeps (sent_rel Q) (fmt_d v)"
  "keeps (sent_rel Q) (map_max_mds st)"
  "keeps (sent_rel Q) (count_alive st)"
  "keeps (sent_rel Q) (taken_over st rank gid)"
  "keeps (sent_rel Q) (mds_weight name)"
  "keeps (sent_rel Q) (mds_assert_ipmi h)"
  unfolding get_filesystems_def get_standbys_def mds_infos_def get_fsmap_def holds_rank_def fmt_d_def
    map_max_mds_def count_alive_def taken_over_def mds_weight_def mds_assert_ipmi_def map_ranks_def get_rank_def for_ranks_def
  by (intro keeps_intros)+

lemma sent_waits [keeps_intros]:
  "looks Q \<Longrightarrow> keeps (sent_rel Q) (wait_for_stable who)"
  "looks Q \<Longrightarrow> keeps (sent_rel Q) (wait_for_crash name)"
  "looks Q \<Longrightarrow> keeps (sent_rel Q) (wait_for_standby name)"
  unfolding wait_for_stable_def wait_for_stable_body_def wait_for_crash_def wait_for_standby_def get_mds_def for_all_def
  by (intro keeps_intros; assumption)+

lemma calm_commands [keeps_intros]:
  "keeps (sent_rel (opens mds_off K)) (deactivate n)"
  "keeps (sent_rel (opens mds_off K)) (set_max_mds n)"
  "keeps (sent_rel (opens mds_off K)) (make_admin_daemon_dir h)"
  unfolding deactivate_def set_max_mds_def make_admin_daemon_dir_def by (intro keeps_intros; simp)+

lemma calm_change_max_mds [keeps_intros]: "keeps (sent_rel (opens mds_off K)) (change_max_mds st)"
  unfolding change_max_mds_def set_new_max_mds_def as_int_def by (intro keeps_intros; simp?)

section \<open>One server\<close>

text \<open>The name under which a server that is killed is down: its own, or that of its host.\<close>

definition mds_key :: "env \<Rightarrow> 'z mds_thrasher_scheme \<Rightarrow> string \<Rightarrow> string" where
  "mds_key E s name = (if truthy (dict_get (mt_config s) ''powercycle'' VNone)
     then ''host.'' @ hd (env_only E (\<lambda>r. r = ''mds.'' @ name)) else ''mds.'' @ name)"

lemma mds_key_sent: "sent_rel Q s t \<Longrightarrow> mds_key E t name = mds_key E s name"
  by (auto simp: sent_rel_def mds_key_def)

lemma post_kill_mds: "post (kill_mds name) E s (\<lambda>r s'. sent_rel (opens mds_off {mds_key E s name}) s s')"
  unfolding kill_mds_def only_remote_def mds_assert_ipmi_def daemon_def act_def sent_rel_def
  by (auto simp: post_simps mds_key_def opens_def mds_off_def intro: exI [of _ "[]"] split: option.split)

lemma post_bind_act:
  assumes "post (f ()) E (s\<lparr>trace := trace s @ [e]\<rparr>) P" and "\<And>x. P (Raise x) (s\<lparr>trace := trace s @ [e]\<rparr>)"
  shows "post (bind (act e) f) E s P"
  unfolding act_def using assms by (auto simp: post_simps split: option.split)

lemma post_revive_mds:
  "post (revive_mds name x) E s (\<lambda>r s'. sent_rel calm s s' \<and> (r = Ok () \<longrightarrow> mds_key E s name \<notin> set (mds_down (trace s'))))"
    (is "post _ E s ?P")
proof (cases "truthy (dict_get (mt_config s) ''powercycle'' VNone)")
  case True
  let ?host = "hd (env_only E (\<lambda>r. r = ''mds.'' @ name))"
  have key: "mds_key E s name = ''host.'' @ ?host" using True by (simp add: mds_key_def)
  let ?on = "s\<lparr>trace := trace s @ [Power PowerOn ?host]\<rparr>"
  have 0: "sent_rel calm s s" by (rule sent.step_refl)
  have 1: "sent_rel calm s ?on"
    unfolding sent_rel_def by (intro exI [of _ "[Power PowerOn ?host]"]) simp
  have "?P r t" if "sent_rel calm ?on t" for r and t :: "'a mds_thrasher_scheme"
  proof
    show "sent_rel calm s t" using 1 that by (rule sent.step_trans)
    have "mds_key E s name \<notin> set (mds_down (trace ?on))"
      by (simp add: key mds_down_def pending_snoc pending_step_def mds_off_def mds_on_def)
    then show "r = Ok () \<longrightarrow> mds_key E s name \<notin> set (mds_down (trace t))" using sent_calm [OF that] by blast
  qed
  then have rest: "post (bind (act (Power PowerOn ?host)) (\<lambda>_. bind (make_admin_daemon_dir ?host)
      (\<lambda>_. daemon (DRestart a) ''mds'' name ''zbkc''))) E s ?P" for a
    by (intro post_bind_act post_keeps [where R = "sent_rel calm"] keeps_intros) (use 1 in simp_all)
  show ?thesis
    unfolding revive_mds_def only_remote_def mds_assert_ipmi_def post_steps Let_def if_P [OF True] bind_assoc
    using 0 rest [unfolded post_bind]
    by (simp only: post_basic post_py_assert post_bind after_simps post_if res.distinct simp_thms split: if_split)
next
  case False
  then show ?thesis
    unfolding revive_mds_def daemon_def act_def
    by (auto simp: post_simps mds_key_def sent_rel_def mds_down_def pending_snoc pending_step_def mds_off_def mds_on_def
        Let_def split: option.split)
qed

section \<open>One server at a time\<close>

text \<open>At every moment from \<open>t\<close> to \<open>t'\<close> at most one server is down.\<close>

definition one_down :: "event list \<Rightarrow> event list \<Rightarrow> bool" where
  "one_down t t' \<longleftrightarrow> (\<exists>es. t' = t @ es \<and> (\<forall>u. prefix u es \<longrightarrow> length (mds_down (t @ u)) \<le> 1))"

lemma one_down_trans:
  assumes "one_down t u" "one_down u v"
  shows "one_down t v"
proof -
  from assms obtain es fs where e: "u = t @ es" "v = t @ es @ fs"
    "\<And>x. prefix x es \<Longrightarrow> length (mds_down (t @ x)) \<le> 1"
    "\<And>x. prefix x fs \<Longrightarrow> length (mds_down (t @ es @ x)) \<le> 1"
    by (auto simp: one_down_def)
  have "length (mds_down (t @ x)) \<le> 1" if "prefix x (es @ fs)" for x
    using that e(3,4) by (auto simp: prefix_append)
  then show ?thesis using e by (auto simp: one_down_def)
qed

lemma one_down_refl: "mds_down t = [] \<Longrightarrow> one_down t t"
  by (auto simp: one_down_def)

lemma sent_one_down:
  assumes "sent_rel (opens mds_off {k}) s s'" and "mds_down (trace s) = []"
  shows "one_down (trace s) (trace s')"
proof -
  from assms(1) obtain es where es: "trace s' = trace s @ es" "list_all (opens mds_off {k}) es"
    by (auto simp: sent_rel_def)
  have "length (mds_down (trace s @ u)) \<le> 1" if "prefix u es" for u
  proof -
    have "list_all (opens mds_off {k}) u" using es(2) that by (auto simp: prefix_def)
    then have "set (mds_down (trace s @ u)) \<subseteq> {k}"
      using pending_subset [of mds_off "{k}" u mds_on "trace s"] assms(2) by (simp add: mds_down_def)
    moreover have "distinct (mds_down (trace s @ u))" by (simp add: mds_down_def pending_distinct)
    ultimately show ?thesis using card_mono [of "{k}"] by (metis One_nat_def card.empty card.insert distinct_card
          empty_iff finite.emptyI finite_insert)
  qed
  then show ?thesis using es by (auto simp: one_down_def)
qed

text \<open>A computation that, started with every server up, never has more than one down and has none down
  when it returns.\<close>

definition tidy :: "(env, 'z sys_scheme, 'a) pm \<Rightarrow> bool" where
  "tidy m \<longleftrightarrow> (\<forall>E s. mds_down (trace s) = [] \<longrightarrow>
     post m E s (\<lambda>r s'. one_down (trace s) (trace s') \<and> (\<forall>a. r = Ok a \<longrightarrow> mds_down (trace s') = [])))"

named_theorems tidy_intros "rules for tidy computations"

lemma tidyD:
  "tidy m \<Longrightarrow> mds_down (trace s) = [] \<Longrightarrow> m E s = (r, s') \<Longrightarrow>
   one_down (trace s) (trace s') \<and> (\<forall>a. r = Ok a \<longrightarrow> mds_down (trace s') = [])"
  unfolding tidy_def by (blast dest: postD)

lemma tidy_calm:
  assumes "keeps (sent_rel calm) m"
  shows "tidy m"
proof -
  have "one_down (trace s) (trace s') \<and> mds_down (trace s') = []"
    if "m E s = (r, s')" "mds_down (trace s) = []" for E s r s'
  proof -
    have sent: "sent_rel calm s s'" using keepsD [OF assms that(1)] .
    then have "sent_rel (opens mds_off {k}) s s'" for k
      by (auto simp: sent_rel_def list_all_iff intro: opens_mono [of _ "{}"])
    then show ?thesis using sent_one_down [OF _ that(2)] that(2) sent_calm [OF sent] by auto
  qed
  then show ?thesis by (auto simp: tidy_def intro!: postI)
qed

lemma tidy_bind [tidy_intros]: "tidy m \<Longrightarrow> (\<And>a. tidy (f a)) \<Longrightarrow> tidy (bind m f)"
  unfolding tidy_def [of "bind m f"]
  by (auto intro!: postI simp: exec_bind split: prod.splits res.splits dest: tidyD)
    (blast dest: tidyD intro: one_down_trans)+

lemma tidy_if [tidy_intros]: "(b \<Longrightarrow> tidy m1) \<Longrightarrow> (\<not> b \<Longrightarrow> tidy m2) \<Longrightarrow> tidy (if b then m1 else m2)"
  by simp

lemma tidy_fold_until [tidy_intros]: "(\<And>x a. tidy (f x a)) \<Longrightarrow> tidy (fold_until f x as)"
proof (induction "as" arbitrary: x)
  case Nil
  then show ?case by (auto intro: tidy_calm keeps_intros)
next
  case (Cons a "as")
  have "tidy (case r of Inl x' \<Rightarrow> fold_until f x' as | Inr x' \<Rightarrow> ret x')" for r
    using Cons by (cases r) (auto intro: tidy_calm keeps_intros)
  then show ?case using Cons.prems by (auto intro: tidy_bind)
qed

lemma tidy_thrash_one: "tidy (thrash_one name rank gid)"
  unfolding tidy_def
proof (intro allI impI)
  fix E and s :: "'a mds_thrasher_scheme"
  assume up: "mds_down (trace s) = []"
  let ?k = "mds_key E s name"
  let ?sent = "sent_rel (opens mds_off {?k})"
  let ?wait = "bind (wait_for_crash name) (\<lambda>_. bind (wait_for_stable (Some (rank, gid))) (\<lambda>_.
    bind (gets max_revive_delay) (\<lambda>mx. bind (random_delay mx) sleep)))"
  let ?P = "\<lambda>r s'. ?sent s s' \<and> (r = Ok () \<longrightarrow> ?k \<notin> set (mds_down (trace s')))"
  have more: "?sent s v" if "?sent s u" "sent_rel calm u v" for u v :: "'a mds_thrasher_scheme"
  proof -
    have "?sent u v" using that(2) by (auto simp: sent_rel_def list_all_iff intro: opens_mono [of _ "{}"])
    with that(1) show ?thesis by (rule sent.step_trans)
  qed
  have *: "post (bind (kill_mds name) (\<lambda>_. bind ?wait (\<lambda>_. bind (revive_mds name None) (\<lambda>_. wait_for_standby name)))) E s ?P"
  proof (rule post_bindI [OF post_kill_mds])
    fix x t
    assume t: "?sent s t"
    show "post (bind ?wait (\<lambda>_. bind (revive_mds name None) (\<lambda>_. wait_for_standby name))) E t ?P"
    proof (rule post_bind_keeps [where R = "sent_rel calm"])
      show "keeps (sent_rel calm) ?wait" by (intro keeps_intros; simp)
      fix y u
      assume "sent_rel calm t u"
      with t have u: "?sent s u" by (rule more)
      then have k: "mds_key E u name = ?k" by (rule mds_key_sent)
      show "post (bind (revive_mds name None) (\<lambda>_. wait_for_standby name)) E u ?P"
      proof (rule post_bindI [OF post_revive_mds], unfold k, goal_cases)
        case (1 a v)
        have "?P r w" if "sent_rel calm v w" for r :: "unit res" and w
          using more [OF more [OF u] that] sent_calm [OF that] 1 by auto
        then show ?case by (rule post_keeps [OF sent_waits(3) [OF looks_calm]])
      qed (simp_all add: more [OF u])
    qed (simp_all add: more [OF t])
  qed auto
  have "mds_down (trace t) = []" if "?sent s t" "?k \<notin> set (mds_down (trace t))" for t
    using sent_pending [OF that(1), of mds_on] that(2) up by (auto simp: mds_down_def subset_singleton_iff)
  then have fin: "one_down (trace s) (trace t) \<and> (\<forall>a. r = Ok a \<longrightarrow> mds_down (trace t) = [])" if "?P r t" for r t
    using that sent_one_down [OF _ up] by auto
  show "post (thrash_one name rank gid) E s (\<lambda>r s'. one_down (trace s) (trace s') \<and>
      (\<forall>a. r = Ok a \<longrightarrow> mds_down (trace s') = []))"
    using post_mono [OF * fin] unfolding thrash_one_def bind_assoc by simp
qed

lemma post_tidy:
  assumes "tidy m" "one_down t0 (trace t)" "mds_down (trace t) = []"
  shows "post m E t (\<lambda>r u. one_down t0 (trace u) \<and> (\<forall>a. r = Ok a \<longrightarrow> mds_down (trace u) = []))"
  using assms by (auto intro!: postI dest: tidyD intro: one_down_trans)

lemma tidy_while:
  assumes "tidy c" "tidy b"
  shows "tidy (while_m c b)"
  unfolding tidy_def
proof (intro allI impI)
  fix E and s :: "'a sys_scheme"
  assume up: "mds_down (trace s) = []"
  show "post (while_m c b) E s (\<lambda>r s'. one_down (trace s) (trace s') \<and> (\<forall>a. r = Ok a \<longrightarrow> mds_down (trace s') = []))"
  proof (rule post_while_m [where I = "\<lambda>t. one_down (trace s) (trace t) \<and> mds_down (trace t) = []"], goal_cases)
    case (2 t)
    then show ?case
      by (intro post_mono [OF post_tidy [OF assms(1)]])
        (auto simp: after_def split: res.split intro!: post_mono [OF post_tidy [OF assms(2)]])
  qed (use up in \<open>auto intro: one_down_refl\<close>)
qed

lemma tidy_thrash_ranks: "tidy (thrash_ranks st)"
  unfolding thrash_ranks_def thrash_info_def
  by (intro tidy_intros tidy_thrash_one; rule tidy_calm, intro keeps_intros; simp)

lemma tidy_round: "tidy mds_thrash_round"
  unfolding mds_thrash_round_def
  by (intro tidy_intros tidy_thrash_ranks; rule tidy_calm, intro keeps_intros; simp)


text \<open>A cluster with the active server \<open>a\<close> and the standby \<open>c\<close>, which takes over when \<open>a\<close> is stopped.\<close>

definition mds_entry :: "string \<Rightarrow> string \<Rightarrow> string \<Rightarrow> string \<Rightarrow> string" where
  \<open>mds_entry name rank gid state =
     ''{"name": "'' @ name @ ''", "rank": '' @ rank @ '', "gid": '' @ gid @ '', "state": "'' @ state @ ''"}''\<close>

definition mds_reply :: "string list \<Rightarrow> string \<Rightarrow> string" where
  \<open>mds_reply standbys active = ''{"standbys": ['' @ concat standbys @ ''], "filesystems": [{"id": 1, "mdsmap": {"max_mds": 1, '' @
     ''"failed": [], "info": {"g": '' @ active @ ''}}}]}''\<close>

definition mds_env :: env where
  "mds_env = (sample_env [])\<lparr>env_run := \<lambda>t. Inr (ok_proc (
     if mds_down t \<noteq> [] then mds_reply [] (mds_entry ''c'' ''0'' ''3'' ''up:active'')
     else if list_ex (\<lambda>e. mds_off e \<noteq> None) t
       then mds_reply [mds_entry ''a'' ''-1'' ''4'' ''up:standby''] (mds_entry ''c'' ''0'' ''3'' ''up:active'')
     else mds_reply [mds_entry ''c'' ''-1'' ''3'' ''up:standby''] (mds_entry ''a'' ''0'' ''1'' ''up:active'')))\<rparr>"

definition mds_thr0 :: "dict \<Rightarrow> mds_thrasher" where
  "mds_thr0 config = filesystem.extend sample_fs \<lparr>mt_config = config, mt_controller = ''host1'', mt_max_mds = VInt 1,
     randomize = True, thrash_max_mds = 1 / 4, max_thrash = 1, max_thrash_delay = 120, thrash_in_replay = 0,
     max_replay_thrash_delay = 4, max_revive_delay = 10\<rparr>"


section \<open>Weights\<close>

lemma randrange01: "randrange_float 0 1 E s = (Ok 0, s\<lparr>trace := trace s @ [RandomBits]\<rparr>)"
proof -
  have "k * int 1 div two53 = 0" if "0 \<le> k" "k < two53" for k using that by simp
  then show ?thesis
    by (simp add: randrange_float_def random_randrange_def random_below_def random_bits_def exec_simps)
qed

lemma value_le_str: "\<not> value_le_num (VStr x) q"
  by (simp add: value_le_num_def)

text \<open>C32: With weights given, whether a server is thrashed does not depend on chance: the random number is
  always 0, so that a server with any positive weight is thrashed in every round; and a server that is
  not listed, whose weight is the string of the source, is thrashed as well.\<close>

theorem thrash_info_weights:
  assumes "map_of (mt_config s) ''thrash_weights'' = Some (VDict d)"
    and "field info ''name'' = Some (VStr name)" "field info ''rank'' = Some rank" "field info ''gid'' = Some gid"
  shows "thrash_info seen info E s =
    (let u = s\<lparr>trace := trace s @ [RandomBits]\<rparr>
     in if \<exists>w. map_of d (''mds.'' @ name) = Some w \<and> value_le_num w 0 then (Ok (Inl (seen + 1)), u)
        else bind (thrash_one name rank gid) (\<lambda>_. ret (Inl (seen + 1))) E u)"
  using assms
  by (cases "map_of d (''mds.'' @ name)")
    (auto simp: thrash_info_def exec_simps item_Some cmd_arg_def dict_has_def mds_weight_def as_dict_def randrange01
      dict_get_def Let_def value_le_str)

definition weights0 :: dict where
  "weights0 = [(''thrash_weights'', VDict [(''mds.b'', VFloat (1 / 5)), (''mds.c'', VInt 0)])]"

theorem thrash_info_weights_witness:
  "(let s = mds_thr0 weights0; u = s\<lparr>trace := [RandomBits]\<rparr>;
        info = (\<lambda>name. VDict [(''name'', VStr name), (''rank'', VInt 0), (''gid'', VInt 1)])
    in thrash_info 0 (info ''a'') mds_env s = bind (thrash_one ''a'' (VInt 0) (VInt 1)) (\<lambda>_. ret (Inl 1)) mds_env u \<and>
       thrash_info 0 (info ''b'') mds_env s = bind (thrash_one ''b'' (VInt 0) (VInt 1)) (\<lambda>_. ret (Inl 1)) mds_env u \<and>
       thrash_info 0 (info ''c'') mds_env s = (Ok (Inl 1), u))"
proof -
  let ?s = "mds_thr0 weights0"
  have t: "trace ?s = []" and w: "map_of (mt_config ?s) ''thrash_weights'' = Some (VDict [(''mds.b'', VFloat (1 / 5)), (''mds.c'', VInt 0)])"
    by (simp_all add: mds_thr0_def weights0_def sample_fs_def filesystem.defs)
  have "thrash_info 0 (VDict [(''name'', VStr name), (''rank'', VInt 0), (''gid'', VInt 1)]) mds_env ?s =
    (let u = ?s\<lparr>trace := [RandomBits]\<rparr>
     in if \<exists>w. map_of [(''mds.b'', VFloat (1 / 5)), (''mds.c'', VInt 0)] (''mds.'' @ name) = Some w \<and> value_le_num w 0
        then (Ok (Inl (0 + 1)), u) else bind (thrash_one name (VInt 0) (VInt 1)) (\<lambda>_. ret (Inl (0 + 1))) mds_env u)" for name
    using thrash_info_weights [OF w, of "VDict [(''name'', VStr name), (''rank'', VInt 0), (''gid'', VInt 1)]" name "VInt 0" "VInt 1" 0 mds_env]
    by (simp only: field_def t pv.case map_of.simps fst_conv snd_conv fun_upd_apply if_True append_Nil) simp
  from this [of "''a''"] this [of "''b''"] this [of "''c''"] show ?thesis
    by (simp add: Let_def value_le_num_def)
qed

section \<open>The number of active servers\<close>

text \<open>The number a command sets, and the rank a command deactivates.\<close>

definition sets_max :: "event \<Rightarrow> string option" where
  "sets_max e = (case e of Run _ args _ \<Rightarrow> (case rev args of
       v # opt # name # verb # obj # _ \<Rightarrow> if opt = ''max_mds'' \<and> verb = ''set'' \<and> obj = ''fs'' then Some v else None
     | _ \<Rightarrow> None) | _ \<Rightarrow> None)"

definition deactivates :: "event \<Rightarrow> string option" where
  "deactivates e = (case e of Run _ args _ \<Rightarrow> (case rev args of
       v # verb # obj # _ \<Rightarrow> if verb = ''deactivate'' \<and> obj = ''mds'' then Some v else None
     | _ \<Rightarrow> None) | _ \<Rightarrow> None)"

abbreviation "max_sets \<equiv> List.map_filter sets_max"

abbreviation "deactivations \<equiv> List.map_filter deactivates"

definition no_change :: "event \<Rightarrow> bool" where
  "no_change e \<longleftrightarrow> sets_max e = None \<and> deactivates e = None"

lemma commands_simps [simp]:
  "sets_max (Run h (pre @ [''fs'', ''set'', name, ''max_mds'', v]) b) = Some v"
  "sets_max (Run h (pre @ [''mds'', ''deactivate'', w]) b) = None"
  "sets_max (Run h (pre @ [''fs'', ''dump'', w]) b) = None"
  "deactivates (Run h (pre @ [''fs'', ''set'', name, ''max_mds'', v]) b) = None"
  "deactivates (Run h (pre @ [''mds'', ''deactivate'', w]) b) = Some w"
  "deactivates (Run h (pre @ [''fs'', ''dump'', w]) b) = None"
  by (simp_all add: sets_max_def deactivates_def split: list.split)

lemma no_change_bits: "no_change RandomBits"
  by (simp add: no_change_def sets_max_def deactivates_def)

lemma looks_no_change [simp]: "looks no_change"
  by (simp add: looks_def no_change_def) (simp add: sets_max_def deactivates_def)

lemma map_filter_None: "list_all (\<lambda>e. f e = None) es \<Longrightarrow> List.map_filter f es = []"
  by (induction es) (auto simp: List.map_filter_def)

lemma map_filter_app [simp]: "List.map_filter f (xs @ ys) = List.map_filter f xs @ List.map_filter f ys"
  by (simp add: List.map_filter_def)

lemma sent_no_change:
  assumes "sent_rel no_change s s'"
  obtains es where "s' = s\<lparr>trace := trace s @ es\<rparr>" "max_sets es = []" "deactivations es = []"
proof -
  from assms obtain es where "s' = s\<lparr>trace := trace s @ es\<rparr>" "list_all no_change es" by (auto simp: sent_rel_def)
  moreover from this(2) have "max_sets es = []" "deactivations es = []"
    by (auto intro!: map_filter_None simp: no_change_def list_all_iff)
  ultimately show ?thesis using that by blast
qed

text \<open>What \<open>'%d'\<close> makes of the number of a file system.\<close>

definition fs_label :: "pv \<Rightarrow> string" where
  "fs_label v = (case num_of v of Some q \<Rightarrow> str_int (if 0 \<le> q then \<lfloor>q\<rfloor> else \<lceil>q\<rceil>) | None \<Rightarrow> [])"

lemma fmt_d_Ok: "fmt_d v E s = (Ok f, s') \<Longrightarrow> f = fs_label v \<and> s' = s"
  by (auto simp: fmt_d_def as_num_def exec_simps fs_label_def split: option.splits)

lemma deactivate_Ok:
  assumes "deactivate rank E s = (Ok (), s')"
  shows "\<exists>e. s' = s\<lparr>trace := trace s @ [e]\<rparr> \<and> sets_max e = None \<and>
    deactivates e = Some (fs_label (fs_id s) @ '':'' @ str_int rank)"
  using assms
  by (auto simp: deactivate_def bind_Ok exec_basic dest!: raw_cluster_cmd_Ok fmt_d_Ok split: if_splits)

lemma set_max_mds_Ok:
  assumes "set_max_mds n E s = (Ok (), s')"
  shows "\<exists>e. s' = s\<lparr>trace := trace s @ [e]\<rparr> \<and> sets_max e = Some (str_int n) \<and> deactivates e = None"
  using assms
  by (cases "fs_name s") (auto simp: set_max_mds_def cmd_arg_def bind_Ok exec_basic dest!: raw_cluster_cmd_Ok)

lemma deactivate_all_Ok:
  "for_each ranks deactivate E s = (Ok (), s') \<Longrightarrow>
   \<exists>es. s' = s\<lparr>trace := trace s @ es\<rparr> \<and> max_sets es = [] \<and>
     deactivations es = map (\<lambda>r. fs_label (fs_id s) @ '':'' @ str_int r) ranks"
proof (induction ranks arbitrary: s)
  case Nil
  then show ?case by (intro exI [of _ "[]"]) (simp add: exec_simps List.map_filter_def)
next
  case (Cons r ranks)
  then obtain u where u: "deactivate r E s = (Ok (), u)" "for_each ranks deactivate E u = (Ok (), s')"
    by (auto simp: bind_Ok)
  obtain e where e: "u = s\<lparr>trace := trace s @ [e]\<rparr>" "sets_max e = None"
      "deactivates e = Some (fs_label (fs_id s) @ '':'' @ str_int r)"
    using deactivate_Ok [OF u(1)] by blast
  obtain es where es: "s' = u\<lparr>trace := trace u @ es\<rparr>" "max_sets es = []"
      "deactivations es = map (\<lambda>r. fs_label (fs_id u) @ '':'' @ str_int r) ranks"
    using Cons.IH [OF u(2)] by blast
  show ?case
    using e es by (intro exI [of _ "e # es"]) (simp add: List.map_filter_def)
qed

lemma set_new_max_mds_Ok:
  assumes "set_new_max_mds cur new E s = (Ok st', s')"
  shows "\<exists>es ranks. s' = s\<lparr>trace := trace s @ es\<rparr> \<and> max_sets es = [str_int new] \<and>
    deactivations es = map (\<lambda>r. fs_label (fs_id s) @ '':'' @ str_int r) ranks \<and>
    distinct ranks \<and> set ranks \<subseteq> {1..<cur} \<and> length ranks = nat (cur - new)"
proof -
  from assms obtain u1 ranks u2 u3 w where
    u: "set_max_mds new E s = (Ok (), u1)" "random_sample [1..cur - 1] (max 0 (cur - new)) E u1 = (Ok ranks, u2)"
      "for_each ranks deactivate E u2 = (Ok (), u3)" "wait_for_stable None E u3 = (Ok (st', w), s')"
    by (auto simp: set_new_max_mds_def bind_Ok exec_basic)
  obtain e where e: "u1 = s\<lparr>trace := trace s @ [e]\<rparr>" "sets_max e = Some (str_int new)" "deactivates e = None"
    using set_max_mds_Ok [OF u(1)] by blast
  have "sent_rel no_change u1 u2" "sent_rel no_change u3 s'"
    using keepsD [OF sent_random_sample [of no_change, OF no_change_bits] u(2)] keepsD [OF sent_waits(1) [OF looks_no_change] u(4)] by auto
  then obtain es2 es4 where "u2 = u1\<lparr>trace := trace u1 @ es2\<rparr>" "max_sets es2 = []" "deactivations es2 = []"
    "s' = u3\<lparr>trace := trace u3 @ es4\<rparr>" "max_sets es4 = []" "deactivations es4 = []"
    by (auto elim!: sent_no_change)
  moreover obtain es3 where "u3 = u2\<lparr>trace := trace u2 @ es3\<rparr>" "max_sets es3 = []"
    "deactivations es3 = map (\<lambda>r. fs_label (fs_id u2) @ '':'' @ str_int r) ranks"
    using deactivate_all_Ok [OF u(3)] by blast
  ultimately have "s' = s\<lparr>trace := trace s @ e # es2 @ es3 @ es4\<rparr> \<and> max_sets (e # es2 @ es3 @ es4) = [str_int new] \<and>
    deactivations (e # es2 @ es3 @ es4) = map (\<lambda>r. fs_label (fs_id s) @ '':'' @ str_int r) ranks"
    using e by (simp add: List.map_filter_def)
  moreover have "distinct ranks \<and> set ranks \<subseteq> {1..<cur} \<and> length ranks = nat (cur - new)"
    using random_sample_props [OF u(2)] by auto
  ultimately show ?thesis by blast
qed

lemma first_of_Ok: "first_of xs E s = (Ok x, s') \<longleftrightarrow> xs \<noteq> [] \<and> x = hd xs \<and> s' = s"
  by (cases xs) (auto simp: first_of_def exec_simps)

lemma pick_new_max_mds_Ok:
  assumes "bind (random_sample (max_mds_options cur limit) 1) (\<lambda>sample. bind (first_of sample) (set_new_max_mds cur)) E s =
    (Ok st', s')"
  shows "\<exists>es new ranks. s' = s\<lparr>trace := trace s @ es\<rparr> \<and> (0 \<le> cur \<longrightarrow> 1 \<le> new) \<and> new \<le> max cur limit \<and> new \<noteq> cur \<and>
    max_sets es = [str_int new] \<and> deactivations es = map (\<lambda>r. fs_label (fs_id s) @ '':'' @ str_int r) ranks \<and>
    distinct ranks \<and> set ranks \<subseteq> {1..<cur} \<and> length ranks = nat (cur - new)"
proof -
  from assms obtain sample u where u: "random_sample (max_mds_options cur limit) 1 E s = (Ok sample, u)"
    "sample \<noteq> []" "set_new_max_mds cur (hd sample) E u = (Ok st', s')"
    by (auto simp: bind_Ok first_of_Ok)
  let ?new = "hd sample"
  have "?new \<in> set (max_mds_options cur limit)" using random_sample_props(2) [OF u(1)] u(2) by (cases sample) auto
  then have new: "0 \<le> cur \<longrightarrow> 1 \<le> ?new" "?new \<le> max cur limit" "?new \<noteq> cur" by (auto simp: max_mds_options_def)
  have "sent_rel no_change s u" by (rule keepsD [OF sent_random_sample [of no_change, OF no_change_bits] u(1)])
  then obtain es1 where es1: "u = s\<lparr>trace := trace s @ es1\<rparr>" "max_sets es1 = []" "deactivations es1 = []"
    by (rule sent_no_change)
  from set_new_max_mds_Ok [OF u(3)] obtain es2 ranks where es2: "s' = u\<lparr>trace := trace u @ es2\<rparr>"
    "max_sets es2 = [str_int ?new]" "deactivations es2 = map (\<lambda>r. fs_label (fs_id u) @ '':'' @ str_int r) ranks"
    "distinct ranks" "set ranks \<subseteq> {1..<cur}" "length ranks = nat (cur - ?new)" by blast
  show ?thesis
    using es1 es2 new by (intro exI [of _ "es1 @ es2"] exI [of _ ?new] exI [of _ ranks]) simp
qed

lemma map_max_mds_same: "map_max_mds st E s = (Ok v, s') \<Longrightarrow> s' = s"
proof -
  assume "map_max_mds st E s = (Ok v, s')"
  then have "sent_rel (\<lambda>_. False) s s'" by (rule keepsD [OF sent_status(7)])
  then show "s' = s" by (auto simp: sent_rel_def list_all_iff)
qed

text \<open>C31: Changing the number of active servers: a round that returns has either left it alone, or set it
  once, to a number other than the present one, at least 1 and at most the larger of the present one
  and the one at the start; and then it has deactivated exactly as many different ranks as the number was
  lowered by, and never rank 0.\<close>

theorem change_max_mds_commands:
  assumes "change_max_mds st E s = (Ok st', s')"
  shows "\<exists>es. trace s' = trace s @ es \<and>
    (st' = st \<and> max_sets es = [] \<and> deactivations es = [] \<or>
     (\<exists>v cur limit new ranks. fst (map_max_mds st E (s\<lparr>trace := trace s @ [RandomBits]\<rparr>)) = Ok v \<and>
        int_instance v = Some cur \<and> int_instance (mt_max_mds s) = Some limit \<and>
        (0 \<le> cur \<longrightarrow> 1 \<le> new) \<and> new \<le> max cur limit \<and> new \<noteq> cur \<and> max_sets es = [str_int new] \<and>
        deactivations es = map (\<lambda>r. fs_label (fs_id s) @ '':'' @ str_int r) ranks \<and>
        distinct ranks \<and> set ranks \<subseteq> {1..<cur} \<and> length ranks = nat (cur - new)))"
proof -
  let ?u = "s\<lparr>trace := trace s @ [RandomBits]\<rparr>"
  have bits: "sets_max RandomBits = None" "deactivates RandomBits = None" by (simp_all add: sets_max_def deactivates_def)
  show ?thesis
  proof (cases "0 \<le> thrash_max_mds s")
    case False
    then have "st' = st" "s' = ?u" using assms by (auto simp: change_max_mds_def exec_simps randrange01)
    then show ?thesis using bits by (auto simp: List.map_filter_def)
  next
    case True
    then obtain mv u1 cur limit where m: "map_max_mds st E ?u = (Ok mv, u1)" "int_instance mv = Some cur"
      "int_instance (mt_max_mds u1) = Some limit"
      and rest: "(if max_mds_options cur limit = [] then ret st else bind (random_sample (max_mds_options cur limit) 1)
        (\<lambda>sample. bind (first_of sample) (set_new_max_mds cur))) E u1 = (Ok st', s')"
      using assms by (auto simp: change_max_mds_def bind_Ok randrange01 exec_basic as_int_def exec_of_option Let_def
          split: option.splits)
    have u1: "u1 = ?u" by (rule map_max_mds_same [OF m(1)])
    show ?thesis
    proof (cases "max_mds_options cur limit = []")
      case True
      then have "st' = st" "s' = ?u" using rest u1 by (auto simp: exec_simps)
      then show ?thesis using bits by (auto simp: List.map_filter_def)
    next
      case False
      then obtain es new ranks where es: "s' = ?u\<lparr>trace := trace ?u @ es\<rparr>" "0 \<le> cur \<longrightarrow> 1 \<le> new" "new \<le> max cur limit" "new \<noteq> cur"
        "max_sets es = [str_int new]" "deactivations es = map (\<lambda>r. fs_label (fs_id ?u) @ '':'' @ str_int r) ranks"
        "distinct ranks" "set ranks \<subseteq> {1..<cur}" "length ranks = nat (cur - new)"
        using pick_new_max_mds_Ok [of cur limit E ?u st' s'] rest u1 by auto
      show ?thesis
        using m u1 es bits
        by (intro exI [of _ "RandomBits # es"] conjI disjI2 exI [of _ mv] exI [of _ cur] exI [of _ limit] exI [of _ new]
            exI [of _ ranks]) (simp_all add: List.map_filter_def)
    qed
  qed
qed

definition status2 :: fs_status where
  "status2 = VDict [(''filesystems'', VList [VDict [(''id'', VInt 1), (''mdsmap'', VDict [(''max_mds'', VInt 2)])]])]"

definition mds_thr2 :: mds_thrasher where
  "mds_thr2 = (mds_thr0 [])\<lparr>mt_max_mds := VInt 2\<rparr>"

theorem change_max_mds_commands_witness:
  "\<exists>st' s' cur limit new ranks. change_max_mds status2 (sample_env [fs_dump]) mds_thr2 = (Ok st', s') \<and>
     st' \<noteq> status2 \<and> new \<noteq> cur \<and> new \<le> max cur limit \<and> max_sets (trace s') = [str_int new] \<and>
     deactivations (trace s') = map (\<lambda>r. fs_label (VInt 1) @ '':'' @ str_int r) ranks \<and>
     set ranks \<subseteq> {1..<cur} \<and> length ranks = nat (cur - new)"
proof -
  let ?run = "change_max_mds status2 (sample_env [fs_dump]) mds_thr2"
  define st' where "st' = (case fst ?run of Ok st \<Rightarrow> st | _ \<Rightarrow> status2)"
  have "fst ?run = Ok st'" unfolding st'_def by code_simp
  then have run: "?run = (Ok st', snd ?run)" by (rule run_eq)
  have "st' \<noteq> status2" unfolding st'_def by code_simp
  moreover have t: "trace mds_thr2 = []" and i: "fs_id mds_thr2 = VInt 1" by code_simp+
  ultimately show ?thesis
    using change_max_mds_commands [OF run, unfolded t i append_Nil] run by blast
qed

end
