(* ===== verification/Workload_Tasks.thy ===== *)
theory Workload_Tasks
  imports Manager_Daemon
begin

text \<open>
  Two tasks that load a cluster while others thrash it: \<open>src/tasks/rados.py\<close>, which runs the model
  based test of rados on every client, and \<open>src/tasks/thrash_pool_snaps.py\<close>, which takes and removes
  snapshots of pools.
\<close>

section \<open>rados.py: the command line\<close>

definition flag_set :: "dict \<Rightarrow> string \<Rightarrow> bool" where
  "flag_set config key = truthy (dict_get config key (VBool False))"

definition pool_flags :: "dict \<Rightarrow> string list" where
  "pool_flags config =
     (if flag_set config ''ec_pool'' then
        [''--no-omap''] @
        (if flag_set config ''erasure_code_use_hacky_overwrites'' then [''--no-sparse''] else [''--ec-pool''])
      else []) @
     (if flag_set config ''write_fadvise_dontneed'' then [''--write-fadvise-dontneed''] else []) @
     (if flag_set config ''pool_snaps'' then [''--pool-snaps''] else [])"

definition opt_arg :: "dict \<Rightarrow> string \<Rightarrow> string \<Rightarrow> int \<Rightarrow> ('z, string list) io" where
  "opt_arg config name key dflt = bind (py_str (dict_get config key (VInt dflt))) (\<lambda>v. ret [name, v])"

definition size_args :: "dict \<Rightarrow> int \<Rightarrow> ('z, string list) io" where
  "size_args config object_size =
     bind (opt_arg config ''--max-ops'' ''ops'' 10000) (\<lambda>a.
     bind (opt_arg config ''--objects'' ''objects'' 500) (\<lambda>b.
     bind (opt_arg config ''--max-in-flight'' ''max_in_flight'' 16) (\<lambda>c.
     bind (opt_arg config ''--min-stride-size'' ''min_stride_size'' (object_size div 10)) (\<lambda>d.
     bind (opt_arg config ''--max-stride-size'' ''max_stride_size'' (object_size div 5)) (\<lambda>e.
     bind (opt_arg config ''--max-seconds'' ''max_seconds'' 0) (\<lambda>f.
     ret (a @ b @ c @ [''--size'', str_int object_size] @ d @ e @ f)))))))"

text \<open>The operation types that may be given a weight, in the order of the source.\<close>

definition op_fields :: "string list" where
  "op_fields = [''snap_create'', ''snap_remove'', ''rollback'', ''setattr'', ''rmattr'', ''watch'', ''copy_from'',
     ''hit_set_list'', ''is_dirty'', ''undirty'', ''cache_flush'', ''cache_try_flush'', ''cache_evict'', ''append'',
     ''write'', ''read'', ''delete'']"

fun put_weights :: "dict \<Rightarrow> dict \<Rightarrow> string list \<Rightarrow> dict" where
  "put_weights op_weights weights [] = weights"
| "put_weights op_weights weights (f # fs) =
     put_weights op_weights
       (case map_of op_weights f of None \<Rightarrow> weights | Some v \<Rightarrow> alist_put f v weights) fs"

text \<open>\<open>v / 2\<close>\<close>

definition half :: "pv \<Rightarrow> ('z, pv) io" where
  "half v = (case v of
      VInt i \<Rightarrow> ret (VInt (i div 2))
    | VBool b \<Rightarrow> ret (VInt (of_bool b div 2))
    | VFloat q \<Rightarrow> ret (VFloat (q / 2))
    | _ \<Rightarrow> raise TypeError ''unsupported operand'')"

text \<open>Half of the weight of an operation goes to its exclusive variant.\<close>

definition split_weight :: "string \<Rightarrow> string \<Rightarrow> dict \<Rightarrow> ('z, dict) io" where
  "split_weight op excl weights = (case map_of weights op of
       None \<Rightarrow> ret weights
     | Some v \<Rightarrow> bind (half v) (\<lambda>h. ret (alist_put excl h (alist_put op h weights))))"

definition op_weights_of :: "dict \<Rightarrow> ('z, dict) io" where
  "op_weights_of config =
     bind (as_dict (dict_get config ''op_weights'' (VDict []))) (\<lambda>op_weights.
     let weights = put_weights op_weights
           [(''read'', VInt 100), (''write'', VInt 100), (''delete'', VInt 10)] op_fields
     in if truthy (dict_get config ''write_append_excl'' (VBool True)) then
          bind (split_weight ''write'' ''write_excl'' weights) (split_weight ''append'' ''append_excl'')
        else ret weights)"

definition op_args :: "dict \<Rightarrow> ('z, string list) io" where
  "op_args weights =
     bind (map_m (\<lambda>(op, w). bind (py_str w) (\<lambda>v. ret [''--op'', op, v])) weights) (\<lambda>xs. ret (concat xs))"

definition rados_test_args :: "dict \<Rightarrow> ('z, string list) io" where
  "rados_test_args config =
     bind (py_int (dict_get config ''object_size'' (VInt 4000000))) (\<lambda>object_size.
     bind (asks coverage_args) (\<lambda>cov.
     bind (size_args config object_size) (\<lambda>sizes.
     bind (op_weights_of config) (\<lambda>weights.
     bind (op_args weights) (\<lambda>ops.
     ret (cov @ [''zbkc_test_rados''] @ pool_flags config @ sizes @ ops))))))"

section \<open>rados.py: the greenlet\<close>

text \<open>The pool of a client: the last of the pools that are left of the configured ones, else a new one.
  As in the source, a configured \<open>pool\<close> is not used: it only makes a new pool take its place.\<close>

definition choose_pool ::
    "dict \<Rightarrow> string option \<Rightarrow> pv list \<Rightarrow> ('z, string \<times> pv list \<times> bool) mgr" where
  "choose_pool config profile_name existing =
     (if \<not> truthy (dict_get config ''pool'' VNone) \<and> existing \<noteq> [] then
        bind (cmd_arg (last existing)) (\<lambda>pool. ret (pool, butlast existing, False))
      else
        bind (create_pool_with_unique_name 16 profile_name None
                (flag_set config ''erasure_code_use_hacky_overwrites'')) (\<lambda>pool.
        bind (if flag_set config ''fast_read'' then
                bind (raw_cluster_cmd [''osd'', ''pool'', ''set'', pool, ''fast_read'', ''true'']) (\<lambda>_. ret ())
              else ret ()) (\<lambda>_.
        ret (pool, existing, True))))"

text \<open>Starting the test of one client. \<open>tests\<close> are the clients whose test runs, \<open>created\<close> the pools
  that are to be removed. The pool is recorded before it is used, as \<open>created_pools.append\<close> does.\<close>

definition start_client ::
    "dict \<Rightarrow> string list \<Rightarrow> string option \<Rightarrow> pv \<Rightarrow> string list \<times> string list \<times> pv list \<Rightarrow>
     ('z, string list \<times> string list \<times> pv list) mgr" where
  "start_client config args profile_name role0 = (\<lambda>(tests, created, existing).
     bind (case role0 of VStr r \<Rightarrow> ret r | _ \<Rightarrow> raise AssertionError []) (\<lambda>role.
     bind (py_assert (prefix ''client.'' role) []) (\<lambda>_.
     let i = drop 7 role in
     bind (choose_pool config profile_name existing) (\<lambda>(pool, existing', new).
     bind (only_remote role) (\<lambda>remote.
     bind (act (RunBg remote ([''ZBKC_CLIENT_ID='' @ i] @ args @ [''--pool'', pool]))) (\<lambda>_.
     ret (if i \<in> set tests then tests else tests @ [i],
          if new then created @ [pool] else created, existing')))))))"

fun start_clients ::
    "dict \<Rightarrow> string list \<Rightarrow> string option \<Rightarrow> pv list \<Rightarrow> string list \<times> string list \<times> pv list \<Rightarrow>
     ('z, string list \<times> string list \<times> pv list) mgr" where
  "start_clients config args profile_name [] st = ret st"
| "start_clients config args profile_name (role # roles) st =
     bind (start_client config args profile_name role st) (start_clients config args profile_name roles)"

text \<open>One run: start the tests, wait for all of them, remove the pools that were created. The list of
  configured pools that are left is shared by all runs.\<close>

definition rados_run :: "dict \<Rightarrow> string list \<Rightarrow> string option \<Rightarrow> pv list \<Rightarrow> pv list \<Rightarrow> ('z, pv list) mgr" where
  "rados_run config args profile_name roles existing =
     bind (start_clients config args profile_name roles ([], [], existing)) (\<lambda>(tests, created, existing').
     bind (for_each tests (\<lambda>i. act (Get (''rados.'' @ i)))) (\<lambda>_.
     bind (for_each created remove_pool) (\<lambda>_.
     ret existing')))"

fun rados_runs :: "nat \<Rightarrow> dict \<Rightarrow> string list \<Rightarrow> string option \<Rightarrow> pv list \<Rightarrow> pv list \<Rightarrow> ('z, unit) mgr" where
  "rados_runs 0 config args profile_name roles existing = ret ()"
| "rados_runs (Suc n) config args profile_name roles existing =
     bind (rados_run config args profile_name roles existing) (rados_runs n config args profile_name roles)"

definition rados_profile :: "dict \<Rightarrow> ('z, string option) mgr" where
  "rados_profile config =
     (if flag_set config ''ec_pool'' then
        bind (as_dict (dict_get config ''erasure_code_profile'' (VDict []))) (\<lambda>profile.
        bind (cmd_arg (dict_get profile ''name'' (VStr ''teuthologyprofile''))) (\<lambda>name.
        bind (map_m (\<lambda>(k, v). bind (py_str v) (\<lambda>w. ret (k, w))) profile) (\<lambda>words.
        bind (create_erasure_code_profile name words) (\<lambda>_.
        ret (Some name)))))
      else ret None)"

definition rados_thread :: "dict \<Rightarrow> string list \<Rightarrow> ('z, unit) mgr" where
  "rados_thread config args =
     bind (asks (\<lambda>E. map (\<lambda>i. VStr (''client.'' @ i)) (env_roles E ''client''))) (\<lambda>clients.
     bind (rados_profile config) (\<lambda>profile_name.
     bind (py_int (dict_get config ''runs'' (VStr ''1''))) (\<lambda>runs.
     if runs \<le> 0 then ret ()
     else
       bind (as_list (dict_get config ''pools'' (VList []))) (\<lambda>existing.
       bind (as_list (dict_get config ''clients'' (VList clients))) (\<lambda>roles.
       rados_runs (nat runs) config args profile_name roles existing)))))"

definition rados_task :: "pv \<Rightarrow> ('z, unit) mgr \<Rightarrow> ('z, unit) mgr" where
  "rados_task config0 body =
     bind (case config0 of VDict d \<Rightarrow> ret d | _ \<Rightarrow> raise AssertionError ''please list clients to run on'') (\<lambda>config.
     bind (rados_test_args config) (\<lambda>args.
     bind (spawn ''rados_thread'') (\<lambda>_.
     try_finally body (act (Get ''rados_thread'')))))"

section \<open>thrash_pool_snaps.py\<close>

definition remove_snap :: "string list \<Rightarrow> int list \<Rightarrow> ('z, int list) mgr" where
  "remove_snap ps snaps =
     bind (py_assert (0 < length snaps) []) (\<lambda>_.
     bind (random_choice snaps) (\<lambda>snap.
     bind (for_each ps (\<lambda>pool. remove_pool_snap pool (str_int snap))) (\<lambda>_.
     ret (remove1 snap snaps))))"

definition add_snap :: "string list \<Rightarrow> int list \<Rightarrow> int \<Rightarrow> ('z, int list) mgr" where
  "add_snap ps snaps snap =
     bind (for_each ps (\<lambda>pool. add_pool_snap pool (str_int snap))) (\<lambda>_.
     ret (snaps @ [snap]))"

definition snap_round :: "dict \<Rightarrow> string list \<Rightarrow> int \<times> int list \<Rightarrow> ('z, int \<times> int list) mgr" where
  "snap_round config ps = (\<lambda>(index0, snaps).
     let index = index0 + 1; n = of_nat (length snaps) in
     bind (sleep_value (dict_get config ''period'' (VInt 30))) (\<lambda>_.
     bind (if \<not> value_less_num (dict_get config ''min_snaps'' (VInt 5)) n then add_snap ps snaps index
           else if value_le_num (dict_get config ''max_snaps'' (VInt 10)) n then remove_snap ps snaps
           else
             bind (random_choice [True, False]) (\<lambda>add.
             if add then add_snap ps snaps index else remove_snap ps snaps)) (\<lambda>snaps'.
     ret (index, snaps'))))"

definition snap_do_thrash :: "dict \<Rightarrow> ('z, int \<times> int list) mgr" where
  "snap_do_thrash config =
     bind (as_list (dict_get config ''pools'' (VList []))) (\<lambda>pvs.
     bind (map_m cmd_arg pvs) (\<lambda>ps.
     loop (\<lambda>st.
       bind (poll_stop ''thrash_pool_snaps'') (\<lambda>stopping.
       if stopping then ret (Inr st)
       else bind (snap_round config ps st) (\<lambda>st'. ret (Inl st')))) (0, [])))"

text \<open>There is no \<open>finally\<close>: when the body raises, the greenlet is neither stopped nor joined.\<close>

definition snap_task :: "dict \<Rightarrow> ('z, unit) mgr \<Rightarrow> ('z, unit) mgr" where
  "snap_task config body =
     bind (spawn ''snap_do_thrash'') (\<lambda>_.
     bind body (\<lambda>_.
     bind (set_stop ''thrash_pool_snaps'') (\<lambda>_.
     join_greenlet ''snap_do_thrash'')))"

end
