(* ===== verification/Manager_Table.thy ===== *)
theory Manager_Table
  imports Manager_Waits
begin

text \<open>
  The pool table: creating, removing and growing pools, and the names of the pools the manager makes
  up. At the end, the table as a whole refines an abstract one.
\<close>

section \<open>Creating and removing\<close>

lemma alist_put_new: "k \<notin> fst ` set d \<Longrightarrow> alist_put k v d = d @ [(k, v)]"
  by (induction k v d rule: alist_put.induct) auto

lemma filter_last_entry: "k \<notin> fst ` set d \<Longrightarrow> filter (\<lambda>e. fst e \<noteq> k) (d @ [(k, v)]) = d"
  by (auto simp: filter_id_conv)

text \<open>The commands a creation sends before it writes the table.\<close>

definition pool_commands :: "string \<Rightarrow> int \<Rightarrow> string option \<Rightarrow> int option \<Rightarrow> bool \<Rightarrow> ('z, unit) mgr" where
  "pool_commands pool_name pg_num prof min_size hacky =
     bind (case prof of
             Some (c # cs) \<Rightarrow> raw_cluster_cmd [''osd'', ''pool'', ''create'', pool_name,
                 str_int pg_num, str_int pg_num, ''erasure'', c # cs]
           | _ \<Rightarrow> raw_cluster_cmd [''osd'', ''pool'', ''create'', pool_name, str_int pg_num]) (\<lambda>_.
     bind (case min_size of
             None \<Rightarrow> ret []
           | Some m \<Rightarrow> raw_cluster_cmd [''osd'', ''pool'', ''set'', pool_name, ''min_size'', str_int m]) (\<lambda>_.
     bind (if hacky then
             raw_cluster_cmd [''osd'', ''pool'', ''set'', pool_name,
               ''debug_white_box_testing_ec_overwrites'', ''true'']
           else ret []) (\<lambda>_. ret ())))"

lemma create_pool_split:
  "create_pool p n prof ms hacky =
     bind (gets pools) (\<lambda>ps. bind (py_assert (p \<notin> fst ` set ps) []) (\<lambda>_.
     bind (pool_commands p n prof ms hacky) (\<lambda>_.
     bind (modify (\<lambda>s. s\<lparr>pools := alist_put p n (pools s)\<rparr>)) (\<lambda>_. sleep 1))))"
  by (simp add: create_pool_def pool_commands_def bind_assoc)

lemma io_pool_commands: "keeps io_rel (pool_commands p n prof ms hacky)"
  unfolding pool_commands_def by (intro keeps_intros)

lemma post_create_pool:
  "post (create_pool p n prof ms hacky) E s (\<lambda>r s'. \<exists>es.
     s' = s\<lparr>pools := (if r = Ok () then pools s @ [(p, n)] else pools s), trace := trace s @ es\<rparr> \<and>
     (r = Ok () \<longrightarrow> p \<notin> fst ` set (pools s)))"
proof (cases "p \<in> fst ` set (pools s)")
  case True
  then show ?thesis
    by (auto simp: create_pool_split post_simps intro: exI [of _ "[]"])
next
  case False
  then show ?thesis
    unfolding create_pool_split post_bind [of "gets pools"] post_basic after_simps post_bind [of "py_assert _ _"] post_py_assert
    by (simp add: after_simps)
      (rule post_bind_io [OF io_pool_commands], auto simp: post_simps sleep_def alist_put_new)
qed

lemma post_remove_pool:
  "post (remove_pool p) E s (\<lambda>r s'.
     if p \<in> fst ` set (pools s) then pools s' = filter (\<lambda>e. fst e \<noteq> p) (pools s) \<and>
       (r = Ok () \<or> (\<exists>x. r = Raise x \<and> env_run E (trace s') = Inl x))
     else r = Raise (PyExc AssertionError []) \<and> s' = s)"
  by (auto simp: remove_pool_def do_rados_def run_cmd_def post_simps alist_del_def split: sum.split)

text \<open>C9: Creating a pool adds exactly one entry, at the end of a table that did not have the name,
  and changes nothing else but the trace; a creation that fails, for whatever reason, leaves the
  table as it was.\<close>

theorem create_pool_atomic:
  assumes "create_pool p n prof ms hacky E s = (r, s')"
  shows "next_pool_id s' = next_pool_id s \<and>
    (if r = Ok () then map_of (pools s) p = None \<and> pools s' = pools s @ [(p, n)] else pools s' = pools s)"
  using postD [OF post_create_pool assms] by (auto simp: map_of_eq_None_iff)

theorem create_pool_atomic_witness:
  "(let (r, s') = create_pool ''data'' 16 (Some ''prof'') (Some 2) False (sample_env []) sample_mgr
    in next_pool_id s' = next_pool_id sample_mgr \<and>
      (if r = Ok () then map_of (pools sample_mgr) ''data'' = None \<and> pools s' = pools sample_mgr @ [(''data'', 16)]
       else pools s' = pools sample_mgr)) \<and>
   pools (snd (create_pool ''data'' 16 (Some ''prof'') (Some 2) False (sample_env []) sample_mgr)) = [(''rbd'', 8), (''data'', 16)]"
proof (rule conjI)
  show "let (r, s') = create_pool ''data'' 16 (Some ''prof'') (Some 2) False (sample_env []) sample_mgr
    in next_pool_id s' = next_pool_id sample_mgr \<and>
      (if r = Ok () then map_of (pools sample_mgr) ''data'' = None \<and> pools s' = pools sample_mgr @ [(''data'', 16)]
       else pools s' = pools sample_mgr)"
    using create_pool_atomic [of "''data''" 16 "Some ''prof''" "Some 2" False "sample_env []" sample_mgr]
    by (auto simp: Let_def split: prod.split)
qed code_simp

text \<open>C10: Removing a pool takes its entry, and no other, out of the table, even when the command that
  removes the pool from the cluster fails; the removal of an unknown pool fails and changes
  nothing.\<close>

theorem remove_pool_entry:
  "post (remove_pool p) E s (\<lambda>r s'.
     if p \<in> fst ` set (pools s) then pools s' = filter (\<lambda>e. fst e \<noteq> p) (pools s) \<and>
       (r = Ok () \<or> (\<exists>x. r = Raise x \<and> env_run E (trace s') = Inl x))
     else r = Raise (PyExc AssertionError []) \<and> s' = s)"
  by (rule post_remove_pool)

text \<open>C11: In a body that leaves the table alone, \<open>with manager.pool(...)\<close> restores the table when the
  body returns, even if the command that removes the pool fails. When the body raises, the pool is left behind: the
  statement raises the same exception in the state the body left, with the new pool in the table.\<close>

theorem with_pool_restores:
  fixes body :: "('z, 'a) mgr"
  assumes "keeps io_rel body" and c: "create_pool p n prof None False E s = (Ok (), s1)" and b: "body E s1 = (r, s2)"
  shows "case r of
      Ok a \<Rightarrow> pools (snd (with_pool p n prof body E s)) = pools s \<and>
        (fst (with_pool p n prof body E s) = Ok a \<or>
         (\<exists>x. fst (with_pool p n prof body E s) = Raise x \<and> env_run E (trace (snd (with_pool p n prof body E s))) = Inl x))
    | Raise x \<Rightarrow> with_pool p n prof body E s = (Raise x, s2) \<and> pools s2 = pools s @ [(p, n)]
    | NoFuel \<Rightarrow> with_pool p n prof body E s = (NoFuel, s2)"
proof -
  have new: "p \<notin> fst ` set (pools s)" and s1: "pools s1 = pools s @ [(p, n)]" using postD [OF post_create_pool c] by auto
  have s2: "pools s2 = pools s @ [(p, n)]" using keepsD [OF assms(1) b] s1 by (auto simp: io_rel_def)
  obtain r3 s3 where d: "remove_pool p E s2 = (r3, s3)" by fastforce
  have "pools s3 = pools s \<and> (r3 = Ok () \<or> (\<exists>x. r3 = Raise x \<and> env_run E (trace s3) = Inl x))"
    using postD [OF post_remove_pool d] s2 filter_last_entry [OF new, of n] by simp
  then show ?thesis using c b d s2 by (auto simp: with_pool_def exec_simps split: res.split)
qed

definition bad_body :: "('z, unit) mgr" where
  "bad_body = raise PlainException ''body''"

theorem with_pool_restores_witness:
  "fst (create_pool ''data'' 16 None None False (sample_env []) sample_mgr) = Ok () \<and>
   pools (snd (with_pool ''data'' 16 None get_pool (sample_env []) sample_mgr)) = [(''rbd'', 8)] \<and>
   fst (with_pool ''data'' 16 None bad_body (sample_env []) sample_mgr) = Raise (PyExc PlainException ''body'') \<and>
   pools (snd (with_pool ''data'' 16 None bad_body (sample_env []) sample_mgr)) = [(''rbd'', 8), (''data'', 16)]"
proof -
  let ?c = "create_pool ''data'' 16 None None False (sample_env []) sample_mgr"
  have c: "fst ?c = Ok ()" by code_simp
  have g: "fst (get_pool (sample_env []) (snd ?c)) = Ok ''rbd''" by code_simp
  have b: "bad_body (sample_env []) (snd ?c) = (Raise (PyExc PlainException ''body''), snd ?c)"
    by (simp add: bad_body_def exec_simps)
  have "keeps io_rel (bad_body :: (unit, unit) mgr)" unfolding bad_body_def by (intro keeps_intros)
  note bad = with_pool_restores [OF this run_eq [OF c] b]
  note good = with_pool_restores [OF mio.keeps_pool_queries(6) run_eq [OF c] run_eq [OF g]]
  have "pools sample_mgr = [(''rbd'', 8)]" by (simp add: sample_mgr_def)
  then show ?thesis using c good bad by simp
qed

text \<open>Each creation takes the next number.\<close>

lemma unique_pool_name_inj: "inj unique_pool_name"
  by (simp add: inj_on_def unique_pool_name_def)

lemma unique_name_Ok:
  assumes "create_pool_with_unique_name n prof ms hacky E s = (Ok nm, s')"
  shows "nm = unique_pool_name (next_pool_id s) \<and> next_pool_id s' = next_pool_id s + 1 \<and>
    pools s' = pools s @ [(nm, n)]"
proof -
  let ?nm = "unique_pool_name (next_pool_id s)" and ?s = "s\<lparr>next_pool_id := next_pool_id s + 1\<rparr>"
  have "create_pool ?nm n prof ms hacky E ?s = (Ok (), s')" and nm: "nm = ?nm"
    using assms by (auto simp: create_pool_with_unique_name_def Let_def exec_simps split: res.splits prod.splits)
  from postD [OF post_create_pool this(1)] obtain es where
    "s' = ?s\<lparr>pools := pools ?s @ [(?nm, n)], trace := trace ?s @ es\<rparr>" by auto
  then show ?thesis using nm by simp
qed

lemma unique_names_Ok:
  "map_m (\<lambda>n. create_pool_with_unique_name n prof ms hacky) ns E s = (Ok nms, s') \<Longrightarrow>
     nms = map unique_pool_name [next_pool_id s .. next_pool_id s + int (length ns) - 1] \<and>
     next_pool_id s' = next_pool_id s + int (length ns) \<and> pools s' = pools s @ zip nms ns"
proof (induction ns arbitrary: nms s)
  case (Cons n ns)
  then obtain nm rest t where one: "create_pool_with_unique_name n prof ms hacky E s = (Ok nm, t)"
    and more: "map_m (\<lambda>n. create_pool_with_unique_name n prof ms hacky) ns E t = (Ok rest, s')" "nms = nm # rest"
    by (auto simp: exec_simps split: res.splits prod.splits)
  from unique_name_Ok [OF one] Cons.IH [OF more(1)] more(2) show ?case
    by (simp add: upto_rec1 ac_simps)
qed (simp add: exec_simps)

text \<open>No pool of the table has a name that is still to be made up.\<close>

definition names_left :: "'z manager_scheme \<Rightarrow> bool" where
  "names_left s \<longleftrightarrow> (\<forall>k \<ge> next_pool_id s. map_of (pools s) (unique_pool_name k) = None)"

definition accepts_all :: "env \<Rightarrow> bool" where
  "accepts_all E \<longleftrightarrow> (\<forall>t x. env_run E t \<noteq> Inl x)"

lemma accepted_cmd: "accepts_all E \<Longrightarrow> \<exists>out t. raw_cluster_cmd as E s = (Ok out, t)"
  by (auto simp: accepts_all_def raw_cluster_cmd_def run_cmd_def exec_simps split: sum.split)

lemma bind_returns:
  "\<exists>a t. m E s = (Ok a, t) \<Longrightarrow> (\<And>a t. \<exists>b u. f a E t = (Ok b, u)) \<Longrightarrow> \<exists>b u. bind m f E s = (Ok b, u)"
  by (fastforce simp: bind_Ok)

lemma accepted_commands: "accepts_all E \<Longrightarrow> \<exists>a t. pool_commands p n prof ms hacky E s = (Ok a, t)"
  unfolding pool_commands_def
  by (intro bind_returns) (auto simp: exec_simps accepted_cmd split: option.split list.split)

lemma accepted_create:
  assumes "accepts_all E" and "map_of (pools s) p = None"
  shows "\<exists>t. create_pool p n prof ms hacky E s = (Ok (), t)"
proof -
  obtain t where "pool_commands p n prof ms hacky E s = (Ok (), t)"
    using accepted_commands [OF assms(1)] by fastforce
  then show ?thesis
    using assms(2) by (auto simp: create_pool_split exec_simps sleep_def map_of_eq_None_iff)
qed

lemma accepted_unique:
  assumes "accepts_all E" and "names_left s"
  shows "\<exists>nm t. create_pool_with_unique_name n prof ms hacky E s = (Ok nm, t) \<and> names_left t"
proof -
  let ?nm = "unique_pool_name (next_pool_id s)"
  have "map_of (pools (s\<lparr>next_pool_id := next_pool_id s + 1\<rparr>)) ?nm = None"
    using assms(2) by (simp add: names_left_def)
  from accepted_create [OF assms(1) this] obtain t
    where "create_pool ?nm n prof ms hacky E (s\<lparr>next_pool_id := next_pool_id s + 1\<rparr>) = (Ok (), t)" by blast
  then have "create_pool_with_unique_name n prof ms hacky E s = (Ok ?nm, t)"
    by (simp add: create_pool_with_unique_name_def Let_def exec_simps)
  moreover from unique_name_Ok [OF this] have "names_left t"
    using assms(2) injD [OF unique_pool_name_inj] by (fastforce simp: names_left_def map_add_def)
  ultimately show ?thesis by blast
qed

lemma accepted_uniques:
  "accepts_all E \<Longrightarrow> names_left s \<Longrightarrow>
   \<exists>nms s'. map_m (\<lambda>n. create_pool_with_unique_name n prof ms hacky) ns E s = (Ok nms, s')"
proof (induction ns arbitrary: s)
  case (Cons n ns)
  from accepted_unique [OF Cons.prems] obtain nm t
    where one: "create_pool_with_unique_name n prof ms hacky E s = (Ok nm, t)" "names_left t" by blast
  from Cons.IH [OF Cons.prems(1) one(2)] one(1) show ?case by (auto simp: exec_simps)
qed (simp add: exec_simps)

text \<open>C12: The names \<open>create_pool_with_unique_name\<close> makes up are never repeated: when any number of
  pools is created in a row, the names carry consecutive numbers, from the counter of the manager on, so they are
  pairwise different, the counter is past all of them, and the pools are added to the table in the order of
  their creation. A made-up name never clashes: as long as the table has none of the names still to come and the
  cluster accepts the commands, all creations succeed.\<close>

theorem unique_names_distinct:
  fixes s :: "'z manager_scheme"
  shows "(\<forall>nms s'. map_m (\<lambda>n. create_pool_with_unique_name n prof ms hacky) ns E s = (Ok nms, s') \<longrightarrow>
      nms = map unique_pool_name [next_pool_id s .. next_pool_id s + int (length ns) - 1] \<and> distinct nms \<and>
      next_pool_id s' = next_pool_id s + int (length ns) \<and> pools s' = pools s @ zip nms ns) \<and>
    (accepts_all E \<and> names_left s \<longrightarrow>
      (\<exists>nms s'. map_m (\<lambda>n. create_pool_with_unique_name n prof ms hacky) ns E s = (Ok nms, s')))"
  using unique_names_Ok [of prof ms hacky ns E s] accepted_uniques [of E s prof ms hacky ns] unique_pool_name_inj
  by (auto simp: distinct_map intro: inj_on_subset [OF _ subset_UNIV])

theorem unique_names_distinct_witness:
  "\<exists>s'. accepts_all (sample_env []) \<and> names_left sample_mgr \<and>
     map_m (\<lambda>n. create_pool_with_unique_name n None None False) [16, 32] (sample_env []) sample_mgr =
       (Ok (map unique_pool_name [0 .. 1]), s') \<and>
     next_pool_id s' = 2 \<and> pools s' = (''rbd'', 8) # zip (map unique_pool_name [0 .. 1]) [16, 32]"
proof -
  have accepts: "accepts_all (sample_env [])"
    by (simp add: accepts_all_def sample_env_def reply_def split: event.split)
  have left: "names_left sample_mgr"
    by (simp add: names_left_def sample_mgr_def unique_pool_name_def)
  note names = unique_names_distinct [of None None False "[16, 32]" "sample_env []" sample_mgr]
  from names [THEN conjunct2] accepts left obtain nms s'
    where run: "map_m (\<lambda>n. create_pool_with_unique_name n None None False) [16, 32] (sample_env []) sample_mgr = (Ok nms, s')"
    by blast
  have start: "next_pool_id sample_mgr = 0" "pools sample_mgr = [(''rbd'', 8)]" by (simp_all add: sample_mgr_def)
  from names [THEN conjunct1, rule_format, OF run] run accepts left show ?thesis
    by (intro exI [of _ s']) (simp add: start)
qed

section \<open>Growing\<close>

lemma post_expand_pool:
  "post (expand_pool p v mx) E s (\<lambda>r s'. next_pool_id s' = next_pool_id s \<and>
     (pools s' = pools s \<and> (r = Ok () \<longrightarrow> map_of (pools s) p \<noteq> None \<and> int_instance v \<noteq> None) \<or>
      (\<exists>cur n. map_of (pools s) p = Some cur \<and> int_instance v = Some n \<and> \<not> value_less_num mx (of_int (cur + n)) \<and>
        r = Ok () \<and> pools s' = alist_put p (cur + n) (pools s))))"
    (is "post _ E s ?P")
proof (cases "int_instance v")
  case v: (Some n)
  show ?thesis
  proof (cases "map_of (pools s) p")
    case (Some cur)
    have tail: "post (bind (set_pool_property p ''pg_num'' (cur + n))
        (\<lambda>_. modify (\<lambda>s. s\<lparr>pools := alist_put p (cur + n) (pools s)\<rparr>))) E t (\<lambda>r s'. next_pool_id s' = next_pool_id s \<and>
          (pools s' = pools s \<or> r = Ok () \<and> pools s' = alist_put p (cur + n) (pools s)))"
      if "pools t = pools s" "next_pool_id t = next_pool_id s" for t
      using that
      by (intro post_bind_io [OF mio.keeps_pool_queries(2)]) (auto simp: post_basic simp del: of_int_add)
    have "post (bind get_num_creating (\<lambda>c. if 0 < c then ret () else if value_less_num mx (of_int (cur + n)) then ret ()
        else bind (set_pool_property p ''pg_num'' (cur + n))
          (\<lambda>_. modify (\<lambda>s. s\<lparr>pools := alist_put p (cur + n) (pools s)\<rparr>)))) E s ?P"
      using Some v
      by (intro post_bind_io [OF mio.keeps_manager_pg(2)]) (auto simp: post_basic intro!: tail simp del: of_int_add)
    then show ?thesis
      using Some v by (simp add: expand_pool_def post_steps del: of_int_add)
  qed (simp add: expand_pool_def post_simps v)
qed (simp add: expand_pool_def post_simps)

text \<open>C13: With a whole number as the limit, growing a pool never makes its number of placement groups
  larger than the limit, and touches no other pool.\<close>

theorem expand_pool_limit:
  assumes "expand_pool p (VInt n) (VInt mx) E s = (r, s')" and "map_of (pools s') q = Some k"
  shows "map_of (pools s) q = Some k \<or> q = p \<and> k \<le> mx \<and> r = Ok ()"
  using postD [OF post_expand_pool assms(1)] assms(2)
  by (auto simp: int_instance_def split: if_splits simp del: of_int_add)

definition grow_env :: env where
  "grow_env = sample_env [pg_dump_reply ''early'' ''active+clean'']"

theorem expand_pool_limit_witness:
  "\<exists>s'. expand_pool ''rbd'' (VInt 10) (VInt 20) grow_env sample_mgr = (Ok (), s') \<and>
     map_of (pools s') ''rbd'' = Some 18 \<and>
     (map_of (pools sample_mgr) ''rbd'' = Some 18 \<or> ''rbd'' = ''rbd'' \<and> (18 :: int) \<le> 20 \<and> Ok () = Ok ())"
proof -
  let ?run = "expand_pool ''rbd'' (VInt 10) (VInt 20) grow_env sample_mgr"
  have run: "?run = (Ok (), snd ?run)" by (rule run_eq) code_simp
  have grown: "map_of (pools (snd ?run)) ''rbd'' = Some 18" by code_simp
  show ?thesis by (intro exI [of _ "snd ?run"] conjI expand_pool_limit [OF run grown] run grown)
qed

section \<open>The table as a whole\<close>

lemma manager_init_wf:
  assumes "manager_init controller config cl E s = (Ok (), s')"
  shows "pools_wf s'"
proof -
  obtain ps t where "for_each ps record_pool E (t\<lparr>pools := []\<rparr>) = (Ok (), s')"
    using assms by (auto simp: manager_init_def exec_simps split: res.splits prod.splits)
  moreover have "keeps table_rel (for_each ps record_pool)" by (intro keeps_intros)
  ultimately have "table_rel (t\<lparr>pools := []\<rparr>) s'" by (blast dest: keepsD)
  then show ?thesis by (simp add: table_rel_def pools_wf_def)
qed

text \<open>The operations a caller of the manager can apply to the table, and any sequence of them.\<close>

datatype table_op =
    CreatePool string int "string option" "int option" bool
  | CreateUnique int "string option" "int option" bool
  | RemovePool string
  | ExpandPool string pv pv
  | ClearPools

fun table_op_run :: "table_op \<Rightarrow> ('z, unit) mgr" where
  "table_op_run (CreatePool p n prof ms h) = create_pool p n prof ms h"
| "table_op_run (CreateUnique n prof ms h) = bind (create_pool_with_unique_name n prof ms h) (\<lambda>_. ret ())"
| "table_op_run (RemovePool p) = remove_pool p"
| "table_op_run (ExpandPool p by mx) = expand_pool p by mx"
| "table_op_run ClearPools = clear_pools"

lemma keeps_table_op [keeps_intros]: "keeps table_rel (table_op_run op)"
  by (cases op) (auto intro!: keeps_intros)

text \<open>The abstract table: the number of placement groups of every pool that is there, and the number the next
  made-up name gets.\<close>

type_synonym abs_table = "(string \<rightharpoonup> int) \<times> int"

definition abs_of :: "'z manager_scheme \<Rightarrow> abs_table" where
  "abs_of s = (map_of (pools s), next_pool_id s)"

text \<open>What an operation does to it, given whether it succeeds: a new pool must be new, and only a creation that
  succeeds adds it; a number is used up in any case; a removal takes the pool out in any case, but succeeds only
  for a known pool; growing keeps within the limit, and only if it succeeds; clearing removes pools and touches no
  other.\<close>

fun table_spec :: "table_op \<Rightarrow> bool \<Rightarrow> abs_table \<Rightarrow> abs_table \<Rightarrow> bool" where
  "table_spec (CreatePool p n _ _ _) ok (m, k) t' \<longleftrightarrow>
     (if ok then m p = None \<and> t' = (m(p \<mapsto> n), k) else t' = (m, k))"
| "table_spec (CreateUnique n _ _ _) ok (m, k) t' \<longleftrightarrow>
     (if ok then m (unique_pool_name k) = None \<and> t' = (m(unique_pool_name k \<mapsto> n), k + 1) else t' = (m, k + 1))"
| "table_spec (RemovePool p) ok (m, k) t' \<longleftrightarrow> t' = (m(p := None), k) \<and> (ok \<longrightarrow> m p \<noteq> None)"
| "table_spec (ExpandPool p v mx) ok (m, k) t' \<longleftrightarrow>
     (if ok then \<exists>cur n. m p = Some cur \<and> int_instance v = Some n \<and>
        (t' = (m, k) \<or> \<not> value_less_num mx (of_int (cur + n)) \<and> t' = (m(p \<mapsto> cur + n), k))
      else t' = (m, k))"
| "table_spec ClearPools ok (m, k) t' \<longleftrightarrow> (\<exists>S \<subseteq> dom m. t' = (m |` (- S), k))"

fun table_run :: "table_op list \<Rightarrow> bool list \<Rightarrow> abs_table \<Rightarrow> abs_table \<Rightarrow> bool" where
  "table_run (op # ops) (ok # oks) t t'' \<longleftrightarrow> (\<exists>t'. table_spec op ok t t' \<and> table_run ops oks t' t'')"
| "table_run ops oks t t' \<longleftrightarrow> oks = [] \<and> t' = t"

lemma table_run_Nil [simp]: "table_run ops [] t t' \<longleftrightarrow> t' = t"
  by (cases ops) auto

lemma map_of_snoc: "k \<notin> fst ` set d \<Longrightarrow> map_of (d @ [(k, v)]) = (map_of d)(k \<mapsto> v)"
  by (metis alist_put_new map_of_alist_put)

lemma create_pool_abs:
  assumes "create_pool p n prof ms h E s = (r, s')"
  shows "table_spec (CreatePool p n prof ms h) (r = Ok ()) (abs_of s) (abs_of s')"
  using postD [OF post_create_pool assms] by (auto simp: abs_of_def map_of_snoc map_of_eq_None_iff simp del: map_of_append)

lemma create_unique_abs:
  assumes "table_op_run (CreateUnique n prof ms h) E s = (r, s')"
  shows "table_spec (CreateUnique n prof ms h) (r = Ok ()) (abs_of s) (abs_of s')"
proof -
  let ?nm = "unique_pool_name (next_pool_id s)" and ?t = "s\<lparr>next_pool_id := next_pool_id s + 1\<rparr>"
  have "create_pool ?nm n prof ms h E ?t = (r, s')"
    using assms by (cases r) (auto simp: create_pool_with_unique_name_def Let_def exec_simps split: res.splits prod.splits)
  from create_pool_abs [OF this] show ?thesis by (simp add: abs_of_def)
qed

lemma remove_pool_abs:
  assumes "remove_pool p E s = (r, s')"
  shows "table_spec (RemovePool p) (r = Ok ()) (abs_of s) (abs_of s')"
proof -
  have "post (remove_pool p) E s (\<lambda>r s'. next_pool_id s' = next_pool_id s)"
    by (auto simp: remove_pool_def do_rados_def run_cmd_def post_simps split: sum.split)
  from postD [OF this assms] have "next_pool_id s' = next_pool_id s" .
  moreover have "map_of (filter (\<lambda>e. fst e \<noteq> p) (pools s)) = (map_of (pools s))(p := None)"
    using map_of_alist_del [of p "pools s"] by (simp add: alist_del_def)
  moreover have "(map_of (pools s))(p := None) = map_of (pools s)" if "p \<notin> fst ` set (pools s)"
    using that by (simp add: map_of_eq_None_iff [symmetric] fun_upd_idem)
  ultimately show ?thesis
    using postD [OF post_remove_pool assms] by (auto simp: abs_of_def map_of_eq_None_iff split: if_splits)
qed

lemma drop_one: "\<exists>S \<subseteq> dom m. m(p := None) = m |` (- S)"
  by (intro exI [of _ "{p} \<inter> dom m"]) (auto simp: restrict_map_def fun_eq_iff dom_def)

lemma drop_more:
  assumes "S \<subseteq> dom (m(p := None))"
  shows "\<exists>S' \<subseteq> dom m. m(p := None) |` (- S) = m |` (- S')"
proof (intro exI conjI)
  show "S \<union> ({p} \<inter> dom m) \<subseteq> dom m" using assms by auto
  show "m(p := None) |` (- S) = m |` (- (S \<union> ({p} \<inter> dom m)))" by (auto simp: restrict_map_def fun_eq_iff dom_def)
qed

lemma clear_none: "table_spec ClearPools b t t"
  by (cases t) (auto simp: restrict_map_def intro!: exI [of _ "{}"])

lemma remove_pools_abs:
  "for_each ps remove_pool E s = (r, s') \<Longrightarrow> table_spec ClearPools b (abs_of s) (abs_of s')"
proof (induction ps arbitrary: s)
  case Nil
  then show ?case using clear_none by (simp add: exec_simps)
next
  case (Cons p ps)
  obtain r1 t where one: "remove_pool p E s = (r1, t)" by fastforce
  have t: "abs_of t = ((map_of (pools s))(p := None), next_pool_id s)"
    using remove_pool_abs [OF one] by (simp add: abs_of_def)
  show ?case
  proof (cases r1)
    case (Ok u)
    then have "for_each ps remove_pool E t = (r, s')" using Cons.prems one by (simp add: exec_simps)
    from Cons.IH [OF this] obtain S where S: "S \<subseteq> dom ((map_of (pools s))(p := None))"
      "abs_of s' = ((map_of (pools s))(p := None) |` (- S), next_pool_id s)"
      unfolding t table_spec.simps by blast
    from drop_more [OF S(1)] S(2) show ?thesis unfolding abs_of_def [of s] table_spec.simps by metis
  qed (use Cons.prems one t drop_one in \<open>auto simp: exec_simps abs_of_def\<close>)
qed

lemma clear_pools_abs:
  assumes "clear_pools E s = (r, s')"
  shows "table_spec ClearPools b (abs_of s) (abs_of s')"
proof -
  obtain r1 t where list: "list_pools E s = (r1, t)" by fastforce
  have t: "abs_of t = abs_of s" using keepsD [OF mio.keeps_manager_status(5) list] by (auto simp: io_rel_def abs_of_def)
  show ?thesis
  proof (cases r1)
    case (Ok ps)
    then have "for_each ps remove_pool E t = (r, s')" using assms list by (simp add: clear_pools_def exec_simps)
    from remove_pools_abs [OF this] show ?thesis unfolding t .
  qed (use assms list t clear_none in \<open>auto simp: clear_pools_def exec_simps\<close>)
qed

lemma table_op_abs:
  assumes "table_op_run op E s = (r, s')"
  shows "table_spec op (r = Ok ()) (abs_of s) (abs_of s')"
proof (cases op)
  case (ExpandPool p v mx)
  then show ?thesis
    using postD [OF post_expand_pool, of p v mx E s r s'] assms by (auto simp: abs_of_def simp del: of_int_add)
qed (use assms create_pool_abs create_unique_abs remove_pool_abs clear_pools_abs in auto)

text \<open>A caller that tries the operations one after the other, catches what they raise and notes which of them
  succeeded.\<close>

definition table_op_try :: "table_op \<Rightarrow> ('z, bool) mgr" where
  "table_op_try op = try_except (bind (table_op_run op) (\<lambda>_. ret True)) is_Exception (\<lambda>_. ret False)"

lemma table_op_try_abs:
  assumes "table_op_try op E s = (r, s')"
  shows "\<exists>ok. table_spec op ok (abs_of s) (abs_of s') \<and> (\<forall>b. r = Ok b \<longrightarrow> b = ok)"
proof -
  obtain r1 t where run: "table_op_run op E s = (r1, t)" by fastforce
  then have "s' = t" "\<forall>b. r = Ok b \<longrightarrow> b = (r1 = Ok ())"
    using assms by (auto simp: table_op_try_def exec_simps split: res.splits if_splits pyexc.splits)
  with table_op_abs [OF run] show ?thesis by blast
qed

lemma table_ops_abs:
  "map_m table_op_try ops E s = (r, s') \<Longrightarrow>
   \<exists>oks. table_run ops oks (abs_of s) (abs_of s') \<and> (\<forall>xs. r = Ok xs \<longrightarrow> xs = oks \<and> length oks = length ops)"
proof (induction ops arbitrary: s r)
  case Nil
  then show ?case by (auto simp: exec_simps intro!: exI [of _ "[]"])
next
  case (Cons op ops)
  obtain r1 t where one: "table_op_try op E s = (r1, t)" by fastforce
  from table_op_try_abs [OF one] obtain ok
    where ok: "table_spec op ok (abs_of s) (abs_of t)" "\<forall>b. r1 = Ok b \<longrightarrow> b = ok" by blast
  show ?case
  proof (cases r1)
    case (Ok b)
    obtain r2 where more: "map_m table_op_try ops E t = (r2, s')"
      and r: "\<forall>xs. r = Ok xs \<longrightarrow> (\<exists>ys. r2 = Ok ys \<and> xs = b # ys)"
      using Cons.prems one Ok by (auto simp: exec_simps split: res.splits prod.splits)
    from Cons.IH [OF more] obtain oks where "table_run ops oks (abs_of t) (abs_of s')"
      "\<forall>xs. r2 = Ok xs \<longrightarrow> xs = oks \<and> length oks = length ops" by blast
    then show ?thesis using ok Ok r by (intro exI [of _ "ok # oks"]) (auto simp del: split_paired_Ex)
  next
    case (Raise x)
    then show ?thesis using Cons.prems one ok by (intro exI [of _ "[ok]"]) (auto simp: exec_simps simp del: split_paired_Ex)
  next
    case NoFuel
    then show ?thesis using Cons.prems one ok by (intro exI [of _ "[ok]"]) (auto simp: exec_simps simp del: split_paired_Ex)
  qed
qed

lemma keeps_table_op_try [keeps_intros]: "keeps table_rel (table_op_try op)"
  unfolding table_op_try_def by (intro keeps_intros)

text \<open>C8: The table of pools refines an abstract one, from the constructor on and through any sequence of creations,
  removals, growths and clearings, whatever the cluster answers: each operation does to the map of the pools
  what its specification allows for its outcome, and no pool has two entries. A sequence that is cut short is a
  run of the operations begun.\<close>

theorem pool_table_refines:
  fixes s0 :: "'z manager_scheme"
  assumes "manager_init controller config cl E s = (Ok (), s0)" and "map_m table_op_try ops E s0 = (r, s')"
  shows "(\<exists>oks. table_run ops oks (abs_of s0) (abs_of s') \<and>
      (\<forall>xs. r = Ok xs \<longrightarrow> xs = oks \<and> length oks = length ops)) \<and> distinct (map fst (pools s'))"
proof
  have "keeps table_rel (map_m table_op_try ops :: ('z, bool list) mgr)" by (intro keeps_intros)
  from keepsD [OF this assms(2)] manager_init_wf [OF assms(1)] show "distinct (map fst (pools s'))"
    by (simp add: table_rel_def pools_wf_def)
qed (rule table_ops_abs [OF assms(2)])

definition init_env :: env where
  "init_env = sample_env [osd_dump_reply, ([''get'', ''rbd'', ''pg_num''], ok_proc ''pg_num: 8'')]"

theorem pool_table_refines_witness:
  "\<exists>s0 s'. manager_init ''host1'' None ''zbkc'' init_env sample_mgr = (Ok (), s0) \<and>
     map_m table_op_try [CreatePool ''data'' 16 None None False, CreatePool ''data'' 8 None None False, RemovePool ''rbd'']
       init_env s0 = (Ok [True, False, True], s') \<and>
     table_run [CreatePool ''data'' 16 None None False, CreatePool ''data'' 8 None None False, RemovePool ''rbd'']
       [True, False, True] (abs_of s0) (abs_of s') \<and> pools s' = [(''data'', 16)]"
proof -
  let ?init = "manager_init ''host1'' None ''zbkc'' init_env sample_mgr"
  let ?ops = "[CreatePool ''data'' 16 None None False, CreatePool ''data'' 8 None None False, RemovePool ''rbd'']"
  let ?run = "map_m table_op_try ?ops init_env (snd ?init)"
  have init: "?init = (Ok (), snd ?init)" by (rule run_eq) code_simp
  have run: "?run = (Ok [True, False, True], snd ?run)" by (rule run_eq) code_simp
  have pools: "pools (snd ?run) = [(''data'', 16)]" by code_simp
  from pool_table_refines [OF init run]
  have "table_run ?ops [True, False, True] (abs_of (snd ?init)) (abs_of (snd ?run))" by blast
  then show ?thesis by (intro exI [of _ "snd ?init"] exI [of _ "snd ?run"] conjI init run pools)
qed

end
