(* ===== verification/Workload_Props.thy ===== *)
theory Workload_Props
  imports Workload_Tasks Manager_Table
begin

text \<open>
  Properties of the workload tasks: the snapshot thrasher against an abstract machine of the live
  snapshots, and the pools of the rados workload.
\<close>

section \<open>The abstract snapshot thrasher\<close>

text \<open>The state is the number of rounds and the live snapshots. At \<open>lo\<close> snapshots or fewer one is added,
  at \<open>hi\<close> or more one is removed, in between it is one or the other.\<close>

inductive snap_step :: "int \<Rightarrow> int \<Rightarrow> int \<times> int list \<Rightarrow> int \<times> int list \<Rightarrow> bool" for lo hi where
  add: "int (length xs) \<le> lo \<or> int (length xs) < hi \<Longrightarrow> snap_step lo hi (i, xs) (i + 1, xs @ [i + 1])"
| remove: "lo < int (length xs) \<Longrightarrow> x \<in> set xs \<Longrightarrow> snap_step lo hi (i, xs) (i + 1, remove1 x xs)"

inductive_cases snap_stepE: "snap_step lo hi st st'"

abbreviation "snap_reach lo hi \<equiv> (snap_step lo hi)\<^sup>*\<^sup>* (0, [])"

definition snap_inv :: "int \<Rightarrow> int \<Rightarrow> int \<times> int list \<Rightarrow> bool" where
  "snap_inv lo hi = (\<lambda>(i, xs). 0 \<le> i \<and> distinct xs \<and> set xs \<subseteq> {1..i} \<and> int (length xs) \<le> max 0 (max (lo + 1) hi) \<and>
     (int (length xs) < lo \<longrightarrow> int (length xs) = i))"

lemma snap_inv_step: "snap_step lo hi st st' \<Longrightarrow> snap_inv lo hi st \<Longrightarrow> snap_inv lo hi st'"
proof (induction rule: snap_step.induct)
  case (add xs i)
  then show ?case by (auto simp: snap_inv_def)
next
  case (remove xs x i)
  have "set (remove1 x xs) \<subseteq> set xs" by (rule set_remove1_subset)
  moreover have "int (length (remove1 x xs)) = int (length xs) - 1"
  proof -
    have "1 \<le> length xs" using length_pos_if_in_set [OF remove.hyps(2)] by linarith
    then show ?thesis using remove.hyps(2) by (simp only: length_remove1 if_True of_nat_diff of_nat_1)
  qed
  ultimately show ?case using remove by (auto simp: snap_inv_def)
qed

lemma snap_reach_inv: "snap_reach lo hi st \<Longrightarrow> snap_inv lo hi st"
proof (induction rule: rtranclp_induct)
  case base
  then show ?case by (simp add: snap_inv_def)
qed (rule snap_inv_step)

section \<open>Snapshots read off the trace\<close>

text \<open>Whether a command makes or removes a snapshot, of which pool, and its name.\<close>

definition snap_of :: "event \<Rightarrow> (bool \<times> string \<times> string) option" where
  "snap_of e = (case e of Run _ args _ \<Rightarrow> (case rev args of
       name # pool # verb # obj # cls # _ \<Rightarrow>
         if obj = ''pool'' \<and> cls = ''osd'' \<and> (verb = ''mksnap'' \<or> verb = ''rmsnap'')
         then Some (verb = ''mksnap'', pool, name) else None
     | _ \<Rightarrow> None) | _ \<Rightarrow> None)"

definition live_step :: "string \<Rightarrow> event \<Rightarrow> string list \<Rightarrow> string list" where
  "live_step pool e xs = (case snap_of e of
       Some (mk, p, name) \<Rightarrow> if p \<noteq> pool then xs else if mk then xs @ [name] else remove1 name xs
     | None \<Rightarrow> xs)"

definition live_snaps :: "string \<Rightarrow> event list \<Rightarrow> string list" where
  "live_snaps pool t = fold (live_step pool) t []"

lemma live_snoc: "live_snaps pool (t @ [e]) = live_step pool e (live_snaps pool t)"
  by (simp add: live_snaps_def)

lemma live_step_simps [simp]:
  "live_step pool (Run h (pre @ [''osd'', ''pool'', ''mksnap'', p, name]) b) xs = (if p = pool then xs @ [name] else xs)"
  "live_step pool (Run h (pre @ [''osd'', ''pool'', ''rmsnap'', p, name]) b) xs = (if p = pool then remove1 name xs else xs)"
  "live_step pool (Sleep q) xs = xs"
  "live_step pool RandomBits xs = xs"
  "live_step pool (PollStop f) xs = xs"
  by (simp_all add: live_step_def snap_of_def)

lemma live_pool_snap:
  "add_pool_snap p name E s = (Ok (), s') \<Longrightarrow>
   \<forall>q. live_snaps q (trace s') = (if q = p then live_snaps q (trace s) @ [name] else live_snaps q (trace s))"
  "remove_pool_snap p name E s = (Ok (), s') \<Longrightarrow>
   \<forall>q. live_snaps q (trace s') = (if q = p then remove1 name (live_snaps q (trace s)) else live_snaps q (trace s))"
  by (auto simp: add_pool_snap_def remove_pool_snap_def bind_Ok exec_basic live_snoc dest!: raw_cluster_cmd_Ok)

text \<open>A loop over pools each step of which changes the snapshots of one.\<close>

lemma for_each_live:
  assumes "\<And>p s s'. f p E s = (Ok (), s') \<Longrightarrow>
      \<forall>q. live_snaps q (trace s') = (if q = p then g (live_snaps q (trace s)) else live_snaps q (trace s))"
    and "for_each ps f E s = (Ok (), s')" and "distinct ps"
  shows "live_snaps q (trace s') = (if q \<in> set ps then g (live_snaps q (trace s)) else live_snaps q (trace s))"
  using assms(2,3)
proof (induction ps arbitrary: s)
  case (Cons p ps)
  then obtain u where "f p E s = (Ok (), u)" "for_each ps f E u = (Ok (), s')" by (auto simp: bind_Ok)
  then show ?case using assms(1) [of p s u] Cons.IH [of u] Cons.prems(2) by auto
qed (simp add: exec_simps)

definition agree :: "string list \<Rightarrow> int list \<Rightarrow> 'z sys_scheme \<Rightarrow> bool" where
  "agree ps snaps s \<longleftrightarrow> (\<forall>p \<in> set ps. live_snaps p (trace s) = map str_int snaps)"

lemma add_snap_agrees:
  assumes "add_snap ps snaps n E s = (Ok snaps', s')" and "distinct ps" and "agree ps snaps s"
  shows "snaps' = snaps @ [n] \<and> agree ps snaps' s'"
proof -
  from assms(1) have "for_each ps (\<lambda>pool. add_pool_snap pool (str_int n)) E s = (Ok (), s')" "snaps' = snaps @ [n]"
    by (auto simp: add_snap_def bind_Ok exec_basic)
  with for_each_live [where g = "\<lambda>xs. xs @ [str_int n]", OF live_pool_snap(1) this(1) assms(2)] assms(3)
  show ?thesis by (auto simp: agree_def)
qed

lemma remove1_map_inj: "inj f \<Longrightarrow> remove1 (f x) (map f xs) = map f (remove1 x xs)"
  by (induction xs) (auto dest: injD)

lemma remove_snap_agrees:
  assumes "remove_snap ps snaps E s = (Ok snaps', s')" and "distinct ps" and "agree ps snaps s"
  shows "\<exists>x \<in> set snaps. snaps' = remove1 x snaps \<and> agree ps snaps' s'"
proof -
  from assms(1) obtain x u where x: "random_choice snaps E s = (Ok x, u)"
    and run: "for_each ps (\<lambda>pool. remove_pool_snap pool (str_int x)) E u = (Ok (), s')" "snaps' = remove1 x snaps"
    by (auto simp: remove_snap_def bind_Ok exec_basic exec_py_assert split: if_splits)
  have "trace u = trace s @ [RandomBits]"
    using x by (auto simp: random_choice_def random_below_def random_bits_def exec_simps split: if_splits)
  then have "agree ps snaps u" using assms(3) by (simp add: agree_def live_snoc)
  moreover have "inj str_int" by (simp add: inj_on_def)
  ultimately have "agree ps snaps' s'"
    using for_each_live [where g = "remove1 (str_int x)", OF live_pool_snap(2) run(1) assms(2)] run(2)
    by (auto simp: agree_def remove1_map_inj)
  then show ?thesis using random_choice_member [OF x] run(2) by blast
qed

section \<open>The simulation\<close>

lemma snap_round_step:
  assumes "snap_round config ps (i, snaps) E s = (Ok (i', snaps'), s')"
    and "dict_get config ''min_snaps'' (VInt 5) = VInt lo" "dict_get config ''max_snaps'' (VInt 10) = VInt hi"
    and "distinct ps" "agree ps snaps s"
  shows "snap_step lo hi (i, snaps) (i', snaps') \<and> agree ps snaps' s'"
proof -
  let ?n = "int (length snaps)"
  have cmp: "value_less_num (VInt lo) (of_nat (length snaps)) \<longleftrightarrow> lo < ?n"
    "value_le_num (VInt hi) (of_nat (length snaps)) \<longleftrightarrow> hi \<le> ?n"
    using num_cmp_VInt(1) [of lo ?n] num_cmp_VInt(3) [of hi ?n] by simp_all
  let ?act = "if \<not> lo < ?n then add_snap ps snaps (i + 1)
     else if hi \<le> ?n then remove_snap ps snaps
     else bind (random_choice [True, False]) (\<lambda>add. if add then add_snap ps snaps (i + 1) else remove_snap ps snaps)"
  from assms(1) obtain a t where t: "sleep_value (dict_get config ''period'' (VInt 30)) E s = (Ok a, t)"
    and run: "?act E t = (Ok snaps', s')" and i': "i' = i + 1"
    by (auto simp only: snap_round_def bind_Ok exec_basic Let_def assms(2,3) cmp prod.case res.inject prod.inject)
  have "agree ps snaps t"
    using t assms(5) by (auto simp: sleep_value_def sleep_def as_num_def exec_simps agree_def live_snoc split: option.splits if_splits)
  have added: ?thesis if "add_snap ps snaps (i + 1) E u = (Ok snaps', s')" "agree ps snaps u" "?n \<le> lo \<or> ?n < hi" for u
    using add_snap_agrees [OF that(1) assms(4) that(2)] that(3) i' by (auto simp: snap_step.add)
  have removed: ?thesis if "remove_snap ps snaps E u = (Ok snaps', s')" "agree ps snaps u" "lo < ?n" for u
    using remove_snap_agrees [OF that(1) assms(4) that(2)] that(3) i' by (auto intro: snap_step.remove)
  show ?thesis
  proof (cases "lo < ?n \<and> ?n < hi")
    case False
    then show ?thesis
      using run \<open>agree ps snaps t\<close> added [of t] removed [of t] by (cases "lo < ?n") (simp_all add: not_less)
  next
    case True
    then obtain add u where u: "random_choice [True, False] E t = (Ok add, u)"
      "(if add then add_snap ps snaps (i + 1) else remove_snap ps snaps) E u = (Ok snaps', s')"
      using run by (auto simp only: bind_Ok if_True if_False simp_thms not_le [symmetric])
    from u(1) have "trace u = trace t @ [RandomBits]"
      by (auto simp: random_choice_def random_below_def random_bits_def exec_simps split: if_splits)
    then have "agree ps snaps u" using \<open>agree ps snaps t\<close> by (simp add: agree_def live_snoc)
    then show ?thesis using u(2) True added [of u] removed [of u] by (cases add) simp_all
  qed
qed

text \<open>C33: The snapshot thrasher refines the abstract machine: when it returns, the snapshots that are live on
  each of its pools, read off the commands it has sent, are the ones of an abstract run of as many
  steps as it made rounds; so there are never two of one name, and never more than the larger of
  \<open>max_snaps\<close> and one more than \<open>min_snaps\<close>.\<close>

theorem snap_do_thrash_refines:
  assumes "snap_do_thrash config E s = (Ok (n, snaps), s')"
    and "map_of config ''pools'' = Some (VList (map VStr ps))" "distinct ps"
    and "dict_get config ''min_snaps'' (VInt 5) = VInt lo" "dict_get config ''max_snaps'' (VInt 10) = VInt hi"
    and "\<forall>p \<in> set ps. live_snaps p (trace s) = []"
  shows "snap_reach lo hi (n, snaps) \<and> (\<forall>p \<in> set ps. live_snaps p (trace s') = map str_int snaps) \<and>
    distinct snaps \<and> set snaps \<subseteq> {1..n} \<and> int (length snaps) \<le> max 0 (max (lo + 1) hi)"
proof -
  let ?body = "\<lambda>st. bind (poll_stop ''thrash_pool_snaps'') (\<lambda>stopping.
    if stopping then ret (Inr st) else bind (snap_round config ps st) (\<lambda>st'. ret (Inl st')))"
  let ?I = "\<lambda>st t. snap_reach lo hi st \<and> agree ps (snd st) t"
  have names: "map_m cmd_arg (map VStr ps) E t = (Ok ps, t)" for t
    by (induction ps) (auto simp: exec_simps cmd_arg_def)
  have pools: "as_list (dict_get config ''pools'' (VList [])) E t = (Ok (map VStr ps), t)" for t
    using assms(2) by (simp add: dict_get_def as_list_def exec_simps)
  have run: "loop ?body (0, []) E s = (Ok (n, snaps), s')"
    using assms(1) by (simp only: snap_do_thrash_def exec_bind pools names prod.case res.case)
  have "post (loop ?body (0, [])) E s (\<lambda>r t. \<forall>st. r = Ok st \<longrightarrow> ?I st t)"
    unfolding post_loop
  proof (rule post_loop_n [where I = ?I], goal_cases)
    case 1
    show ?case using assms(6) by (simp add: agree_def)
  next
    case (2 st t)
    obtain i xs where st: "st = (i, xs)" by (cases st)
    let ?t = "t\<lparr>trace := trace t @ [PollStop ''thrash_pool_snaps'']\<rparr>"
    have ag: "agree ps xs ?t" using 2 by (simp add: st agree_def live_snoc)
    have step: "?I st' u" if "snap_round config ps st E ?t = (Ok st', u)" for st' u
    proof -
      have "snap_step lo hi st st' \<and> agree ps (snd st') u"
        using snap_round_step [of config ps i xs E ?t "fst st'" "snd st'" u] that assms(3-5) ag by (simp add: st)
      then show ?thesis using 2 rtranclp.rtrancl_into_rtrancl [of "snap_step lo hi" "(0, [])" st st'] by simp
    qed
    have inner: "post (snap_round config ps st) E ?t (after ?I P)" if "\<And>x u. P (Raise x) u" "\<And>u. P NoFuel u" for P
    proof (rule postI)
      fix r u
      assume "snap_round config ps st E ?t = (r, u)"
      then show "after ?I P r u" using step that by (cases r) (simp_all add: after_def)
    qed
    have "agree ps (snd st) ?t" using ag by (simp add: st)
    with 2 have stop: "?I st ?t" by simp
    show ?case
      unfolding poll_stop_def post_bind post_external after_simps post_if post_basic sum.case
      by (rule if_split [THEN iffD2], intro conjI impI allI, use stop in simp, use stop in simp, rule inner)
        (simp_all only: after_simps res.distinct simp_thms)
  qed simp
  then have "\<forall>st. Ok (n, snaps) = Ok st \<longrightarrow> ?I st s'" using run by (rule postD)
  then have ok: "?I (n, snaps) s'" by blast
  then have "snap_inv lo hi (n, snaps)" by (intro snap_reach_inv) (rule conjunct1)
  with ok show ?thesis unfolding snap_inv_def agree_def prod.case snd_conv by blast
qed

text \<open>A run of four rounds on two pools that may have one or two snapshots.\<close>

definition snap_env :: env where
  "snap_env = (sample_env [])\<lparr>env_stop := \<lambda>t. 5 \<le> length (filter (\<lambda>e. case e of PollStop _ \<Rightarrow> True | _ \<Rightarrow> False) t)\<rparr>"

definition snap_config :: dict where
  "snap_config = [(''pools'', VList [VStr ''a'', VStr ''b'']), (''min_snaps'', VInt 1), (''max_snaps'', VInt 2)]"

theorem snap_do_thrash_refines_witness:
  "\<exists>s'. snap_do_thrash snap_config snap_env sample_mgr = (Ok (4, [2, 4]), s') \<and> snap_reach 1 2 (4, [2, 4]) \<and>
     (\<forall>p \<in> {''a'', ''b''}. live_snaps p (trace s') = [''2'', ''4''])"
proof -
  let ?run = "snap_do_thrash snap_config snap_env sample_mgr"
  have "fst ?run = Ok (4, [2, 4])" by code_simp
  then have run: "?run = (Ok (4, [2, 4]), snd ?run)" by (rule run_eq)
  have empty: "\<forall>p \<in> set [''a'', ''b'']. live_snaps p (trace sample_mgr) = []"
    by (simp add: sample_mgr_def live_snaps_def)
  have "str_int 2 = ''2''" "str_int 4 = ''4''" by code_simp+
  with snap_do_thrash_refines [OF run, of "[''a'', ''b'']" 1 2] empty run show ?thesis
    by (intro exI [of _ "snd ?run"]) (simp add: snap_config_def dict_get_def)
qed

section \<open>The pools of the rados workload\<close>

text \<open>The table is the one at the start with the pools that were created since, each new, at its end.\<close>

definition with_created :: "(string \<times> int) list \<Rightarrow> string list \<Rightarrow> 'z manager_scheme \<Rightarrow> bool" where
  "with_created ps created s \<longleftrightarrow> pools s = ps @ map (\<lambda>n. (n, 16)) created \<and> distinct created \<and> fst ` set ps \<inter> set created = {}"

lemma io_pools: "keeps io_rel m \<Longrightarrow> m E s = (r, s') \<Longrightarrow> pools s' = pools s"
  by (auto dest!: keepsD simp: io_rel_def)

lemma unique_name_new:
  assumes "create_pool_with_unique_name n prof ms hacky E s = (Ok nm, s')"
  shows "nm \<notin> fst ` set (pools s)"
proof -
  let ?nm = "unique_pool_name (next_pool_id s)" and ?s = "s\<lparr>next_pool_id := next_pool_id s + 1\<rparr>"
  have "create_pool ?nm n prof ms hacky E ?s = (Ok (), s')" and "nm = ?nm"
    using assms by (auto simp: create_pool_with_unique_name_def Let_def bind_Ok exec_basic)
  with postD [OF post_create_pool this(1)] show ?thesis by auto
qed

lemma choose_pool_created:
  assumes "choose_pool config prof existing E s = (Ok (pool, existing', new), s')" and "with_created ps created s"
  shows "with_created ps (if new then created @ [pool] else created) s'"
proof (cases "\<not> truthy (dict_get config ''pool'' VNone) \<and> existing \<noteq> []")
  case True
  then show ?thesis
    using assms by (auto simp: choose_pool_def bind_Ok exec_basic cmd_arg_def split: pv.splits)
next
  case False
  then obtain u where u: "create_pool_with_unique_name 16 prof None (flag_set config ''erasure_code_use_hacky_overwrites'') E s = (Ok pool, u)"
    and fast: "(if flag_set config ''fast_read'' then bind (raw_cluster_cmd [''osd'', ''pool'', ''set'', pool, ''fast_read'', ''true'']) (\<lambda>_. ret ())
       else ret ()) E u = (Ok (), s')" and new
    using assms(1) by (auto simp: choose_pool_def bind_Ok exec_basic)
  have "pools s' = pools u" using fast by (rule io_pools [rotated]) (intro keeps_intros)
  moreover have "pools u = pools s @ [(pool, 16)]" "pool \<notin> fst ` set (pools s)"
    using unique_name_Ok [OF u] unique_name_new [OF u] by auto
  ultimately show ?thesis using assms(2) \<open>new\<close> by (auto simp: with_created_def image_Un image_image)
qed

lemma start_client_created:
  assumes "start_client config args prof role (tests, created, existing) E s = (Ok (tests', created', existing'), s')"
    and "with_created ps created s"
  shows "with_created ps created' s'"
proof -
  from assms(1) obtain r pool new v rem w e where pool: "choose_pool config prof existing E s = (Ok (pool, existing', new), v)"
    and rest: "only_remote r E v = (Ok rem, w)" "act e E w = (Ok (), s')"
    and created': "created' = (if new then created @ [pool] else created)"
    by (cases role) (auto simp: start_client_def bind_Ok exec_basic Let_def exec_py_assert split: if_splits)
  have "pools s' = pools v"
    using io_pools [OF io.keeps_io_ops(23) rest(1)] io_pools [OF io.keeps_io_ops(3) rest(2)] by simp
  then show ?thesis using choose_pool_created [OF pool assms(2)] created' by (simp add: with_created_def)
qed

lemma start_clients_created:
  "start_clients config args prof roles (tests, created, existing) E s = (Ok (tests', created', existing'), s') \<Longrightarrow>
   with_created ps created s \<Longrightarrow> with_created ps created' s'"
proof (induction roles arbitrary: tests created existing s)
  case (Cons role roles)
  then obtain t2 c2 e2 u where u: "start_client config args prof role (tests, created, existing) E s = (Ok (t2, c2, e2), u)"
    "start_clients config args prof roles (t2, c2, e2) E u = (Ok (tests', created', existing'), s')"
    by (auto simp: bind_Ok)
  show ?case by (rule Cons.IH [OF u(2) start_client_created [OF u(1) Cons.prems(2)]])
qed (simp add: exec_simps)

lemma remove_created:
  "for_each created remove_pool E s = (Ok (), s') \<Longrightarrow> with_created ps created s \<Longrightarrow> pools s' = ps"
proof (induction created arbitrary: s)
  case (Cons p created)
  then obtain u where u: "remove_pool p E s = (Ok (), u)" "for_each created remove_pool E u = (Ok (), s')"
    by (auto simp: bind_Ok)
  have "with_created ps created u"
  proof -
    from Cons.prems(2) have "filter (\<lambda>x. x \<noteq> p) created = created" "filter (\<lambda>e. fst e \<noteq> p) ps = ps"
      by (auto simp: with_created_def filter_id_conv)
    then show ?thesis
      using postD [OF post_remove_pool u(1)] Cons.prems(2) by (auto simp: with_created_def filter_map o_def)
  qed
  then show ?case by (rule Cons.IH [OF u(2)])
qed (simp add: exec_simps with_created_def)

lemma rados_run_pools:
  assumes "rados_run config args prof roles existing E s = (Ok existing', s')"
  shows "pools s' = pools s"
proof -
  from assms obtain tests created u v where
    u: "start_clients config args prof roles ([], [], existing) E s = (Ok (tests, created, existing'), u)"
    and v: "for_each tests (\<lambda>i. act (Get (''rados.'' @ i))) E u = (Ok (), v)"
    and s': "for_each created remove_pool E v = (Ok (), s')"
    by (auto simp: rados_run_def bind_Ok exec_basic)
  have "with_created (pools s) [] s" by (simp add: with_created_def)
  then have "with_created (pools s) created u" by (rule start_clients_created [OF u])
  moreover have "pools v = pools u" using v by (rule io_pools [rotated]) (intro keeps_intros)
  ultimately show ?thesis by (intro remove_created [OF s']) (simp add: with_created_def)
qed

lemma rados_runs_pools:
  "rados_runs k config args prof roles existing E s = (Ok (), s') \<Longrightarrow> pools s' = pools s"
proof (induction k arbitrary: existing s)
  case (Suc k)
  then obtain ex u where "rados_run config args prof roles existing E s = (Ok ex, u)"
    "rados_runs k config args prof roles ex E u = (Ok (), s')" by (auto simp: bind_Ok)
  then show ?case using rados_run_pools Suc.IH by metis
qed (simp add: exec_simps)

lemma value_ops_same:
  "py_int v E s = (Ok k, s') \<Longrightarrow> s' = s"
  "as_list v E s = (Ok xs, s') \<Longrightarrow> s' = s"
  by (auto simp: py_int_def as_list_def exec_simps split: pv.splits option.splits)

text \<open>C34: The rados workload leaves the table of pools as it found it: when its greenlet returns, every pool
  it created, in any of its runs and for any of its clients, has been removed from the table again,
  and no other entry has been touched.\<close>

theorem rados_thread_pools:
  assumes "rados_thread config args E s = (Ok (), s')"
  shows "pools s' = pools s"
proof -
  have prof: "keeps io_rel (rados_profile config :: ('z, string option) mgr)"
    unfolding rados_profile_def by (intro keeps_intros)
  from assms obtain name u where u: "rados_profile config E s = (Ok name, u)"
    and rest: "s' = u \<or> (\<exists>runs existing roles. rados_runs (nat runs) config args name roles existing E u = (Ok (), s'))"
    by (auto simp: rados_thread_def bind_Ok exec_basic split: if_splits dest!: value_ops_same)
  have "pools u = pools s" by (rule io_pools [OF prof u])
  then show ?thesis using rest rados_runs_pools by metis
qed

definition rados_env :: env where
  "rados_env = (sample_env [])\<lparr>env_roles := \<lambda>_. [''0'', ''1'']\<rparr>"

theorem rados_thread_pools_witness:
  "\<exists>s'. rados_thread [(''runs'', VInt 2)] [''zbkc_test_rados''] rados_env sample_mgr = (Ok (), s') \<and>
     next_pool_id s' = 4 \<and> pools s' = pools sample_mgr"
proof -
  let ?run = "rados_thread [(''runs'', VInt 2)] [''zbkc_test_rados''] rados_env sample_mgr"
  have "fst ?run = Ok ()" by code_simp
  then have run: "?run = (Ok (), snd ?run)" by (rule run_eq)
  have "next_pool_id (snd ?run) = 4" by code_simp
  with rados_thread_pools [OF run] run show ?thesis by blast
qed

end
