(* ===== verification/Thrasher_State.thy ===== *)
theory Thrasher_State
  imports Scrub
begin

text \<open>
  The class \<open>Thrasher\<close> of \<open>src/tasks/zbkc_manager.py\<close>: its state, its constructor, and the
  operations that kill, revive, mark in and mark out an osd, each of which moves the osd between
  the four lists the thrasher keeps.
\<close>

section \<open>State\<close>

record thrasher = manager +
  in_osds :: "int list"
  out_osds :: "int list"
  live_osds :: "int list"
  dead_osds :: "int list"
  thr_config :: dict
  revive_timeout :: pv
  clean_wait :: pv
  minin :: pv
  chance_move_pg :: pv
  sighup_delay :: pv
  optrack_toggle_delay :: pv
  dump_ops_enable :: pv
  noscrub_toggle_delay :: pv
  max_pgs :: pv
  use_objectstore_tool :: pv
  test_rm_past_intervals :: pv

type_synonym ('z, 'a) thr = "(env, 'z thrasher_scheme, 'a) pm"

definition cfg :: "string \<Rightarrow> pv \<Rightarrow> ('z, pv) thr" where
  "cfg key dflt = gets (\<lambda>s. dict_get (thr_config s) key dflt)"

section \<open>The constructor\<close>

fun all_hosts_have :: "string \<Rightarrow> string list \<Rightarrow> ('z, bool) thr" where
  "all_hosts_have cmd [] = ret True"
| "all_hosts_have cmd (remote # remotes) =
     bind (run_cmd remote [''type'', cmd] False) (\<lambda>proc.
     if exitstatus proc \<noteq> 0 then ret False else all_hosts_have cmd remotes)"

definition cmd_exists_on_osds :: "string \<Rightarrow> ('z, bool) thr" where
  "cmd_exists_on_osds cmd =
     bind (gets mgr_cluster) (\<lambda>cl.
     bind (asks (\<lambda>E. remdups (env_only E (env_is_type E ''osd'' cl)))) (all_hosts_have cmd))"

text \<open>\<open>v += 120\<close>\<close>

definition add_int :: "pv \<Rightarrow> int \<Rightarrow> ('z, pv) thr" where
  "add_int v k = (case v of
      VInt i \<Rightarrow> ret (VInt (i + k))
    | VBool b \<Rightarrow> ret (VInt (of_bool b + k))
    | VFloat q \<Rightarrow> ret (VFloat (q + of_int k))
    | _ \<Rightarrow> raise TypeError ''unsupported operand'')"

text \<open>\<open>v * xs\<close> for a list \<open>xs\<close>: the list repeated, which is what the maximum number of placement
  groups becomes, \<open>num_osds\<close> being the concatenation of the two lists and not its length.\<close>

definition times_list :: "pv \<Rightarrow> int list \<Rightarrow> ('z, pv) thr" where
  "times_list v xs = (case int_instance v of
      Some n \<Rightarrow> ret (VList (concat (replicate (nat n) (map VInt xs))))
    | None \<Rightarrow> raise TypeError ''can not multiply sequence'')"

definition spawn_greenlets :: "('z, unit) thr" where
  "spawn_greenlets =
     bind (spawn ''do_thrash'') (\<lambda>_.
     bind (gets (\<lambda>s. truthy (sighup_delay s))) (\<lambda>b1.
     bind (if b1 then spawn ''do_sighup'' else ret ()) (\<lambda>_.
     bind (gets (\<lambda>s. truthy (optrack_toggle_delay s))) (\<lambda>b2.
     bind (if b2 then spawn ''do_optrack_toggle'' else ret ()) (\<lambda>_.
     bind (gets (\<lambda>s. dump_ops_enable s = VStr ''true'')) (\<lambda>b3.
     bind (if b3 then spawn ''do_dump_ops'' else ret ()) (\<lambda>_.
     bind (gets (\<lambda>s. truthy (noscrub_toggle_delay s))) (\<lambda>b4.
     if b4 then spawn ''do_noscrub_toggle'' else ret ()))))))))"

text \<open>The constructor: its settings, its greenlets, and whether the offline tool can be used.\<close>

definition init_settings :: "dict \<Rightarrow> ('z, unit) thr" where
  "init_settings config =
     bind (wait_for_clean VNone) (\<lambda>_.
     bind get_osd_status (\<lambda>osd_status.
     bind (modify (\<lambda>s. s\<lparr>in_osds := st_in osd_status, live_osds := st_live osd_status,
             out_osds := st_out osd_status, dead_osds := st_dead osd_status, thr_config := config\<rparr>)) (\<lambda>_.
     bind (if truthy (dict_get config ''powercycle'' VNone)
           then add_int (dict_get config ''revive_timeout'' (VInt 150)) 120
           else ret (dict_get config ''revive_timeout'' (VInt 150))) (\<lambda>rt.
     bind (times_list (dict_get config ''max_pgs_per_pool_osd'' (VInt 1200))
             (st_in osd_status @ st_out osd_status)) (\<lambda>mp.
     bind (modify (\<lambda>s. s\<lparr>revive_timeout := rt,
             clean_wait := dict_get config ''clean_wait'' (VInt 0),
             minin := dict_get config ''min_in'' (VInt 3),
             chance_move_pg := dict_get config ''chance_move_pg'' (VFloat 1),
             sighup_delay := dict_get config ''sighup_delay'' VNone,
             optrack_toggle_delay := dict_get config ''optrack_toggle_delay'' VNone,
             dump_ops_enable := dict_get config ''dump_ops_enable'' VNone,
             noscrub_toggle_delay := dict_get config ''noscrub_toggle_delay'' VNone,
             max_pgs := mp\<rparr>)) (\<lambda>_.
     bind (try_except
             (raw_cluster_cmd [''--'', ''tell'', ''mon.*'', ''injectargs'', ''--mon-osd-down-out-interval 0''])
             is_Exception
             (\<lambda>_. raw_cluster_cmd [''--'', ''mon'', ''tell'', ''*'', ''injectargs'',
                ''--mon-osd-down-out-interval 0''])) (\<lambda>_. ret ())))))))"

definition init_tools :: "dict \<Rightarrow> ('z, unit) thr" where
  "init_tools config =
     bind (if truthy (dict_get config ''powercycle'' VNone) then ret False
           else cmd_exists_on_osds ''zbkc-objectstore-tool'') (\<lambda>avail.
     if truthy (dict_get config ''powercycle'' VNone) \<or> \<not> avail \<or>
        truthy (dict_get config ''disable_objectstore_tool_tests'' (VBool False)) then
       modify (\<lambda>s. s\<lparr>use_objectstore_tool := VBool False, test_rm_past_intervals := VBool False\<rparr>)
     else
       modify (\<lambda>s. s\<lparr>use_objectstore_tool := dict_get config ''zbkc_objectstore_tool'' (VBool True),
         test_rm_past_intervals := dict_get config ''test_rm_past_intervals'' (VBool True)\<rparr>))"

definition thrasher_init :: "dict \<Rightarrow> ('z, unit) thr" where
  "thrasher_init config =
     bind (init_settings config) (\<lambda>_.
     bind spawn_greenlets (\<lambda>_.
     init_tools config))"

section \<open>Moving an osd between the lists\<close>

text \<open>\<open>a.remove(osd)\<close> raises when the osd is not in the list; \<open>b.append(osd)\<close> follows it.\<close>

definition move_live_dead :: "int \<Rightarrow> ('z, unit) thr" where
  "move_live_dead osd =
     bind (gets live_osds) (\<lambda>l.
     if osd \<notin> set l then raise ValueError ''list.remove(x): x not in list''
     else modify (\<lambda>s. s\<lparr>live_osds := remove1 osd (live_osds s), dead_osds := dead_osds s @ [osd]\<rparr>))"

definition move_dead_live :: "int \<Rightarrow> ('z, unit) thr" where
  "move_dead_live osd =
     bind (gets dead_osds) (\<lambda>l.
     if osd \<notin> set l then raise ValueError ''list.remove(x): x not in list''
     else modify (\<lambda>s. s\<lparr>dead_osds := remove1 osd (dead_osds s), live_osds := live_osds s @ [osd]\<rparr>))"

definition move_in_out :: "int \<Rightarrow> ('z, unit) thr" where
  "move_in_out osd =
     bind (gets in_osds) (\<lambda>l.
     if osd \<notin> set l then raise ValueError ''list.remove(x): x not in list''
     else modify (\<lambda>s. s\<lparr>in_osds := remove1 osd (in_osds s), out_osds := out_osds s @ [osd]\<rparr>))"

definition move_out_in :: "int \<Rightarrow> ('z, unit) thr" where
  "move_out_in osd =
     bind (gets out_osds) (\<lambda>l.
     if osd \<notin> set l then raise ValueError ''list.remove(x): x not in list''
     else modify (\<lambda>s. s\<lparr>out_osds := remove1 osd (out_osds s), in_osds := in_osds s @ [osd]\<rparr>))"

text \<open>\<open>if osd is None: osd = random.choice(...)\<close>\<close>

definition pick_osd :: "int option \<Rightarrow> ('z thrasher_scheme \<Rightarrow> int list) \<Rightarrow> ('z, int) thr" where
  "pick_osd osd xs = (case osd of Some i \<Rightarrow> ret i | None \<Rightarrow> bind (gets xs) random_choice)"

section \<open>Marking and reviving\<close>

definition out_osd :: "int option \<Rightarrow> ('z, unit) thr" where
  "out_osd osd0 =
     bind (pick_osd osd0 in_osds) (\<lambda>osd.
     bind (mark_out_osd osd) (\<lambda>_.
     move_in_out osd))"

definition thr_revive_osd :: "int option \<Rightarrow> bool \<Rightarrow> ('z, unit) thr" where
  "thr_revive_osd osd0 skip_admin_check =
     bind (pick_osd osd0 dead_osds) (\<lambda>osd.
     bind (gets revive_timeout) (\<lambda>rt.
     bind (revive_osd osd rt skip_admin_check) (\<lambda>_.
     move_dead_live osd)))"

definition in_osd :: "int option \<Rightarrow> ('z, unit) thr" where
  "in_osd osd0 =
     bind (pick_osd osd0 out_osds) (\<lambda>osd.
     bind (gets dead_osds) (\<lambda>dead.
     if osd \<in> set dead then thr_revive_osd (Some osd) False
     else
       bind (move_out_in osd) (\<lambda>_.
       mark_in_osd osd)))"

definition thr_blackhole_kill_osd :: "int option \<Rightarrow> ('z, unit) thr" where
  "thr_blackhole_kill_osd osd0 =
     bind (pick_osd osd0 live_osds) (\<lambda>osd.
     bind (move_live_dead osd) (\<lambda>_.
     blackhole_kill_osd osd))"

text \<open>\<open>while len(self.dead_osds) > 0: self.revive_osd()\<close>, then the same with the osds that are out.\<close>

definition all_up :: "('z, unit) thr" where
  "all_up =
     bind (while_m (gets (\<lambda>s. dead_osds s \<noteq> [])) (thr_revive_osd None False)) (\<lambda>_.
     while_m (gets (\<lambda>s. out_osds s \<noteq> [])) (in_osd None))"

end
