(* ===== verification/Thrasher_Tool.thy ===== *)
theory Thrasher_Tool
  imports Thrasher_State
begin

text \<open>
  \<open>Thrasher.kill_osd\<close> and \<open>Thrasher.rm_past_intervals\<close>: killing an osd and then running the offline
  object store tool on stopped osds, which exports a placement group, removes it and imports it
  again, possibly on another osd.
\<close>

section \<open>Command lines\<close>

text \<open>\<open>os.path.join(a, b)\<close>\<close>

definition path_join :: "string \<Rightarrow> string \<Rightarrow> string" where
  "path_join a b = (if prefix ''/'' b then b else if a = [] \<or> last a = CHR ''/'' then a @ b else a @ ''/'' @ b)"

text \<open>The part of the command line before the operation. The paths still hold the field \<open>{id}\<close>.\<close>

definition tool_prefix :: "('z, string) thr" where
  "tool_prefix =
     bind get_filepath (\<lambda>FSPATH.
     let JPATH = path_join FSPATH ''journal'' in
     bind (gets mgr_cluster) (\<lambda>cl.
     bind (asks (\<lambda>E. env_conf E cl ''osd'')) (\<lambda>sec.
     bind (of_option KeyError ''osd'' sec) (\<lambda>conf_osd.
     fmt (''sudo adjust-ulimits zbkc-objectstore-tool --data-path {fpath} --journal-path {jpath} '' @
          (if dict_has conf_osd ''keyvaluestore_backend'' then ''--type keyvaluestore '' else []) @
          ''--log-file=/var/log/zbkc/objectstore_tool.'' @ [backslash] @ ''$pid.log '')
       [(''fpath'', FSPATH), (''jpath'', JPATH)]))))"

definition tool_cmd :: "string \<Rightarrow> string \<Rightarrow> (string \<times> string) list \<Rightarrow> ('z, string) thr" where
  "tool_cmd pre op args = fmt (pre @ op) args"

text \<open>\<open>proc.stdout.getvalue().split('\n')[:-1]\<close>\<close>

definition out_lines :: "proc \<Rightarrow> string list" where
  "out_lines p = butlast (split_on newline (p_stdout p))"

definition fail_with :: "string \<Rightarrow> proc \<Rightarrow> ('z, 'a) thr" where
  "fail_with msg p = raise PlainException (msg @ str_int (exitstatus p))"

definition list_pgs_cmd :: "string \<Rightarrow> int \<Rightarrow> ('z, string) thr" where
  "list_pgs_cmd pre osd = tool_cmd pre ''--op list-pgs'' [(''id'', str_int osd)]"

definition list_pgs :: "string \<Rightarrow> string \<Rightarrow> string \<Rightarrow> ('z, string list) thr" where
  "list_pgs msg remote cmd =
     bind (run_line remote cmd False) (\<lambda>p.
     if exitstatus p \<noteq> 0 then fail_with msg p else ret (out_lines p))"

section \<open>Moving a placement group\<close>

text \<open>The tool may be missing for a while during an upgrade: \<open>safe_while\<close> paces the tries.\<close>

definition wait_tool_present :: "string \<Rightarrow> ('z, unit) thr" where
  "wait_tool_present remote =
     loop (\<lambda>_. bind (flag (Proceed ''type zbkc-objectstore-tool'')) (\<lambda>go.
       if \<not> go then ret (Inr ())
       else bind (run_cmd remote [''type'', ''zbkc-objectstore-tool''] False) (\<lambda>p.
         if exitstatus p = 0 then ret (Inr ()) else ret (Inl ())))) ()"

definition export_path :: "string \<Rightarrow> int \<Rightarrow> ('z, string) thr" where
  "export_path pg osd =
     bind (asks env_testdir) (\<lambda>testdir.
     bind (gets mgr_cluster) (\<lambda>cl.
     ret (path_join (path_join testdir (cl @ ''.data'')) (''exp.'' @ pg @ ''.'' @ str_int osd))))"

text \<open>Export and remove, on the osd the group is taken from.\<close>

definition export_pg :: "string \<Rightarrow> int \<Rightarrow> string \<Rightarrow> string \<Rightarrow> string \<Rightarrow> ('z, unit) thr" where
  "export_pg exp_remote exp_osd pre pg exp_path =
     bind (tool_cmd pre ''--op export --pgid {pg} --file {file}''
             [(''id'', str_int exp_osd), (''pg'', pg), (''file'', exp_path)]) (\<lambda>cmd.
     bind (run_line exp_remote cmd True) (\<lambda>p.
     if exitstatus p \<noteq> 0 then fail_with ''zbkc-objectstore-tool: export failure with status '' p
     else
       bind (tool_cmd pre ''--op remove --pgid {pg}'' [(''id'', str_int exp_osd), (''pg'', pg)]) (\<lambda>cmd2.
       bind (run_line exp_remote cmd2 True) (\<lambda>p2.
       if exitstatus p2 \<noteq> 0 then fail_with ''zbkc-objectstore-tool: remove failure with status '' p2
       else ret ()))))"

text \<open>Where the group goes: the osd just killed, unless that one already has it.\<close>

definition import_target ::
    "string \<Rightarrow> int \<Rightarrow> string \<Rightarrow> int \<Rightarrow> string \<Rightarrow> string \<Rightarrow> string \<Rightarrow> ('z, int \<times> string) thr" where
  "import_target exp_remote exp_osd imp_remote imp_osd pre pg exp_path =
     (if exp_osd = imp_osd then ret (imp_osd, imp_remote)
      else
        bind (list_pgs_cmd pre imp_osd) (\<lambda>cmd.
        bind (list_pgs ''zbkc-objectstore-tool: imp list-pgs failure with status '' imp_remote cmd) (\<lambda>pgs.
        if pg \<notin> set pgs then
          bind (if imp_remote \<noteq> exp_remote then act (FileMove exp_remote imp_remote exp_path) else ret ()) (\<lambda>_.
          ret (imp_osd, imp_remote))
        else ret (exp_osd, exp_remote))))"

definition import_cmd :: "string \<Rightarrow> int \<Rightarrow> string \<Rightarrow> ('z, string) thr" where
  "import_cmd pre imp_osd exp_path =
     tool_cmd pre ''--op import --file {file}'' [(''id'', str_int imp_osd), (''file'', exp_path)]"

definition import_pg :: "string \<Rightarrow> string \<Rightarrow> int \<Rightarrow> string \<Rightarrow> string \<Rightarrow> ('z, unit) thr" where
  "import_pg exp_remote imp_remote imp_osd pre exp_path =
     bind (import_cmd pre imp_osd exp_path) (\<lambda>cmd.
     bind (run_line imp_remote cmd False) (\<lambda>p.
     if exitstatus p \<noteq> 10 \<and> exitstatus p \<noteq> 11 \<and> exitstatus p \<noteq> 0 then
       fail_with ''zbkc-objectstore-tool: import failure with status '' p
     else
       bind (run_line exp_remote (''rm -f '' @ exp_path) True) (\<lambda>_.
       if imp_remote \<noteq> exp_remote then
         bind (run_line imp_remote (''rm -f '' @ exp_path) True) (\<lambda>_. ret ())
       else ret ())))"

definition apply_layout :: "string \<Rightarrow> int \<Rightarrow> string \<Rightarrow> string \<Rightarrow> ('z, unit) thr" where
  "apply_layout remote osd pre pool =
     bind (fmt (''ZBKC_ARGS='' @ [CHR 0x27] @ ''--filestore-merge-threshold 1 --filestore-split-multiple 1'' @
                [CHR 0x27] @ '' sudo -E '' @ drop 5 pre @ ''--op apply-layout-settings --pool '' @ pool)
             [(''id'', str_int osd)]) (\<lambda>cmd.
     bind (run_line remote cmd False) (\<lambda>p.
     if contains (''Couldn'' @ [CHR 0x27] @ ''t find pool'') (p_stderr p) then ret ()
     else if exitstatus p \<noteq> 0 then
       fail_with ''zbkc-objectstore-tool apply-layout-settings failed with '' p
     else ret ()))"

text \<open>An older stopped osd to take the group from, when there is one and chance wants it.\<close>

definition export_source :: "int \<Rightarrow> string \<Rightarrow> ('z, int \<times> string) thr" where
  "export_source osd remote =
     bind (gets dead_osds) (\<lambda>dead.
     bind (gets chance_move_pg) (\<lambda>chance.
     bind (if 1 < length dead then bind random01 (\<lambda>x. ret (num_less_value x chance)) else ret False) (\<lambda>move.
     if move then
       bind (random_choice (butlast dead)) (\<lambda>exp_osd.
       bind (find_remote ''osd'' (str_int exp_osd)) (\<lambda>exp_remote.
       ret (exp_osd, exp_remote)))
     else ret (osd, remote))))"

definition test_tool_on :: "int \<Rightarrow> ('z, unit) thr" where
  "test_tool_on osd =
     bind (find_remote ''osd'' (str_int osd)) (\<lambda>remote.
     bind (export_source osd remote) (\<lambda>(exp_osd, exp_remote).
     bind tool_prefix (\<lambda>pre.
     bind (list_pgs_cmd pre exp_osd) (\<lambda>list_cmd.
     bind (wait_tool_present exp_remote) (\<lambda>_.
     bind (list_pgs ''zbkc-objectstore-tool: exp list-pgs failure with status '' exp_remote list_cmd) (\<lambda>pgs.
     if pgs = [] then ret ()
     else
       bind (random_choice pgs) (\<lambda>pg.
       bind (export_path pg exp_osd) (\<lambda>exp_path.
       bind (export_pg exp_remote exp_osd pre pg exp_path) (\<lambda>_.
       bind (import_target exp_remote exp_osd remote osd pre pg exp_path) (\<lambda>(imp_osd, imp_remote).
       bind (import_pg exp_remote imp_remote imp_osd pre exp_path) (\<lambda>_.
       bind list_pools (\<lambda>ps.
       for_each ps (apply_layout remote osd pre)))))))))))))"

section \<open>The operations\<close>

definition thr_kill_osd :: "int option \<Rightarrow> bool \<Rightarrow> bool \<Rightarrow> ('z, unit) thr" where
  "thr_kill_osd osd0 mark_down mark_out =
     bind (pick_osd osd0 live_osds) (\<lambda>osd.
     bind (move_live_dead osd) (\<lambda>_.
     bind (kill_osd osd) (\<lambda>_.
     bind (if mark_down then mark_down_osd osd else ret ()) (\<lambda>_.
     bind (gets in_osds) (\<lambda>ins.
     bind (if mark_out \<and> osd \<in> set ins then out_osd (Some osd) else ret ()) (\<lambda>_.
     bind (gets use_objectstore_tool) (\<lambda>use.
     if truthy use then test_tool_on osd else ret ())))))))"

definition thr_rm_past_intervals :: "int option \<Rightarrow> ('z, unit) thr" where
  "thr_rm_past_intervals osd0 =
     bind (gets test_rm_past_intervals) (\<lambda>test.
     if \<not> truthy test then ret ()
     else
       bind (pick_osd osd0 dead_osds) (\<lambda>osd.
       bind (find_remote ''osd'' (str_int osd)) (\<lambda>remote.
       bind tool_prefix (\<lambda>pre.
       bind (list_pgs_cmd pre osd) (\<lambda>list_cmd.
       bind (list_pgs ''zbkc_objectstore_tool: exp list-pgs failure with status '' remote list_cmd) (\<lambda>pgs.
       if pgs = [] then ret ()
       else
         bind (random_choice pgs) (\<lambda>pg.
         bind (tool_cmd pre ''--op rm-past-intervals --pgid {pg}'' [(''id'', str_int osd), (''pg'', pg)]) (\<lambda>cmd.
         bind (run_line remote cmd True) (\<lambda>p.
         if exitstatus p \<noteq> 0 then fail_with ''zbkc_objectstore_tool: rm-past-intervals failure with status '' p
         else ret ())))))))))"

end
