(* ===== verification/Thrasher_Actions.thy ===== *)
theory Thrasher_Actions
  imports Thrasher_Tool
begin

text \<open>
  The other actions of \<open>Thrasher\<close> (reweighting, growing pools, the pool-size, pause, backfill and
  map-discontinuity tests), the random choice among them, and the loops of its greenlets.
\<close>

section \<open>Weights and pools\<close>

text \<open>One round of the reweighting by utilization; the three choices are drawn in the order the
  dictionary display evaluates them.\<close>

definition reweight_round :: "('z, unit) thr" where
  "reweight_round =
     bind (random_choice [''0.05'', ''1.0'', ''3.0'']) (\<lambda>max_change.
     bind (random_choice [''110'', ''1000'']) (\<lambda>overage.
     bind (random_choice [''reweight-by-utilization'', ''test-reweight-by-utilization'']) (\<lambda>ty.
     bind (raw_cluster_cmd [''osd'', ty, overage, max_change]) (\<lambda>_. ret ()))))"

definition reweight_osd_or_by_util :: "int option \<Rightarrow> ('z, unit) thr" where
  "reweight_osd_or_by_util osd0 =
     bind (if osd0 \<noteq> None then ret True else random_choice [True, False]) (\<lambda>single.
     if single then
       bind (pick_osd osd0 in_osds) (\<lambda>osd.
       bind (random_uniform (1 / 10) 1) (\<lambda>val.
       bind (str_float val) (\<lambda>v.
       bind (raw_cluster_cmd [''osd'', ''reweight'', str_int osd, v]) (\<lambda>_. ret ()))))
     else for_each [0 ..< 5] (\<lambda>i::nat. reweight_round))"

definition primary_affinity :: "int option \<Rightarrow> ('z, unit) thr" where
  "primary_affinity osd0 =
     bind (pick_osd osd0 in_osds) (\<lambda>osd.
     bind random01 (\<lambda>a.
     bind (if 1 / 2 \<le> a then bind random01 (\<lambda>b. str_float b)
           else bind random01 (\<lambda>b. ret (if 1 / 2 \<le> b then ''1'' else ''0''))) (\<lambda>pa.
     bind (raw_cluster_cmd [''osd'', ''primary-affinity'', str_int osd, pa]) (\<lambda>_. ret ()))))"

definition grow_pool :: "('z, unit) thr" where
  "grow_pool =
     bind get_pool (\<lambda>pool.
     bind (cfg ''pool_grow_by'' (VInt 10)) (\<lambda>by.
     bind (gets max_pgs) (\<lambda>mx.
     expand_pool pool by mx)))"

definition fix_pgp_num :: "('z, unit) thr" where
  "fix_pgp_num = bind get_pool set_pool_pgpnum"

section \<open>Tests\<close>

text \<open>\<open>self.log("...", the_one)\<close>: the logging function takes one argument.\<close>

definition log_two_args :: "('z, unit) thr" where
  "log_two_args = raise TypeError ''<lambda>() takes exactly 1 argument (2 given)''"

definition test_pool_min_size :: "('z, unit) thr" where
  "test_pool_min_size =
     bind all_up (\<lambda>_.
     bind (cfg ''timeout'' VNone) (\<lambda>timeout.
     bind (wait_for_recovery timeout) (\<lambda>_.
     bind (gets in_osds) (\<lambda>ins.
     bind (random_choice ins) (\<lambda>the_one.
     bind log_two_args (\<lambda>_.
     let to_kill = filter (\<lambda>x. x \<noteq> the_one) ins in
     bind (for_each to_kill (\<lambda>i. thr_kill_osd (Some i) False False)) (\<lambda>_.
     bind (for_each to_kill (\<lambda>i. out_osd (Some i))) (\<lambda>_.
     bind (cfg ''test_pool_min_size_time'' (VInt 10)) (\<lambda>t.
     bind (sleep_value t) (\<lambda>_.
     bind (thr_kill_osd (Some the_one) False False) (\<lambda>_.
     bind (out_osd (Some the_one)) (\<lambda>_.
     bind (for_each to_kill (\<lambda>i. thr_revive_osd (Some i) False)) (\<lambda>_.
     bind (for_each to_kill (\<lambda>i. in_osd (Some i))) (\<lambda>_.
     wait_for_recovery timeout))))))))))))))"

definition inject_pause :: "string \<Rightarrow> pv \<Rightarrow> pv \<Rightarrow> bool \<Rightarrow> ('z, unit) thr" where
  "inject_pause conf_key duration check_after should_be_down =
     bind (gets live_osds) (\<lambda>live.
     bind (random_choice live) (\<lambda>the_one.
     bind (set_config the_one [(conf_key, duration)]) (\<lambda>_.
     if \<not> should_be_down then ret ()
     else
       bind (sleep_value check_after) (\<lambda>_.
       bind get_osd_status (\<lambda>status.
       bind (py_assert (the_one \<in> set (st_down status)) []) (\<lambda>_.
       bind (as_num duration) (\<lambda>d.
       bind (as_num check_after) (\<lambda>c.
       bind (sleep (d - c + 20)) (\<lambda>_.
       bind get_osd_status (\<lambda>status2.
       py_assert (the_one \<notin> set (st_down status2)) []))))))))))"

definition has_backfill :: "('z, bool) thr" where
  "has_backfill = bind compile_pg_status (\<lambda>status. ret (''backfill'' \<in> fst ` set status))"

fun wait_backfills :: "nat \<Rightarrow> ('z, unit) thr" where
  "wait_backfills 0 = ret ()"
| "wait_backfills (Suc n) =
     bind has_backfill (\<lambda>b. if \<not> b then ret () else bind (sleep 1) (\<lambda>_. wait_backfills n))"

definition test_backfill_full :: "('z, unit) thr" where
  "test_backfill_full =
     bind (gets live_osds) (\<lambda>live.
     bind (for_each live (\<lambda>i.
       bind (random_choice [''false'', ''true'']) (\<lambda>skip.
       set_config i [(''osd_debug_skip_full_check_in_backfill_reservation'', VStr skip),
                     (''osd_backfill_full_ratio'', VInt 0)]))) (\<lambda>_.
     bind (wait_backfills 30) (\<lambda>_.
     bind has_backfill (\<lambda>b.
     bind (py_assert (\<not> b) []) (\<lambda>_.
     bind (gets live_osds) (\<lambda>live2.
     for_each live2 (\<lambda>i.
       set_config i [(''osd_debug_skip_full_check_in_backfill_reservation'', VStr ''false''),
                     (''osd_backfill_full_ratio'', VFloat (85 / 100))])))))))"

definition test_map_discontinuity :: "('z, unit) thr" where
  "test_map_discontinuity =
     bind (while_m (bind (gets minin) (\<lambda>m. bind (as_num m) (\<lambda>q.
              gets (\<lambda>s. of_nat (length (in_osds s)) < q + 1))))
            (in_osd None)) (\<lambda>_.
     bind (cfg ''timeout'' VNone) (\<lambda>timeout.
     bind (wait_for_all_up timeout) (\<lambda>_.
     bind (sleep 20) (\<lambda>_.
     bind (wait_for_clean timeout) (\<lambda>_.
     bind (sleep 20) (\<lambda>_.
     bind (thr_kill_osd None True True) (\<lambda>_.
     bind (wait_for_clean timeout) (\<lambda>_.
     bind (cfg ''map_discontinuity_sleep_time'' (VInt 40)) (\<lambda>v.
     bind (py_int v) (\<lambda>t.
     bind (sleep (of_int t)) (\<lambda>_.
     thr_revive_osd None False)))))))))))"

section \<open>Choosing an action\<close>

text \<open>The callables \<open>choose_action\<close> can return. The pause closures hold the variable \<open>key\<close> of the
  method's frame, not the value it had when they were made.\<close>

datatype action =
    AOut | AKill | ARmPastIntervals | AIn | ARevive | APrimaryAffinity | AReweight | AGrowPool
  | AFixPgpNum | ATestPoolMinSize | ATestBackfillFull | AInjectShort | AInjectLong

definition inject_keys :: "string list" where
  "inject_keys = [''heartbeat_inject_failure'', ''filestore_inject_stall'']"

text \<open>The weighted list of actions, in the order of the source. \<open>chance_down\<close> given as an integer is
  a percentage.\<close>

definition chance_down_of :: "dict \<Rightarrow> pv" where
  "chance_down_of config = (let v = dict_get config ''chance_down'' (VFloat (4 / 10)) in
     case int_instance v of Some i \<Rightarrow> VFloat (of_int i / 100) | None \<Rightarrow> v)"

definition len_gt :: "'a list \<Rightarrow> pv \<Rightarrow> bool" where
  "len_gt xs v = value_less_num v (of_nat (length xs))"

definition action_list :: "'z thrasher_scheme \<Rightarrow> (action \<times> pv) list" where
  "action_list s =
     (let config = thr_config s;
          chance_down = chance_down_of config;
          minout = dict_get config ''min_out'' (VInt 0);
          minlive = dict_get config ''min_live'' (VInt 2);
          mindead = dict_get config ''min_dead'' (VInt 0)
      in (if len_gt (in_osds s) (minin s) then [(AOut, VFloat 1)] else []) @
         (if len_gt (live_osds s) minlive \<and> num_less_value 0 chance_down then [(AKill, chance_down)] else []) @
         (if 1 < length (dead_osds s) then [(ARmPastIntervals, VFloat 1)] else []) @
         (if len_gt (out_osds s) minout then [(AIn, VFloat (17 / 10))] else []) @
         (if len_gt (dead_osds s) mindead then [(ARevive, VFloat 1)] else []) @
         (if truthy (dict_get config ''thrash_primary_affinity'' (VBool True)) then [(APrimaryAffinity, VFloat 1)] else []) @
         [(AReweight, dict_get config ''reweight_osd'' (VFloat (1 / 2))),
          (AGrowPool, dict_get config ''chance_pgnum_grow'' (VInt 0)),
          (AFixPgpNum, dict_get config ''chance_pgpnum_fix'' (VInt 0)),
          (ATestPoolMinSize, dict_get config ''chance_test_min_size'' (VInt 0)),
          (ATestBackfillFull, dict_get config ''chance_test_backfill_full'' (VInt 0))] @
         concat (map (\<lambda>key.
           [(AInjectShort, dict_get config ''chance_inject_pause_short'' (VInt 1)),
            (AInjectLong, dict_get config ''chance_inject_pause_long'' (VInt 0))]) inject_keys))"

text \<open>Floats are modelled by exact rationals here; in floating-point arithmetic the subtractions round, and the
  walk may pass the last entry although the weights are positive.\<close>

fun pick_action :: "(action \<times> rat) list \<Rightarrow> rat \<Rightarrow> action option" where
  "pick_action [] val = None"
| "pick_action ((a, prob) # as) val = (if val < prob then Some a else pick_action as (val - prob))"

text \<open>The log line of \<open>choose_action\<close> formats its four bounds with \<open>%d\<close>, which takes numbers only.\<close>

definition log_bounds :: "('z, unit) thr" where
  "log_bounds =
     bind (gets minin) (\<lambda>a. bind (as_num a) (\<lambda>_.
     bind (cfg ''min_out'' (VInt 0)) (\<lambda>b. bind (as_num b) (\<lambda>_.
     bind (cfg ''min_live'' (VInt 2)) (\<lambda>c. bind (as_num c) (\<lambda>_.
     bind (cfg ''min_dead'' (VInt 0)) (\<lambda>d. bind (as_num d) (\<lambda>_.
     ret ()))))))))"

definition choose_action :: "('z, action option) thr" where
  "choose_action =
     bind log_bounds (\<lambda>_.
     bind (gets action_list) (\<lambda>actions.
     bind (map_m (\<lambda>(a, p). bind (as_num p) (\<lambda>q. ret (a, q))) actions) (\<lambda>weighted.
     bind (random_uniform 0 (sum_list (map snd weighted))) (\<lambda>val.
     ret (pick_action weighted val)))))"

text \<open>Calling what \<open>choose_action\<close> returned. \<open>key\<close> is read when the closure runs: the loop over the
  keys has ended by then.\<close>

fun run_action :: "action \<Rightarrow> ('z, unit) thr" where
  "run_action AOut = out_osd None"
| "run_action AKill = thr_kill_osd None False False"
| "run_action ARmPastIntervals = thr_rm_past_intervals None"
| "run_action AIn = in_osd None"
| "run_action ARevive = thr_revive_osd None False"
| "run_action APrimaryAffinity = primary_affinity None"
| "run_action AReweight = reweight_osd_or_by_util None"
| "run_action AGrowPool = grow_pool"
| "run_action AFixPgpNum = fix_pgp_num"
| "run_action ATestPoolMinSize = test_pool_min_size"
| "run_action ATestBackfillFull = test_backfill_full"
| "run_action AInjectShort =
     bind (cfg ''pause_short'' (VInt 3)) (\<lambda>d. inject_pause (last inject_keys) d (VInt 0) False)"
| "run_action AInjectLong =
     bind (cfg ''pause_long'' (VInt 80)) (\<lambda>d.
     bind (cfg ''pause_check_after'' (VInt 70)) (\<lambda>c.
     inject_pause (last inject_keys) d c True))"

definition call_action :: "action option \<Rightarrow> ('z, unit) thr" where
  "call_action a = (case a of None \<Rightarrow> raise TypeError ''NoneType object is not callable'' | Some x \<Rightarrow> run_action x)"

section \<open>Greenlets\<close>

definition not_stopping :: "('z, bool) thr" where
  "not_stopping = bind (poll_stop ''thrasher'') (\<lambda>b. ret (\<not> b))"

definition do_sighup :: "('z, unit) thr" where
  "do_sighup =
     bind (gets sighup_delay) (\<lambda>v.
     bind (py_float v) (\<lambda>delay.
     while_m not_stopping
       (bind (gets live_osds) (\<lambda>live.
        bind (random_choice live) (\<lambda>osd.
        bind (signal_osd osd 1 True) (\<lambda>_.
        sleep delay))))))"

definition do_optrack_toggle :: "('z, unit) thr" where
  "do_optrack_toggle =
     bind (gets optrack_toggle_delay) (\<lambda>v.
     bind (py_float v) (\<lambda>delay.
     loop (\<lambda>osd_state.
       bind not_stopping (\<lambda>go.
       if \<not> go then ret (Inr ())
       else
         let osd_state' = (if osd_state = ''true'' then ''false'' else ''true'') in
         bind (raw_cluster_cmd_result [''tell'', ''osd.*'', ''injectargs'',
                 ''--osd_enable_op_tracker='' @ osd_state']) (\<lambda>_.
         bind (external (Sleep delay) (\<lambda>_ _. ())) (\<lambda>_.
         ret (Inl osd_state'))))) ''true''))"

definition do_dump_ops :: "('z, unit) thr" where
  "do_dump_ops =
     while_m not_stopping
       (bind (gets live_osds) (\<lambda>live.
        bind (for_each live (\<lambda>osd.
          bind (osd_admin_socket osd [''dump_ops_in_flight''] False 30) (\<lambda>_.
          bind (osd_admin_socket osd [''dump_blocked_ops''] False 30) (\<lambda>_.
          bind (osd_admin_socket osd [''dump_historic_ops''] False 30) (\<lambda>_.
          ret ()))))) (\<lambda>_.
        external (Sleep 0) (\<lambda>_ _. ()))))"

datatype scrub_state = SNone | SNoscrub | SBoth | SNodeepScrub

definition noscrub_step :: "scrub_state \<Rightarrow> string list \<times> scrub_state" where
  "noscrub_step st = (case st of
       SNone \<Rightarrow> ([''osd'', ''set'', ''noscrub''], SNoscrub)
     | SNoscrub \<Rightarrow> ([''osd'', ''set'', ''nodeep-scrub''], SBoth)
     | SBoth \<Rightarrow> ([''osd'', ''unset'', ''noscrub''], SNodeepScrub)
     | SNodeepScrub \<Rightarrow> ([''osd'', ''unset'', ''nodeep-scrub''], SNone))"

definition do_noscrub_toggle :: "('z, unit) thr" where
  "do_noscrub_toggle =
     bind (gets noscrub_toggle_delay) (\<lambda>v.
     bind (py_float v) (\<lambda>delay.
     bind (loop (\<lambda>scrub_state.
       bind not_stopping (\<lambda>go.
       if \<not> go then ret (Inr ())
       else
         bind (raw_cluster_cmd (fst (noscrub_step scrub_state))) (\<lambda>_.
         bind (external (Sleep delay) (\<lambda>_ _. ())) (\<lambda>_.
         ret (Inl (snd (noscrub_step scrub_state))))))) SNone) (\<lambda>_.
     bind (raw_cluster_cmd [''osd'', ''unset'', ''noscrub'']) (\<lambda>_.
     bind (raw_cluster_cmd [''osd'', ''unset'', ''nodeep-scrub'']) (\<lambda>_.
     ret ())))))"

text \<open>The cleanup that a round of \<open>do_thrash\<close> starts with some probability.\<close>

definition clean_round :: "pv \<Rightarrow> pv \<Rightarrow> pv \<Rightarrow> ('z, unit) thr" where
  "clean_round maxdead delay scrubint =
     bind (while_m (gets (\<lambda>s. len_gt (dead_osds s) maxdead)) (thr_revive_osd None False)) (\<lambda>_.
     bind (gets in_osds) (\<lambda>ins.
     bind (for_each ins (\<lambda>osd.
       bind (raw_cluster_cmd [''osd'', ''reweight'', str_int osd, ''1'']) (\<lambda>_. ret ()))) (\<lambda>_.
     bind (random_uniform 0 1) (\<lambda>x.
     bind (cfg ''chance_test_map_discontinuity'' (VInt 0)) (\<lambda>v.
     bind (py_float v) (\<lambda>chance.
     bind (if x < chance then test_map_discontinuity
           else bind (cfg ''timeout'' VNone) wait_for_recovery) (\<lambda>_.
     bind (gets clean_wait) (\<lambda>w.
     bind (sleep_value w) (\<lambda>_.
     if num_less_value 0 scrubint then
       bind (random_uniform 0 1) (\<lambda>y.
       bind (py_float delay) (\<lambda>d.
       bind (as_num scrubint) (\<lambda>n.
       bind (py_div d n) (\<lambda>lim.
       if y < lim then bind scrubber_init (\<lambda>_. ret ()) else ret ()))))
     else ret ())))))))))"

definition thrash_round :: "pv \<Rightarrow> pv \<Rightarrow> pv \<Rightarrow> pv \<Rightarrow> ('z, unit) thr" where
  "thrash_round cleanint scrubint maxdead delay =
     bind (random_uniform 0 1) (\<lambda>x.
     bind (py_float delay) (\<lambda>d.
     bind (as_num cleanint) (\<lambda>ci.
     bind (py_div d ci) (\<lambda>lim.
     bind (if x < lim then clean_round maxdead delay scrubint else ret ()) (\<lambda>_.
     bind choose_action (\<lambda>a.
     bind (call_action a) (\<lambda>_.
     sleep_value delay)))))))"

definition do_thrash :: "('z, unit) thr" where
  "do_thrash =
     bind (cfg ''clean_interval'' (VInt 60)) (\<lambda>cleanint.
     bind (cfg ''scrub_interval'' (VInt (-1))) (\<lambda>scrubint.
     bind (cfg ''max_dead'' (VInt 0)) (\<lambda>maxdead.
     bind (cfg ''op_delay'' (VInt 5)) (\<lambda>delay.
     bind (while_m not_stopping (thrash_round cleanint scrubint maxdead delay)) (\<lambda>_.
     all_up)))))"

text \<open>The end of the thrashing: \<open>thread.get()\<close> raises what the greenlet raised, and the greenlets
  after it are then not waited for.\<close>

definition do_join :: "('z, unit) thr" where
  "do_join =
     bind (set_stop ''thrasher'') (\<lambda>_.
     bind (act (Get ''do_thrash'')) (\<lambda>_.
     bind (gets (\<lambda>s. truthy (sighup_delay s))) (\<lambda>b1.
     bind (if b1 then act (Get ''do_sighup'') else ret ()) (\<lambda>_.
     bind (gets (\<lambda>s. truthy (optrack_toggle_delay s))) (\<lambda>b2.
     bind (if b2 then join_greenlet ''do_optrack_toggle'' else ret ()) (\<lambda>_.
     bind (gets (\<lambda>s. dump_ops_enable s = VStr ''true'')) (\<lambda>b3.
     bind (if b3 then join_greenlet ''do_dump_ops'' else ret ()) (\<lambda>_.
     bind (gets (\<lambda>s. truthy (noscrub_toggle_delay s))) (\<lambda>b4.
     if b4 then join_greenlet ''do_noscrub_toggle'' else ret ())))))))))"

end
