(* ===== verification/Thrash_Task.thy ===== *)
theory Thrash_Task
  imports Thrasher_Actions
begin

text \<open>
  \<open>src/tasks/thrashosds.py\<close>: the task that fills in the defaults of its configuration, merges the
  overrides of the job into it, checks the consoles before power cycling, and runs the osd thrasher
  around what is inside it.
\<close>

definition set_default :: "string \<Rightarrow> pv \<Rightarrow> dict \<Rightarrow> dict" where
  "set_default key dflt config = alist_put key (dict_get config key dflt) config"

definition thrash_defaults :: "dict \<Rightarrow> dict" where
  "thrash_defaults config =
     set_default ''noscrub_toggle_delay'' (VFloat 2)
       (set_default ''dump_ops_enable'' (VStr ''true'')
         (set_default ''optrack_toggle_delay'' (VFloat 2)
           (set_default ''sighup_delay'' (VFloat (1 / 10)) config)))"

text \<open>Every host's console is asked for its status (a failure is only logged); then every host with
  an osd needs credentials for its console.\<close>

definition check_consoles :: "string \<Rightarrow> ('z, unit) thr" where
  "check_consoles cl =
     bind (act (RunAll [''sync''])) (\<lambda>_.
     bind (asks env_ipmi_user) (\<lambda>ipmi.
     if \<not> ipmi then ret ()
     else
       bind (asks (\<lambda>E. env_only E (\<lambda>_. True))) (\<lambda>remotes.
       bind (for_each remotes (\<lambda>r. bind (flag (Power (CheckStatus 0) r)) (\<lambda>_. ret ()))) (\<lambda>_.
       bind (asks (\<lambda>E. env_only E (env_is_type E ''osd'' cl))) (\<lambda>osds.
       for_each osds (\<lambda>r.
         bind (asks (\<lambda>E. env_has_ipmi E r)) (\<lambda>b.
         if b then ret ()
         else raise PlainException (''IPMI console required for powercycling, but not available on osd role: '' @ r))))))))"

text \<open>\<open>powercycle\<close> and \<open>bdev_inject_crash\<close> are handed on to the cluster manager when they are true.\<close>

definition pass_on :: "dict \<Rightarrow> string \<Rightarrow> ('z, unit) thr" where
  "pass_on config f =
     (if truthy (dict_get config f VNone) then
        modify (\<lambda>s. s\<lparr>mgr_config := alist_put f (dict_get config f VNone) (mgr_config s)\<rparr>)
      else ret ())"

definition merged_config :: "env \<Rightarrow> dict \<Rightarrow> dict" where
  "merged_config E config = env_deep_merge E (thrash_defaults config) (env_overrides E ''thrashosds'')"

text \<open>The manager of the state is the one of the configured cluster (\<open>ctx.managers[cluster]\<close>).\<close>

definition thrashosds_task :: "pv \<Rightarrow> ('z, unit) thr \<Rightarrow> ('z, unit) thr" where
  "thrashosds_task config0 body =
     bind (dict_config ''thrashosds task only accepts a dict for configuration'' config0) (\<lambda>config1.
     bind (asks (\<lambda>E. merged_config E config1)) (\<lambda>config.
     bind (py_str (dict_get config ''cluster'' (VStr ''zbkc''))) (\<lambda>cl.
     bind (if dict_has config ''powercycle'' then check_consoles cl else ret ()) (\<lambda>_.
     bind (for_each [''powercycle'', ''bdev_inject_crash''] (pass_on config)) (\<lambda>_.
     bind (thrasher_init config) (\<lambda>_.
     try_finally body
       (bind do_join (\<lambda>_.
        wait_for_recovery (dict_get config ''timeout'' (VInt 360))))))))))"

end
