(* ===== verification/Thrasher_Inv.thy ===== *)
theory Thrasher_Inv
  imports Thrasher_Actions
begin

text \<open>
  What the thrasher's operations preserve. The locale \<open>thr_step\<close> is the contract of a relation that
  every operation but marking an osd out respects; \<open>thr_full\<close> adds marking out. They are
  interpreted on the partition of the osds into the four lists, here, and on the number of osds that
  are in, in the next theory.
\<close>

section \<open>The contracts\<close>

locale thr_io = mgr_step R for R :: "'z thrasher_scheme \<Rightarrow> 'z thrasher_scheme \<Rightarrow> bool"
begin

lemma keeps_cfg [keeps_intros]: "keeps R (cfg k v)"
  unfolding cfg_def by (intro keeps_intros)

lemma keeps_pick_osd [keeps_intros]: "keeps R (pick_osd o0 f)"
  unfolding pick_osd_def by (intro keeps_intros)

lemma keeps_all_hosts_have [keeps_intros]: "keeps R (all_hosts_have c hs)"
  by (induction hs) (auto intro!: keeps_intros)

lemma keeps_tool_parts [keeps_intros]:
  "keeps R tool_prefix"
  "keeps R (tool_cmd pre op as)"
  "keeps R (list_pgs_cmd pre i)"
  "keeps R (fail_with m p :: (env, 'z thrasher_scheme, 'c) pm)"
  "keeps R (list_pgs m h c)"
  "keeps R (wait_tool_present h)"
  "keeps R (export_path pg i)"
  "keeps R (export_pg h i pre pg pth)"
  "keeps R (import_target h i h' i' pre pg pth)"
  "keeps R (import_cmd pre i pth)"
  "keeps R (import_pg h h' i pre pth)"
  "keeps R (apply_layout h i pre pl)"
  "keeps R (export_source i h)"
  unfolding tool_prefix_def tool_cmd_def list_pgs_cmd_def fail_with_def list_pgs_def
    wait_tool_present_def export_path_def export_pg_def import_target_def import_cmd_def
    import_pg_def apply_layout_def export_source_def
  by (intro keeps_intros)+

lemma keeps_tool [keeps_intros]:
  "keeps R (test_tool_on i)"
  "keeps R (thr_rm_past_intervals o0)"
  unfolding test_tool_on_def thr_rm_past_intervals_def by (intro keeps_intros)+

lemma keeps_simple_actions [keeps_intros]:
  "keeps R (reweight_osd_or_by_util o0)"
  "keeps R (primary_affinity o0)"
  "keeps R fix_pgp_num"
  "keeps R (inject_pause k v w b)"
  "keeps R has_backfill"
  unfolding reweight_osd_or_by_util_def reweight_round_def primary_affinity_def
    fix_pgp_num_def inject_pause_def has_backfill_def
  by (intro keeps_intros)+

lemma keeps_wait_backfills [keeps_intros]: "keeps R (wait_backfills n)"
  by (induction n) (auto intro!: keeps_intros)

lemma keeps_test_backfill_full [keeps_intros]: "keeps R test_backfill_full"
  unfolding test_backfill_full_def by (intro keeps_intros)

lemma keeps_choose_action [keeps_intros]: "keeps R choose_action"
  unfolding choose_action_def log_bounds_def by (intro keeps_intros)

lemma keeps_greenlets [keeps_intros]:
  "keeps R not_stopping"
  "keeps R do_sighup"
  "keeps R do_optrack_toggle"
  "keeps R do_dump_ops"
  "keeps R do_noscrub_toggle"
  "keeps R do_join"
  unfolding do_join_def not_stopping_def do_sighup_def do_optrack_toggle_def do_dump_ops_def
    do_noscrub_toggle_def
  by (intro keeps_intros)+

end

interpretation tio: thr_io "io_rel :: 'z thrasher_scheme \<Rightarrow> 'z thrasher_scheme \<Rightarrow> bool"
  by unfold_locales

locale thr_step = thr_io R + pool_step R for R :: "'z thrasher_scheme \<Rightarrow> 'z thrasher_scheme \<Rightarrow> bool" +
  assumes step_kill: "i \<in> set (live_osds s) \<Longrightarrow>
      R s (s\<lparr>live_osds := remove1 i (live_osds s), dead_osds := dead_osds s @ [i]\<rparr>)"
    and step_revive: "i \<in> set (dead_osds s) \<Longrightarrow>
      R s (s\<lparr>dead_osds := remove1 i (dead_osds s), live_osds := live_osds s @ [i]\<rparr>)"
    and step_in: "i \<in> set (out_osds s) \<Longrightarrow>
      R s (s\<lparr>out_osds := remove1 i (out_osds s), in_osds := in_osds s @ [i]\<rparr>)"
begin

lemma keeps_moves [keeps_intros]:
  "keeps R (move_live_dead i)" "keeps R (move_dead_live i)" "keeps R (move_out_in i)"
  by (auto simp: keeps_def move_live_dead_def move_dead_live_def move_out_in_def exec_simps
      step_refl step_kill step_revive step_in)

lemma keeps_revive_in [keeps_intros]:
  "keeps R (thr_revive_osd o0 b)"
  "keeps R (in_osd o0)"
  "keeps R (thr_blackhole_kill_osd o0)"
  "keeps R all_up"
  unfolding thr_revive_osd_def in_osd_def thr_blackhole_kill_osd_def all_up_def
  by (intro keeps_intros)+

text \<open>Killing without marking out, the only way the actions of the random choice kill.\<close>

lemma keeps_kill_not_out [keeps_intros]: "keeps R (thr_kill_osd o0 b False)"
  unfolding thr_kill_osd_def by simp (intro keeps_intros)

lemma keeps_grow_pool [keeps_intros]: "keeps R grow_pool"
  unfolding grow_pool_def by (intro keeps_intros)

text \<open>The pool-size test never reaches the calls that mark osds out.\<close>

lemma test_pool_min_size_prefix:
  "test_pool_min_size =
     bind all_up (\<lambda>_. bind (cfg ''timeout'' VNone) (\<lambda>timeout.
     bind (wait_for_recovery timeout) (\<lambda>_. bind (gets in_osds) (\<lambda>ins.
     bind (random_choice ins) (\<lambda>_. log_two_args)))))"
  unfolding test_pool_min_size_def log_two_args_def by simp

lemma keeps_test_pool_min_size [keeps_intros]: "keeps R test_pool_min_size"
  unfolding test_pool_min_size_prefix log_two_args_def by (intro keeps_intros)

lemma keeps_run_action: "a \<noteq> AOut \<Longrightarrow> keeps R (run_action a)"
  by (cases a) (auto intro!: keeps_intros)

end

locale thr_full = thr_step R for R :: "'z thrasher_scheme \<Rightarrow> 'z thrasher_scheme \<Rightarrow> bool" +
  assumes step_out: "i \<in> set (in_osds s) \<Longrightarrow>
      R s (s\<lparr>in_osds := remove1 i (in_osds s), out_osds := out_osds s @ [i]\<rparr>)"
begin

lemma keeps_out_osd [keeps_intros]: "keeps R (out_osd o0)"
proof -
  have "keeps R (move_in_out i)" for i
    by (auto simp: keeps_def move_in_out_def exec_simps step_refl step_out)
  then show ?thesis unfolding out_osd_def by (intro keeps_intros)
qed

lemma keeps_thr_kill_osd [keeps_intros]: "keeps R (thr_kill_osd o0 b b')"
  unfolding thr_kill_osd_def by (intro keeps_intros)

lemma keeps_test_map_discontinuity [keeps_intros]: "keeps R test_map_discontinuity"
  unfolding test_map_discontinuity_def by (intro keeps_intros)

lemma keeps_call_action [keeps_intros]: "keeps R (call_action a)"
proof -
  have "keeps R (run_action x)" for x
    by (cases "x = AOut") (auto intro: keeps_run_action keeps_out_osd)
  then show ?thesis unfolding call_action_def by (intro keeps_intros)
qed

lemma keeps_clean_round [keeps_intros]: "keeps R (clean_round v w u)"
  unfolding clean_round_def by (intro keeps_intros)

lemma keeps_thrash_round [keeps_intros]: "keeps R (thrash_round v w u x)"
  unfolding thrash_round_def by (intro keeps_intros)

lemma keeps_do_thrash [keeps_intros]: "keeps R do_thrash"
  unfolding do_thrash_def by (intro keeps_intros)

end

section \<open>The partition of the osds\<close>

text \<open>An osd is in exactly one of \<open>in_osds\<close> and \<open>out_osds\<close>, and in exactly one of \<open>live_osds\<close> and
  \<open>dead_osds\<close>: the thrasher moves osds between the lists and loses or doubles none. The
  configuration does not change.\<close>

definition placed :: "'z thrasher_scheme \<Rightarrow> int multiset" where
  "placed s = mset (in_osds s) + mset (out_osds s)"

definition running :: "'z thrasher_scheme \<Rightarrow> int multiset" where
  "running s = mset (live_osds s) + mset (dead_osds s)"

definition thr_settings :: "'z thrasher_scheme \<Rightarrow> dict \<times> pv list" where
  "thr_settings s = (thr_config s, [revive_timeout s, clean_wait s, minin s, chance_move_pg s, sighup_delay s,
     optrack_toggle_delay s, dump_ops_enable s, noscrub_toggle_delay s, max_pgs s, use_objectstore_tool s,
     test_rm_past_intervals s])"

definition osd_rel :: "'z thrasher_scheme \<Rightarrow> 'z thrasher_scheme \<Rightarrow> bool" where
  "osd_rel s s' \<longleftrightarrow> placed s' = placed s \<and> running s' = running s \<and> thr_settings s' = thr_settings s"

interpretation osd: thr_full osd_rel
  by unfold_locales (auto simp: osd_rel_def placed_def running_def thr_settings_def)

end
