(* ===== verification/Thrasher_Choice.thy ===== *)
theory Thrasher_Choice
  imports Thrasher_Inv
begin

text \<open>
  The random choice of the next action: what it can return, when it returns something, and that
  marking osds out never goes below the configured minimum.
\<close>

section \<open>The choice as a function of the random bits\<close>

fun weights :: "(action \<times> pv) list \<Rightarrow> (action \<times> rat) list option" where
  "weights [] = Some []"
| "weights ((a, p) # as) = (case num_of p of None \<Rightarrow> None
     | Some q \<Rightarrow> map_option ((#) (a, q)) (weights as))"

definition bounds_numeric :: "'z thrasher_scheme \<Rightarrow> bool" where
  "bounds_numeric s \<longleftrightarrow> list_all (\<lambda>v. num_of v \<noteq> None)
     [minin s, dict_get (thr_config s) ''min_out'' (VInt 0), dict_get (thr_config s) ''min_live'' (VInt 2),
      dict_get (thr_config s) ''min_dead'' (VInt 0)]"

lemma exec_weights:
  "map_m (\<lambda>(a, p). bind (as_num p) (\<lambda>q. ret (a, q))) as E s =
     (case weights as of None \<Rightarrow> (Raise (PyExc TypeError ''not a number''), s) | Some ws \<Rightarrow> (Ok ws, s))"
  by (induction as rule: weights.induct) (auto simp: exec_simps as_num_def split: option.split)

lemma exec_log_bounds:
  "log_bounds E s = (if bounds_numeric s then Ok () else Raise (PyExc TypeError ''not a number''), s)"
  by (auto simp: log_bounds_def bounds_numeric_def cfg_def as_num_def exec_simps split: option.split)

definition choice_value :: "env \<Rightarrow> 'z thrasher_scheme \<Rightarrow> rat" where
  "choice_value E s = of_int (env_bits E (trace s @ [RandomBits]) mod two53) / of_int two53"

lemma choice_value_unit: "0 \<le> choice_value E s" "choice_value E s < 1"
  using random_bits_unit unfolding choice_value_def by blast+

lemma exec_choose_action:
  "choose_action E s =
     (if bounds_numeric s then
        (case weights (action_list s) of
           None \<Rightarrow> (Raise (PyExc TypeError ''not a number''), s)
         | Some ws \<Rightarrow> (Ok (pick_action ws (sum_list (map snd ws) * choice_value E s)),
             s\<lparr>trace := trace s @ [RandomBits]\<rparr>))
      else (Raise (PyExc TypeError ''not a number''), s))"
  by (simp add: choose_action_def exec_simps exec_log_bounds exec_weights random_uniform_def
      random01_def random_bits_def choice_value_def split: option.split)

section \<open>Picking by weight\<close>

text \<open>The entry picked is the one whose interval of cumulated weights holds the value.\<close>

lemma pick_action_split:
  assumes "pick_action ws v = Some a"
  shows "\<exists>us q zs. ws = us @ (a, q) # zs \<and> v < sum_list (map snd us) + q \<and>
    (us \<noteq> [] \<longrightarrow> (\<exists>u. u \<in> set us) \<and> sum_list (map snd us) \<le> v)"
  using assms
proof (induction ws v rule: pick_action.induct)
  case (2 b p as v)
  show ?case
  proof (cases "v < p")
    case True
    then show ?thesis using 2 by (intro exI [of _ "[]"]) simp
  next
    case False
    then obtain us q zs where *: "as = us @ (a, q) # zs" "v - p < sum_list (map snd us) + q"
      "us \<noteq> [] \<longrightarrow> sum_list (map snd us) \<le> v - p"
      using 2 by auto
    then show ?thesis
      using False
      by (intro exI [of _ "(b, p) # us"] exI [of _ q] exI [of _ zs])
        (cases us; auto simp: algebra_simps)
  qed
qed simp

lemma weights_member: "weights as = Some ws \<Longrightarrow> (a, q) \<in> set ws \<Longrightarrow> \<exists>p. (a, p) \<in> set as \<and> num_of p = Some q"
  by (induction as arbitrary: ws rule: weights.induct) (fastforce split: option.splits)+

text \<open>The guard of each action: what \<open>choose_action\<close> has checked of the state when it returns it.\<close>

fun guard :: "action \<Rightarrow> 'z thrasher_scheme \<Rightarrow> bool" where
  "guard AOut s = len_gt (in_osds s) (minin s)"
| "guard AKill s = (len_gt (live_osds s) (dict_get (thr_config s) ''min_live'' (VInt 2)) \<and>
     num_less_value 0 (chance_down_of (thr_config s)))"
| "guard ARmPastIntervals s = (1 < length (dead_osds s))"
| "guard AIn s = len_gt (out_osds s) (dict_get (thr_config s) ''min_out'' (VInt 0))"
| "guard ARevive s = len_gt (dead_osds s) (dict_get (thr_config s) ''min_dead'' (VInt 0))"
| "guard APrimaryAffinity s = truthy (dict_get (thr_config s) ''thrash_primary_affinity'' (VBool True))"
| "guard _ s = True"

lemma action_list_guard: "(a, p) \<in> set (action_list s) \<Longrightarrow> guard a s"
  by (auto simp: action_list_def Let_def inject_keys_def split: if_splits)

lemma chosen_in_list:
  assumes "choose_action E s = (Ok (Some a), s')"
  shows "\<exists>p. (a, p) \<in> set (action_list s)"
proof -
  obtain ws v where ws: "weights (action_list s) = Some ws" "pick_action ws v = Some a"
    using assms by (auto simp: exec_choose_action split: if_splits option.splits)
  then obtain us q zs where "ws = us @ (a, q) # zs"
    using pick_action_split by blast
  then show ?thesis using weights_member [OF ws(1), of a q] by auto
qed

lemma chosen_guard: "choose_action E s = (Ok (Some a), s') \<Longrightarrow> guard a s"
  using chosen_in_list action_list_guard by blast

lemma choose_action_state: "choose_action E s = (r, s') \<Longrightarrow> \<exists>es. s' = s\<lparr>trace := trace s @ es\<rparr>"
  by (auto simp: exec_choose_action split: if_splits option.splits intro: exI [of _ "[]"])

section \<open>The minimum of osds that are in\<close>

text \<open>Having one osd in more than the minimum is kept by everything but marking out.\<close>

definition spare_in :: "int \<Rightarrow> 'z thrasher_scheme \<Rightarrow> bool" where
  "spare_in m s \<longleftrightarrow> minin s = VInt m \<and> m < int (length (in_osds s))"

definition spare_rel :: "int \<Rightarrow> 'z thrasher_scheme \<Rightarrow> 'z thrasher_scheme \<Rightarrow> bool" where
  "spare_rel m s s' \<longleftrightarrow> (spare_in m s \<longrightarrow> spare_in m s')"

interpretation spare: thr_step "spare_rel m" for m
  by unfold_locales (auto simp: spare_rel_def spare_in_def)

definition enough_in :: "int \<Rightarrow> 'z thrasher_scheme \<Rightarrow> bool" where
  "enough_in m s \<longleftrightarrow> minin s = VInt m \<and> m \<le> int (length (in_osds s))"

lemma spare_enough: "spare_in m s \<Longrightarrow> enough_in m s"
  by (simp add: spare_in_def enough_in_def)

lemma post_out_osd:
  assumes "spare_in m s"
  shows "post (out_osd o0) E s (\<lambda>r. enough_in m)"
  unfolding out_osd_def
  using assms
  by (intro post_bind_keeps [OF spare.keeps_pick_osd] post_bind_keeps [OF spare.keeps_manager_daemon(1)])
    (auto simp: move_in_out_def post_simps length_remove1 spare_rel_def spare_in_def enough_in_def)

text \<open>Killing an osd and marking it out, under the same condition.\<close>

lemma thr_kill_osd_split:
  "thr_kill_osd o0 b True =
     bind (bind (pick_osd o0 live_osds) (\<lambda>osd. bind (move_live_dead osd) (\<lambda>_. bind (kill_osd osd) (\<lambda>_.
       bind (if b then mark_down_osd osd else ret ()) (\<lambda>_. ret osd))))) (\<lambda>osd.
     bind (bind (gets in_osds) (\<lambda>ins. if osd \<in> set ins then out_osd (Some osd) else ret ())) (\<lambda>_.
     bind (gets use_objectstore_tool) (\<lambda>use. if truthy use then test_tool_on osd else ret ())))"
  by (simp add: thr_kill_osd_def bind_assoc)

lemma post_kill_out:
  assumes "spare_in m s"
  shows "post (thr_kill_osd o0 b True) E s (\<lambda>r. enough_in m)"
proof -
  have head: "keeps (spare_rel m) (bind (pick_osd o0 live_osds) (\<lambda>osd. bind (move_live_dead osd) (\<lambda>_.
      bind (kill_osd osd) (\<lambda>_. bind (if b then mark_down_osd osd else ret ()) (\<lambda>_. ret osd)))) :: ('a, int) thr)"
    by (intro keeps_intros)
  have tail: "keeps io_rel (bind (gets use_objectstore_tool)
      (\<lambda>use. if truthy use then test_tool_on osd else ret ()) :: ('a, unit) thr)" for osd
    by (intro keeps_intros)
  have mid: "post (bind (gets in_osds) (\<lambda>ins. if osd \<in> set ins then out_osd (Some osd) else ret ())) E t (\<lambda>r. enough_in m)"
    if "spare_in m t" for t :: "'a thrasher_scheme" and osd
    using that by (simp add: post_simps post_out_osd spare_enough)
  show ?thesis
    unfolding thr_kill_osd_split
  proof (rule post_bind_keeps [OF head])
    show "post (bind (bind (gets in_osds) (\<lambda>ins. if osd \<in> set ins then out_osd (Some osd) else ret ())) (\<lambda>_.
        bind (gets use_objectstore_tool) (\<lambda>use. if truthy use then test_tool_on osd else ret ()))) E t
        (\<lambda>r. enough_in m)" if "spare_rel m s t" for osd and t :: "'a thrasher_scheme"
      using that assms
      by (intro post_bindI [OF mid] post_io [OF tail]) (auto simp: spare_rel_def enough_in_def)
  qed (use assms in \<open>auto simp: spare_rel_def spare_enough\<close>)
qed

text \<open>Having the minimum in: the only operations that need an argument of their own are the two that
  mark out, which are reached only with one osd to spare.\<close>

definition enough_rel :: "int \<Rightarrow> 'z thrasher_scheme \<Rightarrow> 'z thrasher_scheme \<Rightarrow> bool" where
  "enough_rel m s s' \<longleftrightarrow> (enough_in m s \<longrightarrow> enough_in m s')"

interpretation enough: thr_step "enough_rel m" for m
  by unfold_locales (auto simp: enough_rel_def enough_in_def)

lemma keeps_enoughI:
  "(\<And>E s. enough_in m s \<Longrightarrow> post mm E s (\<lambda>r. enough_in m)) \<Longrightarrow> keeps (enough_rel m) mm"
  by (auto simp: keeps_def enough_rel_def post_def case_prod_beta)

lemma post_fill_in:
  assumes "enough_in m s"
  shows "post (while_m (bind (gets minin) (\<lambda>m. bind (as_num m) (\<lambda>q.
              gets (\<lambda>s. of_nat (length (in_osds s)) < q + 1)))) (in_osd None)) E s
           (after (\<lambda>_. spare_in m) (\<lambda>r. enough_in m))"
proof (rule post_while_m [where I = "enough_in m"])
  fix t :: "'a thrasher_scheme"
  assume t: "enough_in m t"
  have body: "post (in_osd None) E t (after (\<lambda>_. enough_in m) (after (\<lambda>_. spare_in m) (\<lambda>r. enough_in m)))"
    using t by (intro post_keeps [OF enough.keeps_revive_in(2)])
      (auto simp: enough_rel_def after_def split: res.split)
  have "spare_in m t" if "\<not> (of_nat (length (in_osds t)) :: rat) < of_int m + 1"
  proof -
    from that have "(of_int m :: rat) < of_nat (length (in_osds t))" by linarith
    then show ?thesis using t by (simp add: spare_in_def enough_in_def)
  qed
  with t show "post (bind (gets minin) (\<lambda>m. bind (as_num m) (\<lambda>q. gets (\<lambda>s. of_nat (length (in_osds s)) < q + 1)))) E t
      (after (\<lambda>go u. if go then post (in_osd None) E u (after (\<lambda>_. enough_in m) (after (\<lambda>_. spare_in m) (\<lambda>r. enough_in m)))
         else after (\<lambda>_. spare_in m) (\<lambda>r. enough_in m) (Ok ()) u) (after (\<lambda>_. spare_in m) (\<lambda>r. enough_in m)))"
    using body by (auto simp: post_simps as_num_def enough_in_def)
qed (use assms in \<open>auto simp: after_def\<close>)

lemma keeps_enough_test_map_discontinuity [keeps_intros]: "keeps (enough_rel m) test_map_discontinuity"
proof (rule keeps_enoughI)
  fix E and s :: "'a thrasher_scheme"
  assume s: "enough_in m s"
  show "post test_map_discontinuity E s (\<lambda>r. enough_in m)"
    unfolding test_map_discontinuity_def
  proof (rule post_bindI [OF post_fill_in [OF s]])
    fix u and t :: "'a thrasher_scheme"
    assume "after (\<lambda>_. spare_in m) (\<lambda>r. enough_in m) (Ok u) t"
    then have t: "spare_in m t" by (simp add: after_simps)
    have kill: "post (bind (thr_kill_osd None True True) (\<lambda>_. bind (wait_for_clean timeout) (\<lambda>_.
        bind (cfg ''map_discontinuity_sleep_time'' (VInt 40)) (\<lambda>v. bind (py_int v) (\<lambda>t.
        bind (sleep (of_int t)) (\<lambda>_. thr_revive_osd None False)))))) E w (\<lambda>r. enough_in m)"
      if "spare_in m w" for timeout and w :: "'a thrasher_scheme"
      by (rule post_bindI [OF post_kill_out [OF that]])
        (auto intro!: post_keeps [where R = "enough_rel m"] keeps_intros simp: enough_rel_def)
    show "post (bind (cfg ''timeout'' VNone) (\<lambda>timeout. bind (wait_for_all_up timeout) (\<lambda>_.
        bind (sleep 20) (\<lambda>_. bind (wait_for_clean timeout) (\<lambda>_. bind (sleep 20) (\<lambda>_.
        bind (thr_kill_osd None True True) (\<lambda>_. bind (wait_for_clean timeout) (\<lambda>_.
        bind (cfg ''map_discontinuity_sleep_time'' (VInt 40)) (\<lambda>v. bind (py_int v) (\<lambda>t.
        bind (sleep (of_int t)) (\<lambda>_. thr_revive_osd None False))))))))))) E t (\<lambda>r. enough_in m)"
      using t
      by - (((rule post_bind_keeps [where R = "spare_rel m"], (rule keeps_intros)+)+, rule kill),
          auto simp: spare_rel_def spare_enough)
  qed (use s in \<open>auto simp: after_def\<close>)
qed

lemma keeps_enough_choice [keeps_intros]: "keeps (enough_rel m) (bind choose_action call_action)"
proof (rule keeps_enoughI)
  fix E and s :: "'a thrasher_scheme"
  assume s: "enough_in m s"
  have "post (call_action a) E t (\<lambda>r. enough_in m)"
    if ch: "choose_action E s = (Ok a, t)" for a and t :: "'a thrasher_scheme"
  proof (cases "a = Some AOut")
    case True
    obtain es where t: "t = s\<lparr>trace := trace s @ es\<rparr>" using choose_action_state [OF ch] by blast
    have "guard AOut s" using chosen_guard ch True by blast
    then have "spare_in m t"
      using s t by (simp add: len_gt_def spare_in_def enough_in_def value_less_num_def)
    then show ?thesis using True post_out_osd by (simp add: call_action_def)
  next
    case False
    have "keeps (enough_rel m) (call_action a :: ('a, unit) thr)"
      using False unfolding call_action_def
      by (cases a) (auto intro!: keeps_intros enough.keeps_run_action)
    moreover have "enough_in m t" using s choose_action_state [OF ch] by (auto simp: enough_in_def)
    ultimately show ?thesis by (auto intro: post_keeps simp: enough_rel_def)
  qed
  moreover have "enough_in m t" if "choose_action E s = (r, t)" for r t
    using s choose_action_state [OF that] by (auto simp: enough_in_def)
  ultimately show "post (bind choose_action call_action) E s (\<lambda>r. enough_in m)"
    unfolding post_bind by (intro postI) (auto simp: after_def split: res.splits)
qed

lemma keeps_enough_do_thrash: "keeps (enough_rel m) do_thrash"
proof -
  have clean: "keeps (enough_rel m) (clean_round v w u)" for v w u
    unfolding clean_round_def by (intro keeps_intros)
  have "keeps (enough_rel m) (bind (bind choose_action call_action) (\<lambda>_. sleep_value v))" for v
    by (intro keeps_intros)
  then have act: "keeps (enough_rel m) (bind choose_action (\<lambda>a. bind (call_action a) (\<lambda>_. sleep_value v)))" for v
    by (simp add: bind_assoc)
  have "keeps (enough_rel m) (thrash_round v w u x)" for v w u x
    unfolding thrash_round_def
    by (rule act clean keeps_intros)+
  then show ?thesis unfolding do_thrash_def by (intro keeps_intros)
qed

end
