(* ===== verification/Thrasher_Props.thy ===== *)
theory Thrasher_Props
  imports Thrasher_Choice Manager_Table
begin

text \<open>
  The properties of the osd thrasher: the partition of the osds, the minimum that stays in, the
  random choice, the end of a run, and the tests that can not do what they are meant to do.
\<close>

section \<open>A sample thrasher\<close>

definition sample_thr :: thrasher where
  "sample_thr = \<lparr>trace = [], mgr_cluster = ''zbkc'', mgr_controller = ''host1'', mgr_config = [],
     pools = [(''rbd'', 8)], next_pool_id = 0,
     in_osds = [0, 1, 2, 3], out_osds = [], live_osds = [0, 1, 2], dead_osds = [3],
     thr_config = [], revive_timeout = VInt 150, clean_wait = VInt 0, minin = VInt 3,
     chance_move_pg = VFloat 1, sighup_delay = VNone, optrack_toggle_delay = VNone,
     dump_ops_enable = VNone, noscrub_toggle_delay = VInt 5, max_pgs = VList [],
     use_objectstore_tool = VBool False, test_rm_past_intervals = VBool False\<rparr>"

section \<open>The lists of osds\<close>

text \<open>C1: However long the thrasher runs, whatever the cluster answers and however the run ends, no osd
  is lost or doubled: the osds that are in or out, and those that are live or dead, are the ones it
  started with.\<close>

theorem do_thrash_partition:
  "let s' = snd (do_thrash E s) in
     mset (in_osds s' @ out_osds s') = mset (in_osds s @ out_osds s) \<and>
     mset (live_osds s' @ dead_osds s') = mset (live_osds s @ dead_osds s)"
  using osd.keeps_do_thrash
  by (auto simp: keeps_def osd_rel_def placed_def running_def Let_def)

text \<open>C2: The thrasher never leaves fewer osds in than the configured minimum, if it starts with that
  many: neither by marking one out nor by the map discontinuity test, and at no point at which a
  run can end.\<close>

theorem do_thrash_min_in:
  assumes "minin s = VInt m" and "m \<le> int (length (in_osds s))"
  shows "m \<le> int (length (in_osds (snd (do_thrash E s))))"
  using keeps_enough_do_thrash [of m] assms by (auto simp: keeps_def enough_rel_def enough_in_def)

theorem do_thrash_min_in_witness:
  "length (in_osds (snd (out_osd None (sample_env []) sample_thr))) = 3 \<and>
   3 \<le> int (length (in_osds (snd (do_thrash (sample_env []) sample_thr))))"
proof (rule conjI, code_simp)
qed (rule do_thrash_min_in, simp_all add: sample_thr_def)

section \<open>The choice\<close>

lemma sum_nonneg: "\<forall>p \<in> set ws. 0 \<le> snd p \<Longrightarrow> 0 \<le> sum_list (map snd ws :: rat list)"
  by (induction ws) auto

text \<open>C4: With weights that are not negative, an action is chosen only if its condition holds in the
  state, its weight is positive, and the random value lies in its share of the total weight.\<close>

theorem choose_action_sound:
  assumes "choose_action E s = (Ok (Some a), s')" and ws: "weights (action_list s) = Some ws"
    and pos: "\<forall>p \<in> set ws. 0 \<le> snd p"
  shows "\<exists>us q zs. ws = us @ (a, q) # zs \<and> guard a s \<and> 0 < q \<and>
    sum_list (map snd us) \<le> sum_list (map snd ws) * choice_value E s \<and>
    sum_list (map snd ws) * choice_value E s < sum_list (map snd us) + q"
proof -
  let ?v = "sum_list (map snd ws) * choice_value E s"
  have v: "0 \<le> ?v" using sum_nonneg [OF pos] choice_value_unit(1) by (rule mult_nonneg_nonneg)
  have "pick_action ws ?v = Some a" using assms(1) ws by (auto simp: exec_choose_action split: if_splits)
  then obtain us q zs where *: "ws = us @ (a, q) # zs" "?v < sum_list (map snd us) + q"
    "us \<noteq> [] \<longrightarrow> sum_list (map snd us) \<le> ?v"
    using pick_action_split by blast
  then have "sum_list (map snd us) \<le> ?v" using v by (cases us) auto
  then show ?thesis using * chosen_guard [OF assms(1)] by (intro exI [of _ us] exI [of _ q] exI [of _ zs]) auto
qed

definition sample_weights :: "(action \<times> rat) list" where
  "sample_weights = [(AOut, 1), (AKill, 2 / 5), (ARevive, 1), (APrimaryAffinity, 1), (AReweight, 1 / 2), (AGrowPool, 0),
     (AFixPgpNum, 0), (ATestPoolMinSize, 0), (ATestBackfillFull, 0), (AInjectShort, 1), (AInjectLong, 0),
     (AInjectShort, 1), (AInjectLong, 0)]"

lemma sample_weights: "weights (action_list sample_thr) = Some sample_weights"
  by code_simp

lemma sample_weights_nonneg: "\<forall>p \<in> set sample_weights. 0 \<le> snd p"
  by (simp add: sample_weights_def)

theorem choose_action_sound_witness:
  "\<exists>us q zs. sample_weights = us @ (AOut, q) # zs \<and> guard AOut sample_thr \<and> 0 < q \<and>
    sum_list (map snd us) \<le> sum_list (map snd sample_weights) * choice_value (sample_env []) sample_thr \<and>
    sum_list (map snd sample_weights) * choice_value (sample_env []) sample_thr < sum_list (map snd us) + q"
proof -
  have "fst (choose_action (sample_env []) sample_thr) = Ok (Some AOut)" by code_simp
  then show ?thesis by (rule choose_action_sound [OF run_eq sample_weights sample_weights_nonneg])
qed

lemma pick_action_zero: "\<forall>p \<in> set ws. snd p = 0 \<Longrightarrow> 0 \<le> v \<Longrightarrow> pick_action ws v = None"
  by (induction ws v rule: pick_action.induct) auto

text \<open>C17: When every weight is zero nothing is chosen, and the round ends with a TypeError: what
  \<open>choose_action\<close> returned is called without a test.\<close>

theorem choose_action_nothing:
  assumes "bounds_numeric s" and ws: "weights (action_list s) = Some ws" and zero: "\<forall>p \<in> set ws. snd p = 0"
  shows "fst (bind choose_action call_action E s) = Raise (PyExc TypeError ''NoneType object is not callable'')"
proof -
  have "sum_list (map snd ws) = 0" using zero by (induction ws) auto
  then have "choose_action E s = (Ok None, s\<lparr>trace := trace s @ [RandomBits]\<rparr>)"
    using assms(1) ws pick_action_zero [OF zero, of 0] by (simp add: exec_choose_action)
  then show ?thesis by (simp add: exec_simps call_action_def)
qed

text \<open>A configuration with no weight: no osd can be taken and every chance is zero.\<close>

definition idle_thr :: thrasher where
  "idle_thr = sample_thr\<lparr>in_osds := [0, 1, 2], live_osds := [0, 1, 2], dead_osds := [],
     thr_config := [(''chance_down'', VInt 0), (''thrash_primary_affinity'', VBool False), (''reweight_osd'', VInt 0),
       (''chance_inject_pause_short'', VInt 0)]\<rparr>"

theorem choose_action_nothing_witness:
  "fst (bind choose_action call_action (sample_env []) idle_thr) =
     Raise (PyExc TypeError ''NoneType object is not callable'')"
proof (rule choose_action_nothing)
  show "weights (action_list idle_thr) = Some (map (\<lambda>a. (a, 0)) [AReweight, AGrowPool, AFixPgpNum,
      ATestPoolMinSize, ATestBackfillFull, AInjectShort, AInjectLong, AInjectShort, AInjectLong])" by code_simp
  show "bounds_numeric idle_thr" by code_simp
qed simp

section \<open>The end of a run\<close>

lemma while_exit:
  assumes "while_m (gets c) b E s = (Ok (), s')"
  shows "\<not> c s'"
proof -
  have "post (while_m (gets c) b) E s (\<lambda>r s'. r = Ok () \<longrightarrow> \<not> c s')"
    by (rule post_while_m [where I = "\<lambda>_. True"]) (auto simp: post_simps after_def intro!: postI split: res.split)
  then show ?thesis using assms by (simp add: post_def)
qed

text \<open>\<open>in_osd\<close> with no dead osd leaves none dead.\<close>

definition none_dead_rel :: "'z thrasher_scheme \<Rightarrow> 'z thrasher_scheme \<Rightarrow> bool" where
  "none_dead_rel s s' \<longleftrightarrow> (dead_osds s = [] \<longrightarrow> dead_osds s' = [])"

interpretation none_dead: mgr_step "none_dead_rel :: 'z thrasher_scheme \<Rightarrow> 'z thrasher_scheme \<Rightarrow> bool"
  by unfold_locales (auto simp: none_dead_rel_def)

lemma none_dead_in_osd: "keeps none_dead_rel (in_osd o0)"
proof -
  have "keeps none_dead_rel (move_out_in i)" "keeps none_dead_rel (move_dead_live i)" for i
    by (auto simp: keeps_def none_dead_rel_def move_out_in_def move_dead_live_def exec_simps)
  then show ?thesis unfolding in_osd_def thr_revive_osd_def pick_osd_def by (intro keeps_intros)
qed

lemma all_up_Ok:
  assumes "all_up E s = (Ok (), s')"
  shows "dead_osds s' = [] \<and> out_osds s' = []"
proof -
  let ?in = "while_m (gets (\<lambda>s. out_osds s \<noteq> [])) (in_osd None)"
  obtain t where t: "while_m (gets (\<lambda>s. dead_osds s \<noteq> [])) (thr_revive_osd None False) E s = (Ok (), t)"
    and u: "?in E t = (Ok (), s')"
    using assms by (auto simp: all_up_def exec_simps split: res.splits prod.splits)
  have "keeps none_dead_rel (while_m (gets (\<lambda>s :: 'a thrasher_scheme. out_osds s \<noteq> [])) (in_osd None))"
    by (intro keeps_intros none_dead_in_osd)
  from keepsD [OF this u] show ?thesis
    using while_exit [OF t] while_exit [OF u] by (simp add: none_dead_rel_def)
qed

text \<open>C3: When the thrasher's run returns, the cluster is back as a whole: no osd is dead or out, the
  osds that are in are all the ones that were in or out at the start, and the live ones all that
  were live or dead.\<close>

theorem do_thrash_restores:
  assumes "do_thrash E s = (Ok (), s')"
  shows "dead_osds s' = [] \<and> out_osds s' = [] \<and> mset (in_osds s') = mset (in_osds s @ out_osds s) \<and>
    mset (live_osds s') = mset (live_osds s @ dead_osds s)"
proof -
  obtain t where "all_up E t = (Ok (), s')"
    using assms by (auto simp: do_thrash_def exec_simps split: res.splits prod.splits)
  note all_up_Ok [OF this]
  moreover have "osd_rel s s'" using osd.keeps_do_thrash assms by (rule keepsD)
  ultimately show ?thesis by (simp add: osd_rel_def placed_def running_def)
qed

definition thrash_env :: env where
  "thrash_env = sample_env [pg_dump_reply ''early'' ''active+clean'', status_reply]"

theorem do_thrash_restores_witness:
  "\<exists>s'. do_thrash thrash_env sample_thr = (Ok (), s') \<and> dead_osds s' = [] \<and> out_osds s' = [] \<and>
    mset (in_osds s') = mset [0, 1, 2, 3] \<and> mset (live_osds s') = mset [0, 1, 2, 3]"
proof -
  have run: "do_thrash thrash_env sample_thr = (Ok (), snd (do_thrash thrash_env sample_thr))"
    by (rule run_eq) code_simp
  show ?thesis using do_thrash_restores [OF run] run by (intro exI) (auto simp: sample_thr_def)
qed

end
