(* ===== verification/Thrash_Task_Props.thy ===== *)
theory Thrash_Task_Props
  imports Thrash_Task Pending Thrasher_Props
begin

text \<open>
  The osd thrashing task and its thrasher together: which greenlets are running, read off the trace,
  and that the task waits for all of them.
\<close>

section \<open>Greenlets that are running\<close>

definition starts :: "event \<Rightarrow> string option" where
  "starts e = (case e of Spawn f \<Rightarrow> Some f | _ \<Rightarrow> None)"

definition waits :: "event \<Rightarrow> string option" where
  "waits e = (case e of Get f \<Rightarrow> Some f | Join f \<Rightarrow> Some f | _ \<Rightarrow> None)"

definition running :: "event list \<Rightarrow> string list" where
  "running t = pending starts waits t"

definition idle :: "event \<Rightarrow> bool" where
  "idle e \<longleftrightarrow> starts e = None \<and> waits e = None"

lemma idle_simps [simp]:
  "idle (Run h as b)" "idle (RunLine h l b)" "idle (RunAll as)" "idle (Sleep q)" "idle Now" "idle RandomBits"
  "idle (Power p h)" "idle (DaemonList r c)" "idle (SetStop f)"
  by (simp_all add: idle_def starts_def waits_def)

lemma running_snoc:
  "idle e \<Longrightarrow> running (t @ [e]) = running t"
  "running (t @ [Spawn f]) = List.insert f (running t)"
  "running (t @ [Get f]) = removeAll f (running t)"
  "running (t @ [Join f]) = removeAll f (running t)"
  by (simp_all add: running_def pending_snoc pending_step_def idle_def starts_def waits_def)

lemma running_idle: "sent_rel idle s s' \<Longrightarrow> running (trace s') = running (trace s)"
proof -
  have "running (t @ es) = running t" if "list_all idle es" for t es
    using that
  proof (induction es rule: rev_induct)
    case (snoc e es)
    then show ?case using running_snoc(1) [of e "t @ es"] by simp
  qed simp
  then show "sent_rel idle s s' \<Longrightarrow> running (trace s') = running (trace s)" by (auto simp: sent_rel_def)
qed

section \<open>Operations that start and wait for nothing\<close>

lemma sent_count_pgs [keeps_intros]: "keeps (sent_rel Q) (count_pgs P pgs)"
  by (induction pgs) (auto simp: pg_state_def intro!: keeps_intros)

lemma sent_pg_counters [keeps_intros]:
  "keeps (sent_rel idle) get_num_active_clean"
  "keeps (sent_rel idle) get_num_active_recovered"
  "keeps (sent_rel idle) get_num_pgs"
  "keeps (sent_rel idle) get_is_making_recovery_progress"
  "keeps (sent_rel idle) (check_timeout v msg q)"
  unfolding get_num_active_clean_def get_num_active_recovered_def get_pg_stats_def get_num_pgs_def raw_cluster_status_def
    get_is_making_recovery_progress_def check_timeout_def dump_and_assert_def
  by (intro keeps_intros; simp)+

lemma sent_wait_pgs [keeps_intros]:
  "keeps (sent_rel idle) (wait_for_clean v)"
  "keeps (sent_rel idle) (wait_for_recovery v)"
  unfolding wait_for_clean_def wait_for_recovery_def wait_progress_def wait_progress_body_def is_clean_def is_recovered_def all_pgs_def
  by (intro keeps_intros; simp)+

lemma sent_get_osd_status [keeps_intros]: "keeps (sent_rel idle) get_osd_status"
  unfolding get_osd_status_def raw_osd_status_def osds_with_def line_osd_def daemon_osds_def
  by (intro keeps_intros; simp)

lemma sent_all_hosts_have [keeps_intros]: "keeps (sent_rel idle) (all_hosts_have c hs)"
  by (induction hs) (auto intro!: keeps_intros)

lemma sent_init_parts [keeps_intros]:
  "keeps (sent_rel idle) (cmd_exists_on_osds c)"
  "keeps (sent_rel idle) (add_int v k)"
  "keeps (sent_rel idle) (times_list v xs)"
proof -
  show "keeps (sent_rel idle) (cmd_exists_on_osds c)" unfolding cmd_exists_on_osds_def by (intro keeps_intros)
  show "keeps (sent_rel idle) (add_int v k)" by (cases v) (auto simp: add_int_def intro: keeps_intros)
  show "keeps (sent_rel idle) (times_list v xs)" by (auto simp: times_list_def intro: keeps_intros split: option.split)
qed

lemma sent_check_consoles [keeps_intros]: "keeps (sent_rel idle) (check_consoles cl)"
  unfolding check_consoles_def by (intro keeps_intros; simp)

section \<open>Starting and joining\<close>

text \<open>The greenlets the settings of a thrasher ask for.\<close>

definition greenlets :: "'z thrasher_scheme \<Rightarrow> string list" where
  "greenlets s = ''do_thrash'' # (if truthy (sighup_delay s) then [''do_sighup''] else []) @
     (if truthy (optrack_toggle_delay s) then [''do_optrack_toggle''] else []) @
     (if dump_ops_enable s = VStr ''true'' then [''do_dump_ops''] else []) @
     (if truthy (noscrub_toggle_delay s) then [''do_noscrub_toggle''] else [])"

lemma greenlets_trace [simp]: "greenlets (s\<lparr>trace := t\<rparr>) = greenlets s"
  by (simp add: greenlets_def)

lemma running_spawns: "set (running (t @ map Spawn fs)) = set (running t) \<union> set fs"
proof (induction fs rule: rev_induct)
  case (snoc f fs)
  then show ?case using running_snoc(2) [of "t @ map Spawn fs" f] by (auto simp: set_insert)
qed simp

lemma maybe_spawn:
  "(if b then spawn f else ret ()) E s = (Ok (), s\<lparr>trace := trace s @ map Spawn (if b then [f] else [])\<rparr>)"
  by (simp add: spawn_def exec_simps)

lemma spawn_greenlets_Ok:
  "spawn_greenlets E s = (Ok (), s\<lparr>trace := trace s @ map Spawn (greenlets s)\<rparr>)"
proof -
  have "spawn f E t = (Ok (), t\<lparr>trace := trace t @ [Spawn f]\<rparr>)" for f and t :: "'a thrasher_scheme"
    by (simp add: spawn_def exec_simps)
  then show ?thesis unfolding spawn_greenlets_def by (simp add: exec_bind exec_basic maybe_spawn greenlets_def)
qed

text \<open>What waiting for greenlets does to the ones that are running.\<close>

definition waited :: "string list \<Rightarrow> 'z thrasher_scheme \<Rightarrow> 'z thrasher_scheme \<Rightarrow> bool" where
  "waited fs s s' \<longleftrightarrow> (\<exists>es. s' = s\<lparr>trace := trace s @ es\<rparr>) \<and> set (running (trace s')) = set (running (trace s)) - set fs"

lemma waited_trans: "waited fs s t \<Longrightarrow> waited gs t u \<Longrightarrow> waited (fs @ gs) s u"
  by (auto simp: waited_def)

lemma waited_settings:
  "waited fs s t \<Longrightarrow> sighup_delay t = sighup_delay s"
  "waited fs s t \<Longrightarrow> optrack_toggle_delay t = optrack_toggle_delay s"
  "waited fs s t \<Longrightarrow> dump_ops_enable t = dump_ops_enable s"
  "waited fs s t \<Longrightarrow> noscrub_toggle_delay t = noscrub_toggle_delay s"
  by (auto simp: waited_def)

lemma wait_one:
  "act (Get f) E s = (Ok (), s') \<Longrightarrow> waited [f] s s'"
  "join_greenlet f E s = (Ok (), s') \<Longrightarrow> waited [f] s s'"
  by (auto simp: waited_def act_def join_greenlet_def exec_simps running_snoc split: option.splits)

lemma wait_maybe:
  "(if b then act (Get f) else ret ()) E s = (Ok (), s') \<Longrightarrow> waited (if b then [f] else []) s s'"
  "(if b then join_greenlet f else ret ()) E s = (Ok (), s') \<Longrightarrow> waited (if b then [f] else []) s s'"
  by (cases b; simp add: wait_one exec_simps; auto simp: waited_def intro: exI [of _ "[]"])+

lemma bind_gets: "bind (gets f) k E s = k (f s) E s"
  by (simp add: exec_simps)

lemma do_join_waits:
  assumes "do_join E s = (Ok (), s')"
  shows "waited (greenlets s) s s'"
proof -
  let ?s0 = "s\<lparr>trace := trace s @ [SetStop ''thrasher'']\<rparr>"
  from assms obtain s1 s2 s3 s4 where run: "act (Get ''do_thrash'') E ?s0 = (Ok (), s1)"
    "(if truthy (sighup_delay s1) then act (Get ''do_sighup'') else ret ()) E s1 = (Ok (), s2)"
    "(if truthy (optrack_toggle_delay s2) then join_greenlet ''do_optrack_toggle'' else ret ()) E s2 = (Ok (), s3)"
    "(if dump_ops_enable s3 = VStr ''true'' then join_greenlet ''do_dump_ops'' else ret ()) E s3 = (Ok (), s4)"
    "(if truthy (noscrub_toggle_delay s4) then join_greenlet ''do_noscrub_toggle'' else ret ()) E s4 = (Ok (), s')"
    unfolding do_join_def set_stop_def by (auto simp: bind_Ok bind_gets exec_external)
  have "waited [] s ?s0" by (auto simp: waited_def running_snoc)
  note w1 = waited_trans [OF this wait_one(1) [OF run(1)]]
  note w2 = waited_trans [OF w1 wait_maybe(1) [OF run(2)]]
  note w3 = waited_trans [OF w2 wait_maybe(2) [OF run(3)]]
  note w4 = waited_trans [OF w3 wait_maybe(2) [OF run(4)]]
  note w5 = waited_trans [OF w4 wait_maybe(2) [OF run(5)]]
  show ?thesis
    using w5 unfolding greenlets_def waited_settings(1) [OF w1] waited_settings(2) [OF w2] waited_settings(3) [OF w3]
      waited_settings(4) [OF w4] by simp
qed

text \<open>Steps that leave the running greenlets alone, and those that leave the settings alone as well.\<close>

definition same_running :: "'z thrasher_scheme \<Rightarrow> 'z thrasher_scheme \<Rightarrow> bool" where
  "same_running s s' \<longleftrightarrow> running (trace s') = running (trace s)"

definition settled :: "'z thrasher_scheme \<Rightarrow> 'z thrasher_scheme \<Rightarrow> bool" where
  "settled s s' \<longleftrightarrow> same_running s s' \<and> greenlets s' = greenlets s"

interpretation run: step_rel same_running
  by unfold_locales (auto simp: same_running_def)

interpretation set: step_rel settled
  by unfold_locales (auto simp: settled_def same_running_def)

lemma idle_settled:
  fixes m :: "('a, 'b thrasher_scheme, 'c) pm"
  shows "keeps (sent_rel idle) m \<Longrightarrow> keeps settled m"
proof (erule keeps_mono)
  fix s s' :: "'b thrasher_scheme"
  assume sent: "sent_rel idle s s'"
  then have "greenlets s' = greenlets s" by (auto simp: sent_rel_def)
  with running_idle [OF sent] show "settled s s'" by (simp add: settled_def same_running_def)
qed

lemma idle_same_running: "keeps (sent_rel idle) m \<Longrightarrow> keeps same_running m"
  by (drule idle_settled, erule keeps_mono) (simp add: settled_def)

lemma modify_same_running: "(\<And>s. trace (h s) = trace s) \<Longrightarrow> keeps same_running (modify h)"
  by (simp add: keeps_def same_running_def exec_simps)

lemma init_settings_running: "keeps same_running (init_settings config)"
  unfolding init_settings_def
  by (intro run.keeps_bind run.keeps_if run.keeps_try_except modify_same_running idle_same_running keeps_intros; simp)

lemma init_tools_settled: "keeps settled (init_tools config)"
proof -
  have "keeps settled (modify (\<lambda>s. s\<lparr>use_objectstore_tool := a, test_rm_past_intervals := b\<rparr>))" for a b
    by (simp add: keeps_def settled_def same_running_def greenlets_def exec_simps)
  moreover have "keeps settled (ret False)" "keeps settled (cmd_exists_on_osds c)" for c
    by (rule idle_settled, intro keeps_intros)+
  ultimately show ?thesis unfolding init_tools_def by (intro set.keeps_bind set.keeps_if)
qed

section \<open>The task\<close>

lemma thrasher_init_running:
  assumes "thrasher_init config E s = (Ok (), s')"
  shows "set (running (trace s')) = set (running (trace s)) \<union> set (greenlets s')"
proof -
  from assms obtain u v where u: "init_settings config E s = (Ok (), u)" and v: "spawn_greenlets E u = (Ok (), v)"
    and w: "init_tools config E v = (Ok (), s')"
    by (auto simp: thrasher_init_def bind_Ok)
  have "running (trace u) = running (trace s)"
    using keepsD [OF init_settings_running u] by (simp add: same_running_def)
  moreover have "v = u\<lparr>trace := trace u @ map Spawn (greenlets u)\<rparr>" using v by (simp add: spawn_greenlets_Ok)
  moreover have "running (trace s') = running (trace v)" "greenlets s' = greenlets v"
    using keepsD [OF init_tools_settled w] by (simp_all add: settled_def same_running_def)
  ultimately show ?thesis by (simp add: running_spawns)
qed

lemma try_finally_Ok:
  "try_finally m h E s = (Ok a, s') \<longleftrightarrow> (\<exists>t. m E s = (Ok a, t) \<and> h E t = (Ok (), s'))"
  by (auto simp: try_finally_def bind_Ok exec_basic exec_bind split: prod.splits res.splits)

text \<open>The part of the task before the constructor of the thrasher.\<close>

lemma same_running_parts:
  "keeps same_running (dict_config msg v)"
  "keeps same_running (py_str v)"
  "keeps same_running (if b then check_consoles cl else ret ())"
  "keeps same_running (for_each xs (pass_on config))"
proof -
  show "keeps same_running (dict_config msg v)" "keeps same_running (py_str v)"
    "keeps same_running (if b then check_consoles cl else ret ())"
    by (rule idle_same_running, intro keeps_intros)+
  have "keeps same_running (pass_on config x)" for x
    unfolding pass_on_def by (intro run.keeps_if modify_same_running idle_same_running keeps_intros) simp
  then show "keeps same_running (for_each xs (pass_on config))" by (rule run.keeps_for_each)
qed

text \<open>Nothing is running at the end if nothing was at the start.\<close>

definition none_left :: "'z thrasher_scheme \<Rightarrow> 'z thrasher_scheme \<Rightarrow> bool" where
  "none_left s s' \<longleftrightarrow> (running (trace s) = [] \<longrightarrow> running (trace s') = [])"

interpretation left: step_rel none_left
  by unfold_locales (auto simp: none_left_def)

lemma same_running_none_left: "keeps same_running m \<Longrightarrow> ok_keeps none_left m"
  by (rule ok_keeps_of_keeps, erule keeps_mono) (simp add: same_running_def none_left_def)

lemma thrasher_around_body:
  assumes "keeps settled body"
  shows "ok_keeps none_left (bind (thrasher_init config) (\<lambda>_. try_finally body (bind do_join (\<lambda>_. wait_for_recovery v))))"
proof (rule ok_keepsI)
  fix E s r s'
  assume "bind (thrasher_init config) (\<lambda>_. try_finally body (bind do_join (\<lambda>_. wait_for_recovery v))) E s = (Ok r, s')"
  then obtain t u w where init: "thrasher_init config E s = (Ok (), t)" and body: "body E t = (Ok r, u)"
    and join: "do_join E u = (Ok (), w)" and rec: "wait_for_recovery v E w = (Ok (), s')"
    by (auto simp: bind_Ok try_finally_Ok)
  have "running (trace u) = running (trace t)" "greenlets u = greenlets t"
    using keepsD [OF assms body] by (simp_all add: settled_def same_running_def)
  moreover have "running (trace s') = running (trace w)"
    using keepsD [OF idle_same_running [OF sent_wait_pgs(2)] rec] by (simp add: same_running_def)
  ultimately show "none_left s s'"
    using thrasher_init_running [OF init] do_join_waits [OF join] by (auto simp: none_left_def waited_def)
qed

text \<open>C35: The osd thrashing task waits for every greenlet it starts: those that the constructor of the thrasher
  starts, as the options ask for. If no greenlet was running when the task started, and the body leaves the
  greenlets and the settings of the thrasher alone, then none of them is running when the task returns. The
  greenlets that they start themselves, like the scrubber of \<open>do_thrash\<close>, are not among them.\<close>

theorem thrashosds_task_joins:
  assumes "thrashosds_task config body E s = (Ok (), s')" and "keeps settled body" and "running (trace s) = []"
  shows "running (trace s') = []"
proof -
  have asks: "keeps same_running (asks g)" for g by (rule idle_same_running, intro keeps_intros)
  have "ok_keeps none_left (thrashosds_task config body)"
    unfolding thrashosds_task_def
    by (intro left.ok_keeps_bind [OF same_running_none_left] same_running_parts asks thrasher_around_body assms(2))
  from ok_keepsD [OF this assms(1)] assms(3) show ?thesis by (simp add: none_left_def)
qed

theorem thrashosds_task_joins_witness:
  "\<exists>s'. thrashosds_task (VDict [(''timeout'', VInt 60)]) (sleep 1) thrash_env sample_thr = (Ok (), s') \<and>
     filter (\<lambda>e. starts e \<noteq> None) (trace s') = map Spawn [''do_thrash'', ''do_sighup'', ''do_optrack_toggle'', ''do_dump_ops'',
       ''do_noscrub_toggle''] \<and> running (trace s') = []"
proof -
  let ?run = "thrashosds_task (VDict [(''timeout'', VInt 60)]) (sleep 1) thrash_env sample_thr"
  have "fst ?run = Ok ()" by code_simp
  then have run: "?run = (Ok (), snd ?run)" by (rule run_eq)
  have body: "keeps settled (sleep 1)" by (rule idle_settled, intro keeps_intros) simp
  have "running (trace sample_thr) = []" by code_simp
  from thrashosds_task_joins [OF run body this] have "running (trace (snd ?run)) = []" .
  moreover have "filter (\<lambda>e. starts e \<noteq> None) (trace (snd ?run)) = map Spawn [''do_thrash'', ''do_sighup'', ''do_optrack_toggle'',
      ''do_dump_ops'', ''do_noscrub_toggle'']" by code_simp
  ultimately show ?thesis using run by blast
qed

text \<open>C36: When the thrashing greenlet has failed, joining raises what it raised and waits for nothing else:
  the other greenlets of the thrasher are told to stop and left running.\<close>

theorem do_join_gives_up:
  assumes "env_act E (trace s @ [SetStop ''thrasher'', Get ''do_thrash'']) = Some x"
  shows "\<exists>s'. do_join E s = (Raise x, s') \<and> running (trace s') = removeAll ''do_thrash'' (running (trace s))"
proof -
  have "running (trace s @ [SetStop ''thrasher'', Get ''do_thrash'']) = removeAll ''do_thrash'' (running (trace s))"
    using running_snoc(3) [of "trace s @ [SetStop ''thrasher'']" "''do_thrash''"] running_snoc(1) [of "SetStop ''thrasher''" "trace s"]
    by simp
  with assms show ?thesis by (simp add: do_join_def set_stop_def act_def exec_simps)
qed

definition failed_env :: env where
  "failed_env = thrash_env\<lparr>env_act := \<lambda>t. if last t = Get ''do_thrash'' then Some (PyExc TypeError ''NoneType object is not callable'') else None\<rparr>"

theorem do_join_gives_up_witness:
  "\<exists>s'. do_join failed_env (sample_thr\<lparr>trace := map Spawn [''do_thrash'', ''do_noscrub_toggle'']\<rparr>) =
       (Raise (PyExc TypeError ''NoneType object is not callable''), s') \<and>
     running (trace s') = [''do_noscrub_toggle'']"
proof -
  let ?s = "sample_thr\<lparr>trace := map Spawn [''do_thrash'', ''do_noscrub_toggle'']\<rparr>"
  have "env_act failed_env (trace ?s @ [SetStop ''thrasher'', Get ''do_thrash'']) =
      Some (PyExc TypeError ''NoneType object is not callable'')" by (simp add: failed_env_def)
  note do_join_gives_up [OF this]
  moreover have "removeAll ''do_thrash'' (running (trace ?s)) = [''do_noscrub_toggle'']" by code_simp
  ultimately show ?thesis by simp
qed

section \<open>The scrubber of the thrasher\<close>

lemma uniform_unit: "random_uniform 0 1 E s = (Ok y, t) \<Longrightarrow> y < 1"
  using random_bits_unit by (auto simp: random_uniform_def random01_def random_bits_def exec_simps)

lemma py_float_num: "num_of v = Some q \<Longrightarrow> py_float v E s = (Ok q, s)"
  by (cases v) (auto simp: py_float_def as_num_def exec_simps)

lemma scrubber_init_running: "scrubber_init E s = (Ok os, t) \<Longrightarrow> ''do_scrub'' \<in> set (running (trace t))"
  by (auto simp: scrubber_init_def bind_Ok exec_basic spawn_def exec_external running_snoc)

lemma do_join_events: "keeps (sent_rel (\<lambda>e. waits e \<noteq> Some ''do_scrub'')) do_join"
  unfolding do_join_def set_stop_def join_greenlet_def by (intro keeps_intros; simp add: waits_def)

lemma clean_round_tail:
  assumes "clean_round maxdead delay scrubint E s = (Ok (), t)"
  shows "\<exists>v. (if num_less_value 0 scrubint then
       bind (random_uniform 0 1) (\<lambda>y.
       bind (py_float delay) (\<lambda>d.
       bind (as_num scrubint) (\<lambda>n.
       bind (py_div d n) (\<lambda>lim.
       if y < lim then bind scrubber_init (\<lambda>_. ret ()) else ret ()))))
     else ret ()) E v = (Ok (), t)"
  using assms unfolding clean_round_def bind_Ok by (elim exE conjE) (rule exI)

text \<open>C37: The scrubber that a cleanup of the osd thrasher starts is never waited for: with an interval that makes the
  cleanup start one for sure, it is running when the cleanup returns, and whatever the state, joining the thrasher
  leaves a scrubber that is running running, however the joining ends.\<close>

theorem scrubber_never_joined:
  fixes s :: "'z thrasher_scheme"
  assumes "clean_round maxdead delay scrubint E s = (Ok (), t)"
    and n: "num_of scrubint = Some n" "0 < n" and d: "num_of delay = Some d" "n \<le> d"
  shows "''do_scrub'' \<in> set (running (trace t)) \<and>
    (\<forall>u :: 'z thrasher_scheme. ''do_scrub'' \<in> set (running (trace u)) \<longrightarrow>
      ''do_scrub'' \<in> set (running (trace (snd (do_join E u)))))"
proof (intro conjI allI impI)
  obtain v y w lim x where y: "random_uniform 0 1 E v = (Ok y, w)" and lim: "py_div d n E w = (Ok lim, x)"
    and run: "(if y < lim then bind scrubber_init (\<lambda>_. ret ()) else ret ()) E x = (Ok (), t)"
    using clean_round_tail [OF assms(1)] n
    by (auto simp: num_less_value_def bind_Ok py_float_num [OF d(1)] as_num_def exec_of_option)
  have "1 \<le> d / n" using n(2) d(2) by simp
  moreover have "lim = d / n" using lim n(2) by (simp add: py_div_def exec_basic)
  ultimately have "y < lim" using uniform_unit [OF y] by (simp only:)
  with run show "''do_scrub'' \<in> set (running (trace t))"
    by (auto simp: bind_Ok exec_basic dest: scrubber_init_running)
next
  fix u :: "'z thrasher_scheme"
  assume u: "''do_scrub'' \<in> set (running (trace u))"
  obtain r u' where j: "do_join E u = (r, u')" by fastforce
  from keepsD [OF do_join_events j] u show "''do_scrub'' \<in> set (running (trace (snd (do_join E u))))"
    unfolding j running_def by (auto simp: sent_rel_def intro: pending_stays)
qed

theorem scrubber_never_joined_witness:
  "\<exists>t. clean_round (VInt 0) (VInt 5) (VInt 5) thrash_env sample_thr = (Ok (), t) \<and>
     ''do_scrub'' \<in> set (running (trace t)) \<and> ''do_scrub'' \<in> set (running (trace (snd (do_join thrash_env t))))"
proof -
  let ?run = "clean_round (VInt 0) (VInt 5) (VInt 5) thrash_env sample_thr"
  have "fst ?run = Ok ()" by code_simp
  note run = run_eq [OF this]
  have "num_of (VInt 5) = Some 5" "(0 :: rat) < 5" "(5 :: rat) \<le> 5" by simp_all
  with scrubber_never_joined [OF run] run show ?thesis by blast
qed

end
