(* ===== verification/Manager_Status.thy ===== *)
theory Manager_Status
  imports Manager_Waits
begin

text \<open>
  The summary of the states of the placement groups that \<open>compile_pg_status\<close> makes: a well-formed
  histogram of the words of their states.
\<close>

section \<open>Counting words\<close>

text \<open>\<open>h\<close> is the histogram of \<open>ws\<close>: one positive entry for each word that occurs, with its count.\<close>

definition counts :: "string list \<Rightarrow> (string \<times> int) list \<Rightarrow> bool" where
  "counts ws h \<longleftrightarrow> distinct (map fst h) \<and>
     (\<forall>w. map_of h w = (if w \<in> set ws then Some (int (count_list ws w)) else None))"

lemma counts_bump: "counts ws h \<Longrightarrow> counts (ws @ [w]) (bump w h)"
  unfolding counts_def bump_def
  by (auto intro: distinct_alist_put simp: count_list_0_iff)

lemma counts_bumps: "counts ws h \<Longrightarrow> counts (ws @ vs) (fold bump vs h)"
proof (induction vs arbitrary: ws h)
  case (Cons v vs)
  from Cons.IH [OF counts_bump [OF Cons.prems]] show ?case by simp
qed simp

lemma counts_entry:
  assumes "counts ws h" and "(w, n) \<in> set h"
  shows "0 < n" and "n = int (count_list ws w)" and "w \<in> set ws"
proof -
  have "map_of h w = Some n" using assms unfolding counts_def by (blast intro: map_of_is_SomeI)
  then show "n = int (count_list ws w)" "w \<in> set ws" using assms(1) by (auto simp: counts_def split: if_splits)
  then show "0 < n" by (metis count_list_0_iff gr_zeroI of_nat_0_less_iff)
qed

definition state_words :: "string list \<Rightarrow> string list" where
  "state_words sts = concat (map (split_on (CHR ''+'')) sts)"

lemma histogram_Ok:
  assumes "histogram h pgs E s = (Ok h', s')" and "counts ws h"
  shows "s' = s \<and> (\<exists>sts. list_all2 has_state pgs sts \<and> counts (ws @ state_words sts) h')"
  using assms
proof (induction pgs arbitrary: h ws)
  case Nil
  then show ?case by (auto simp: exec_basic state_words_def)
next
  case (Cons pg pgs)
  then obtain st where st: "has_state pg st"
    and rest: "histogram (fold bump (split_on (CHR ''+'') st) h) pgs E s = (Ok h', s')"
    by (auto simp: bind_Ok pg_state_Ok)
  from Cons.IH [OF rest counts_bumps [OF Cons.prems(2)]] obtain sts where "s' = s"
    "list_all2 has_state pgs sts" "counts (ws @ split_on (CHR ''+'') st @ state_words sts) h'" by auto
  with st show ?case by (auto simp: state_words_def intro!: exI [of _ "st # sts"])
qed

text \<open>C40: The summary of the states is a well-formed histogram: it has one entry per word, every entry is
  positive, the words are exactly those of the states in the dump that was read, and the number of a
  word is how often it occurs in them.\<close>

theorem compile_pg_status_histogram:
  assumes "compile_pg_status E s = (Ok h, s')"
  shows "\<exists>pgs sts. get_pg_stats E s = (Ok pgs, s') \<and> list_all2 has_state pgs sts \<and> distinct (map fst h) \<and>
    fst ` set h = set (state_words sts) \<and>
    list_all (\<lambda>(w, n). 0 < n \<and> n = int (count_list (state_words sts) w)) h"
proof -
  from assms obtain pgs t where pgs: "get_pg_stats E s = (Ok pgs, t)" and "histogram [] pgs E t = (Ok h, s')"
    by (auto simp: compile_pg_status_def bind_Ok)
  moreover have "counts [] []" by (simp add: counts_def)
  ultimately obtain sts where "s' = t" "list_all2 has_state pgs sts" and c: "counts (state_words sts) h"
    using histogram_Ok [of "[]" pgs E t h s' "[]"] by auto
  moreover have "w \<in> fst ` set h \<longleftrightarrow> w \<in> set (state_words sts)" for w
    using c map_of_eq_None_iff [of h w] by (metis counts_def option.distinct(1))
  moreover have "0 < n \<and> n = int (count_list (state_words sts) w)" if "(w, n) \<in> set h" for w n
    using counts_entry [OF c that] by simp
  ultimately show ?thesis
    using pgs c unfolding counts_def list_all_iff by blast
qed

definition states_env :: env where
  \<open>states_env = sample_env [([''pg'', ''dump'', ''--format=json''],
     dumped ''{"pg_stats": [{"state": "active+clean"}, {"state": "active+degraded"}]}'')]\<close>

theorem compile_pg_status_histogram_witness:
  "\<exists>s' pgs sts. compile_pg_status states_env sample_mgr =
     (Ok [(''active'', 2), (''clean'', 1), (''degraded'', 1)], s') \<and>
   list_all2 has_state pgs sts \<and> {''active'', ''clean'', ''degraded''} = set (state_words sts)"
proof -
  have "fst (compile_pg_status states_env sample_mgr) = Ok [(''active'', 2), (''clean'', 1), (''degraded'', 1)]"
    by code_simp
  note run = run_eq [OF this]
  from compile_pg_status_histogram [OF run] obtain pgs sts where l: "list_all2 has_state pgs sts"
    and w: "fst ` set [(''active'', 2), (''clean'', 1), (''degraded'', 1 :: int)] = set (state_words sts)"
    by (elim exE conjE) (rule that)
  from w have "{''active'', ''clean'', ''degraded''} = set (state_words sts)"
    by (simp only: list.set image_insert image_empty fst_conv)
  with run l show ?thesis by blast
qed

end
