(* ===== verification/Osd_Tests.thy ===== *)
theory Osd_Tests
  imports Manager_Daemon Workload_Tasks
begin

text \<open>
  The tasks that drive a small cluster through one scenario of failing osds: \<open>dump_stuck.py\<close>,
  \<open>peer.py\<close>, \<open>osd_recovery.py\<close>, \<open>osd_backfill.py\<close>, \<open>lost_unfound.py\<close>,
  \<open>rep_lost_unfound_delete.py\<close>, \<open>ec_lost_unfound.py\<close>, \<open>object_source_down.py\<close>,
  \<open>divergent_priors.py\<close>, \<open>divergent_priors2.py\<close>, \<open>reg11184.py\<close> and \<open>resolve_stuck_peering.py\<close> of \<open>src/tasks\<close>.
  A task that makes its own manager starts with \<open>test_start\<close>; the others use the one of the
  context, which is the state of the model.
\<close>

section \<open>What the scenarios share\<close>

text \<open>Statements one after the other.\<close>

definition steps :: "('z, unit) mgr list \<Rightarrow> ('z, unit) mgr" where
  "steps ms = for_each ms (\<lambda>m. m)"

definition cluster_cmd :: "string list \<Rightarrow> ('z, unit) mgr" where
  "cluster_cmd args = bind (raw_cluster_cmd args) (\<lambda>_. ret ())"

definition flush_pg_stats :: "int list \<Rightarrow> ('z, unit) mgr" where
  "flush_pg_stats osds = for_each osds (\<lambda>i. cluster_cmd [''tell'', ''osd.'' @ str_int i, ''flush_pg_stats''])"

definition inject :: "string \<Rightarrow> string \<Rightarrow> ('z, unit) mgr" where
  "inject who args = cluster_cmd [''tell'', who, ''injectargs'', args]"

definition wait_osds_up :: "nat \<Rightarrow> rat \<Rightarrow> ('z, unit) mgr" where
  "wait_osds_up n pause = while_m (bind get_osd_status (\<lambda>st. ret (length (st_up st) < n))) (sleep pause)"

definition rados_cmd :: "string \<Rightarrow> string list \<Rightarrow> ('z, unit) mgr" where
  "rados_cmd mon cmd = bind (rados mon cmd False) (\<lambda>_. ret ())"

text \<open>\<open>kill_osd(i)\<close> then \<open>mark_down_osd(i)\<close>\<close>

definition take_down :: "int \<Rightarrow> ('z, unit) mgr" where
  "take_down i = bind (kill_osd i) (\<lambda>_. mark_down_osd i)"

definition revive :: "int \<Rightarrow> ('z, unit) mgr" where
  "revive i = revive_osd i (VInt 150) False"

text \<open>The check of the configuration, the host of the first monitor and a manager of its own.\<close>

definition test_start :: "string \<Rightarrow> pv \<Rightarrow> ('z, dict \<times> string) mgr" where
  "test_start msg config0 =
     bind (dict_config msg config0) (\<lambda>config.
     bind first_mon_remote (\<lambda>mon.
     bind (manager_init mon None ''zbkc'') (\<lambda>_. ret (config, mon))))"

definition need_osds :: "nat \<Rightarrow> string \<Rightarrow> ('z, unit) mgr" where
  "need_osds n msg = bind (asks (\<lambda>E. length (env_roles E ''osd''))) (\<lambda>k. py_assert (k = n) msg)"

section \<open>dump_stuck.py\<close>

text \<open>\<open>re.search\<close> for one or more digits followed by \<open>lit\<close>, with the digits as a number: the first place
  where a run of digits is followed by \<open>lit\<close>.\<close>

fun search_count :: "string \<Rightarrow> string \<Rightarrow> int option" where
  "search_count lit [] = None"
| "search_count lit (c # cs) =
     (let ds = takeWhile is_digit (c # cs); rest = dropWhile is_digit (c # cs)
      in if ds \<noteq> [] \<and> prefix lit rest then Some (int (nat_of_digits ds)) else search_count lit cs)"

definition check_health :: "string \<Rightarrow> string \<Rightarrow> pv \<Rightarrow> ('z, unit) mgr" where
  "check_health health what num =
     (if num_less_value 0 num then
        bind (of_option AttributeError ''group'' (search_count ('' pgs stuck '' @ what) health)) (\<lambda>n.
        py_assert (int_eq_value n num) [])
      else ret ())"

definition check_stuck :: "pv \<Rightarrow> pv \<Rightarrow> pv \<Rightarrow> ('z, unit) mgr" where
  "check_stuck num_inactive num_unclean num_stale =
     bind (get_stuck_pgs ''inactive'' 10) (\<lambda>inactive.
     bind (get_stuck_pgs ''unclean'' 10) (\<lambda>unclean.
     bind (get_stuck_pgs ''stale'' 10) (\<lambda>stale.
     bind (py_len inactive) (\<lambda>ni.
     bind (py_len unclean) (\<lambda>nu.
     bind (py_len stale) (\<lambda>ns.
     bind (py_assert (int_eq_value (int ni) num_inactive) []) (\<lambda>_.
     bind (py_assert (int_eq_value (int nu) num_unclean) []) (\<lambda>_.
     bind (py_assert (int_eq_value (int ns) num_stale) []) (\<lambda>_.
     bind (raw_cluster_cmd [''health'']) (\<lambda>health.
     bind (check_health health ''inactive'' num_inactive) (\<lambda>_.
     bind (check_health health ''unclean'' num_unclean) (\<lambda>_.
     check_health health ''stale'' num_stale))))))))))))"

text \<open>The loop that repeats a check until it passes, for at most 15 minutes.\<close>

definition until_stuck :: "pv \<Rightarrow> pv \<Rightarrow> pv \<Rightarrow> ('z, unit) mgr" where
  "until_stuck num_inactive num_unclean num_stale =
     bind now (\<lambda>starttime.
     loop (\<lambda>_. try_except
         (bind (check_stuck num_inactive num_unclean num_stale) (\<lambda>_. ret (Inr ())))
         (\<lambda>c. c = AssertionError)
         (\<lambda>e. bind now (\<lambda>t. if 900 < t - starttime then reraise e else ret (Inl ())))) ())"

text \<open>The loop that repeats the two flushes until both are answered.\<close>

definition flush_both :: "('z, unit) mgr" where
  "flush_both =
     loop (\<lambda>_. try_except (bind (flush_pg_stats [0, 1]) (\<lambda>_. ret (Inr ()))) is_Exception
       (\<lambda>_. bind (sleep 1) (\<lambda>_. ret (Inl ())))) ()"

definition dump_stuck_task :: "pv \<Rightarrow> ('z, unit) mgr" where
  "dump_stuck_task config =
     bind (py_assert (config = VNone) ''dump_stuck requires no configuration'') (\<lambda>_.
     bind (need_osds 2 ''dump_stuck requires exactly 2 osds'') (\<lambda>_.
     bind first_mon_remote (\<lambda>mon.
     bind (steps
       [manager_init mon None ''zbkc'',
        flush_pg_stats [0, 1],
        wait_for_clean (VInt 60),
        cluster_cmd [''tell'', ''mon.0'', ''injectargs'', ''--'', ''--mon-pg-stuck-threshold 10''],
        check_stuck (VInt 0) (VInt 0) (VInt 0)]) (\<lambda>_.
     bind get_num_pgs (\<lambda>num_pgs.
     bind (steps
       [mark_out_osd 0,
        sleep 60,
        flush_pg_stats [1],
        wait_for_recovery (VInt 60),
        check_stuck (VInt 0) num_pgs (VInt 0),
        mark_in_osd 0,
        flush_pg_stats [0, 1],
        wait_for_clean (VInt 60),
        check_stuck (VInt 0) (VInt 0) (VInt 0),
        take_down 0,
        until_stuck (VInt 0) num_pgs (VInt 0),
        take_down 1,
        until_stuck (VInt 0) num_pgs num_pgs]) (\<lambda>_.
     bind (asks (\<lambda>E. env_roles E ''osd'')) (\<lambda>ids.
     steps
       [for_each ids (\<lambda>i. bind (revive_osd_id i (VInt 150) False) (\<lambda>_. cluster_cmd [''osd'', ''in'', i])),
        flush_both,
        wait_for_clean (VInt 60),
        check_stuck (VInt 0) (VInt 0) (VInt 0)])))))))"

section \<open>peer.py\<close>

text \<open>A placement group that is down is blocked by osd 1 alone. Returns whether it is down.\<close>

definition check_blocked :: "pv \<Rightarrow> ('z, unit) mgr" where
  "check_blocked j =
     bind (item j ''recovery_state'') (\<lambda>rsv.
     bind (py_len rsv) (\<lambda>n.
     bind (py_assert (0 < n) []) (\<lambda>_.
     bind (as_list rsv) (\<lambda>rs.
     bind (at_index rs 0) (\<lambda>r0. bind (item r0 ''name'') (\<lambda>name0.
     bind (py_assert (name0 = VStr ''Started/Primary/Peering/GetInfo'') []) (\<lambda>_.
     bind (at_index rs 1) (\<lambda>r1. bind (item r1 ''name'') (\<lambda>name1.
     bind (py_assert (name1 = VStr ''Started/Primary/Peering'') []) (\<lambda>_.
     bind (item r1 ''blocked'') (\<lambda>blocked.
     bind (py_assert (truthy blocked) []) (\<lambda>_.
     bind (item r1 ''down_osds_we_would_probe'') (\<lambda>probe.
     bind (py_assert (probe = VList [VInt 1]) []) (\<lambda>_.
     bind (item r1 ''peering_blocked_by'') (\<lambda>by.
     bind (py_len by) (\<lambda>k.
     bind (py_assert (k = 1) []) (\<lambda>_.
     bind (as_list by) (\<lambda>bs.
     bind (first_of bs) (\<lambda>b. bind (item b ''osd'') (\<lambda>osd.
     py_assert (int_eq_value 1 osd) []))))))))))))))))))))"

definition pg_is_down :: "pv \<Rightarrow> ('z, bool) mgr" where
  "pg_is_down pg =
     bind (item pg ''pgid'') (\<lambda>p.
     bind (cmd_arg p) (\<lambda>pgid.
     bind (raw_cluster_cmd [''pg'', pgid, ''query'']) (\<lambda>out.
     bind (loads out) (\<lambda>j.
     bind (pg_state pg) (\<lambda>st.
     if contains ''down'' st then bind (check_blocked j) (\<lambda>_. ret True) else ret False)))))"

definition peer_task :: "pv \<Rightarrow> ('z, unit) mgr" where
  "peer_task config0 =
     bind (test_start ''peer task only accepts a dict for configuration'' config0) (\<lambda>(config, mon).
     bind (steps
       [wait_osds_up 3 10,
        flush_pg_stats [0, 1, 2],
        wait_for_clean VNone,
        for_each [0, 1, 2] (\<lambda>i. set_config i [(''osd_recovery_delay_start'', VInt 120)]),
        take_down 2,
        rados_cmd mon [''-p'', ''data'', ''get'', ''dummy'', ''-''],
        flush_pg_stats [0, 1],
        wait_for_recovery VNone,
        take_down 1,
        revive 2,
        wait_till_osd_is_up 2 VNone,
        flush_pg_stats [0, 2],
        wait_for_active_or_down VNone,
        flush_pg_stats [0, 2]]) (\<lambda>_.
     bind get_pg_stats (\<lambda>pgs.
     bind (map_m pg_is_down pgs) (\<lambda>downs.
     bind (py_assert (0 < length (filter (\<lambda>b. b) downs)) []) (\<lambda>_.
     steps
       [revive 1,
        wait_till_osd_is_up 1 VNone,
        flush_pg_stats [0, 1, 2],
        wait_for_clean VNone])))))"

section \<open>osd_recovery.py\<close>

text \<open>A rados command in the background, and waiting for it; a failure of it raises.\<close>

definition rados_start :: "string \<Rightarrow> string list \<Rightarrow> ('z, unit) mgr" where
  "rados_start remote cmd = bind (asks coverage_args) (\<lambda>cov. act (RunBg remote (cov @ [''rados''] @ cmd)))"

definition wait_proc :: "('z, unit) mgr" where
  "wait_proc = act (Get ''rados_start'')"

definition bench :: "string \<Rightarrow> string list \<Rightarrow> ('z, unit) mgr" where
  "bench mon opts = rados_start mon ([''-p'', ''rbd'', ''bench''] @ opts)"

definition osd_recovery_task :: "pv \<Rightarrow> ('z, unit) mgr" where
  "osd_recovery_task config0 =
     bind (dict_config ''task only accepts a dict for configuration'' config0) (\<lambda>config.
     bind first_mon_remote (\<lambda>mon.
     steps
       [need_osds 3 [],
        manager_init mon None ''zbkc'',
        wait_osds_up 3 10,
        flush_pg_stats [0, 1, 2],
        wait_for_clean VNone,
        for_each [''noin'', ''noout'', ''noup'', ''nodown''] (\<lambda>f. cluster_cmd [''osd'', ''set'', f]),
        for_each [''noin'', ''noout'', ''noup'', ''nodown''] (\<lambda>f. cluster_cmd [''osd'', ''unset'', f]),
        bench mon [''20'', ''write'', ''-b'', ''4096'', ''--no-cleanup''],
        sleep 15,
        blackhole_kill_osd 1,
        kill_osd 2,
        sleep 2,
        revive 1,
        wait_proc,
        flush_pg_stats [0, 1],
        wait_for_active_or_down VNone,
        bench mon [''15'', ''write'', ''-b'', ''4096''],
        wait_proc,
        revive 2,
        wait_osds_up 3 2,
        flush_pg_stats [0, 1, 2],
        wait_for_clean VNone]))"

definition test_incomplete_pgs :: "pv \<Rightarrow> ('z, unit) mgr" where
  "test_incomplete_pgs config0 =
     bind (dict_config ''task only accepts a dict for configuration'' config0) (\<lambda>config.
     bind first_mon_remote (\<lambda>mon.
     bind (steps
       [need_osds 4 [],
        manager_init mon None ''zbkc'',
        wait_osds_up 4 10,
        flush_pg_stats [0, 1, 2, 3],
        wait_for_clean VNone,
        for_each [0, 1, 2, 3] (\<lambda>i. set_config i [(''osd_recovery_delay_start'', VInt 1000)]),
        cluster_cmd [''osd'', ''out'', ''0'', ''1''],
        flush_pg_stats [0, 1, 2, 3],
        wait_for_clean VNone,
        bench mon [''20'', ''write'', ''-b'', ''1'', ''--no-cleanup''],
        wait_proc,
        for_each [1 .. 19] (\<lambda>f. bind (rados_start mon [''-p'', ''rbd'', ''put'', ''foo.'' @ str_int f,
            ''/etc/passwd'']) (\<lambda>_. wait_proc)),
        cluster_cmd [''osd'', ''in'', ''0'', ''1''],
        cluster_cmd [''osd'', ''out'', ''2'', ''3''],
        sleep 10,
        flush_pg_stats [0, 1, 2, 3],
        sleep 10,
        wait_for_active VNone]) (\<lambda>_.
     bind is_clean (\<lambda>clean.
     bind (py_assert (\<not> clean) []) (\<lambda>_.
     bind is_recovered (\<lambda>recovered.
     bind (steps
       [py_assert (\<not> recovered) [],
        kill_osd 2,
        kill_osd 3,
        cluster_cmd [''osd'', ''down'', ''2'', ''3''],
        flush_pg_stats [0, 1],
        wait_for_active_or_down VNone]) (\<lambda>_.
     bind get_num_down (\<lambda>down.
     steps
       [py_assert (0 < down) [],
        revive 2,
        revive 3,
        wait_osds_up 4 2,
        for_each [0, 1, 2, 3] (\<lambda>i. bind (kick_recovery_wq i) (\<lambda>_. ret ())),
        wait_for_clean VNone]))))))))"

section \<open>osd_backfill.py\<close>

definition osd_backfill_task :: "pv \<Rightarrow> ('z, unit) mgr" where
  "osd_backfill_task config0 =
     bind (dict_config ''thrashosds task only accepts a dict for configuration'' config0) (\<lambda>config.
     bind first_mon_remote (\<lambda>mon.
     steps
       [need_osds 3 [],
        manager_init mon None ''zbkc'',
        wait_osds_up 3 10,
        flush_pg_stats [0, 1, 2],
        wait_for_clean VNone,
        bench mon [''15'', ''write'', ''-b'', ''4096'', ''--no-cleanup''],
        wait_proc,
        mark_out_osd 0,
        take_down 0,
        flush_pg_stats [1, 2],
        wait_for_recovery VNone,
        bench mon [''30'', ''write'', ''-b'', ''4096'', ''--no-cleanup''],
        sleep 15,
        blackhole_kill_osd 1,
        sleep 2,
        revive 1,
        wait_proc,
        flush_pg_stats [1, 2],
        wait_for_recovery VNone,
        revive 0,
        flush_pg_stats [1, 2],
        wait_for_clean VNone]))"

section \<open>lost_unfound.py and rep_lost_unfound_delete.py\<close>

definition put_object :: "string \<Rightarrow> string \<Rightarrow> string \<Rightarrow> string \<Rightarrow> ('z, unit) mgr" where
  "put_object mon pool name file = rados_cmd mon [''-p'', pool, ''put'', name, file]"

definition old_objects :: "string \<Rightarrow> string \<Rightarrow> string \<Rightarrow> ('z, unit) mgr" where
  "old_objects mon pool file =
     for_each [1 .. 9] (\<lambda>f. steps
       [put_object mon pool (''existing_'' @ str_int f) file,
        put_object mon pool (''existed_'' @ str_int f) file,
        rados_cmd mon [''-p'', pool, ''rm'', ''existed_'' @ str_int f]])"

definition new_objects :: "string \<Rightarrow> string \<Rightarrow> string \<Rightarrow> ('z, unit) mgr" where
  "new_objects mon pool file =
     for_each [1 .. 9] (\<lambda>f. steps
       [put_object mon pool (''new_'' @ str_int f) file,
        put_object mon pool (''existed_'' @ str_int f) file,
        put_object mon pool (''existing_'' @ str_int f) file])"

text \<open>\<open>err = rados(... 'get' ...)\<close> and the assertion on \<open>err\<close>\<close>

definition get_object :: "string \<Rightarrow> string \<Rightarrow> bool \<Rightarrow> string \<Rightarrow> ('z, unit) mgr" where
  "get_object mon pool fails name =
     bind (rados mon [''-p'', pool, ''get'', name, ''-''] False) (\<lambda>err. py_assert ((err \<noteq> 0) = fails) [])"

definition verify_objects :: "string \<Rightarrow> string \<Rightarrow> bool \<Rightarrow> ('z, unit) mgr" where
  "verify_objects mon pool existing_fails =
     for_each [1 .. 9] (\<lambda>f. steps
       [get_object mon pool True (''new_'' @ str_int f),
        get_object mon pool True (''existed_'' @ str_int f),
        get_object mon pool existing_fails (''existing_'' @ str_int f)])"

definition assert_unfound :: "('z, unit) mgr" where
  "assert_unfound =
     bind get_num_unfound_objects (\<lambda>unfound.
     bind (fmt_d unfound) (\<lambda>_.
     py_assert (truthy unfound) []))"

text \<open>From taking osd 2 down to the check that objects are unfound.\<close>

definition lose_objects :: "string \<Rightarrow> string \<Rightarrow> ('z, unit) mgr" where
  "lose_objects mon pool = steps
     [take_down 2,
      mark_out_osd 2,
      put_object mon pool ''dummy'' ''/etc/fstab'',
      flush_pg_stats [0, 1],
      wait_for_recovery VNone,
      old_objects mon pool ''/etc/fstab'',
      inject ''osd.1'' ''--osd-recovery-delay-start 1000 --osd-min-pg-log-entries 100000000'',
      take_down 0,
      new_objects mon pool ''/etc/fstab'',
      mgr_daemon (DExtend [''--osd-recovery-delay-start'', ''1000'']) ''osd'' ''0'',
      revive 0,
      mark_in_osd 0,
      wait_till_osd_is_up 0 VNone,
      flush_pg_stats [1, 0],
      wait_till_active VNone,
      take_down 1,
      mark_out_osd 1,
      cluster_cmd [''osd'', ''lost'', ''1'', ''--yes-i-really-mean-it''],
      revive 2,
      mark_in_osd 2,
      wait_till_osd_is_up 2 VNone,
      flush_pg_stats [0, 2],
      wait_till_active VNone,
      flush_pg_stats [0, 2],
      assert_unfound]"

text \<open>The benchmark that runs while objects are marked lost, and \<open>run.wait(procs)\<close>.\<close>

definition bench_line :: "env \<Rightarrow> string \<Rightarrow> string" where
  "bench_line E pool = join '' '' (coverage_args E @ [''rados'', ''--no-log-to-stderr'', ''--name'', ''client.admin'',
     ''-b'', str_int (push_bit 10 4), ''-p'', pool, ''-t'', ''20'', ''bench'', ''240'', ''write''])"

definition start_bench :: "string \<Rightarrow> string \<Rightarrow> dict \<Rightarrow> ('z, unit) mgr" where
  "start_bench mon pool config =
     (if truthy (dict_get config ''parallel_bench'' (VBool True)) then
        bind (asks (\<lambda>E. bench_line E pool)) (\<lambda>line. act (RunBg mon [''/bin/sh'', ''-c'', line]))
      else ret ())"

definition wait_bench :: "dict \<Rightarrow> ('z, unit) mgr" where
  "wait_bench config =
     (if truthy (dict_get config ''parallel_bench'' (VBool True)) then act (Get ''radosbench.client.admin'') else ret ())"

text \<open>The number of objects without a location.\<close>

definition count_lost :: "pv list \<Rightarrow> ('z, nat) mgr" where
  "count_lost objects =
     bind (map_m (\<lambda>ob. bind (item ob ''locations'') py_len) objects) (\<lambda>ns. ret (length (filter (\<lambda>n. n = 0) ns)))"

definition unfound_of :: "pv \<Rightarrow> ('z, pv) mgr" where
  "unfound_of pg = bind (item pg ''stat_sum'') (\<lambda>ss. item ss ''num_objects_unfound'')"

text \<open>The listing of the missing objects agrees with the statistics; then they are given up.\<close>

definition mark_unfound_lost :: "string \<Rightarrow> pv \<Rightarrow> ('z, unit) mgr" where
  "mark_unfound_lost how pg =
     bind (unfound_of pg) (\<lambda>unfound.
     if num_less_value 0 unfound then
       bind (item pg ''acting'') (\<lambda>a. bind (as_list a) (\<lambda>acting.
       bind (first_of acting) (\<lambda>o0. bind (fmt_d o0) (\<lambda>_.
       bind (item pg ''pgid'') (\<lambda>p.
       bind (item pg ''state'') (\<lambda>_.
       bind (cmd_arg p) (\<lambda>pgid.
       bind (list_pg_missing pgid) (\<lambda>m.
       bind (item m ''num_unfound'') (\<lambda>nu.
       bind (py_assert (py_eq nu unfound) []) (\<lambda>_.
       bind (item m ''objects'') (\<lambda>ob. bind (as_list ob) (\<lambda>objects.
       bind (count_lost objects) (\<lambda>num_unfound.
       bind (py_assert (int_eq_value (int num_unfound) nu) []) (\<lambda>_.
       cluster_cmd [''pg'', pgid, ''mark_unfound_lost'', how]))))))))))))))
     else bind (item pg ''pgid'') (\<lambda>_. ret ()))"

definition kick_recovery :: "int list \<Rightarrow> string \<Rightarrow> ('z, unit) mgr" where
  "kick_recovery osds n = for_each osds (\<lambda>i. cluster_cmd [''tell'', ''osd.'' @ str_int i, ''debug'', ''kick_recovery_wq'', n])"

text \<open>What follows: the benchmark, giving up the objects, the check of the result, osd 1 again.\<close>

definition give_up_objects :: "string \<Rightarrow> string \<Rightarrow> dict \<Rightarrow> string \<Rightarrow> bool \<Rightarrow> ('z, unit) mgr" where
  "give_up_objects mon pool config how existing_fails = steps
     [start_bench mon pool config,
      sleep 10,
      bind get_pg_stats (\<lambda>pgs. for_each pgs (mark_unfound_lost how)),
      kick_recovery [0, 2] ''5'',
      flush_pg_stats [0, 2],
      wait_for_recovery VNone,
      verify_objects mon pool existing_fails,
      revive 1,
      mark_in_osd 1,
      wait_till_osd_is_up 1 VNone,
      wait_for_clean VNone,
      wait_bench config]"

definition lost_unfound_task :: "pv \<Rightarrow> ('z, unit) mgr" where
  "lost_unfound_task config0 =
     bind (test_start ''lost_unfound task only accepts a dict for configuration'' config0) (\<lambda>(config, mon).
     let pool = ''unfound_pool'' in
     steps
       [wait_osds_up 3 10,
        wait_for_clean VNone,
        create_pool pool 16 None None False,
        lose_objects mon pool,
        give_up_objects mon pool config ''revert'' False])"

definition rep_lost_unfound_delete_task :: "pv \<Rightarrow> ('z, unit) mgr" where
  "rep_lost_unfound_delete_task config0 =
     bind (test_start ''lost_unfound task only accepts a dict for configuration'' config0) (\<lambda>(config, mon).
     let pool = ''unfounddel_pool'' in
     steps
       [wait_osds_up 3 10,
        flush_pg_stats [0, 1, 2],
        wait_for_clean VNone,
        create_pool pool 16 None None False,
        lose_objects mon pool,
        give_up_objects mon pool config ''delete'' True])"

section \<open>ec_lost_unfound.py\<close>

definition ec_profile :: "dict \<Rightarrow> ('z, string) mgr" where
  "ec_profile config =
     bind (as_dict (dict_get config ''erasure_code_profile''
       (VDict [(''k'', VStr ''2''), (''m'', VStr ''2''), (''ruleset-failure-domain'', VStr ''osd'')]))) (\<lambda>profile.
     bind (cmd_arg (dict_get profile ''name'' (VStr ''lost_unfound''))) (\<lambda>name.
     bind (map_m (\<lambda>(k, v). bind (py_str v) (\<lambda>w. ret (k, w))) profile) (\<lambda>words.
     bind (create_erasure_code_profile name words) (\<lambda>_.
     ret name))))"

definition ec_mark_unfound_lost :: "pv \<Rightarrow> ('z, unit) mgr" where
  "ec_mark_unfound_lost pg =
     bind (unfound_of pg) (\<lambda>unfound.
     if num_less_value 0 unfound then
       bind (item pg ''pgid'') (\<lambda>p.
       bind (item pg ''state'') (\<lambda>_.
       bind (cmd_arg p) (\<lambda>pgid.
       bind (list_pg_missing pgid) (\<lambda>m.
       bind (item m ''num_unfound'') (\<lambda>nu.
       bind (py_assert (py_eq nu unfound) []) (\<lambda>_.
       cluster_cmd [''pg'', pgid, ''mark_unfound_lost'', ''delete'']))))))
     else bind (item pg ''pgid'') (\<lambda>_. ret ()))"

definition ec_lost_unfound_task :: "pv \<Rightarrow> ('z, unit) mgr" where
  "ec_lost_unfound_task config0 =
     bind (test_start ''lost_unfound task only accepts a dict for configuration'' config0) (\<lambda>(config, mon).
     bind (wait_for_clean VNone) (\<lambda>_.
     bind (ec_profile config) (\<lambda>profile_name.
     bind (create_pool_with_unique_name 16 (Some profile_name) (Some 2) False) (\<lambda>pool.
     steps
       [put_object mon pool ''dummy'' ''/etc/group'',
        flush_pg_stats [0, 1],
        wait_for_recovery VNone,
        old_objects mon pool ''/etc/group'',
        inject ''osd.1'' ''--osd-recovery-delay-start 1000 --osd-min-pg-log-entries 100000000'',
        take_down 0,
        take_down 3,
        new_objects mon pool ''/etc/group'',
        take_down 1,
        cluster_cmd [''osd'', ''lost'', ''1'', ''--yes-i-really-mean-it''],
        revive 0,
        wait_till_osd_is_up 0 VNone,
        revive 3,
        wait_till_osd_is_up 3 VNone,
        flush_pg_stats [0, 2, 3],
        wait_till_active VNone,
        flush_pg_stats [0, 2, 3],
        assert_unfound,
        start_bench mon pool config,
        sleep 10,
        bind get_pg_stats (\<lambda>pgs. for_each pgs ec_mark_unfound_lost),
        kick_recovery [0, 2, 3] ''5'',
        flush_pg_stats [0, 2, 3],
        wait_for_recovery VNone,
        if truthy (dict_get config ''parallel_bench'' (VBool True)) then ret () else sleep 20,
        verify_objects mon pool True,
        revive 1,
        wait_till_osd_is_up 1 VNone,
        wait_for_clean VNone,
        wait_bench config]))))"

section \<open>object_source_down.py\<close>

definition object_source_down_task :: "pv \<Rightarrow> ('z, unit) mgr" where
  "object_source_down_task config0 =
     bind (test_start ''lost_unfound task only accepts a dict for configuration'' config0) (\<lambda>(config, mon).
     bind (steps
       [wait_osds_up 3 10,
        wait_for_clean VNone,
        mark_out_osd 0,
        mark_out_osd 1,
        wait_for_clean VNone,
        for_each [0, 1, 2, 3] (\<lambda>i. inject (''osd.'' @ str_int i)
            ''--osd-recovery-delay-start 10000 --osd-min-pg-log-entries 100000000''),
        put_object mon ''data'' ''dummy'' ''/etc/fstab'',
        for_each [1 .. 9] (\<lambda>f. put_object mon ''data'' (''existing_'' @ str_int f) ''/etc/fstab''),
        mark_out_osd 3,
        wait_till_active VNone,
        mark_in_osd 0,
        wait_till_active VNone,
        flush_pg_stats [2, 0],
        mark_out_osd 2,
        wait_till_active VNone,
        mark_in_osd 1,
        wait_till_active VNone,
        flush_pg_stats [1, 0]]) (\<lambda>_.
     bind get_num_unfound_objects (\<lambda>unfound.
     bind (steps
       [py_assert (\<not> truthy unfound) [],
        take_down 2,
        take_down 3,
        flush_pg_stats [1, 0]]) (\<lambda>_.
     bind get_num_unfound_objects (\<lambda>unfound'.
     py_assert (truthy unfound') [])))))"

section \<open>divergent_priors.py\<close>

definition rados_bg :: "string \<Rightarrow> string list \<Rightarrow> ('z, unit) mgr" where
  "rados_bg remote cmd = bind (asks coverage_args) (\<lambda>cov. act (RunBg remote (cov @ [''rados''] @ cmd)))"

text \<open>\<open>others = list(osds); others.remove(primary)\<close>\<close>

definition other_osds :: "int \<Rightarrow> ('z, int list) mgr" where
  "other_osds primary = (if primary \<in> {0, 1, 2} then ret (remove1 primary [0, 1, 2])
     else raise ValueError ''list.remove(x): x not in list'')"

definition short_logs :: "('z, unit) mgr" where
  "short_logs = for_each [0, 1, 2] (\<lambda>i. steps
     [set_config i [(''osd_min_pg_log_entries'', VInt 10)],
      set_config i [(''osd_max_pg_log_entries'', VInt 10)],
      set_config i [(''osd_pg_log_trim_min'', VInt 5)]])"

text \<open>The start of both tasks: a pool of one placement group whose primary will be the divergent osd.\<close>

definition divergent_start :: "pv \<Rightarrow> ('z, int \<times> int list \<times> string) mgr" where
  "divergent_start config0 =
     bind (dict_config ''divergent_priors task only accepts a dict for configuration'' config0) (\<lambda>config.
     bind (steps
       [wait_osds_up 3 10,
        flush_pg_stats [0, 1, 2],
        for_each [''noout'', ''noin'', ''nodown''] (\<lambda>f. cluster_cmd [''osd'', ''set'', f]),
        wait_for_clean VNone,
        cluster_cmd [''osd'', ''pool'', ''create'', ''foo'', ''1''],
        short_logs]) (\<lambda>_.
     bind (get_pg_primary ''foo'' 0) (\<lambda>divergent.
     bind (other_osds divergent) (\<lambda>non_divergent.
     bind first_mon_remote (\<lambda>mon.
     ret (divergent, non_divergent, mon))))))"

text \<open>Up to the point where the divergent entries are detected.\<close>

definition make_divergent :: "int \<Rightarrow> int list \<Rightarrow> string \<Rightarrow> ('z, unit) mgr" where
  "make_divergent divergent non_divergent mon = steps
     [for_each [0 .. 99] (\<lambda>i. put_object mon ''foo'' (''existing_'' @ str_int i) ''/etc/fstab''),
      wait_for_clean VNone,
      for_each non_divergent (\<lambda>i. set_config i [(''objectstore_blackhole'', VInt 1)]),
      for_each [0 .. 4] (\<lambda>i. rados_bg mon [''-p'', ''foo'', ''put'', ''existing_'' @ str_int i, ''/etc/resolv.conf'']),
      for_each [0 .. 4] (\<lambda>i. rados_bg mon [''-p'', ''foo'', ''rm'', ''existing_'' @ str_int (i + 5)]),
      sleep 10,
      bind (run_cmd mon [''killall'', ''-9'', ''rados''] False) (\<lambda>_. ret ()),
      for_each [0, 1, 2] kill_osd,
      for_each [0, 1, 2] mark_down_osd,
      for_each non_divergent mark_out_osd,
      for_each non_divergent revive,
      for_each non_divergent mark_in_osd,
      put_object mon ''foo'' (''existing_'' @ str_int (5 + 5)) ''/etc/resolv.conf'',
      wait_for_recovery VNone,
      for_each non_divergent (\<lambda>i. wait_run_admin_socket ''osd'' (str_int i) [''set_recovery_delay'', ''100000''] (VInt 75)),
      cluster_cmd [''osd'', ''set'', ''noup''],
      revive divergent,
      wait_run_admin_socket ''osd'' (str_int divergent) [''set_recovery_delay'', ''100000''] (VInt 75),
      cluster_cmd [''osd'', ''unset'', ''noup''],
      wait_osds_up 3 10,
      put_object mon ''foo'' ''foo'' ''/etc/fstab'']"

definition read_divergent :: "string \<Rightarrow> ('z, unit) mgr" where
  "read_divergent mon =
     for_each [0 .. 9] (\<lambda>i.
       bind (rados mon [''-p'', ''foo'', ''get'', ''existing_'' @ str_int i, ''/tmp/existing''] False) (\<lambda>exit_status.
       py_assert (exit_status = 0) []))"

definition divergent_priors_task :: "pv \<Rightarrow> ('z, unit) mgr" where
  "divergent_priors_task config0 =
     bind (divergent_start config0) (\<lambda>(divergent, non_divergent, mon).
     steps
       [make_divergent divergent non_divergent mon,
        kill_osd divergent,
        revive divergent,
        sleep 20,
        kick_recovery [0, 1, 2] '' 0'',
        read_divergent mon])"

section \<open>divergent_priors2.py\<close>

text \<open>A command of the offline tool, which has to end with status 0.\<close>

definition tool_op :: "string \<Rightarrow> string \<Rightarrow> string \<Rightarrow> (string \<times> string) list \<Rightarrow> ('z, unit) mgr" where
  "tool_op remote pre opts args =
     bind (fmt (pre @ opts) args) (\<lambda>cmd.
     bind (run_line remote cmd False) (\<lambda>proc.
     py_assert (exitstatus proc = 0) []))"

text \<open>The start of its command line, in which the number of the osd is filled in later.\<close>

definition offline_prefix :: "('z, string) mgr" where
  "offline_prefix = bind get_filepath (\<lambda>fspath.
     ret (''sudo adjust-ulimits zbkc-objectstore-tool --data-path '' @ fspath @ '' --journal-path '' @
       fspath @ ''/journal --log-file=/var/log/zbkc/objectstore_tool.$$.log ''))"

definition tool_fields :: "int \<Rightarrow> string \<Rightarrow> (string \<times> string) list" where
  "tool_fields osd expfile = [(''id'', str_int osd), (''file'', expfile)]"

definition export_file :: "env \<Rightarrow> nat \<Rightarrow> string" where
  "export_file E pid = env_testdir E @ ''/exp.'' @ str_nat pid @ ''.out''"

text \<open>\<open>pid\<close> is \<open>os.getpid()\<close>.\<close>

definition divergent_priors2_task :: "pv \<Rightarrow> nat \<Rightarrow> ('z, unit) mgr" where
  "divergent_priors2_task config0 pid =
     bind (divergent_start config0) (\<lambda>(divergent, non_divergent, mon).
     bind (steps
       [make_divergent divergent non_divergent mon,
        kill_osd divergent]) (\<lambda>_.
     bind (only_remote (''osd.'' @ str_int divergent)) (\<lambda>exp_remote.
     bind offline_prefix (\<lambda>pre.
     bind (asks (\<lambda>E. export_file E pid)) (\<lambda>expfile.
     steps
       [tool_op exp_remote pre ''--op export --pgid 1.0 --file {file}'' (tool_fields divergent expfile),
        tool_op exp_remote pre ''--op remove --pgid 1.0'' (tool_fields divergent expfile),
        tool_op exp_remote pre ''--op import --file {file}'' (tool_fields divergent expfile),
        revive divergent,
        wait_run_admin_socket ''osd'' (str_int divergent) [''dump_ops_in_flight''] (VInt 75),
        sleep 20,
        kick_recovery [0, 1, 2] '' 0'',
        read_divergent mon,
        bind (run_line exp_remote (''rm '' @ expfile) True) (\<lambda>_. ret ())])))))"

section \<open>reg11184.py\<close>

definition reg11184_task :: "pv \<Rightarrow> nat \<Rightarrow> ('z, unit) mgr" where
  "reg11184_task config0 pid =
     bind (divergent_start config0) (\<lambda>(divergent, non_divergent, mon).
     bind (steps
       [make_divergent divergent non_divergent mon,
        kill_osd divergent,
        cluster_cmd [''osd'', ''pool'', ''set'', ''foo'', ''pg_num'', ''2''],
        sleep 5]) (\<lambda>_.
     bind (only_remote (''osd.'' @ str_int divergent)) (\<lambda>exp_remote.
     bind offline_prefix (\<lambda>pre.
     bind (asks (\<lambda>E. export_file E pid)) (\<lambda>expfile.
     bind (steps
       [tool_op exp_remote pre ''--op export --pgid 1.0 --file {file}'' (tool_fields divergent expfile),
        tool_op exp_remote pre ''--op remove --pgid 1.0'' (tool_fields divergent expfile)]) (\<lambda>_.
     bind (at_index non_divergent 1) (\<lambda>other.
     bind (steps
       [take_down other,
        tool_op exp_remote pre ''--op import --file {file}'' (tool_fields other expfile),
        revive divergent,
        mark_in_osd divergent,
        revive other,
        wait_osds_up 3 10,
        set_config divergent [(''osd_recovery_delay_start'', VInt 100000)],
        mark_in_osd divergent,
        put_object mon ''foo'' ''foo'' ''/etc/fstab'',
        kill_osd divergent,
        revive divergent,
        sleep 3,
        kick_recovery [0, 1, 2] '' 0'',
        read_divergent mon]) (\<lambda>_.
     bind (only_remote (''osd.'' @ str_int divergent)) (\<lambda>remote.
     bind (run_line remote (''rm '' @ expfile) True) (\<lambda>_. ret ()))))))))))"

section \<open>resolve_stuck_peering.py\<close>

text \<open>\<open>'down' in stats['state']\<close>\<close>

definition stats_down :: "string \<Rightarrow> ('z, bool) mgr" where
  "stats_down pgstr = bind (get_single_pg_stats pgstr) (\<lambda>stats.
     bind (pg_state stats) (\<lambda>st. ret (contains ''down'' st)))"

text \<open>Busy waiting: the clock is checked before each new look.\<close>

definition until_down :: "string \<Rightarrow> ('z, unit) mgr" where
  "until_down pgstr =
     bind (stats_down pgstr) (\<lambda>down0.
     bind now (\<lambda>start.
     loop (\<lambda>down. if down then ret (Inr ())
       else
         bind now (\<lambda>t.
         bind (py_assert (t - start < 60) ''failed to reach down state before timeout expired'') (\<lambda>_.
         bind (stats_down pgstr) (\<lambda>down'. ret (Inl down'))))) down0))"

definition until_none_down :: "('z, unit) mgr" where
  "until_none_down =
     bind now (\<lambda>start.
     while_m (bind get_num_down (\<lambda>n. ret (n \<noteq> 0)))
       (bind now (\<lambda>t. py_assert (t - start < 10) ''failed to recover before timeout expired'')))"

text \<open>The configuration is only looked at when it is absent, so every other value is accepted.\<close>

definition resolve_stuck_peering_task :: "pv \<Rightarrow> ('z, unit) mgr" where
  "resolve_stuck_peering_task config0 =
     bind (steps
       [wait_osds_up 3 10,
        wait_for_clean VNone,
        cluster_cmd [''osd'', ''pool'', ''create'', ''foo'', ''1''],
        set_pool_property ''foo'' ''min_size'' 1]) (\<lambda>_.
     bind (get_pg_primary ''foo'' 0) (\<lambda>primary.
     bind (other_osds primary) (\<lambda>others.
     bind first_mon_remote (\<lambda>mon.
     bind (steps
       [for_each [0 .. 99] (\<lambda>i. put_object mon ''foo'' (''existing_'' @ str_int i) ''/etc/fstab''),
        wait_for_clean VNone,
        for_each others kill_osd,
        for_each others mark_down_osd,
        for_each [0 .. 99] (\<lambda>i. put_object mon ''foo'' (''new_'' @ str_int i) ''/etc/resolv.conf''),
        take_down primary,
        for_each others revive]) (\<lambda>_.
     bind (get_pgid ''foo'' (str_int 0)) (\<lambda>pgstr.
     bind (until_down pgstr) (\<lambda>_.
     bind (cluster_cmd [''osd'', ''lost'', str_int primary, ''--yes-i-really-mean-it'']) (\<lambda>_.
     bind (get_single_pg_stats pgstr) (\<lambda>stats.
     bind (item stats ''state'') (\<lambda>_.
     until_none_down))))))))))"

end
