(* ===== verification/Stopped.thy ===== *)
theory Stopped
  imports Osd_Tests Pending
begin

text \<open>
  Which daemons a scenario leaves stopped. The locale \<open>calm_step\<close> is the contract of a relation that
  every operation respects that stops no daemon, and \<open>moves\<close> follows the set of stopped daemons through
  the operations that do.
\<close>

section \<open>Operations that stop nothing\<close>

definition calm :: "event \<Rightarrow> bool" where
  "calm e = (case e of Daemon DStop _ _ _ \<Rightarrow> False | _ \<Rightarrow> True)"

lemma calm_events [simp, keeps_intros]:
  "calm (Run h as b)" "calm (RunLine h l b)" "calm (RunBg h as)" "calm (FileMove h h' p)"
  "calm (Daemon (DRestart as) r i c)" "calm (Daemon DReset r i c)" "calm (Daemon DWait r i c)"
  "calm (Daemon (DSignal g b) r i c)" "calm (Daemon (DExtend as) r i c)" "calm (DaemonList r c)"
  "calm (Power op h)" "calm (Reconnect n h)" "calm (Sleep q)" "calm Now" "calm RandomBits"
  "calm (PollStop f)" "calm (Spawn f)" "calm (SetStop f)" "calm (Get f)" "calm (Join f)"
  by (simp_all add: calm_def)

locale calm_step = step_rel R for R :: "'z manager_scheme \<Rightarrow> 'z manager_scheme \<Rightarrow> bool" +
  assumes calm_event: "calm e \<Longrightarrow> R s (s\<lparr>trace := trace s @ [e]\<rparr>)"
    and calm_update: "trace s' = trace s \<Longrightarrow> R s s'"
begin

lemma calm_external [keeps_intros]: "calm e \<Longrightarrow> keeps R (external e g)"
  by (simp add: keeps_def exec_simps calm_event)

lemma calm_modify [keeps_intros]: "(\<And>s. trace (h s) = trace s) \<Longrightarrow> keeps R (modify h)"
  by (simp add: keeps_def exec_simps calm_update)

lemma calm_io_ops [keeps_intros]:
  "keeps R (run_cmd h as b)"
  "keeps R (run_line h l b)"
  "calm e \<Longrightarrow> keeps R (act e)"
  "calm e \<Longrightarrow> keeps R (flag e)"
  "keeps R now"
  "keeps R (sleep q)"
  "keeps R (sleep_value v)"
  "keeps R random01"
  "keeps R (random_uniform a b')"
  "keeps R (poll_stop name)"
  "keeps R (only_remote role)"
  "keeps R first_mon_remote"
  unfolding io_defs by (intro keeps_intros; assumption?)+

lemma calm_py_str [keeps_intros]: "keeps R (py_str v)"
  by (cases v) (auto simp: py_str_def intro!: keeps_intros)

lemma calm_loop [keeps_intros]:
  assumes "\<And>x. keeps R (b x)"
  shows "keeps R (loop b x)"
  using keeps_loop_n [OF assms] by (simp add: keeps_def loop_def)

lemma calm_while_m [keeps_intros]: "keeps R c \<Longrightarrow> keeps R b \<Longrightarrow> keeps R (while_m c b)"
  unfolding while_m_def by (intro keeps_intros)

lemma calm_find_item [keeps_intros]: "keeps R (find_item key val xs)"
  by (induction xs) (auto intro!: keeps_intros)

lemma calm_manager_cmd [keeps_intros]:
  "keeps R (raw_cluster_cmd as)"
  "keeps R (raw_cluster_cmd_result as)"
  "keeps R (find_remote t i)"
  "keeps R (wait_run_admin_socket t i as v)"
  "keeps R (set_config j d)"
  "keeps R raw_cluster_status"
  "keeps R get_osd_dump"
  "keeps R list_pools"
  "keeps R (get_pgid p n)"
  "keeps R (kick_recovery_wq j)"
  "keeps R get_osd_status"
  unfolding manager_cmd_defs get_remote_def by (intro keeps_intros)+

lemma calm_pg_lists [keeps_intros]: "keeps R (pg_state pg)" "keeps R (count_pgs P pgs)"
proof -
  show st: "keeps R (pg_state pg)" for pg
    unfolding pg_state_def by (intro keeps_intros)
  show "keeps R (count_pgs P pgs)"
    by (induction pgs) (auto intro!: keeps_intros st)
qed

lemma calm_put_item [keeps_intros]: "keeps R (put_item k v r)"
  unfolding put_item_def by (cases r) (auto intro: keeps_intros)

lemma calm_get_pg_stats [keeps_intros]: "keeps R get_pg_stats"
  unfolding get_pg_stats_def loads_tail_def loads_def by (intro keeps_intros)

lemma calm_manager_pg [keeps_intros]:
  "keeps R get_num_active_clean"
  "keeps R get_num_active_recovered"
  "keeps R get_num_active"
  "keeps R get_num_down"
  "keeps R get_num_active_down"
  "keeps R get_num_pgs"
  "keeps R get_num_unfound_objects"
  "keeps R get_is_making_recovery_progress"
  "keeps R is_clean"
  "keeps R is_recovered"
  "keeps R is_active_or_down"
  "keeps R is_active"
  "keeps R (get_single_pg_stats p)"
  "keeps R (get_pg_primary p n)"
  "keeps R (get_stuck_pgs t j)"
  unfolding get_num_active_clean_def get_num_active_recovered_def get_num_active_def get_num_down_def
    get_num_active_down_def get_num_pgs_def get_num_unfound_objects_def
    get_is_making_recovery_progress_def all_pgs_def is_clean_def is_recovered_def
    is_active_or_down_def is_active_def get_single_pg_stats_def acting_of_def get_pg_primary_def
    get_stuck_pgs_def loads_tail_def loads_def
  by (intro keeps_intros)+

lemma calm_list_pg_missing [keeps_intros]: "keeps R (list_pg_missing p)"
  unfolding list_pg_missing_def list_pg_missing_body_def merge_page_def loads_def
  by (intro keeps_intros)

lemma calm_check_timeout [keeps_intros]: "keeps R (check_timeout v m q)"
  unfolding check_timeout_def dump_and_assert_def by (intro keeps_intros)

lemma calm_at_index [keeps_intros]: "keeps R (at_index xs j)"
  unfolding at_index_def Let_def by (intro keeps_intros)

lemma calm_wait_until [keeps_intros]: "keeps R c \<Longrightarrow> keeps R (wait_until c v m)"
  unfolding wait_until_def wait_until_body_def by (intro keeps_intros)

lemma calm_manager_wait [keeps_intros]:
  "keeps R (wait_for_clean v)"
  "keeps R (wait_for_recovery v)"
  "keeps R (wait_for_active v)"
  "keeps R (wait_for_active_or_down v)"
  "keeps R (wait_till_active v)"
  "keeps R (wait_till_osd_is_up j v)"
  unfolding wait_for_clean_def wait_for_recovery_def wait_for_active_def wait_for_active_or_down_def
    wait_progress_def wait_progress_body_def wait_till_active_def wait_till_active_body_def osd_up_def
    osd_is_up_def wait_till_osd_is_up_def
  by (intro keeps_intros)+

lemma calm_manager_pool [keeps_intros]:
  "keeps R (set_pool_property p prop n)"
  "keeps R (create_erasure_code_profile p ws)"
  "keeps R (create_pool p n prof ms hacky)"
  "keeps R (create_pool_with_unique_name n prof ms hacky)"
  "keeps R (manager_init mon cfg cl)"
  unfolding manager_pool_defs manager_init_def Let_def by (intro keeps_intros; simp)+

lemma calm_manager_daemon [keeps_intros]:
  "keeps R (mark_out_osd j)"
  "keeps R (mark_in_osd j)"
  "keeps R (mark_down_osd j)"
  "keeps R (assert_ipmi h)"
  "keeps R (make_admin_daemon_dir h)"
  "keeps R (mount_osd_data h c i)"
  "keeps R (fmt_d v)"
  "(\<And>c. calm (Daemon op role i c)) \<Longrightarrow> keeps R (mgr_daemon op role i)"
  unfolding mark_out_osd_def mark_in_osd_def mark_down_osd_def assert_ipmi_def
    make_admin_daemon_dir_def mount_osd_data_def fmt_d_def mgr_daemon_def daemon_def
  by (intro keeps_intros; simp)+

lemma calm_manager_mon [keeps_intros]:
  "keeps R (get_mon_status mn)"
  "keeps R (wait_for_mon_quorum_size j v)"
  "keeps R get_mon_health"
  unfolding get_mon_status_def get_mon_quorum_def wait_for_mon_quorum_size_def get_mon_health_def
    conf_item_def loads_def
  by (intro keeps_intros)+

end

text \<open>Requests for daemons of one role, and the relation that no more of them are stopped.\<close>

definition role_stop :: "string \<Rightarrow> event \<Rightarrow> string option" where
  "role_stop role e = (case e of Daemon DStop r i _ \<Rightarrow> if r = role then Some i else None | _ \<Rightarrow> None)"

definition role_start :: "string \<Rightarrow> event \<Rightarrow> string option" where
  "role_start role e = (case e of Daemon (DRestart _) r i _ \<Rightarrow> if r = role then Some i else None | _ \<Rightarrow> None)"

definition stopped :: "string \<Rightarrow> event list \<Rightarrow> string list" where
  "stopped role t = pending (role_stop role) (role_start role) t"

definition no_more_stopped :: "string \<Rightarrow> 'z manager_scheme \<Rightarrow> 'z manager_scheme \<Rightarrow> bool" where
  "no_more_stopped role s s' \<longleftrightarrow> set (stopped role (trace s')) \<subseteq> set (stopped role (trace s))"

lemma stopped_snoc:
  "calm e \<Longrightarrow> set (stopped role (t @ [e])) \<subseteq> set (stopped role t)"
  "set (stopped role (t @ [Daemon DStop role i c])) = insert i (set (stopped role t))"
  "set (stopped role (t @ [Daemon (DRestart as) role i c])) = set (stopped role t) - {i}"
  by (auto simp: stopped_def pending_snoc pending_step_def role_stop_def role_start_def calm_def
      split: option.splits event.splits daemon_op.splits)

interpretation st: calm_step "no_more_stopped role" for role
  by unfold_locales (use stopped_snoc(1) in \<open>auto simp: no_more_stopped_def\<close>)

section \<open>Following the stopped daemons\<close>

text \<open>When \<open>m\<close> starts with at most the daemons of \<open>A\<close> stopped and returns, at most those of \<open>B\<close> are.\<close>

definition moves :: "string \<Rightarrow> env \<Rightarrow> string set \<Rightarrow> ('z, 'a) mgr \<Rightarrow> string set \<Rightarrow> bool" where
  "moves role E A m B \<longleftrightarrow> (\<forall>s x s'. m E s = (Ok x, s') \<longrightarrow> set (stopped role (trace s)) \<subseteq> A \<longrightarrow>
     set (stopped role (trace s')) \<subseteq> B)"

named_theorems moves_intros "rules for the stopped daemons"

lemma moves_mono: "moves role E A m B \<Longrightarrow> B \<subseteq> B' \<Longrightarrow> moves role E A m B'"
  unfolding moves_def by blast

lemma moves_calm: "keeps (no_more_stopped role) m \<Longrightarrow> moves role E A m A"
  unfolding moves_def by (metis keepsD no_more_stopped_def subset_trans)

lemma moves_bind [moves_intros]:
  "moves role E A m B \<Longrightarrow> (\<And>x. moves role E B (f x) C) \<Longrightarrow> moves role E A (bind m f) C"
  unfolding moves_def bind_Ok by blast

lemma moves_case_prod [moves_intros]:
  "(\<And>a b. moves role E A (f a b) C) \<Longrightarrow> moves role E A (case x of (a, b) \<Rightarrow> f a b) C"
  by (cases x) simp

lemma moves_steps [moves_intros]:
  "moves role E A (steps []) A"
  "moves role E A m B \<Longrightarrow> moves role E B (steps ms) C \<Longrightarrow> moves role E A (steps (m # ms)) C"
  unfolding steps_def for_each.simps by (auto intro: moves_bind moves_calm keeps_intros)

lemma moves_for_each_stop:
  assumes "\<And>x A. moves role E A (f x) (insert (i x) A)"
  shows "moves role E A (for_each xs f) (A \<union> i ` set xs)"
proof (induction xs arbitrary: A)
  case Nil
  then show ?case by (auto intro: moves_calm keeps_intros)
next
  case (Cons x xs)
  have "moves role E A (for_each (x # xs) f) (insert (i x) A \<union> i ` set xs)"
    unfolding for_each.simps by (rule moves_bind [OF assms Cons.IH])
  then show ?case by (rule moves_mono) auto
qed

lemma moves_for_each_start:
  assumes "\<And>x A. moves role E A (f x) (A - {i x})"
  shows "moves role E A (for_each xs f) (A - i ` set xs)"
proof (induction xs arbitrary: A)
  case Nil
  then show ?case by (auto intro: moves_calm keeps_intros)
next
  case (Cons x xs)
  have "moves role E A (for_each (x # xs) f) (A - {i x} - i ` set xs)"
    unfolding for_each.simps by (rule moves_bind [OF assms Cons.IH])
  then show ?case by (rule moves_mono) auto
qed

lemma mgr_daemon_Ok:
  "mgr_daemon op role i E s = (Ok x, s') \<Longrightarrow> s' = s\<lparr>trace := trace s @ [Daemon op role i (mgr_cluster s)]\<rparr>"
  by (auto simp: mgr_daemon_def daemon_def act_def exec_simps split: option.splits)

lemma moves_daemon [moves_intros]:
  "moves role E A (mgr_daemon DStop role i) (insert i A)"
  "moves role E A (mgr_daemon (DRestart as) role i) (A - {i})"
  unfolding moves_def by (auto dest!: mgr_daemon_Ok simp: stopped_snoc)

lemma moves_if:
  "moves role E A m B \<Longrightarrow> moves role E A m' B \<Longrightarrow> moves role E A (if b then m else m') B"
  by simp

lemma moves_kill_osd [moves_intros]: "moves ''osd'' E A (kill_osd i) (insert (str_int i) A)"
proof -
  have calm: "keeps (no_more_stopped ''osd'') m \<Longrightarrow> moves ''osd'' E A m (insert (str_int i) A)"
    for m :: "('a, 'b) mgr" by (rule moves_mono [OF moves_calm]) auto
  show ?thesis
    unfolding kill_osd_def
    by (intro moves_bind [OF moves_calm] moves_if moves_daemon calm keeps_intros; simp)
qed

lemma moves_blackhole_kill_osd [moves_intros]: "moves ''osd'' E A (blackhole_kill_osd i) (insert (str_int i) A)"
  unfolding blackhole_kill_osd_def
  by (intro moves_bind [OF moves_calm] moves_daemon keeps_intros)

lemma moves_revive_osd_id [moves_intros]: "moves ''osd'' E A (revive_osd_id i v b) (A - {i})"
  unfolding revive_osd_id_def
  by (intro moves_bind [OF moves_calm] moves_bind [OF moves_daemon(2)] moves_calm keeps_intros; simp)

lemma moves_take_down [moves_intros]: "moves ''osd'' E A (take_down i) (insert (str_int i) A)"
  unfolding take_down_def by (rule moves_bind [OF moves_kill_osd], rule moves_calm) (intro keeps_intros)

lemma moves_revive [moves_intros]: "moves ''osd'' E A (revive i) (A - {str_int i})"
  unfolding revive_def revive_osd_def by (rule moves_revive_osd_id)

lemma moves_kill_mon [moves_intros]: "moves ''mon'' E A (kill_mon i) (insert i A)"
proof -
  have calm: "keeps (no_more_stopped ''mon'') m \<Longrightarrow> moves ''mon'' E A m (insert i A)"
    for m :: "('a, 'b) mgr" by (rule moves_mono [OF moves_calm]) auto
  show ?thesis
    unfolding kill_mon_def
    by (intro moves_bind [OF moves_calm] moves_if moves_daemon calm keeps_intros; simp)
qed

lemma moves_revive_mon [moves_intros]: "moves ''mon'' E A (revive_mon i) (A - {i})"
  unfolding revive_mon_def by (intro moves_bind [OF moves_calm] moves_daemon keeps_intros; simp)

end
