(* ===== verification/Mon_Tests.thy ===== *)
theory Mon_Tests
  imports Osd_Tests
begin

text \<open>
  Two tasks that test the monitors: \<open>src/tasks/mon_recovery.py\<close> and the periodic clock check of
  \<open>src/tasks/mon_clock_skew_check.py\<close>.
\<close>

section \<open>mon_recovery.py\<close>

text \<open>\<open>[f.split('.')[1] for f in teuthology.get_mon_names(ctx)]\<close>\<close>

definition mon_ids :: "('z, string list) mgr" where
  "mon_ids = bind (asks env_mon_names) (map_m (\<lambda>f. at_index (split_on (CHR ''.'') f) 1))"

definition wait_quorum :: "nat \<Rightarrow> ('z, unit) mgr" where
  "wait_quorum n = wait_for_mon_quorum_size (int n) (VInt 300)"

definition verify_quorum :: "string list \<Rightarrow> ('z, unit) mgr" where
  "verify_quorum mons = for_each mons (\<lambda>m.
     bind (get_mon_status m) (\<lambda>s.
     bind (item s ''state'') (\<lambda>st.
     bind (py_assert (st = VStr ''leader'' \<or> st = VStr ''peon'') []) (\<lambda>_.
     bind (item s ''quorum'') (\<lambda>q.
     bind (py_len q) (\<lambda>n.
     py_assert (n = length mons) []))))))"

definition restart_each :: "string list \<Rightarrow> ('z, unit) mgr" where
  "restart_each mons = for_each mons (\<lambda>m. steps
     [kill_mon m,
      wait_for_mon_quorum_size (int (length mons) - 1) (VInt 300),
      revive_mon m,
      wait_quorum (length mons)])"

text \<open>The monitors are started one by one; from the smallest majority on, the quorum has to form.\<close>

fun form_quorum :: "nat \<Rightarrow> nat \<Rightarrow> string list \<Rightarrow> ('z, unit) mgr" where
  "form_quorum qnum num [] = ret ()"
| "form_quorum qnum num (m # ms) =
     bind (revive_mon m) (\<lambda>_.
     bind (if qnum \<le> num + 1 then wait_quorum (num + 1) else ret ()) (\<lambda>_.
     form_quorum qnum (num + 1) ms))"

definition stop_and_form :: "string list \<Rightarrow> ('z, unit) mgr" where
  "stop_and_form mons =
     bind (for_each mons kill_mon) (\<lambda>_.
     form_quorum (length mons div 2 + 1) 0 mons)"

definition without_rank :: "string list \<Rightarrow> int \<Rightarrow> ('z, unit) mgr" where
  "without_rank mons rank =
     bind (at_index mons rank) (\<lambda>m. steps
       [kill_mon m,
        wait_for_mon_quorum_size (int (length mons) - 1) (VInt 300),
        for_each [1 .. 29] (\<lambda>n. cluster_cmd [''log'', str_int n @ '' of '' @ str_int 30]),
        revive_mon m,
        wait_quorum (length mons)])"

text \<open>\<open>rmons = mons\<close> does not copy: \<open>rmons.reverse()\<close> reverses the one list both names stand for.\<close>

definition mon_recovery_task :: "pv \<Rightarrow> ('z, unit) mgr" where
  "mon_recovery_task config0 =
     bind (test_start ''task only accepts a dict for configuration'' config0) (\<lambda>_.
     bind mon_ids (\<lambda>mons.
     bind (wait_quorum (length mons)) (\<lambda>_.
     bind (verify_quorum mons) (\<lambda>_.
     bind (restart_each mons) (\<lambda>_.
     let rmons = rev mons in
     bind (for_each [rmons, rmons] stop_and_form) (\<lambda>_.
     for_each [0, 1] (without_rank rmons)))))))"

section \<open>mon_clock_skew_check.py\<close>

text \<open>The class \<open>ClockSkewCheck\<close>. The messages of its assertions are given without the values the source
  formats into them.\<close>

record skew_check =
  check_interval :: rat
  max_skew :: pv
  expect_skew :: pv
  never_fail :: pv
  at_least_once :: pv
  at_least_once_timeout :: pv

definition skew_init :: "dict \<Rightarrow> ('z, skew_check) mgr" where
  "skew_init config =
     bind (py_float (dict_get config ''interval'' (VFloat 30))) (\<lambda>interval.
     bind (asks env_first_mon) (\<lambda>first_mon.
     bind (asks (\<lambda>E. env_only E (\<lambda>r. r = first_mon))) (\<lambda>remotes.
     bind (first_of remotes) (\<lambda>remote.
     bind (run_cmd remote [''sudo'', ''zbkc-mon'', ''-i'', drop 4 first_mon,
             ''--show-config-value'', ''mon_clock_drift_allowed''] True) (\<lambda>proc.
     bind (py_float (VStr (p_stdout proc))) (\<lambda>drift.
     ret \<lparr>check_interval = interval,
          max_skew = dict_get config ''max-skew'' (VFloat drift),
          expect_skew = dict_get config ''expect-skew'' (VBool False),
          never_fail = dict_get config ''never-fail'' (VBool False),
          at_least_once = dict_get config ''at-least-once'' (VBool True),
          at_least_once_timeout = dict_get config ''at-least-once-timeout'' (VFloat 600)\<rparr>))))))"

definition sleep_interval :: "skew_check \<Rightarrow> ('z, unit) mgr" where
  "sleep_interval c = (if 0 < check_interval c then sleep (check_interval c) else ret ())"

text \<open>The skews found so far, by the name of the monitor; the list and dictionary names are no keys.\<close>

type_synonym skews = "(pv \<times> rat \<times> pv) list"

definition hashable :: "pv \<Rightarrow> bool" where
  "hashable v = (case v of VList _ \<Rightarrow> False | VDict _ \<Rightarrow> False | _ \<Rightarrow> True)"

definition add_report :: "skew_check \<Rightarrow> skews \<Rightarrow> pv \<Rightarrow> ('z, skews) mgr" where
  "add_report c skews check =
     bind (bind (item check ''skew'') py_float) (\<lambda>mon_skew.
     bind (item check ''health'') (\<lambda>mon_health.
     bind (item check ''name'') (\<lambda>mon_id.
     if value_less_num (max_skew c) \<bar>mon_skew\<bar> then
       bind (py_assert (mon_health = VStr ''HEALTH_WARN'') ''skew > max'') (\<lambda>_.
       bind (item check ''details'') (\<lambda>details.
       if hashable mon_id then ret (alist_put mon_id (mon_skew, details) skews)
       else raise TypeError ''unhashable type''))
     else ret skews)))"

fun add_reports :: "skew_check \<Rightarrow> skews \<Rightarrow> pv list \<Rightarrow> ('z, skews) mgr" where
  "add_reports c skews [] = ret skews"
| "add_reports c skews (check # checks) = bind (add_report c skews check) (\<lambda>skews'. add_reports c skews' checks)"

text \<open>The state of a round: \<open>None\<close> when it goes on and there are no reports yet, else whether it is
  finished.\<close>

definition round_state :: "pv \<Rightarrow> ('z, bool option) mgr" where
  "round_state timechecks =
     bind (item timechecks ''round_status'') (\<lambda>status.
     if status = VStr ''finished'' then
       bind (item timechecks ''round'') (\<lambda>r.
       bind (as_num r) (\<lambda>q.
       bind (py_assert (q = 2 * of_int \<lfloor>q / 2\<rfloor>) ''timecheck marked as finished but round disagrees'') (\<lambda>_.
       ret (Some True))))
     else
       bind (py_assert (status = VStr ''on-going'') ''timecheck status expected on-going'') (\<lambda>_.
       bind (as_dict timechecks) (\<lambda>d.
       case map_of d ''mons'' of
         None \<Rightarrow> ret None
       | Some mons \<Rightarrow> bind (py_len mons) (\<lambda>n. ret (if 1 < n then Some False else None)))))"

definition read_reports :: "pv \<Rightarrow> ('z, pv list) mgr" where
  "read_reports timechecks =
     bind (item timechecks ''mons'') (\<lambda>mons.
     bind (py_len mons) (\<lambda>n.
     bind (py_assert (1 < n) ''there are not enough reported timechecks'') (\<lambda>_.
     as_list mons)))"

text \<open>The timeout of a check that has been told to stop before it ran once.\<close>

definition kick_off :: "skew_check \<Rightarrow> bool \<Rightarrow> rat option \<Rightarrow> ('z, rat option) mgr" where
  "kick_off c ran_once started_on =
     (if truthy (at_least_once c) \<and> \<not> ran_once then
        bind (poll_stop ''skew_check'') (\<lambda>stopping.
        if \<not> stopping then ret started_on
        else (case started_on of
            None \<Rightarrow> bind now (\<lambda>t. ret (Some t))
          | Some t0 \<Rightarrow>
              if num_less_value 0 (at_least_once_timeout c) then
                bind now (\<lambda>t.
                bind (py_assert (num_less_value (t - t0) (at_least_once_timeout c))
                  ''failed to obtain a timecheck before timeout expired'') (\<lambda>_.
                ret started_on))
              else ret started_on))
      else ret started_on)"

text \<open>One round: the quorum, the health, the reports.\<close>

definition skew_round :: "skew_check \<Rightarrow> skews \<Rightarrow> bool \<Rightarrow> ('z, skews \<times> bool) mgr" where
  "skew_round c skews ran_once =
     bind (asks (\<lambda>E. length (env_mon_names E))) (\<lambda>quorum_size.
     bind (wait_quorum quorum_size) (\<lambda>_.
     bind get_mon_health (\<lambda>health.
     bind (item health ''timechecks'') (\<lambda>timechecks.
     bind (round_state timechecks) (\<lambda>st.
     case st of
       None \<Rightarrow> bind (sleep_interval c) (\<lambda>_. ret (skews, ran_once))
     | Some clean_check \<Rightarrow>
         bind (read_reports timechecks) (\<lambda>checks.
         bind (add_reports c skews checks) (\<lambda>skews'.
         bind (sleep_interval c) (\<lambda>_.
         ret (skews', ran_once \<or> clean_check \<or> (truthy (expect_skew c) \<and> skews' \<noteq> []))))))))))"

definition do_check_body :: "skew_check \<Rightarrow> skews \<times> bool \<times> rat option \<Rightarrow> ('z, (skews \<times> bool \<times> rat option) + skews) mgr" where
  "do_check_body c = (\<lambda>(skews, ran_once, started_on).
     bind (poll_stop ''skew_check'') (\<lambda>stopping.
     if stopping \<and> \<not> (truthy (at_least_once c) \<and> \<not> ran_once) then ret (Inr skews)
     else
       bind (kick_off c ran_once started_on) (\<lambda>started_on'.
       bind (skew_round c skews ran_once) (\<lambda>(skews', ran_once').
       ret (Inl (skews', ran_once', started_on'))))))"

definition do_check :: "skew_check \<Rightarrow> ('z, unit) mgr" where
  "do_check c =
     bind (loop (do_check_body c) ([], False, None)) (\<lambda>skews.
     if truthy (expect_skew c) then
       if skews = [] \<and> \<not> truthy (never_fail c) then
         raise AssertionError ''We were expecting a skew, but none was found!''
       else ret ()
     else if skews \<noteq> [] \<and> \<not> truthy (never_fail c) then
       raise AssertionError ''We were not expecting a skew, but we did find it!''
     else ret ())"

definition clock_skew_task :: "pv \<Rightarrow> ('z, unit) mgr \<Rightarrow> ('z, unit) mgr" where
  "clock_skew_task config0 body =
     bind (test_start ''mon_clock_skew_check task only accepts a dict for configuration'' config0) (\<lambda>(config, mon).
     bind (skew_init config) (\<lambda>c.
     bind (spawn ''do_check'') (\<lambda>_.
     try_finally body (bind (set_stop ''skew_check'') (\<lambda>_. act (Get ''do_check''))))))"

end
