(* ===== verification/Osd_Tests_Props.thy ===== *)
theory Osd_Tests_Props
  imports Stopped Mon_Tests Sample
begin

text \<open>
  The scenario tests return only when every daemon they stopped has been started again, and
  \<open>check_stuck\<close> of \<open>dump_stuck.py\<close> only when the cluster reports the expected numbers.
\<close>

section \<open>The parts that stop nothing\<close>

context calm_step
begin

lemma calm_steps [keeps_intros]:
  "keeps R (steps [])"
  "keeps R m \<Longrightarrow> keeps R (steps ms) \<Longrightarrow> keeps R (steps (m # ms))"
  unfolding steps_def for_each.simps by (auto intro: keeps_intros)

lemma calm_shared [keeps_intros]:
  "keeps R (cluster_cmd as)"
  "keeps R (flush_pg_stats js)"
  "keeps R (inject w l)"
  "keeps R (wait_osds_up n q)"
  "keeps R (rados_cmd h as)"
  "keeps R (test_start msg v)"
  "keeps R (need_osds n msg)"
  unfolding cluster_cmd_def flush_pg_stats_def inject_def wait_osds_up_def rados_cmd_def rados_def
    test_start_def need_osds_def
  by (intro keeps_intros)+

lemma calm_stuck [keeps_intros]:
  "keeps R (check_health out w v)"
  "keeps R (check_stuck v1 v2 v3)"
  "keeps R (until_stuck v1 v2 v3)"
  "keeps R flush_both"
  unfolding check_health_def check_stuck_def until_stuck_def flush_both_def
  by (intro keeps_intros)+

lemma calm_peer [keeps_intros]:
  "keeps R (check_blocked v)"
  "keeps R (pg_is_down v)"
  unfolding check_blocked_def pg_is_down_def loads_def
  by (intro keeps_intros)+

lemma calm_bench [keeps_intros]:
  "keeps R (rados_start h as)"
  "keeps R wait_proc"
  "keeps R (bench h as)"
  "keeps R (start_bench h p cfg)"
  "keeps R (wait_bench cfg)"
  unfolding rados_start_def wait_proc_def bench_def start_bench_def wait_bench_def
  by (intro keeps_intros)+

lemma calm_objects [keeps_intros]:
  "keeps R (put_object h p name f)"
  "keeps R (old_objects h p f)"
  "keeps R (new_objects h p f)"
  "keeps R (get_object h p b name)"
  "keeps R (verify_objects h p b)"
  "keeps R assert_unfound"
  "keeps R (mark_unfound_lost how v)"
  "keeps R (ec_mark_unfound_lost v)"
  "keeps R (kick_recovery js k)"
  "keeps R (ec_profile cfg)"
  unfolding put_object_def old_objects_def new_objects_def get_object_def verify_objects_def rados_def
    assert_unfound_def mark_unfound_lost_def ec_mark_unfound_lost_def unfound_of_def count_lost_def
    kick_recovery_def ec_profile_def
  by (intro keeps_intros)+

lemma calm_divergent [keeps_intros]:
  "keeps R (rados_bg h as)"
  "keeps R (other_osds j)"
  "keeps R (divergent_start v)"
  "keeps R (read_divergent h)"
  "keeps R (tool_op h pre opts fs)"
  "keeps R offline_prefix"
  unfolding rados_bg_def other_osds_def divergent_start_def short_logs_def read_divergent_def rados_def
    tool_op_def offline_prefix_def get_filepath_def
  by (intro keeps_intros)+

end

section \<open>The tests of the osds\<close>

lemma moves_asks: "moves role E A (f (g E)) C \<Longrightarrow> moves role E A (bind (asks g) f) C"
  unfolding moves_def by (simp add: exec_simps)

lemma moves_osd_loops [moves_intros]:
  "moves ''osd'' E A (for_each js kill_osd) (A \<union> str_int ` set js)"
  "moves ''osd'' E A (for_each js revive) (A - str_int ` set js)"
  by (rule moves_for_each_stop moves_for_each_start, rule moves_intros)+

lemma moves_revive_ids [moves_intros]:
  "moves ''osd'' E A (for_each ids (\<lambda>i. bind (revive_osd_id i v b) (\<lambda>_. cluster_cmd (w i)))) (A - (\<lambda>i. i) ` set ids)"
  by (rule moves_for_each_start, rule moves_bind [OF moves_revive_osd_id moves_calm]) (intro keeps_intros)

lemmas osd_task_defs = peer_task_def osd_recovery_task_def test_incomplete_pgs_def osd_backfill_task_def
  lost_unfound_task_def rep_lost_unfound_delete_task_def ec_lost_unfound_task_def lose_objects_def
  give_up_objects_def Let_def

lemma osd_tasks_move:
  "moves ''osd'' E {} (peer_task v) {}"
  "moves ''osd'' E {} (osd_recovery_task v) {}"
  "moves ''osd'' E {} (test_incomplete_pgs v) {}"
  "moves ''osd'' E {} (osd_backfill_task v) {}"
  "moves ''osd'' E {} (lost_unfound_task v) {}"
  "moves ''osd'' E {} (rep_lost_unfound_delete_task v) {}"
  "moves ''osd'' E {} (ec_lost_unfound_task v) {}"
  unfolding osd_task_defs
  by (rule moves_mono, (rule moves_intros | (rule moves_calm, (intro keeps_intros; fail)))+, auto)+

lemma str_int_01: "str_int 0 = ''0''" "str_int 1 = ''1''"
  by code_simp+

lemma dump_stuck_moves:
  assumes "{''0'', ''1''} \<subseteq> set (env_roles E ''osd'')"
  shows "moves ''osd'' E {} (dump_stuck_task v) {}"
  unfolding dump_stuck_task_def
  by (rule moves_mono, (rule moves_asks moves_intros | (rule moves_calm, (intro keeps_intros; fail)))+,
      use assms in \<open>auto simp: str_int_01\<close>)

text \<open>The three divergence tests kill all three osds and revive the primary after the other two.\<close>

lemma other_osds_Ok: "other_osds d E s = (Ok nd, s') \<Longrightarrow> {0, 1, 2} \<subseteq> insert d (set nd)"
  by (auto simp: other_osds_def exec_basic split: if_splits)

lemma divergent_start_osds:
  fixes s :: "'z manager_scheme"
  assumes "divergent_start v E s = (Ok (d, nd, mon), s')"
  shows "{0, 1, 2} \<subseteq> insert d (set nd)"
proof -
  from assms obtain t t' :: "'z manager_scheme" where "other_osds d E t = (Ok nd, t')"
    unfolding divergent_start_def bind_Ok by (auto simp only: ret_def prod.inject res.inject)
  then show ?thesis by (rule other_osds_Ok)
qed

lemma moves_divergent:
  assumes "\<And>d nd mon. {0, 1, 2} \<subseteq> insert d (set nd) \<Longrightarrow> moves ''osd'' E {} (f (d, nd, mon)) {}"
  shows "moves ''osd'' E {} (bind (divergent_start v) f) {}"
proof -
  have "moves ''osd'' E {} (divergent_start v) {}" by (rule moves_calm) (intro keeps_intros)
  then show ?thesis
    using assms divergent_start_osds unfolding moves_def bind_Ok by (metis prod_cases3)
qed

lemma make_divergent_moves [moves_intros]:
  "moves ''osd'' E A (make_divergent d nd mon) (A \<union> str_int ` set [0, 1, 2] - str_int ` set nd - {str_int d})"
  unfolding make_divergent_def
  by (rule moves_intros | (rule moves_calm, (intro keeps_intros; fail)))+

lemma divergent_tasks_move:
  "moves ''osd'' E {} (divergent_priors_task v) {}"
  "moves ''osd'' E {} (divergent_priors2_task v pid) {}"
  unfolding divergent_priors_task_def divergent_priors2_task_def
  by (rule moves_divergent, rule moves_mono, simp only: prod.case,
      (rule moves_intros | (rule moves_calm, (intro keeps_intros; fail)))+, auto)+


text \<open>The other osd of the regression test is known only while it runs, so the bound on the stopped osds
  is weakened at the end.\<close>

lemma moves_calm_le: "keeps (no_more_stopped role) m \<Longrightarrow> A \<subseteq> B \<Longrightarrow> moves role E A m B"
  by (rule moves_mono [OF moves_calm])

lemma reg11184_moves: "moves ''osd'' E {} (reg11184_task v pid) {}"
  unfolding reg11184_task_def
  by (rule moves_divergent, simp only: prod.case,
      (rule moves_intros | (rule moves_calm, (intro keeps_intros; fail)) | (rule moves_calm_le, (intro keeps_intros; fail)))+,
      auto)

text \<open>The tests that are over only when the osds they stopped are running again. (Of the others
  \<open>object_source_down.py\<close> leaves two osds stopped and \<open>resolve_stuck_peering.py\<close> the primary.)\<close>

definition osd_tests :: "pv \<Rightarrow> nat \<Rightarrow> ('z, unit) mgr list" where
  "osd_tests config pid =
     [dump_stuck_task config, peer_task config, osd_recovery_task config, test_incomplete_pgs config,
      osd_backfill_task config, lost_unfound_task config, rep_lost_unfound_delete_task config,
      ec_lost_unfound_task config, divergent_priors_task config, divergent_priors2_task config pid,
      reg11184_task config pid]"

definition test_env :: env where
  \<open>test_env = (sample_env
     [([''osd'', ''dump'', ''--format=json''], dumped ''{"pools": []}''),
      ([''osd'', ''dump''], ok_proc (join [newline] [''osd.0 up in '', ''osd.1 up in '', ''osd.2 up in ''])),
      ([''pg'', ''dump'', ''--format=json''], dumped ''{"pg_stats": []}''),
      ([''status'', ''--format=json-pretty''], ok_proc ''{"pgmap": {"num_pgs": 0}}'')])
     \<lparr>env_roles := \<lambda>_. [''0'', ''1'', ''2'']\<rparr>\<close>

text \<open>C38: The scenario tests clean up: on a cluster with osds 0 and 1, whatever it answers, each of the eleven
  tests that starts with no osd stopped and returns normally has started every osd again that it
  stopped, the divergence tests with whatever primary they find.\<close>

theorem osd_tests_restore:
  assumes "test \<in> set (osd_tests config pid)" and "test E s = (Ok (), s')"
    and "stopped ''osd'' (trace s) = []" and "{''0'', ''1''} \<subseteq> set (env_roles E ''osd'')"
  shows "stopped ''osd'' (trace s') = []"
proof -
  have "moves ''osd'' E {} test {}"
    using assms(1) by (auto simp: osd_tests_def osd_tasks_move divergent_tasks_move reg11184_moves
        dump_stuck_moves [OF assms(4)])
  then show ?thesis using assms(2,3) unfolding moves_def by fastforce
qed

theorem osd_tests_restore_witness:
  "\<exists>s'. osd_backfill_task VNone test_env sample_mgr = (Ok (), s') \<and> stopped ''osd'' (trace s') = []"
proof -
  have "fst (osd_backfill_task VNone test_env sample_mgr) = Ok ()" by code_simp
  note run = run_eq [OF this]
  have "stopped ''osd'' (trace sample_mgr) = []" "{''0'', ''1''} \<subseteq> set (env_roles test_env ''osd'')" by code_simp+
  then show ?thesis
    using run osd_tests_restore [of "osd_backfill_task VNone" VNone 0, OF _ run] by (auto simp: osd_tests_def)
qed

section \<open>The test of the monitors\<close>

context calm_step
begin

lemma calm_mon_test [keeps_intros]:
  "keeps R mon_ids"
  "keeps R (wait_quorum n)"
  "keeps R (verify_quorum ms)"
  unfolding mon_ids_def wait_quorum_def verify_quorum_def by (intro keeps_intros)+

end

lemma moves_for_each_same: "(\<And>x. moves role E A (f x) A) \<Longrightarrow> moves role E A (for_each xs f) A"
  by (induction xs) (auto intro: moves_bind moves_calm keeps_intros)

lemma moves_form_quorum [moves_intros]: "moves ''mon'' E A (form_quorum q n ms) (A - set ms)"
proof (induction ms arbitrary: n A)
  case Nil
  then show ?case by (auto intro: moves_calm keeps_intros)
next
  case (Cons m ms)
  show ?case
    unfolding form_quorum.simps
    by (rule moves_mono [where B = "A - {m} - set ms"], intro moves_bind [OF moves_revive_mon] moves_bind [OF moves_calm] Cons.IH keeps_intros) auto
qed

lemma moves_kill_mons [moves_intros]: "moves ''mon'' E A (for_each ms kill_mon) (A \<union> (\<lambda>i. i) ` set ms)"
  by (rule moves_for_each_stop) (rule moves_kill_mon)

lemma mon_passes_move:
  "moves ''mon'' E {} (restart_each ms) {}"
  "moves ''mon'' E {} (stop_and_form ms) {}"
  "moves ''mon'' E {} (without_rank ms r) {}"
proof -
  show "moves ''mon'' E {} (restart_each ms) {}"
    unfolding restart_each_def
    by (rule moves_for_each_same, rule moves_mono,
        (rule moves_intros | (rule moves_calm, (intro keeps_intros; fail)))+, auto)
  show "moves ''mon'' E {} (stop_and_form ms) {}" "moves ''mon'' E {} (without_rank ms r) {}"
    unfolding stop_and_form_def without_rank_def
    by (rule moves_mono, (rule moves_intros | (rule moves_calm, (intro keeps_intros; fail)))+, auto)+
qed

lemma mon_recovery_restores:
  assumes "mon_recovery_task v E s = (Ok (), s')" and "stopped ''mon'' (trace s) = []"
  shows "stopped ''mon'' (trace s') = []"
proof -
  have "moves ''mon'' E {} (mon_recovery_task v) {}"
    unfolding mon_recovery_task_def Let_def
    by (intro moves_bind [OF moves_calm] moves_bind [OF mon_passes_move(1)] moves_bind [OF moves_for_each_same]
        moves_for_each_same mon_passes_move keeps_intros)
  then show ?thesis using assms unfolding moves_def by fastforce
qed

end
