(* ===== verification/Mon_Tests_Props.thy ===== *)
theory Mon_Tests_Props
  imports Mon_Tests Sample
begin

text \<open>
  The verdict of the clock check of \<open>mon_clock_skew_check.py\<close>: it is the right one for the reports the
  cluster gave while it ran, which are read off the trace.
\<close>

section \<open>The reports of the cluster\<close>

definition health_read :: "event \<Rightarrow> bool" where
  "health_read e = (case e of Run _ args _ \<Rightarrow> suffix [''health'', ''--format=json''] args | _ \<Rightarrow> False)"

text \<open>The number \<open>float(v)\<close>.\<close>

definition float_of :: "pv \<Rightarrow> rat option" where
  "float_of v = (case v of
      VStr t \<Rightarrow> (case parse_num (strip t) of Some (n, []) \<Rightarrow> num_of n | _ \<Rightarrow> None)
    | _ \<Rightarrow> num_of v)"

text \<open>A report with a skew above the limit.\<close>

definition skewed :: "skew_check \<Rightarrow> pv \<Rightarrow> bool" where
  "skewed c report = (case report of
      VDict d \<Rightarrow> (case map_of d ''skew'' of
          Some v \<Rightarrow> (case float_of v of Some q \<Rightarrow> value_less_num (max_skew c) \<bar>q\<bar> | None \<Rightarrow> False)
        | None \<Rightarrow> False)
    | _ \<Rightarrow> False)"

text \<open>The reports of an answer; a single one does not count.\<close>

definition timecheck_reports :: "pv \<Rightarrow> pv list" where
  "timecheck_reports timechecks = (case timechecks of
      VDict d \<Rightarrow> (case map_of d ''mons'' of Some (VList checks) \<Rightarrow> if 1 < length checks then checks else [] | _ \<Rightarrow> [])
    | _ \<Rightarrow> [])"

definition answer_reports :: "pyexc + proc \<Rightarrow> pv list" where
  "answer_reports a = (case a of
      Inr p \<Rightarrow> (case json_loads (p_stdout p) of
          Some (VDict d) \<Rightarrow> (case map_of d ''timechecks'' of Some tc \<Rightarrow> timecheck_reports tc | None \<Rightarrow> [])
        | _ \<Rightarrow> [])
    | Inl _ \<Rightarrow> [])"

text \<open>Some answer to a health command of the trace has such a report.\<close>

definition skew_seen :: "skew_check \<Rightarrow> env \<Rightarrow> event list \<Rightarrow> bool" where
  "skew_seen c E t = list_ex (\<lambda>u. u \<noteq> [] \<and> health_read (last u) \<and> list_ex (skewed c) (answer_reports (env_run E u))) (prefixes t)"

lemma skew_seen_snoc:
  "skew_seen c E (t @ [e]) \<longleftrightarrow>
   skew_seen c E t \<or> health_read e \<and> list_ex (skewed c) (answer_reports (env_run E (t @ [e])))"
  by (auto simp: skew_seen_def)

lemma skew_seen_quiet: "sent_rel (\<lambda>e. \<not> health_read e) s s' \<Longrightarrow> skew_seen c E (trace s') = skew_seen c E (trace s)"
proof -
  have "skew_seen c E (t @ es) = skew_seen c E t" if "list_all (\<lambda>e. \<not> health_read e) es" for t es
    using that
  proof (induction es rule: rev_induct)
    case (snoc e es)
    then show ?case using skew_seen_snoc [of c E "t @ es" e] by simp
  qed simp
  then show "sent_rel (\<lambda>e. \<not> health_read e) s s' \<Longrightarrow> ?thesis" by (auto simp: sent_rel_def)
qed

lemma quiet_seen:
  "keeps (sent_rel (\<lambda>e. \<not> health_read e)) m \<Longrightarrow> m E s = (r, s') \<Longrightarrow> skew_seen c E' (trace s') = skew_seen c E' (trace s)"
  by (rule skew_seen_quiet) (rule keepsD)

section \<open>One round\<close>

lemma not_health_read [simp]:
  "\<not> health_read (Sleep q)" "\<not> health_read Now" "\<not> health_read (PollStop f)"
  "\<not> health_read (Run h (as @ [''quorum_status'']) b)"
  by (simp_all add: health_read_def suffix_def)

lemma sent_skew_parts [keeps_intros]:
  "keeps (sent_rel (\<lambda>e. \<not> health_read e)) (wait_quorum n)"
  "keeps (sent_rel (\<lambda>e. \<not> health_read e)) (sleep_interval c)"
  "keeps (sent_rel (\<lambda>e. \<not> health_read e)) (kick_off c b q)"
  unfolding wait_quorum_def wait_for_mon_quorum_size_def wait_until_def wait_until_body_def get_mon_quorum_def
    sleep_interval_def kick_off_def
  by (intro keeps_intros not_health_read)+

lemma get_mon_health_Ok:
  assumes "get_mon_health E s = (Ok j, s')"
  shows "skew_seen c E (trace s') \<longleftrightarrow> skew_seen c E (trace s) \<or>
    (case j of VDict d \<Rightarrow> (case map_of d ''timechecks'' of Some tc \<Rightarrow> list_ex (skewed c) (timecheck_reports tc) | None \<Rightarrow> False)
     | _ \<Rightarrow> False)"
proof -
  let ?e = "Run (mgr_controller s) (zbkc_args E ''120'' (mgr_cluster s) @ [''health'', ''--format=json'']) True"
  obtain p where "env_run E (trace s @ [?e]) = Inr p" "json_loads (p_stdout p) = Some j" "trace s' = trace s @ [?e]"
    using assms
    by (auto simp: get_mon_health_def raw_cluster_cmd_def run_cmd_def loads_def exec_simps split: sum.splits option.splits)
  moreover have "health_read ?e" by (simp add: health_read_def suffix_def)
  ultimately show ?thesis
    by (auto simp: skew_seen_snoc answer_reports_def split: pv.splits option.splits)
qed

lemma py_float_Ok: "py_float v E s = (Ok q, s') \<longleftrightarrow> float_of v = Some q \<and> s' = s"
  by (auto simp: py_float_def float_of_def as_num_def exec_simps split: pv.splits option.splits list.splits prod.splits)

lemma item_Ok: "item v k E s = (Ok x, s') \<longleftrightarrow> (\<exists>d. v = VDict d \<and> map_of d k = Some x) \<and> s' = s"
  by (auto simp: item_def exec_simps split: pv.splits option.splits)

lemma alist_put_not_Nil [simp]: "alist_put k v xs \<noteq> []"
  by (cases xs) (auto split: if_splits)

lemma add_report_Ok:
  "add_report c skews check E s = (Ok skews', s') \<Longrightarrow> (skews' \<noteq> [] \<longleftrightarrow> skews \<noteq> [] \<or> skewed c check) \<and> s' = s"
  by (auto simp: add_report_def bind_Ok item_Ok py_float_Ok skewed_def exec_basic exec_py_assert split: if_splits)

lemma add_reports_Ok:
  "add_reports c skews checks E s = (Ok skews', s') \<Longrightarrow>
   (skews' \<noteq> [] \<longleftrightarrow> skews \<noteq> [] \<or> list_ex (skewed c) checks) \<and> s' = s"
proof (induction checks arbitrary: skews)
  case (Cons check checks)
  then obtain skews1 t where "add_report c skews check E s = (Ok skews1, t)"
    "add_reports c skews1 checks E t = (Ok skews', s')" by (auto simp: bind_Ok)
  with Cons.IH [of skews1] add_report_Ok show ?case by fastforce
qed (simp add: exec_basic)

lemma round_state_None:
  "round_state tc E s = (Ok None, s') \<Longrightarrow> timecheck_reports tc = [] \<and> s' = s"
  by (auto simp: round_state_def bind_Ok item_Ok timecheck_reports_def as_dict_def py_len_def as_num_def exec_basic
      exec_py_assert exec_of_option split: if_splits pv.splits option.splits)

lemma round_state_trace: "round_state tc E s = (Ok st, s') \<Longrightarrow> s' = s"
  by (auto simp: round_state_def bind_Ok item_Ok as_dict_def py_len_def as_num_def exec_basic
      exec_py_assert exec_of_option split: if_splits pv.splits option.splits)

lemma read_reports_Ok: "read_reports tc E s = (Ok checks, s') \<Longrightarrow> timecheck_reports tc = checks \<and> s' = s"
  by (auto simp: read_reports_def bind_Ok item_Ok timecheck_reports_def py_len_def as_list_def exec_basic
      exec_py_assert split: if_splits pv.splits option.splits)


lemma skew_round_Ok:
  assumes "skew_round c skews once E s = (Ok (skews', once'), s')" and "skews \<noteq> [] \<longleftrightarrow> skew_seen c E (trace s)"
  shows "skews' \<noteq> [] \<longleftrightarrow> skew_seen c E (trace s')"
proof -
  from assms(1) obtain n t j u tc st v where
    w: "wait_quorum n E s = (Ok (), t)" and h: "get_mon_health E t = (Ok j, u)" and
    tc: "item j ''timechecks'' E u = (Ok tc, u)" and st: "round_state tc E u = (Ok st, v)" and
    rest: "(case st of
       None \<Rightarrow> bind (sleep_interval c) (\<lambda>_. ret (skews, once))
     | Some clean_check \<Rightarrow>
         bind (read_reports tc) (\<lambda>checks.
         bind (add_reports c skews checks) (\<lambda>skews'.
         bind (sleep_interval c) (\<lambda>_.
         ret (skews', once \<or> clean_check \<or> (truthy (expect_skew c) \<and> skews' \<noteq> [])))))) E v = (Ok (skews', once'), s')"
    unfolding skew_round_def bind_Ok by (auto simp: item_Ok exec_basic)
  have seen: "skew_seen c E (trace u) \<longleftrightarrow> skews \<noteq> [] \<or> list_ex (skewed c) (timecheck_reports tc)"
    using get_mon_health_Ok [OF h, of c] tc quiet_seen [OF sent_skew_parts(1) w, of c E] assms(2)
    by (auto simp: item_Ok)
  show ?thesis
  proof (cases st)
    case None
    then have "timecheck_reports tc = []" "v = u" using round_state_None [of tc E u v] st by auto
    moreover have "skews' = skews" "skew_seen c E (trace s') = skew_seen c E (trace v)"
      using rest None quiet_seen [OF sent_skew_parts(2), of c E v _ s' c E] by (auto simp: bind_Ok exec_basic)
    ultimately show ?thesis using seen by simp
  next
    case (Some clean)
    then obtain checks where "timecheck_reports tc = checks" "add_reports c skews checks E v = (Ok skews', v)"
      "skew_seen c E (trace s') = skew_seen c E (trace v)" "v = u"
      using rest round_state_trace [OF st] quiet_seen [OF sent_skew_parts(2), of c E v _ s' c E]
      by (auto simp: bind_Ok exec_basic dest!: read_reports_Ok dest: add_reports_Ok)
    then show ?thesis using seen add_reports_Ok [of c skews checks E v skews' v] by auto
  qed
qed

section \<open>The whole check\<close>

lemma loop_n_Ok:
  assumes "loop_n n b x E s = (Ok r, s')" and "I x s"
    and "\<And>x t y t'. I x t \<Longrightarrow> b x E t = (Ok (Inl y), t') \<Longrightarrow> I y t'"
    and "\<And>x t y t'. I x t \<Longrightarrow> b x E t = (Ok (Inr y), t') \<Longrightarrow> Q y t'"
  shows "Q r s'"
  using assms(1,2)
proof (induction n arbitrary: x s)
  case (Suc n)
  then obtain a t where a: "b x E s = (Ok a, t)"
    and rest: "(case a of Inl y \<Rightarrow> loop_n n b y | Inr r \<Rightarrow> ret r) E t = (Ok r, s')"
    by (auto simp: bind_Ok)
  show ?case
  proof (cases a)
    case (Inl y)
    then show ?thesis using Suc.IH rest a assms(3) Suc.prems(2) by simp
  next
    case (Inr y)
    then show ?thesis using rest a assms(4) Suc.prems(2) by (simp add: exec_basic)
  qed
qed (simp add: exec_simps)

lemma do_check_loop:
  fixes s :: "'z manager_scheme"
  assumes "loop (do_check_body c) ([], False, None) E s = (Ok skews, s')" and "\<not> skew_seen c E (trace s)"
  shows "skews \<noteq> [] \<longleftrightarrow> skew_seen c E (trace s')"
proof (rule loop_n_Ok [where I = "\<lambda>x t. fst x \<noteq> [] \<longleftrightarrow> skew_seen c E (trace t)" and
    Q = "\<lambda>sk t. sk \<noteq> [] \<longleftrightarrow> skew_seen c E (trace t)"])
  fix x y :: "skews \<times> bool \<times> rat option" and t t' :: "'z manager_scheme"
  assume inv: "fst x \<noteq> [] \<longleftrightarrow> skew_seen c E (trace t)"
    and body: "do_check_body c x E t = (Ok (Inl y), t')"
  obtain skews once st where x: "x = (skews, once, st)" by (cases x)
  obtain q u k v sk fin where p: "poll_stop ''skew_check'' E t = (Ok q, u)" and k: "kick_off c once st E u = (Ok k, v)"
    and r: "skew_round c skews once E v = (Ok (sk, fin), t')" and y: "y = (sk, fin, k)"
    using body unfolding x do_check_body_def by (auto simp: bind_Ok exec_basic split: if_splits prod.splits)
  have "skew_seen c E (trace v) = skew_seen c E (trace t)"
    using quiet_seen [OF sent_skew_parts(3) k, of c E] p by (auto simp: poll_stop_def exec_external skew_seen_snoc)
  then show "fst y \<noteq> [] \<longleftrightarrow> skew_seen c E (trace t')"
    using skew_round_Ok [OF r] inv x y by simp
qed (use assms in \<open>auto simp: exec_loop do_check_body_def poll_stop_def bind_Ok exec_basic exec_external skew_seen_snoc
    split: if_splits\<close>)

definition skew_sample :: skew_check where
  "skew_sample = \<lparr>check_interval = 30, max_skew = VFloat (1 / 20), expect_skew = VBool True,
     never_fail = VBool False, at_least_once = VBool True, at_least_once_timeout = VInt 600\<rparr>"

definition skew_env :: env where
  \<open>skew_env = sample_env
     [([''quorum_status''], ok_proc ''{"quorum": [0, 1, 2]}''),
      ([''health'', ''--format=json''], ok_proc (''{"timechecks": {"round_status": "finished", "round": 2, "mons": ['' @
         ''{"name": "a", "skew": 0.0, "health": "HEALTH_OK"}, '' @
         ''{"name": "b", "skew": -0.2, "health": "HEALTH_WARN", "details": ""}]}}''))]\<close>

text \<open>C39: The verdict is right: when the check returns and failing is not switched off, a skew above the
  limit was expected if and only if some report the cluster gave during the run shows one. No report is
  overlooked, and none is made up.\<close>

theorem do_check_verdict:
  assumes "do_check c E s = (Ok (), s')" and "\<not> truthy (never_fail c)" and "\<not> skew_seen c E (trace s)"
  shows "truthy (expect_skew c) \<longleftrightarrow> skew_seen c E (trace s')"
proof -
  from assms(1) obtain skews where "loop (do_check_body c) ([], False, None) E s = (Ok skews, s')"
    and "truthy (expect_skew c) \<longleftrightarrow> skews \<noteq> []"
    using assms(2) by (auto simp: do_check_def bind_Ok exec_basic split: if_splits)
  with do_check_loop [OF _ assms(3)] show ?thesis by simp
qed


theorem do_check_verdict_witness:
  "\<exists>s'. do_check skew_sample skew_env sample_mgr = (Ok (), s') \<and> skew_seen skew_sample skew_env (trace s')"
proof -
  have "fst (do_check skew_sample skew_env sample_mgr) = Ok ()" by code_simp
  note run = run_eq [OF this]
  have "\<not> truthy (never_fail skew_sample)" "\<not> skew_seen skew_sample skew_env (trace sample_mgr)"
    "truthy (expect_skew skew_sample)" by code_simp+
  then show ?thesis using run do_check_verdict [OF run] by blast
qed

end
