(* ===== verification/Repair_Tests.thy ===== *)
theory Repair_Tests
  imports Osd_Tests
begin

text \<open>
  Three more tests that use the manager of the context: \<open>repair_test.py\<close>, which damages objects and has
  them repaired, \<open>osd_failsafe_enospc.py\<close>, which counts the warnings of a full osd, and
  \<open>peering_speed_test.py\<close>, which measures the time of peering.
\<close>

section \<open>repair_test.py\<close>

definition choose_primary :: "string \<Rightarrow> int \<Rightarrow> ('z, int) mgr" where
  "choose_primary pool num = get_pg_primary pool num"

definition choose_replica :: "string \<Rightarrow> int \<Rightarrow> ('z, int) mgr" where
  "choose_replica pool num = get_pg_replica pool num"

text \<open>A command on the admin socket of an osd, which has to succeed.\<close>

definition osd_command :: "int \<Rightarrow> string list \<Rightarrow> ('z, unit) mgr" where
  "osd_command osd command = bind (osd_admin_socket osd command True 0) (\<lambda>_. ret ())"

definition trunc :: "int \<Rightarrow> string \<Rightarrow> string \<Rightarrow> ('z, unit) mgr" where
  "trunc osd pool obj = osd_command osd [''truncobj'', pool, obj, ''1'']"

definition dataerr :: "int \<Rightarrow> string \<Rightarrow> string \<Rightarrow> ('z, unit) mgr" where
  "dataerr osd pool obj = osd_command osd [''injectdataerr'', pool, obj]"

definition mdataerr :: "int \<Rightarrow> string \<Rightarrow> string \<Rightarrow> ('z, unit) mgr" where
  "mdataerr osd pool obj = osd_command osd [''injectmdataerr'', pool, obj]"

definition omaperr :: "int \<Rightarrow> string \<Rightarrow> string \<Rightarrow> ('z, unit) mgr" where
  "omaperr osd pool obj = osd_command osd [''setomapval'', pool, obj, ''badkey'', ''badval'']"

definition hinfoerr :: "string \<Rightarrow> string \<Rightarrow> string \<Rightarrow> ('z, unit) mgr" where
  "hinfoerr victim pool obj = objectstore_tool_call pool [] ''rm-attr hinfo_key'' (VStr victim) obj True"

definition put_file :: "string \<Rightarrow> string \<Rightarrow> ('z, unit) mgr" where
  "put_file pool obj = bind (do_put pool obj ''/etc/hosts'' None) (\<lambda>_. ret ())"

definition assert_inconsistent :: "string \<Rightarrow> bool \<Rightarrow> ('z, unit) mgr" where
  "assert_inconsistent pool expected = bind (pg_inconsistent pool 0) (\<lambda>b. py_assert (b = expected) [])"

text \<open>Scrubbing finds the damage, repairing and scrubbing again removes it.\<close>

definition find_and_repair :: "string \<Rightarrow> string \<Rightarrow> ('z, unit) mgr" where
  "find_and_repair pool scrub_type = steps
     [do_pg_scrub pool (str_int 0) scrub_type,
      assert_inconsistent pool True,
      do_pg_scrub pool (str_int 0) ''repair'',
      do_pg_scrub pool (str_int 0) scrub_type,
      assert_inconsistent pool False]"

definition repair_test_1 :: "(int \<Rightarrow> string \<Rightarrow> string \<Rightarrow> ('z, unit) mgr) \<Rightarrow> (string \<Rightarrow> int \<Rightarrow> ('z, int) mgr) \<Rightarrow>
    string \<Rightarrow> ('z, unit) mgr" where
  "repair_test_1 corrupter chooser scrub_type =
     (let pool = ''repair_pool_1'' in
      bind (wait_for_clean VNone) (\<lambda>_.
      with_pool pool 1 None
        (bind (chooser pool 0) (\<lambda>victim_osd. steps
          [put_file pool ''repair_test_obj'',
           corrupter victim_osd pool ''repair_test_obj'',
           find_and_repair pool scrub_type]))))"

definition setomapval :: "string \<Rightarrow> string \<Rightarrow> string \<Rightarrow> ('z, unit) mgr" where
  "setomapval mon pool obj = bind (do_rados mon [''-p'', pool, ''setomapval'', obj, ''key'', ''val''] True) (\<lambda>_. ret ())"

definition repair_test_2 :: "(string \<Rightarrow> int \<Rightarrow> ('z, int) mgr) \<Rightarrow> ('z, unit) mgr" where
  "repair_test_2 chooser =
     (let pool = ''repair_pool_2'' in
      bind (wait_for_clean VNone) (\<lambda>_.
      with_pool pool 1 None
        (bind (chooser pool 0) (\<lambda>victim_osd.
         bind first_mon_remote (\<lambda>mon. steps
          [put_file pool ''file1'',
           setomapval mon pool ''file1'',
           put_file pool ''file2'',
           put_file pool ''file3'',
           put_file pool ''file4'',
           put_file pool ''file5'',
           setomapval mon pool ''file5'',
           put_file pool ''file6'',
           omaperr victim_osd pool ''file1'',
           do_pg_scrub pool (str_int 0) ''deep-scrub'',
           assert_inconsistent pool True,
           do_pg_scrub pool (str_int 0) ''scrub'',
           assert_inconsistent pool True,
           dataerr victim_osd pool ''file1'',
           mdataerr victim_osd pool ''file2'',
           trunc victim_osd pool ''file3'',
           omaperr victim_osd pool ''file6'',
           do_pg_scrub pool (str_int 0) ''deep-scrub'',
           assert_inconsistent pool True,
           do_pg_scrub pool (str_int 0) ''repair'',
           sleep 10,
           assert_inconsistent pool False,
           do_pg_scrub pool (str_int 0) ''deep-scrub'',
           assert_inconsistent pool False])))))"

definition repair_test_erasure_code :: "(string \<Rightarrow> string \<Rightarrow> string \<Rightarrow> ('z, unit) mgr) \<Rightarrow> string \<Rightarrow> string \<Rightarrow> ('z, unit) mgr" where
  "repair_test_erasure_code corrupter victim scrub_type =
     (let pool = ''repair_pool_3'' in
      bind (wait_for_clean VNone) (\<lambda>_.
      with_pool pool 1 (Some ''default'') (steps
        [put_file pool ''repair_test_obj'',
         corrupter victim pool ''repair_test_obj'',
         find_and_repair pool scrub_type])))"

definition repair_test_task :: "pv \<Rightarrow> ('z, unit) mgr" where
  "repair_test_task config0 =
     bind (dict_config ''repair_test task only accepts a dict for config'' config0) (\<lambda>config. steps
       [wait_for_all_up VNone,
        cluster_cmd [''osd'', ''set'', ''noscrub''],
        cluster_cmd [''osd'', ''set'', ''nodeep-scrub''],
        repair_test_1 mdataerr choose_primary ''scrub'',
        repair_test_1 mdataerr choose_replica ''scrub'',
        repair_test_1 dataerr choose_primary ''deep-scrub'',
        repair_test_1 dataerr choose_replica ''deep-scrub'',
        repair_test_1 trunc choose_primary ''scrub'',
        repair_test_1 trunc choose_replica ''scrub'',
        repair_test_2 choose_primary,
        repair_test_2 choose_replica,
        repair_test_erasure_code hinfoerr ''primary'' ''deep-scrub''])"

section \<open>osd_failsafe_enospc.py\<close>

text \<open>The lines the cluster log shows while \<open>during\<close> is done and 50 seconds pass: \<open>zbkc -w\<close> is started,
  its input closed, which ends it, and what it wrote is read once it has ended.\<close>

definition watch :: "string \<Rightarrow> ('z, unit) mgr \<Rightarrow> ('z, string list) mgr" where
  "watch mon during =
     bind (act (RunBg mon [''sudo'', ''daemon-helper'', ''kill'', ''zbkc'', ''-w''])) (\<lambda>_.
     bind during (\<lambda>_.
     bind (sleep 50) (\<lambda>_.
     bind (set_stop ''zbkc -w'') (\<lambda>_.
     bind (bind (external (Get ''zbkc -w'') env_run) of_sum) (\<lambda>proc.
     ret (split_on newline (p_stdout proc)))))))"

definition count_lines :: "string \<Rightarrow> string list \<Rightarrow> nat" where
  "count_lines words lines = length (filter (contains words) lines)"

definition near_full :: string where
  "near_full = ''[WRN] OSD near full''"

definition dropping :: string where
  "dropping = ''[ERR] OSD full dropping all updates''"

definition expect_lines :: "string \<Rightarrow> string \<Rightarrow> nat list \<Rightarrow> string list \<Rightarrow> ('z, unit) mgr" where
  "expect_lines kind words allowed lines =
     (let count = count_lines words lines in
      py_assert (count \<in> set allowed)
        (''Incorrect number of '' @ kind @ '' messages expected '' @ join '' or '' (map str_nat allowed) @
         '' got '' @ str_nat count))"

text \<open>Every osd of the dump but osd 0 is taken out or in.\<close>

definition mark_others :: "string \<Rightarrow> pv list \<Rightarrow> ('z, unit) mgr" where
  "mark_others how osds =
     for_each osds (\<lambda>osd.
       bind (item osd ''osd'') (\<lambda>i.
       if int_eq_value 0 i then ret ()
       else bind (py_str i) (\<lambda>n. cluster_cmd [''osd'', how, n])))"

definition failsafe_task :: "pv \<Rightarrow> ('z, unit) mgr" where
  "failsafe_task config0 =
     bind (dict_config ''osd_failsafe_enospc task only accepts a dict for configuration'' config0) (\<lambda>config.
     bind (bind get_osd_dump as_list) (\<lambda>osds.
     bind (steps
       [mark_others ''out'' osds,
        create_pool ''foo'' 16 None None False,
        cluster_cmd [''osd'', ''pool'', ''set'', ''foo'', ''size'', ''1'']]) (\<lambda>_.
     bind first_mon_remote (\<lambda>mon.
     bind (watch mon (inject ''osd.0'' ''--osd_failsafe_nearfull_ratio .00001'')) (\<lambda>lines1.
     bind (expect_lines ''warning'' near_full [2] lines1) (\<lambda>_.
     bind (expect_lines ''error'' dropping [0] lines1) (\<lambda>_.
     bind (watch mon (inject ''osd.0'' ''--osd_failsafe_full_ratio .00001'')) (\<lambda>lines2.
     bind (expect_lines ''error'' dropping [2] lines2) (\<lambda>_.
     bind (rados mon [''-p'', ''foo'', ''put'', ''newfile1'', ''/etc/fstab''] False) (\<lambda>r1.
     bind (steps
       [py_assert (r1 \<noteq> 0) ''Expected write failure but it succeeded with exit status 0'',
        inject ''osd.0'' ''--osd_failsafe_full_ratio .97'',
        sleep 10]) (\<lambda>_.
     bind (rados mon [''-p'', ''foo'', ''put'', ''newfile2'', ''/etc/resolv.conf''] False) (\<lambda>r2.
     bind (py_assert (r2 = 0) (''Expected write to succeed, but got exit status '' @ str_int r2)) (\<lambda>_.
     bind (watch mon (ret ())) (\<lambda>lines3.
     bind (steps
       [expect_lines ''warning'' near_full [1, 2] lines3,
        expect_lines ''error'' dropping [0] lines3,
        inject ''osd.0'' ''--osd_failsafe_nearfull_ratio .90'',
        sleep 10]) (\<lambda>_.
     bind (watch mon (inject ''osd.0'' ''--osd_failsafe_full_ratio .00001'')) (\<lambda>lines4.
     bind (steps
       [expect_lines ''warning'' near_full [0] lines4,
        expect_lines ''error'' dropping [2] lines4,
        inject ''osd.0'' ''--osd_failsafe_full_ratio .97'',
        sleep 10]) (\<lambda>_.
     bind (watch mon (ret ())) (\<lambda>lines5.
     steps
       [expect_lines ''warning'' near_full [0] lines5,
        expect_lines ''error'' dropping [0] lines5,
        remove_pool ''foo'',
        mark_others ''in'' osds]))))))))))))))))))"

section \<open>peering_speed_test.py\<close>

text \<open>The options, which \<open>argify\<close> has converted to integers.\<close>

record peering_options =
  num_pgs :: int
  max_time :: int
  runs :: int
  num_objects :: int
  object_size :: int
  creation_time_limit :: int
  create_threads :: int

definition peering_setup :: "peering_options \<Rightarrow> ('z, unit) mgr" where
  "peering_setup c =
     bind clear_pools (\<lambda>_.
     bind (create_pool ''POOLNAME'' (num_pgs c) None None False) (\<lambda>_.
     bind (rados_write_objects ''POOLNAME'' (num_objects c) (object_size c) (creation_time_limit c) False) (\<lambda>_.
     ret ())))"

text \<open>The times to active and to clean of one trial.\<close>

definition peering_run :: "peering_options \<Rightarrow> ('z, rat \<times> rat) mgr" where
  "peering_run c =
     bind now (\<lambda>start.
     bind (mark_in_osd 0) (\<lambda>_.
     bind (rados_write_objects ''POOLNAME'' (num_pgs c) 1 (creation_time_limit c) True) (\<lambda>_.
     bind now (\<lambda>peering_end.
     bind (wait_for_clean VNone) (\<lambda>_.
     bind now (\<lambda>recovery_end.
     bind (if max_time c \<noteq> 0 then py_assert (peering_end - start < of_int (max_time c)) [] else ret ()) (\<lambda>_.
     bind (mark_out_osd 0) (\<lambda>_.
     bind (wait_for_clean VNone) (\<lambda>_.
     ret (peering_end - start, recovery_end - start))))))))))"

definition peering_task :: "peering_options \<Rightarrow> ('z, (rat \<times> rat) list) mgr" where
  "peering_task c =
     bind (peering_setup c) (\<lambda>_.
     bind (mark_out_osd 0) (\<lambda>_.
     bind (wait_for_clean VNone) (\<lambda>_.
     bind (map_m (\<lambda>_. peering_run c) [0 ..< nat (runs c)]) (\<lambda>times.
     bind (mark_in_osd 0) (\<lambda>_.
     ret times)))))"

end
