(* ===== verification/Repair_Props.thy ===== *)
theory Repair_Props
  imports Repair_Tests Manager_Table
begin

text \<open>
  The repair tests and the pool table together: a repair test that returns has removed every pool it
  created.
\<close>

section \<open>The parts that leave the table alone\<close>

context mgr_step
begin

lemma keeps_steps [keeps_intros]:
  "keeps R (steps [])"
  "keeps R m \<Longrightarrow> keeps R (steps ms) \<Longrightarrow> keeps R (steps (m # ms))"
  unfolding steps_def for_each.simps by (auto intro: keeps_intros)

lemma keeps_repair_parts [keeps_intros]:
  "keeps R (cluster_cmd as)"
  "keeps R (choose_primary p n)"
  "keeps R (choose_replica p n)"
  "keeps R (trunc j p ob)"
  "keeps R (dataerr j p ob)"
  "keeps R (mdataerr j p ob)"
  "keeps R (omaperr j p ob)"
  "keeps R (hinfoerr w p ob)"
  "keeps R (put_file p ob)"
  "keeps R (assert_inconsistent p b)"
  "keeps R (find_and_repair p t)"
  "keeps R (setomapval h p ob)"
  unfolding cluster_cmd_def choose_primary_def choose_replica_def trunc_def dataerr_def mdataerr_def omaperr_def
    osd_command_def hinfoerr_def put_file_def assert_inconsistent_def find_and_repair_def setomapval_def
  by (intro keeps_intros)+

end

section \<open>The table after a test\<close>

definition same_pools :: "'z manager_scheme \<Rightarrow> 'z manager_scheme \<Rightarrow> bool" where
  "same_pools s s' \<longleftrightarrow> pools s' = pools s"

interpretation sp: mgr_step same_pools
  by unfold_locales (auto simp: same_pools_def)

lemma with_pool_same:
  fixes body :: "('z, 'a) mgr"
  assumes "keeps io_rel body"
  shows "ok_keeps same_pools (with_pool p n prof body)"
proof (rule ok_keepsI)
  fix E and s s' :: "'z manager_scheme" and a
  assume "with_pool p n prof body E s = (Ok a, s')"
  then obtain t u where c: "create_pool p n prof None False E s = (Ok (), t)" and b: "body E t = (Ok a, u)"
    and r: "remove_pool p E u = (Ok (), s')"
    by (auto simp: with_pool_def bind_Ok exec_basic)
  have "pools t = pools s @ [(p, n)]" "p \<notin> fst ` set (pools s)"
    using postD [OF post_create_pool c] by auto
  moreover have "pools u = pools t" using keepsD [OF assms b] by (auto simp: io_rel_def)
  ultimately show "same_pools s s'"
    using postD [OF post_remove_pool r] by (auto simp: same_pools_def filter_id_conv split: if_splits)
qed

lemma repair_test_1_same:
  assumes "\<And>i p ob. keeps io_rel (corrupter i p ob)" and "\<And>p n. keeps io_rel (chooser p n)"
  shows "ok_keeps same_pools (repair_test_1 corrupter chooser t)"
  unfolding repair_test_1_def Let_def
  by (intro sp.ok_keeps_bind with_pool_same ok_keeps_of_keeps keeps_intros assms)

lemma repair_test_2_same:
  assumes "\<And>p n. keeps io_rel (chooser p n)"
  shows "ok_keeps same_pools (repair_test_2 chooser)"
  unfolding repair_test_2_def Let_def
  by (intro sp.ok_keeps_bind with_pool_same ok_keeps_of_keeps keeps_intros assms)

lemma repair_test_erasure_code_same:
  assumes "\<And>i p ob. keeps io_rel (corrupter i p ob)"
  shows "ok_keeps same_pools (repair_test_erasure_code corrupter v t)"
  unfolding repair_test_erasure_code_def Let_def
  by (intro sp.ok_keeps_bind with_pool_same ok_keeps_of_keeps keeps_intros assms)

lemma ok_keeps_steps:
  "ok_keeps same_pools (steps [])"
  "ok_keeps same_pools m \<Longrightarrow> ok_keeps same_pools (steps ms) \<Longrightarrow> ok_keeps same_pools (steps (m # ms))"
  unfolding steps_def for_each.simps by (auto intro: sp.ok_keeps_bind ok_keeps_of_keeps sp.keeps_ret)

lemma repair_test_pools: "repair_test_task v E s = (Ok (), s') \<Longrightarrow> pools s' = pools s"
proof -
  have "ok_keeps same_pools (repair_test_task v)"
    unfolding repair_test_task_def
    by (rule sp.ok_keeps_bind, (intro ok_keeps_of_keeps keeps_intros; fail))
      (intro ok_keeps_steps repair_test_1_same repair_test_2_same repair_test_erasure_code_same
        ok_keeps_of_keeps [OF sp.keeps_manager_wait(7)] ok_keeps_of_keeps [OF sp.keeps_repair_parts(1)]
        mio.keeps_repair_parts)
  then show "repair_test_task v E s = (Ok (), s') \<Longrightarrow> pools s' = pools s"
    by (drule ok_keepsD) (simp_all add: same_pools_def)
qed

end
