(* ===== verification/Scrub_Tests.thy ===== *)
theory Scrub_Tests
  imports Repair_Tests
begin

text \<open>
  The test of scrubbing in \<open>src/tasks/scrub_test.py\<close>: it damages an object in every way it knows, has the
  cluster scrub it, and checks what the cluster says about the damage (\<open>InconsistentObjChecker\<close>).
\<close>

section \<open>The victim\<close>

definition victim_of :: "pv \<Rightarrow> ('z, (pv \<times> pv) option) mgr" where
  "victim_of pg =
     bind (item pg ''stat_sum'') (\<lambda>ss.
     bind (item ss ''num_bytes'') (\<lambda>sz.
     if num_less_value 0 sz then
       bind (item pg ''pgid'') (\<lambda>victim.
       bind (item pg ''acting'') (\<lambda>acting.
       ret (Some (victim, acting))))
     else ret None))"

definition wait_for_victim_pg :: "('z, pv \<times> pv) mgr" where
  "wait_for_victim_pg =
     loop (\<lambda>_. bind get_pg_stats (\<lambda>stats.
       bind (for_find stats victim_of) (\<lambda>found.
       case found of Some v \<Rightarrow> ret (Inr v) | None \<Rightarrow> bind (sleep 3) (\<lambda>_. ret (Inl ()))))) ()"

text \<open>The directory of the object, its host and its name.\<close>

definition find_victim_object :: "string \<Rightarrow> int \<Rightarrow> ('z, string \<times> string \<times> string) mgr" where
  "find_victim_object pg osd =
     bind (only_remote (''osd.'' @ str_int osd)) (\<lambda>osd_remote.
     let data_path = ''/var/lib/zbkc/osd/zbkc-'' @ str_int osd @ ''/fuse/'' @ pg @ ''_head/all''
     in bind (run_cmd osd_remote [''sudo'', ''ls'', data_path] True) (\<lambda>proc.
        bind (of_option StopIteration [] (find (\<lambda>line. \<not> suffix ''::::head#'' line) (split_on newline (p_stdout proc)))) (\<lambda>osdfilename.
        bind (at_index (split_on (CHR '':'') osdfilename) 4) (\<lambda>objname.
        ret (osd_remote, data_path @ ''/'' @ osdfilename, objname)))))"

definition corrupt_file :: "string \<Rightarrow> string \<Rightarrow> ('z, unit) mgr" where
  "corrupt_file osd_remote path =
     bind (run_cmd osd_remote [''sudo'', ''dd'', ''if=/dev/zero'', ''of='' @ path @ ''/data'', ''bs=1'', ''count=1'',
       ''conv=notrunc''] True) (\<lambda>_. ret ())"

text \<open>What follows the first dot.\<close>

definition get_pgnum :: "string \<Rightarrow> ('z, string) mgr" where
  "get_pgnum pgid =
     bind (py_assert (CHR ''.'' \<in> set pgid) []) (\<lambda>_.
     ret (tl (dropWhile (\<lambda>c. c \<noteq> CHR ''.'') pgid)))"

definition scrub_victim :: "string \<Rightarrow> bool \<Rightarrow> string \<Rightarrow> string \<Rightarrow> ('z, unit) mgr" where
  "scrub_victim stype expected victim pool =
     bind (get_pgnum victim) (\<lambda>pgnum.
     bind (do_pg_scrub pool pgnum stype) (\<lambda>_.
     bind (get_single_pg_stats victim) (\<lambda>stats.
     bind (pg_state stats) (\<lambda>st.
     py_assert (contains ''+inconsistent'' st = expected) []))))"

definition deep_scrub :: "string \<Rightarrow> string \<Rightarrow> ('z, unit) mgr" where
  "deep_scrub victim pool = scrub_victim ''deep-scrub'' True victim pool"

definition repair :: "string \<Rightarrow> string \<Rightarrow> ('z, unit) mgr" where
  "repair victim pool = scrub_victim ''repair'' False victim pool"

definition test_repair_corrupted_obj :: "string \<Rightarrow> string \<Rightarrow> string \<Rightarrow> string \<Rightarrow> ('z, unit) mgr" where
  "test_repair_corrupted_obj pg osd_remote obj_path pool = steps
     [corrupt_file osd_remote obj_path,
      deep_scrub pg pool,
      repair pg pool]"

definition test_repair_bad_omap :: "string \<Rightarrow> int \<Rightarrow> string \<Rightarrow> ('z, unit) mgr" where
  "test_repair_bad_omap pg osd objname = steps
     [osd_command osd [''rmomapkey'', ''rbd'', objname, ''key''],
      osd_command osd [''setomapval'', ''rbd'', objname, ''badkey'', ''badval''],
      osd_command osd [''setomapheader'', ''rbd'', objname, ''badhdr''],
      deep_scrub pg ''rbd'',
      osd_command osd [''setomapheader'', ''rbd'', objname, ''hdr''],
      osd_command osd [''rmomapkey'', ''rbd'', objname, ''badkey''],
      osd_command osd [''setomapval'', ''rbd'', objname, ''key'', ''val''],
      repair pg ''rbd'']"

section \<open>Damaging an object\<close>

text \<open>The class \<open>MessUp\<close>. Its methods are context managers: each does its damage, runs the body on the
  names of the checks that have to hold, and undoes the damage when the body returns. \<open>mu_temp\<close> gives the name
  that \<open>tempfile.mktemp()\<close> returns for the damage a command does.\<close>

record mess_up =
  mu_osd :: string
  mu_pool :: string
  mu_osd_id :: int
  mu_obj :: string
  mu_path :: string
  mu_omap_key :: string
  mu_omap_val :: string
  mu_temp :: "string \<Rightarrow> string"

type_synonym 'z damage = "(string list \<Rightarrow> ('z, unit) mgr) \<Rightarrow> ('z, unit) mgr"

definition test_with_file :: "mess_up \<Rightarrow> string \<Rightarrow> string list \<Rightarrow> 'z damage" where
  "test_with_file m messup_cmd checks body = steps
     [bind (run_cmd (mu_osd m) [''sudo'', ''cp'', mu_path m @ ''/data'', mu_temp m messup_cmd] True) (\<lambda>_. ret ()),
      bind (run_cmd (mu_osd m) (py_split messup_cmd) True) (\<lambda>_. ret ()),
      body checks,
      bind (run_cmd (mu_osd m) [''sudo'', ''mkdir'', mu_path m] False) (\<lambda>_. ret ()),
      bind (run_cmd (mu_osd m) [''sudo'', ''cp'', mu_temp m messup_cmd, mu_path m @ ''/data''] True) (\<lambda>_. ret ())]"

definition mu_remove :: "mess_up \<Rightarrow> 'z damage" where
  "mu_remove m = test_with_file m (''sudo rmdir '' @ mu_path m) [''missing'']"

definition mu_append :: "mess_up \<Rightarrow> 'z damage" where
  "mu_append m = test_with_file m
     (''sudo dd if=/dev/zero of='' @ mu_path m @ ''/data bs=1 count=1 conv=notrunc oflag=append'')
     [''data_digest_mismatch'', ''size_mismatch'']"

definition mu_truncate :: "mess_up \<Rightarrow> 'z damage" where
  "mu_truncate m = test_with_file m (''sudo dd if=/dev/null of='' @ mu_path m @ ''/data'')
     [''data_digest_mismatch'', ''size_mismatch'']"

definition mu_change_obj :: "mess_up \<Rightarrow> 'z damage" where
  "mu_change_obj m = test_with_file m
     (''sudo dd if=/dev/zero of='' @ mu_path m @ ''/data bs=1 count=1 conv=notrunc'') [''data_digest_mismatch'']"

definition mu_rm_omap :: "mess_up \<Rightarrow> 'z damage" where
  "mu_rm_omap m body = steps
     [osd_command (mu_osd_id m) [''rmomapkey'', mu_pool m, mu_obj m, mu_omap_key m],
      body [''omap_digest_mismatch''],
      osd_command (mu_osd_id m) [''setomapval'', mu_pool m, mu_obj m, mu_omap_key m, mu_omap_val m]]"

definition mu_add_omap :: "mess_up \<Rightarrow> 'z damage" where
  "mu_add_omap m body = steps
     [osd_command (mu_osd_id m) [''setomapval'', mu_pool m, mu_obj m, ''badkey'', ''badval''],
      body [''omap_digest_mismatch''],
      osd_command (mu_osd_id m) [''rmomapkey'', mu_pool m, mu_obj m, ''badkey'']]"

definition mu_change_omap :: "mess_up \<Rightarrow> 'z damage" where
  "mu_change_omap m body = steps
     [osd_command (mu_osd_id m) [''setomapval'', mu_pool m, mu_obj m, mu_omap_key m, ''badval''],
      body [''omap_digest_mismatch''],
      osd_command (mu_osd_id m) [''setomapval'', mu_pool m, mu_obj m, mu_omap_key m, mu_omap_val m]]"

section \<open>Checking the report\<close>

text \<open>The class \<open>InconsistentObjChecker\<close>; the message of the last assertion of \<open>_check_attrs\<close> is given
  without the values of the attributes.\<close>

abbreviation quoted :: "string \<Rightarrow> string" where
  "quoted w \<equiv> CHR 0x27 # w @ [CHR 0x27]"

record obj_checker =
  ck_osd :: int
  ck_acting :: "pv list"
  ck_obj :: string

definition checker_init :: "int \<Rightarrow> pv list \<Rightarrow> string \<Rightarrow> ('z, obj_checker) mgr" where
  "checker_init osd acting obj_name =
     bind (py_assert (list_ex (int_eq_value osd) acting) []) (\<lambda>_.
     ret \<lparr>ck_osd = osd, ck_acting = acting, ck_obj = obj_name\<rparr>)"

definition basic_checks :: "obj_checker \<Rightarrow> pv \<Rightarrow> ('z, unit) mgr" where
  "basic_checks c inc =
     bind (item inc ''object'') (\<lambda>ob.
     bind (item ob ''name'') (\<lambda>name.
     bind (py_assert (name = VStr (ck_obj c)) []) (\<lambda>_.
     bind (item ob ''snap'') (\<lambda>snap.
     bind (py_assert (snap = VStr ''head'') []) (\<lambda>_.
     bind (item inc ''shards'') (\<lambda>shards.
     bind (py_len shards) (\<lambda>n.
     py_assert (n = length (ck_acting c)) ''the number of returned shard does not match with the acting set'')))))))"

text \<open>\<open>w in v\<close> for a string \<open>w\<close>\<close>

definition py_in :: "string \<Rightarrow> pv \<Rightarrow> ('z, bool) mgr" where
  "py_in w v = (case v of
      VList xs \<Rightarrow> ret (VStr w \<in> set xs)
    | VDict d \<Rightarrow> ret (dict_has d w)
    | VStr s \<Rightarrow> ret (contains w s)
    | _ \<Rightarrow> raise TypeError ''argument is not iterable'')"

definition shard_osd :: "pv \<Rightarrow> ('z, pv) mgr" where
  "shard_osd shard =
     bind (py_in ''osd'' shard) (\<lambda>b.
     bind (py_assert b []) (\<lambda>_.
     item shard ''osd''))"

definition in_acting :: "obj_checker \<Rightarrow> pv \<Rightarrow> bool" where
  "in_acting c osd = list_ex (py_eq osd) (ck_acting c)"

text \<open>\<open>bad\<close> and \<open>good\<close>: whether the shard of the osd and some other shard have been seen.\<close>

fun errors_loop :: "obj_checker \<Rightarrow> string \<Rightarrow> bool \<times> bool \<Rightarrow> pv list \<Rightarrow> ('z, bool \<times> bool) mgr" where
  "errors_loop c err_name found [] = ret found"
| "errors_loop c err_name (bad, good) (shard # shards) =
     bind (shard_osd shard) (\<lambda>osd.
     bind (item shard ''errors'') (\<lambda>errors.
     bind (py_in err_name errors) (\<lambda>err.
     if int_eq_value (ck_osd c) osd then
       bind (py_assert (\<not> bad) ''multiple entries found for the given OSD'') (\<lambda>_.
       bind (py_assert err (''Didn'' @ [CHR 0x27] @ ''t find '' @ quoted err_name @ '' in errors'')) (\<lambda>_.
       errors_loop c err_name (True, good) shards))
     else
       bind (py_assert (in_acting c osd) ''shard not in acting set'') (\<lambda>_.
       bind (py_assert (\<not> err) (''Expected '' @ quoted err_name @ '' in errors'')) (\<lambda>_.
       errors_loop c err_name (bad, True) shards)))))"

definition check_errors :: "obj_checker \<Rightarrow> pv \<Rightarrow> string \<Rightarrow> ('z, unit) mgr" where
  "check_errors c inc err_name =
     bind (item inc ''shards'') (\<lambda>v.
     bind (as_list v) (\<lambda>shards.
     bind (errors_loop c err_name (False, False) shards) (\<lambda>(bad, good).
     bind (py_assert bad (''Shard for osd.'' @ str_int (ck_osd c) @ '' not found'')) (\<lambda>_.
     py_assert good ''No other acting shards found''))))"

text \<open>The attribute of the shard of the osd and the one all other shards have; \<open>VNone\<close> before either is seen.\<close>

fun attrs_loop :: "obj_checker \<Rightarrow> string \<Rightarrow> pv \<times> pv \<Rightarrow> pv list \<Rightarrow> ('z, pv \<times> pv) mgr" where
  "attrs_loop c attr_name found [] = ret found"
| "attrs_loop c attr_name (bad, good) (shard # shards) =
     bind (shard_osd shard) (\<lambda>osd.
     bind (as_dict shard) (\<lambda>d.
     let attr = dict_get d attr_name (VBool False) in
     if int_eq_value (ck_osd c) osd then
       bind (py_assert (bad = VNone) ''multiple entries found for the given OSD'') (\<lambda>_.
       attrs_loop c attr_name (attr, good) shards)
     else
       bind (py_assert (in_acting c osd) ''shard not in acting set'') (\<lambda>_.
       bind (py_assert (good = VNone \<or> py_eq good attr) ''multiple good attrs found'') (\<lambda>_.
       attrs_loop c attr_name (bad, attr) shards))))"

definition check_attrs :: "obj_checker \<Rightarrow> pv \<Rightarrow> string \<Rightarrow> ('z, unit) mgr" where
  "check_attrs c inc attr_name =
     bind (item inc ''shards'') (\<lambda>v.
     bind (as_list v) (\<lambda>shards.
     bind (attrs_loop c attr_name (VNone, VNone) shards) (\<lambda>(bad, good).
     bind (py_assert (bad \<noteq> VNone) (''bad '' @ attr_name @ '' not found'')) (\<lambda>_.
     bind (py_assert (good \<noteq> VNone) (''good '' @ attr_name @ '' not found'')) (\<lambda>_.
     py_assert (\<not> py_eq good bad) ''bad attr is identical to the good ones'')))))"

definition assert_in :: "string \<Rightarrow> string \<Rightarrow> pv \<Rightarrow> ('z, unit) mgr" where
  "assert_in w key inc =
     bind (item inc key) (\<lambda>v. bind (py_in w v) (\<lambda>b. py_assert b []))"

definition data_digest_mismatch :: "obj_checker \<Rightarrow> pv \<Rightarrow> ('z, unit) mgr" where
  "data_digest_mismatch c inc =
     bind (assert_in ''data_digest_mismatch'' ''errors'' inc) (\<lambda>_. check_attrs c inc ''data_digest'')"

definition missing :: "obj_checker \<Rightarrow> pv \<Rightarrow> ('z, unit) mgr" where
  "missing c inc =
     bind (assert_in ''missing'' ''union_shard_errors'' inc) (\<lambda>_. check_errors c inc ''missing'')"

definition size_mismatch :: "obj_checker \<Rightarrow> pv \<Rightarrow> ('z, unit) mgr" where
  "size_mismatch c inc =
     bind (assert_in ''size_mismatch'' ''errors'' inc) (\<lambda>_. check_attrs c inc ''size'')"

definition omap_digest_mismatch :: "obj_checker \<Rightarrow> pv \<Rightarrow> ('z, unit) mgr" where
  "omap_digest_mismatch c inc =
     bind (assert_in ''omap_digest_mismatch'' ''errors'' inc) (\<lambda>_. check_attrs c inc ''omap_digest'')"

text \<open>\<open>getattr(self, check)(inc)\<close> for the names the damages use\<close>

definition run_check :: "obj_checker \<Rightarrow> string \<Rightarrow> pv \<Rightarrow> ('z, unit) mgr" where
  "run_check c check inc =
     (if check = ''data_digest_mismatch'' then data_digest_mismatch c inc
      else if check = ''missing'' then missing c inc
      else if check = ''size_mismatch'' then size_mismatch c inc
      else if check = ''omap_digest_mismatch'' then omap_digest_mismatch c inc
      else raise AttributeError check)"

section \<open>The task\<close>

definition run_json :: "string \<Rightarrow> string \<Rightarrow> ('z, pv) mgr" where
  "run_json mon cmd = bind (run_cmd mon (py_split cmd) True) (\<lambda>proc. loads (p_stdout proc))"

text \<open>What is checked while the object is damaged.\<close>

definition check_damage :: "string \<Rightarrow> string \<Rightarrow> pv list \<Rightarrow> int \<Rightarrow> string \<Rightarrow> string list \<Rightarrow> ('z, unit) mgr" where
  "check_damage mon pg acting osd_id obj_name checks =
     bind (deep_scrub pg ''rbd'') (\<lambda>_.
     bind (run_json mon ''rados list-inconsistent-pg rbd --format=json'') (\<lambda>pgs.
     bind (py_assert (pgs = VList [VStr pg]) []) (\<lambda>_.
     bind (run_json mon (''rados list-inconsistent-obj '' @ pg @ '' --format=json'')) (\<lambda>objs.
     bind (item objs ''inconsistents'') (\<lambda>incs.
     bind (py_len incs) (\<lambda>n.
     bind (py_assert (n = 1) []) (\<lambda>_.
     bind (checker_init osd_id acting obj_name) (\<lambda>checker.
     bind (as_list incs) (\<lambda>incl.
     bind (first_of incl) (\<lambda>inc_obj.
     bind (basic_checks checker inc_obj) (\<lambda>_.
     for_each checks (\<lambda>check. run_check checker check inc_obj))))))))))))"

definition test_list_inconsistent_obj :: "string \<Rightarrow> string \<Rightarrow> pv list \<Rightarrow> int \<Rightarrow> string \<Rightarrow> string \<Rightarrow> (string \<Rightarrow> string) \<Rightarrow> ('z, unit) mgr" where
  "test_list_inconsistent_obj osd_remote pg acting osd_id obj_name obj_path temp =
     bind (gets mgr_controller) (\<lambda>mon.
     bind (setomapval mon ''rbd'' obj_name) (\<lambda>_.
     bind (get_pgnum pg) (\<lambda>pgnum.
     bind (do_pg_scrub ''rbd'' pgnum ''deep-scrub'') (\<lambda>_.
     let m = \<lparr>mu_osd = osd_remote, mu_pool = ''rbd'', mu_osd_id = osd_id, mu_obj = obj_name, mu_path = obj_path,
              mu_omap_key = ''key'', mu_omap_val = ''val'', mu_temp = temp\<rparr>
     in for_each [mu_rm_omap m, mu_add_omap m, mu_change_omap m, mu_append m, mu_truncate m, mu_change_obj m, mu_remove m]
          (\<lambda>test. test (check_damage mon pg acting osd_id obj_name))))))"

text \<open>A flag for each osd.\<close>

definition inject_all :: "nat \<Rightarrow> string \<Rightarrow> ('z, unit) mgr" where
  "inject_all num_osds arg =
     for_each [0 ..< num_osds] (\<lambda>i. cluster_cmd [''tell'', ''osd.'' @ str_nat i, ''injectargs'', ''--'', arg])"

definition scrub_test_task :: "pv \<Rightarrow> (string \<Rightarrow> string) \<Rightarrow> ('z, unit) mgr" where
  "scrub_test_task config0 temp =
     bind (test_start ''scrub_test task only accepts a dict for configuration'' config0) (\<lambda>(config, mon).
     bind (asks (\<lambda>E. length (env_roles E ''osd''))) (\<lambda>num_osds.
     bind (steps
       [wait_osds_up num_osds 10,
        inject_all num_osds ''--osd-objectstore-fuse'',
        flush_pg_stats (map int [0 ..< num_osds]),
        wait_for_clean VNone,
        bind (do_rados mon [''-p'', ''rbd'', ''bench'', ''--no-cleanup'', ''1'', ''write'', ''-b'', ''4096''] True) (\<lambda>_. ret ())]) (\<lambda>_.
     bind wait_for_victim_pg (\<lambda>(victim, a).
     bind (as_list a) (\<lambda>acting.
     bind (first_of acting) (\<lambda>o0.
     bind (osd_number o0) (\<lambda>osd.
     bind (cmd_arg victim) (\<lambda>pg.
     bind (find_victim_object pg osd) (\<lambda>(osd_remote, obj_path, obj_name).
     bind (setomapval mon ''rbd'' obj_name) (\<lambda>_.
     bind (do_rados mon [''-p'', ''rbd'', ''setomapheader'', obj_name, ''hdr''] True) (\<lambda>_.
     bind (get_pgnum pg) (\<lambda>pgnum.
     steps
       [do_pg_scrub ''rbd'' pgnum ''deep-scrub'',
        test_repair_corrupted_obj pg osd_remote obj_path ''rbd'',
        test_repair_bad_omap pg osd obj_name,
        test_list_inconsistent_obj osd_remote pg acting osd obj_name obj_path temp,
        inject_all num_osds ''--no-osd-objectstore-fuse'',
        sleep 5]))))))))))))"

end
