(* ===== verification/Scrub_Tests_Props.thy ===== *)
theory Scrub_Tests_Props
  imports Scrub_Tests Sample
begin

text \<open>
  What the checker of \<open>scrub_test.py\<close> accepts: exactly the reports in which one shard is bad and all others
  agree.
\<close>

section \<open>Equality of values\<close>

definition value_key :: "pv \<Rightarrow> rat + pv" where
  "value_key v = (case num_of v of Some q \<Rightarrow> Inl q | None \<Rightarrow> Inr v)"

lemma py_eq_key: "py_eq v w \<longleftrightarrow> value_key v = value_key w"
  by (auto simp: py_eq_def value_key_def split: option.splits)

section \<open>Shards\<close>

definition shard_attr :: "string \<Rightarrow> pv \<Rightarrow> pv" where
  "shard_attr name shard = (case shard of VDict d \<Rightarrow> dict_get d name (VBool False) | _ \<Rightarrow> VNone)"

definition shard_id :: "pv \<Rightarrow> pv" where
  "shard_id shard = (case shard of VDict d \<Rightarrow> dict_get d ''osd'' VNone | _ \<Rightarrow> VNone)"

definition own :: "obj_checker \<Rightarrow> pv \<Rightarrow> bool" where
  "own c shard = int_eq_value (ck_osd c) (shard_id shard)"

text \<open>A shard as the cluster reports it: it names its osd, and the attribute is not null.\<close>

definition shard_wf :: "string \<Rightarrow> pv \<Rightarrow> bool" where
  "shard_wf name shard \<longleftrightarrow> (case shard of VDict d \<Rightarrow> dict_has d ''osd'' | _ \<Rightarrow> False) \<and> shard_attr name shard \<noteq> VNone"

lemma shard_osd_wf: "shard_wf name shard \<Longrightarrow> shard_osd shard E s = (Ok (shard_id shard), s)"
  by (auto simp: shard_wf_def shard_osd_def shard_id_def py_in_def item_def dict_has_def dict_get_def exec_simps
      split: pv.splits)

lemma as_dict_wf: "shard_wf name shard \<Longrightarrow>
   \<exists>d. as_dict shard E s = (Ok d, s) \<and> dict_get d name (VBool False) = shard_attr name shard"
  by (auto simp: shard_wf_def shard_attr_def as_dict_def exec_simps split: pv.splits)

lemma attrs_loop_Cons:
  assumes "shard_wf name shard"
  shows "attrs_loop c name (bad, good) (shard # shards) E s =
    (if own c shard then
       if bad = VNone then attrs_loop c name (shard_attr name shard, good) shards E s
       else (Raise (PyExc AssertionError ''multiple entries found for the given OSD''), s)
     else if \<not> in_acting c (shard_id shard) then (Raise (PyExc AssertionError ''shard not in acting set''), s)
     else if good = VNone \<or> py_eq good (shard_attr name shard) then
       attrs_loop c name (bad, shard_attr name shard) shards E s
     else (Raise (PyExc AssertionError ''multiple good attrs found''), s))"
proof -
  obtain d where d: "as_dict shard E s = (Ok d, s)" "dict_get d name (VBool False) = shard_attr name shard"
    using as_dict_wf [OF assms, of E s] by (elim exE conjE) (rule that)
  show ?thesis
    by (simp add: exec_bind exec_py_assert shard_osd_wf [OF assms] d own_def Let_def)
qed

text \<open>What the loop has found at the end.\<close>

definition found_attrs :: "obj_checker \<Rightarrow> string \<Rightarrow> pv \<times> pv \<Rightarrow> pv list \<Rightarrow> pv \<times> pv \<Rightarrow> bool" where
  "found_attrs c name = (\<lambda>(bad, good) shards (bad', good').
     let mine = filter (own c) shards; others = filter (\<lambda>x. \<not> own c x) shards in
     (mine = [] \<and> bad' = bad \<or> bad = VNone \<and> (\<exists>x. mine = [x] \<and> bad' = shard_attr name x)) \<and>
     list_all (\<lambda>x. in_acting c (shard_id x)) others \<and>
     good' = last (good # map (shard_attr name) others) \<and>
     list_all (\<lambda>x. py_eq (shard_attr name x) good') others \<and> (good = VNone \<or> py_eq good good'))"

lemma found_attrs_own:
  "own c x \<Longrightarrow> shard_attr name x \<noteq> VNone \<Longrightarrow>
   found_attrs c name (bad, good) (x # xs) r \<longleftrightarrow> bad = VNone \<and> found_attrs c name (shard_attr name x, good) xs r"
  by (auto simp: found_attrs_def Let_def)

lemma found_attrs_other:
  assumes "\<not> own c x" and "shard_attr name x \<noteq> VNone"
  shows "found_attrs c name (bad, good) (x # xs) r \<longleftrightarrow>
   in_acting c (shard_id x) \<and> (good = VNone \<or> py_eq good (shard_attr name x)) \<and>
   found_attrs c name (bad, shard_attr name x) xs r"
  using assms by (auto simp: found_attrs_def Let_def py_eq_key split: prod.splits)

lemma attrs_loop_found:
  "list_all (shard_wf name) shards \<Longrightarrow>
   attrs_loop c name found shards E s = (Ok r, s') \<longleftrightarrow> found_attrs c name found shards r \<and> s' = s"
proof (induction shards arbitrary: found)
  case Nil
  then show ?case by (cases found; cases r) (auto simp: exec_basic found_attrs_def)
next
  case (Cons x xs)
  obtain bad good where f: "found = (bad, good)" by (cases found)
  from Cons.prems have x: "shard_wf name x" "shard_attr name x \<noteq> VNone" by (auto simp: shard_wf_def)
  show ?case
    unfolding f attrs_loop_Cons [OF x(1)]
    using Cons found_attrs_own [OF _ x(2)] found_attrs_other [OF _ x(2)] by auto
qed

lemma found_attrs_ends:
  assumes "\<And>x. x \<in> set shards \<Longrightarrow> shard_attr name x \<noteq> VNone"
  shows "(\<exists>bad good. found_attrs c name (VNone, VNone) shards (bad, good) \<and> bad \<noteq> VNone \<and> good \<noteq> VNone \<and>
      \<not> py_eq good bad) \<longleftrightarrow>
    (\<exists>bad good. filter (own c) shards = [bad] \<and> filter (\<lambda>x. \<not> own c x) shards \<noteq> [] \<and>
       list_all (\<lambda>x. in_acting c (shard_id x) \<and> py_eq (shard_attr name x) good) (filter (\<lambda>x. \<not> own c x) shards) \<and>
       \<not> py_eq good (shard_attr name bad))"
    (is "?found \<longleftrightarrow> ?ok")
proof
  assume ?found
  then show ?ok by (auto simp: found_attrs_def Let_def list_all_iff split: if_splits)
next
  let ?others = "filter (\<lambda>x. \<not> own c x) shards"
  assume ?ok
  then obtain bad good where mine: "filter (own c) shards = [bad]" and ne: "?others \<noteq> []"
    and all: "\<And>x. x \<in> set ?others \<Longrightarrow> in_acting c (shard_id x) \<and> py_eq (shard_attr name x) good"
    and diff: "\<not> py_eq good (shard_attr name bad)"
    by (auto simp: list_all_iff)
  have l: "last ?others \<in> set ?others" using ne by (rule last_in_set)
  have "found_attrs c name (VNone, VNone) shards (shard_attr name bad, shard_attr name (last ?others))"
    using mine ne all all [OF l] by (auto simp: found_attrs_def Let_def list_all_iff last_map py_eq_key)
  moreover have "bad \<in> set (filter (own c) shards)" using mine by simp
  then have "bad \<in> set shards" by simp
  moreover have "last ?others \<in> set shards" using l by simp
  ultimately show ?found using diff all [OF l] assms by (fastforce simp: py_eq_key)
qed

text \<open>A report of three shards in which only the digest of osd 0 differs.\<close>

definition sample_checker :: obj_checker where
  "sample_checker = \<lparr>ck_osd = 0, ck_acting = [VInt 0, VInt 1, VInt 2], ck_obj = ''o''\<rparr>"

definition sample_shards :: "pv list" where
  "sample_shards =
     [VDict [(''osd'', VInt 1), (''data_digest'', VStr ''0x2a'')],
      VDict [(''osd'', VInt 0), (''data_digest'', VStr ''0x17'')],
      VDict [(''osd'', VInt 2), (''data_digest'', VStr ''0x2a'')]]"

text \<open>C29: The check of an attribute is exact: on a report whose shards name their osds and whose attribute
  is not null where it is given (a shard without it counts as one with the value False), it succeeds
  if and only if exactly one shard is that of the damaged osd, there are other shards, all of the acting set and
  all with the same value, and the damaged osd has a different one.\<close>

theorem check_attrs_exact:
  assumes "map_of d ''shards'' = Some (VList shards)" and "list_all (shard_wf name) shards"
  shows "check_attrs c (VDict d) name E s = (Ok (), s) \<longleftrightarrow>
    (\<exists>bad good. filter (own c) shards = [bad] \<and> filter (\<lambda>x. \<not> own c x) shards \<noteq> [] \<and>
       list_all (\<lambda>x. in_acting c (shard_id x) \<and> py_eq (shard_attr name x) good) (filter (\<lambda>x. \<not> own c x) shards) \<and>
       \<not> py_eq good (shard_attr name bad))" (is "?run \<longleftrightarrow> ?ok")
proof -
  have wf: "shard_attr name x \<noteq> VNone" if "x \<in> set shards" for x
    using assms(2) that by (auto simp: list_all_iff shard_wf_def)
  have run: "check_attrs c (VDict d) name E s =
      bind (attrs_loop c name (VNone, VNone) shards) (\<lambda>(bad, good).
      bind (py_assert (bad \<noteq> VNone) (''bad '' @ name @ '' not found'')) (\<lambda>_.
      bind (py_assert (good \<noteq> VNone) (''good '' @ name @ '' not found'')) (\<lambda>_.
      py_assert (\<not> py_eq good bad) ''bad attr is identical to the good ones''))) E s"
    by (simp add: check_attrs_def item_def as_list_def assms(1) of_option_def)
  have "?run \<longleftrightarrow> (\<exists>bad good. found_attrs c name (VNone, VNone) shards (bad, good) \<and> bad \<noteq> VNone \<and>
      good \<noteq> VNone \<and> \<not> py_eq good bad)"
    unfolding run bind_Ok attrs_loop_found [OF assms(2)]
    by (auto simp: exec_bind exec_py_assert split: if_splits prod.splits)
  also have "\<dots> \<longleftrightarrow> ?ok"
    by (rule found_attrs_ends) (rule wf)
  finally show ?thesis .
qed

theorem check_attrs_exact_witness:
  "map_of [(''shards'', VList sample_shards)] ''shards'' = Some (VList sample_shards) \<and>
   list_all (shard_wf ''data_digest'') sample_shards \<and>
   check_attrs sample_checker (VDict [(''shards'', VList sample_shards)]) ''data_digest'' (sample_env []) sample_mgr =
     (Ok (), sample_mgr)"
proof -
  let ?others = "filter (\<lambda>x. \<not> own sample_checker x) sample_shards"
  have d: "map_of [(''shards'', VList sample_shards)] ''shards'' = Some (VList sample_shards)" by simp
  have wf: "list_all (shard_wf ''data_digest'') sample_shards" by code_simp
  have "filter (own sample_checker) sample_shards = [sample_shards ! 1]" by code_simp
  moreover have "?others \<noteq> []" by code_simp
  moreover have "list_all (\<lambda>x. in_acting sample_checker (shard_id x) \<and>
      py_eq (shard_attr ''data_digest'' x) (VStr ''0x2a'')) ?others" by code_simp
  moreover have "\<not> py_eq (VStr ''0x2a'') (shard_attr ''data_digest'' (sample_shards ! 1))" by code_simp
  ultimately show ?thesis
    using d wf check_attrs_exact [OF d wf, of sample_checker "sample_env []" sample_mgr] by blast
qed

end
