(* ===== verification/Rgw_Util.thy ===== *)
theory Rgw_Util
  imports Util Sample
begin

text \<open>
  The helpers of \<open>src/tasks/util/rgw.py\<close> that ask the gateway's admin tool and look up what the
  configuration says about a client. The state is the configuration \<open>ctx.zbkc['zbkc'].conf\<close>, whose
  sections the lookups change.
\<close>

section \<open>State\<close>

record rgw_ctx = sys +
  rgw_conf :: "(string \<times> dict) list"

type_synonym ('z, 'a) rgw = "(env, 'z rgw_ctx_scheme, 'a) pm"

section \<open>The admin tool\<close>

definition rgwadmin :: "string \<Rightarrow> string list \<Rightarrow> bool \<Rightarrow> ('z, int \<times> pv) rgw" where
  "rgwadmin client cmd check_status =
     bind (asks coverage_args) (\<lambda>cov.
     bind (only_remote client) (\<lambda>remote.
     bind (run_cmd remote (cov @ [''radosgw-admin'', ''--log-to-stderr'', ''--format'', ''json'', ''-n'', client] @ cmd)
             check_status) (\<lambda>proc.
     let r = exitstatus proc; out = p_stdout proc
     in ret (r, if r = 0 \<and> out \<noteq> [] then (case json_loads out of Some j \<Rightarrow> j | None \<Rightarrow> VStr out) else VNone))))"

text \<open>The last summary of the user; an empty one counts as none.\<close>

fun last_summary :: "pv \<Rightarrow> pv \<Rightarrow> pv list \<Rightarrow> ('z, pv) rgw" where
  "last_summary user found [] = ret found"
| "last_summary user found (summary # rest) =
     bind (as_dict summary) (\<lambda>d.
     last_summary user (if py_eq (dict_get d ''user'' VNone) user then summary else found) rest)"

definition get_user_summary :: "pv \<Rightarrow> string \<Rightarrow> ('z, pv) rgw" where
  "get_user_summary out user =
     bind (item out ''summary'') (\<lambda>v.
     bind (as_list v) (\<lambda>summaries.
     bind (last_summary (VStr user) VNone summaries) (\<lambda>user_summary.
     if truthy user_summary then ret user_summary
     else raise AssertionError (''No summary info found for user: '' @ user))))"

definition get_user_successful_ops :: "pv \<Rightarrow> string \<Rightarrow> ('z, pv) rgw" where
  "get_user_successful_ops out user =
     bind (item out ''summary'') (\<lambda>summary.
     bind (py_len summary) (\<lambda>n.
     if n = 0 then ret (VInt 0)
     else
       bind (get_user_summary out user) (\<lambda>s.
       bind (item s ''total'') (\<lambda>total.
       item total ''successful_ops''))))"

definition region_master_zone :: "pv \<Rightarrow> ('z, pv option) rgw" where
  "region_master_zone region =
     bind (item region ''val'') (\<lambda>val.
     bind (item val ''is_master'') (\<lambda>m.
     if m \<noteq> VStr ''true'' then ret None
     else
       bind (item val ''master_zone'') (\<lambda>master_zone.
       bind (item val ''zones'') (\<lambda>z.
       bind (as_list z) (\<lambda>zones.
       for_find zones (\<lambda>zone_info.
         bind (item zone_info ''name'') (\<lambda>name.
         ret (if py_eq name master_zone then Some master_zone else None))))))))"

definition get_master_zone :: "string \<Rightarrow> ('z, pv) rgw" where
  "get_master_zone client =
     bind (rgwadmin client [''-n'', client, ''region-map'', ''get''] True) (\<lambda>(_, region_map).
     bind (item region_map ''zonegroups'') (\<lambda>r.
     bind (as_list r) (\<lambda>regions.
     bind (for_find regions region_master_zone) (\<lambda>found.
     ret (case found of Some z \<Rightarrow> z | None \<Rightarrow> VNone)))))"

definition get_zone_system_keys :: "string \<Rightarrow> string \<Rightarrow> ('z, pv \<times> pv) rgw" where
  "get_zone_system_keys client zone =
     bind (rgwadmin client [''-n'', client, ''zone'', ''get'', ''--rgw-zone'', zone] True) (\<lambda>(_, zone_info).
     bind (item zone_info ''system_key'') (\<lambda>system_key.
     bind (item system_key ''access_key'') (\<lambda>access_key.
     bind (item system_key ''secret_key'') (\<lambda>secret_key.
     ret (access_key, secret_key)))))"

section \<open>The configuration of a client\<close>

definition section_of :: "(string \<times> dict) list \<Rightarrow> string \<Rightarrow> dict" where
  "section_of conf name = (case map_of conf name of None \<Rightarrow> [] | Some d \<Rightarrow> d)"

text \<open>\<open>d.update(e)\<close>\<close>

definition dict_update :: "dict \<Rightarrow> dict \<Rightarrow> dict" where
  "dict_update d e = fold (\<lambda>(k, v). alist_put k v) e d"

text \<open>\<open>conf.get('global', {})\<close> is the section itself when there is one, so the two updates change the
  configuration.\<close>

definition client_config :: "string \<Rightarrow> ('z, dict) rgw" where
  "client_config client =
     bind (gets rgw_conf) (\<lambda>conf.
     case map_of conf ''global'' of
       None \<Rightarrow> ret (dict_update (dict_update [] (section_of conf ''client'')) (section_of conf client))
     | Some g \<Rightarrow>
         let g1 = dict_update g (section_of conf ''client'');
             g2 = dict_update g1 (section_of (alist_put ''global'' g1 conf) client)
         in bind (modify (\<lambda>s. s\<lparr>rgw_conf := alist_put ''global'' g2 conf\<rparr>)) (\<lambda>_. ret g2))"

definition zone_for_client :: "string \<Rightarrow> ('z, pv) rgw" where
  "zone_for_client client = bind (client_config client) (\<lambda>d. ret (dict_get d ''rgw zone'' VNone))"

definition region_for_client :: "string \<Rightarrow> ('z, pv) rgw" where
  "region_for_client client = bind (client_config client) (\<lambda>d. ret (dict_get d ''rgw region'' VNone))"

definition radosgw_data_log_window :: "string \<Rightarrow> ('z, pv) rgw" where
  "radosgw_data_log_window client = bind (client_config client) (\<lambda>d. ret (dict_get d ''rgw data log window'' (VInt 30)))"

definition get_master_client :: "string list \<Rightarrow> ('z, string option) rgw" where
  "get_master_client clients =
     bind (first_of clients) (\<lambda>c0.
     bind (get_master_zone c0) (\<lambda>master_zone.
     if \<not> truthy master_zone then ret None
     else
       for_find clients (\<lambda>client.
         bind (zone_for_client client) (\<lambda>zone.
         ret (if py_eq zone master_zone then Some client else None)))))"

section \<open>What the lookups return\<close>

lemma dict_get_update: "dict_get (dict_update d e) k v =
    (case map_of (rev e) k of Some w \<Rightarrow> w | None \<Rightarrow> dict_get d k v)"
proof -
  have "map_of (dict_update d e) k = (case map_of (rev e) k of Some w \<Rightarrow> Some w | None \<Rightarrow> map_of d k)"
    unfolding dict_update_def
    by (induction e arbitrary: d) (auto simp: map_add_def split: option.split)
  then show ?thesis by (simp add: dict_get_def split: option.split)
qed

text \<open>A client with a zone of its own gets that zone, whatever lookups came before.\<close>

lemma zone_for_client_own:
  assumes "map_of (rev (section_of (rgw_conf s) client)) ''rgw zone'' = Some z" and "client \<noteq> ''global''"
  shows "\<exists>s'. zone_for_client client E s = (Ok z, s')"
proof -
  have "section_of (alist_put ''global'' g (rgw_conf s)) client = section_of (rgw_conf s) client" for g
    using assms(2) by (simp add: section_of_def)
  then show ?thesis
    using assms(1)
    by (simp add: zone_for_client_def client_config_def exec_simps Let_def dict_get_update split: option.split)
qed

text \<open>A client without one gets the zone of the client that was looked up before: the lookup of
  \<open>client.0\<close> leaves its zone in the global section.\<close>

lemma zone_for_client_leaks:
  "let s = \<lparr>trace = [], rgw_conf = [(''global'', []), (''client.0'', [(''rgw zone'', VStr ''r0z0'')])]\<rparr> in
   fst (zone_for_client ''client.1'' E s) = Ok VNone \<and>
   fst (bind (zone_for_client ''client.0'') (\<lambda>_. zone_for_client ''client.1'') E s) = Ok (VStr ''r0z0'')"
  by (simp add: Let_def zone_for_client_def client_config_def section_of_def dict_update_def exec_simps)

end
