(* ===== verification/Spec2Isabelle.thy ===== *)
theory Spec2Isabelle
  imports Mon_Thrash_Props Fs_Health Mds_Thrash_Props Workload_Props Thrash_Task_Props Manager_Status
    Osd_Tests_Props Mon_Tests_Props Repair_Props Scrub_Tests_Props Rgw_Util
begin

text \<open>
  A verification library for the cluster tests of this repository: the objects under \<open>src/tasks\<close> that
  drive a storage cluster, break it and wait for it to heal. The code is Python 2; it is embedded
  shallowly, function by function, in a monad with exceptions, state and an environment.

  \<^bold>\<open>The program.\<close> A \<^emph>\<open>cluster manager\<close> (\<open>zbkc_manager.py\<close>, class \<open>ZbkcManager\<close>) runs commands on a monitor host,
  reads the answers as JSON, keeps a table of the pools it made, and has the loops that wait for a state
  of the cluster. \<^emph>\<open>Thrashers\<close> work through it: the osd thrasher (\<open>Thrasher\<close>, same file, with the task in
  \<open>thrashosds.py\<close>), the monitor thrasher (\<open>mon_thrash.py\<close>), the metadata server thrasher
  (\<open>mds_thrash.py\<close>), which works on the file system object of \<open>zbkcfs/filesystem.py\<close>, the scrubber (\<open>scrub.py\<close>) and the
  snapshot thrasher (\<open>thrash_pool_snaps.py\<close>). \<open>rados.py\<close> is a workload, \<open>util\<close> has helpers. \<^emph>\<open>Scenario tests\<close> drive a
  small cluster through one course of failures with a manager, and check its answers on the way.

  \<^bold>\<open>Foundations.\<close>
  \<^item> \<open>Py_Monad\<close>: the monad \<open>('e, 's, 'a) pm\<close>; its results are a value, an exception, or \<open>NoFuel\<close>; the control
    structures of the source (\<open>for_each\<close>, \<open>while_m\<close>, \<open>try_except\<close>, \<open>try_finally\<close>); postconditions (\<open>post\<close>), relations that
    every step keeps (\<open>keeps R m\<close>, with the locale \<open>step_rel\<close> for the relations).
  \<^item> \<open>Py_Value\<close>, \<open>Py_Json\<close>: Python values (\<open>pv\<close>) with their truth value, comparison and indexing, and the
    JSON reader.
  \<^item> \<open>World\<close>: everything outside the process. A run records each command, daemon operation, sleep, look at
    the clock and random draw as an \<open>event\<close> in the trace; the record \<open>env\<close> answers it, as a function
    of the whole trace. Nothing is known of \<open>env\<close> but what a theorem assumes, so the theorems hold for every cluster.
    Python's \<open>random\<close> module is computed from the random bits. Locks are left out: each operation is a
    step of one thread.
  \<^item> \<open>Ending\<close> (computations that never run out of fuel), \<open>Pending\<close> (what has been switched off and not on again,
    read off a trace), \<open>Sample\<close> (the concrete environments of the witnesses).

  \<^bold>\<open>Components and what is shown.\<close>
  \<^item> \<open>Util\<close>: \<open>util/__init__.py\<close>, \<open>util/rados.py\<close>.
  \<^item> \<open>Manager_Cmd\<close>, \<open>Manager_PG\<close>, \<open>Manager_Pool\<close>, \<open>Manager_Daemon\<close>: \<open>ZbkcManager\<close> and \<open>ObjectStoreTool\<close>. \<open>Manager_Waits\<close>: waiting for clean
    placement groups, a quorum, all osds up. \<open>Manager_Bounds\<close>: the retry loops end, with the number of attempts.
    \<open>Manager_Table\<close>: the pool table refines an abstract one, operation by operation. \<open>Manager_Status\<close>: the histogram of the states of the placement groups.
  \<^item> \<open>Scrub\<close>, \<open>Thrasher_State\<close>, \<open>Thrasher_Tool\<close>, \<open>Thrasher_Actions\<close>, \<open>Thrash_Task\<close>: \<open>Scrubber\<close>, \<open>Thrasher\<close> and their tasks. \<open>Thrasher_Inv\<close>,
    \<open>Thrasher_Choice\<close>, \<open>Thrasher_Props\<close>: which osds are in, out, live and dead during and after thrashing; the random
    choice of an action. \<open>Thrash_Task_Props\<close>: the task waits for the greenlets its thrasher's constructor
    started, but nobody waits for the scrubbers that \<open>do_thrash\<close> starts.
  \<^item> \<open>Mon_Thrash\<close>, \<open>Mon_Thrash_Props\<close>: the monitor thrasher; how many monitors are down, that they come back,
    and that freezing does not care about the quorum.
  \<^item> \<open>Fs_Cluster\<close>, \<open>Filesystem\<close>: the classes of \<open>filesystem.py\<close>. \<open>Fs_Props\<close>, \<open>Fs_Health\<close>: objects, addresses, configuration,
    ranks; health and the waits for it.
  \<^item> \<open>Mds_Thrash\<close>, \<open>Workload_Tasks\<close>: the metadata server thrasher, the rados workload, the snapshot thrasher. \<open>Mds_Thrash_Props\<close>: at
    most one server is down, and how \<open>max_mds\<close> changes. \<open>Workload_Props\<close>: the snapshot thrasher refines an abstract
    machine of live snapshots; the workload removes its pools.
  \<^item> \<open>Osd_Tests\<close>, \<open>Mon_Tests\<close>, \<open>Repair_Tests\<close>, \<open>Scrub_Tests\<close>: the scenario tests of osds (\<open>dump_stuck.py\<close>, \<open>peer.py\<close>, \<open>osd_recovery.py\<close>, \<open>osd_backfill.py\<close>,
    the three \<open>lost_unfound\<close> tests, \<open>object_source_down.py\<close>, the divergence tests, \<open>reg11184.py\<close>, \<open>resolve_stuck_peering.py\<close>), of
    monitors (\<open>mon_recovery.py\<close>, \<open>mon_clock_skew_check.py\<close>) and of repair (\<open>repair_test.py\<close>, \<open>osd_failsafe_enospc.py\<close>,
    \<open>peering_speed_test.py\<close>). \<open>Stopped\<close> follows the set of stopped daemons through a script; \<open>Osd_Tests_Props\<close>: the tests
    start again what they stopped. \<open>Mon_Tests_Props\<close>: the verdict of the clock check is the right one for the
    reports it was given. \<open>Repair_Props\<close>: the repair tests remove their pools. \<open>Scrub_Tests_Props\<close>: the checker of \<open>scrub_test.py\<close>
    accepts exactly the reports in which one shard is bad and all others agree.
  \<^item> \<open>Rgw_Util\<close>: the helpers of \<open>util/rgw.py\<close>; a lookup for one client changes what the next one sees.

  \<^bold>\<open>Locales.\<close> \<open>step_rel\<close> is the interface between a component and an invariant of its steps; \<open>io_step\<close>, \<open>mgr_step\<close>,
  \<open>pool_step\<close>, \<open>mds_step\<close> and those of the thrasher extend it by what a component may change, and each component
  proves once that its operations keep every such relation; \<open>calm_step\<close> is the contract for operations that stop no
  daemon. The interpretations choose the relation: only
  the trace grows, only events of one kind are sent, the osds are moved between the lists.

  \<^bold>\<open>Loops.\<close> A loop that may run for ever takes its budget from \<open>env_fuel\<close>; running out is the result
  \<open>NoFuel\<close>, never a value. Termination theorems give a budget that is enough and show that \<open>NoFuel\<close> is not returned; the
  others hold for every budget.

  \<^bold>\<open>Numbers.\<close> Floats are exact rationals: rounding is not modelled. Where it matters, in the walk of
  \<open>choose_action\<close> over the weights, no theorem says that an action is found. The clock is a field of \<open>env\<close>; the theorems
  about timeouts assume \<open>clock_ok\<close>, a host whose clock is not set back and whose sleeps are not cut short.

  \<^bold>\<open>Not modelled.\<close> Log output. The framework (roles, remotes, daemons, consoles, greenlets) is the environment.
  Concurrency of greenlets: a spawned greenlet is an event, and its body is a definition of its own. The other files
  of \<open>src/tasks\<close> are deployment (\<open>zbkc.py\<close>, \<open>zbkc_deploy.py\<close>, \<open>rgw.py\<close>), mounts, runners of external programs, test cases of the
  unittest framework and calls to a gateway through client libraries; they are I/O with little logic of their own. Of
  \<open>util/rgw.py\<close> the HTTP requests to the sync agent and the parsing of URLs are left out.
\<close>

end
